(* ===== verification/Prelude.thy ===== *)
theory Prelude
  imports Main
begin

text \<open>
  Shared vocabulary of the development: how a Go call ends (\<open>outcome\<close>), Go's truncating
  integer division, string joining, and the theorem collections the component theories
  fill.  Nothing here models a file of the repository; it models the parts of the Go
  language and its standard library that several components use.
\<close>

section \<open>Collections\<close>

named_theorems go_defs \<open>definitions that component proofs unfold\<close>

named_theorems go_frame \<open>what an operation leaves unchanged\<close>

section \<open>How a call ends\<close>

text \<open>
  A Go call returns a value or panics.  The panic value is kept as its printed text.
\<close>

datatype 'a outcome = Ret 'a | Panic string

primrec is_panic :: "'a outcome \<Rightarrow> bool" where
  "is_panic (Ret _) = False"
| "is_panic (Panic _) = True"

lemma is_panic_iff: "is_panic r \<longleftrightarrow> (\<exists>v. r = Panic v)"
  by (cases r) auto

lemma not_is_panic_iff: "\<not> is_panic r \<longleftrightarrow> (\<exists>v. r = Ret v)"
  by (cases r) auto

section \<open>Integers\<close>

text \<open>
  Go's integer division truncates towards zero; HOL's \<open>div\<close> rounds down.
\<close>

definition go_quot :: "int \<Rightarrow> int \<Rightarrow> int" where
  "go_quot a b = sgn a * sgn b * (\<bar>a\<bar> div \<bar>b\<bar>)"

lemma go_quot_nonneg: "0 \<le> a \<Longrightarrow> 0 < b \<Longrightarrow> go_quot a b = a div b"
  by (cases "a = 0") (simp_all add: go_quot_def)

section \<open>Strings\<close>

text \<open>\<open>strings.Join\<close>, as \<open>errors.Join\<close> uses it on the messages of its parts.\<close>

fun join_with :: "string \<Rightarrow> string list \<Rightarrow> string" where
  "join_with sep [] = []"
| "join_with sep [s] = s"
| "join_with sep (s # t # ss) = s @ sep @ join_with sep (t # ss)"

text \<open>\<open>strings.HasPrefix\<close>\<close>

definition HasPrefix :: "string \<Rightarrow> string \<Rightarrow> bool" where
  "HasPrefix s p \<longleftrightarrow> take (length p) s = p"

lemma HasPrefix_iff: "HasPrefix s p \<longleftrightarrow> (\<exists>t. s = p @ t)"
proof
  assume "HasPrefix s p"
  then have "s = p @ drop (length p) s"
    unfolding HasPrefix_def by (metis append_take_drop_id)
  then show "\<exists>t. s = p @ t" by blast
qed (auto simp: HasPrefix_def)

lemma HasPrefix_append [simp]: "HasPrefix (p @ t) p"
  by (simp add: HasPrefix_def)

text \<open>Splitting at a separator that the left part does not contain is unique.\<close>

lemma append_sep_inject:
  assumes "c \<notin> set p" and "c \<notin> set q" and "p @ c # k = q @ c # l"
  shows "p = q \<and> k = l"
  using assms
proof (induction p arbitrary: q)
  case Nil
  then show ?case by (cases q) auto
next
  case (Cons x p)
  then show ?case by (cases q) auto
qed

section \<open>Results with an error\<close>

text \<open>Continue on a value, pass an error on: \<open>if err != nil { return err }\<close>.\<close>

definition sbind :: "'e + 'a \<Rightarrow> ('a \<Rightarrow> 'e + 'b) \<Rightarrow> 'e + 'b" where
  "sbind m f = (case m of Inl e \<Rightarrow> Inl e | Inr a \<Rightarrow> f a)"

lemma sbind_simps [simp]: "sbind (Inl e) f = Inl e" "sbind (Inr a) f = f a"
  by (simp_all add: sbind_def)

lemma sbind_Inr_iff: "sbind m f = Inr b \<longleftrightarrow> (\<exists>a. m = Inr a \<and> f a = Inr b)"
  by (simp add: sbind_def split: sum.split)

section \<open>Association lists as contexts and stores\<close>

text \<open>A lookup by a unique key finds the element that has it.\<close>

lemma filter_unique: "distinct (map f xs) \<Longrightarrow> x \<in> set xs \<Longrightarrow> filter (\<lambda>y. f y = f x) xs = [x]"
  by (induction xs) (auto simp: filter_empty_conv image_iff)

lemma find_unique:
  assumes "distinct (map f xs)" and "x \<in> set xs"
  shows "find (\<lambda>y. f y = f x) xs = Some x"
  using assms
proof (induction xs)
  case Nil
  then show ?case by simp
next
  case (Cons y ys)
  then show ?case by (cases "x = y") (auto simp: image_iff)
qed


lemma map_of_Cons_same [simp]: "map_of ((k, v) # xs) k = Some v"
  by simp

lemma map_of_Cons_other: "k \<noteq> l \<Longrightarrow> map_of ((k, v) # xs) l = map_of xs l"
  by simp

end
