(* ===== verification/Errors.thy ===== *)
theory Errors
  imports Prelude
begin

text \<open>
  \<open>modules/shared/src/utilhttp/error.go\<close>: the error types of the HTTP layer.  A Go
  \<open>error\<close> is an interface value; \<open>go_error\<close> has one constructor per dynamic type the
  code distinguishes (the type switch of \<open>ResponseError\<close>), \<open>ErrorString\<close> for what
  \<open>errors.New\<close> and \<open>fmt.Errorf\<close> (with \<open>%v\<close>, so without a chain) build, \<open>JoinError\<close>
  for \<open>errors.Join\<close>, and \<open>Foreign\<close> for a value of any other type (driver, JSON, gRPC
  status, validation), with a tag that tells such values apart and its text.
\<close>

section \<open>ErrorType\<close>

text \<open>\<open>type ErrorType int\<close>: the eight constants are \<open>iota\<close>, other values exist too.\<close>

type_synonym ErrorType = int

definition ErrNotFound :: ErrorType where "ErrNotFound = 0"
definition ErrBadRequest :: ErrorType where "ErrBadRequest = 1"
definition ErrInternalServer :: ErrorType where "ErrInternalServer = 2"
definition ErrUnauthorized :: ErrorType where "ErrUnauthorized = 3"
definition ErrForbidden :: ErrorType where "ErrForbidden = 4"
definition ErrConflict :: ErrorType where "ErrConflict = 5"
definition ErrTooManyRequests :: ErrorType where "ErrTooManyRequests = 6"
definition ErrDatabase :: ErrorType where "ErrDatabase = 7"

lemmas ErrorType_defs = ErrNotFound_def ErrBadRequest_def ErrInternalServer_def
  ErrUnauthorized_def ErrForbidden_def ErrConflict_def ErrTooManyRequests_def ErrDatabase_def

definition ErrorType_String :: "ErrorType \<Rightarrow> string" where
  "ErrorType_String e =
    (if e = ErrNotFound then ''not found''
     else if e = ErrBadRequest then ''bad request''
     else if e = ErrInternalServer then ''internal server error''
     else if e = ErrUnauthorized then ''unauthorized''
     else if e = ErrForbidden then ''forbidden''
     else if e = ErrConflict then ''conflict''
     else if e = ErrTooManyRequests then ''too many requests''
     else if e = ErrDatabase then ''database error''
     else ''unknown error'')"

section \<open>Error values\<close>

record AppError =
  AppType :: ErrorType
  Message :: string

datatype go_error =
    ErrorString string
  | AppErr AppError
  | NotFoundError AppError
  | BadRequestError AppError
  | InternalServerError AppError
  | UnauthorizedError AppError
  | ForbiddenError AppError
  | ConflictError AppError
  | TooManyRequestsError AppError
  | DBError AppError
  | JoinError "go_error list"
  | Foreign string string

text \<open>
  The \<open>Error()\<close> method.  The wrappers embed \<open>AppError\<close>, so its method is promoted.
\<close>

fun Error :: "go_error \<Rightarrow> string" where
  "Error (ErrorString s) = s"
| "Error (AppErr a) = Message a"
| "Error (NotFoundError a) = Message a"
| "Error (BadRequestError a) = Message a"
| "Error (InternalServerError a) = Message a"
| "Error (UnauthorizedError a) = Message a"
| "Error (ForbiddenError a) = Message a"
| "Error (ConflictError a) = Message a"
| "Error (TooManyRequestsError a) = Message a"
| "Error (DBError a) = Message a"
| "Error (JoinError es) = join_with [CHR 0x0A] (map Error es)"
| "Error (Foreign _ s) = s"

text \<open>\<open>fmt.Errorf(prefix + "%v", err)\<close>: the text is kept, the error value is not.\<close>

definition Errorf_v :: "string \<Rightarrow> go_error \<Rightarrow> go_error" where
  "Errorf_v prefix err = ErrorString (prefix @ Error err)"

text \<open>\<open>errors.Join\<close> drops nil errors and is nil when nothing is left.\<close>

definition errors_Join :: "go_error option list \<Rightarrow> go_error option" where
  "errors_Join es =
    (let rs = map the (filter (\<lambda>e. e \<noteq> None) es) in if rs = [] then None else Some (JoinError rs))"

section \<open>Constructors\<close>

definition newAppError :: "ErrorType \<Rightarrow> go_error \<Rightarrow> AppError" where
  "newAppError t err = \<lparr>AppType = t, Message = Error err\<rparr>"

definition NewNotFoundError :: "go_error \<Rightarrow> go_error" where
  "NewNotFoundError err = NotFoundError (newAppError ErrNotFound err)"

definition NewBadRequestError :: "go_error \<Rightarrow> go_error" where
  "NewBadRequestError err = BadRequestError (newAppError ErrBadRequest err)"

definition NewInternalServerError :: "go_error \<Rightarrow> go_error" where
  "NewInternalServerError err = InternalServerError (newAppError ErrInternalServer err)"

definition NewUnauthorizedError :: "go_error \<Rightarrow> go_error" where
  "NewUnauthorizedError err = UnauthorizedError (newAppError ErrUnauthorized err)"

definition NewForbiddenError :: "go_error \<Rightarrow> go_error" where
  "NewForbiddenError err = ForbiddenError (newAppError ErrForbidden err)"

definition NewConflictError :: "go_error \<Rightarrow> go_error" where
  "NewConflictError err = ConflictError (newAppError ErrConflict err)"

definition NewTooManyRequestsError :: "go_error \<Rightarrow> go_error" where
  "NewTooManyRequestsError err = TooManyRequestsError (newAppError ErrTooManyRequests err)"

definition NewDBError :: "go_error \<Rightarrow> go_error" where
  "NewDBError err = DBError (newAppError ErrDatabase err)"

lemmas New_defs = NewNotFoundError_def NewBadRequestError_def NewInternalServerError_def
  NewUnauthorizedError_def NewForbiddenError_def NewConflictError_def
  NewTooManyRequestsError_def NewDBError_def newAppError_def

end
