(* ===== verification/Http_Response.thy ===== *)
theory Http_Response
  imports Errors
begin

text \<open>
  \<open>modules/shared/src/utilhttp/response.go\<close>: writing JSON responses and mapping error
  values to HTTP status codes.  The response writer is \<open>net/http\<close>'s: its status line and
  headers are fixed by the first \<open>WriteHeader\<close>, later calls are counted as superfluous
  (the server only logs them), and a \<open>Write\<close> before any \<open>WriteHeader\<close> implies status
  200.  The JSON encoder (\<open>github.com/goccy/go-json\<close>) is not in the repository: it is the
  parameter \<open>enc\<close>, which gets the value and the writer and returns the writer and an
  error.
\<close>

section \<open>The response writer of \<open>net/http\<close>\<close>

record ResponseWriter =
  hdr :: "string \<rightharpoonup> string"            \<comment> \<open>the header map handlers edit\<close>
  sent_status :: "int option"         \<comment> \<open>\<open>Some\<close> once the status line is fixed\<close>
  sent_hdr :: "string \<rightharpoonup> string"       \<comment> \<open>the headers as they were at that moment\<close>
  sent_body :: string
  superfluous :: nat                  \<comment> \<open>\<open>WriteHeader\<close> calls after the first\<close>

definition fresh_writer :: ResponseWriter where
  "fresh_writer = \<lparr>hdr = Map.empty, sent_status = None, sent_hdr = Map.empty,
     sent_body = [], superfluous = 0\<rparr>"

lemma fresh_writer_simps [simp]:
  "sent_status fresh_writer = None" "sent_body fresh_writer = []" "superfluous fresh_writer = 0"
  by (simp_all add: fresh_writer_def)

definition Header_Set :: "ResponseWriter \<Rightarrow> string \<Rightarrow> string \<Rightarrow> ResponseWriter" where
  "Header_Set w k v = w\<lparr>hdr := (hdr w)(k \<mapsto> v)\<rparr>"

definition WriteHeader :: "ResponseWriter \<Rightarrow> int \<Rightarrow> ResponseWriter" where
  "WriteHeader w code =
    (if sent_status w = None then w\<lparr>sent_status := Some code, sent_hdr := hdr w\<rparr>
     else w\<lparr>superfluous := Suc (superfluous w)\<rparr>)"

definition Write :: "ResponseWriter \<Rightarrow> string \<Rightarrow> ResponseWriter" where
  "Write w bs =
    (let w' = (if sent_status w = None then WriteHeader w 200 else w)
     in w'\<lparr>sent_body := sent_body w' @ bs\<rparr>)"

lemma Header_Set_simps [simp]:
  "hdr (Header_Set w k v) = (hdr w)(k \<mapsto> v)"
  "sent_status (Header_Set w k v) = sent_status w"
  "sent_hdr (Header_Set w k v) = sent_hdr w"
  "sent_body (Header_Set w k v) = sent_body w"
  "superfluous (Header_Set w k v) = superfluous w"
  by (simp_all add: Header_Set_def)

lemma WriteHeader_first [simp]:
  assumes "sent_status w = None"
  shows "sent_status (WriteHeader w c) = Some c" "sent_hdr (WriteHeader w c) = hdr w"
    "superfluous (WriteHeader w c) = superfluous w"
  using assms by (simp_all add: WriteHeader_def)

lemma WriteHeader_again [simp]:
  assumes "sent_status w = Some d"
  shows "sent_status (WriteHeader w c) = Some d" "sent_hdr (WriteHeader w c) = sent_hdr w"
    "superfluous (WriteHeader w c) = Suc (superfluous w)"
  using assms by (simp_all add: WriteHeader_def)

lemma WriteHeader_body [simp]: "sent_body (WriteHeader w c) = sent_body w"
  by (simp add: WriteHeader_def)

lemma Write_started [simp]:
  assumes "sent_status w = Some d"
  shows "sent_status (Write w bs) = Some d" "sent_hdr (Write w bs) = sent_hdr w"
    "superfluous (Write w bs) = superfluous w"
  using assms by (simp_all add: Write_def)

lemma Write_body [simp]: "sent_body (Write w bs) = sent_body w @ bs"
  by (simp add: Write_def Let_def)

lemma foldl_Write_started [simp]:
  assumes "sent_status w = Some d"
  shows "sent_status (foldl Write w cs) = Some d" "sent_hdr (foldl Write w cs) = sent_hdr w"
    "superfluous (foldl Write w cs) = superfluous w"
proof -
  have "sent_status (foldl Write w cs) = Some d \<and> sent_hdr (foldl Write w cs) = sent_hdr w
      \<and> superfluous (foldl Write w cs) = superfluous w"
    using assms by (induction cs arbitrary: w) simp_all
  then show "sent_status (foldl Write w cs) = Some d" "sent_hdr (foldl Write w cs) = sent_hdr w"
    "superfluous (foldl Write w cs) = superfluous w" by simp_all
qed

lemma foldl_Write_body [simp]: "sent_body (foldl Write w cs) = sent_body w @ concat cs"
  by (induction cs arbitrary: w) simp_all

section \<open>Responses and \<open>writeJSON\<close>\<close>

definition CONTENT_TYPE :: string where "CONTENT_TYPE = ''Content-Type''"
definition APPLICATION_JSON :: string where "APPLICATION_JSON = ''application/json''"

text \<open>The interface \<open>Response\<close> has the two implementors marked by \<open>isResponse\<close>.\<close>

datatype 'a Response = ErrorResponse string | SuccessResponse 'a

type_synonym 'a encoder = "'a Response \<Rightarrow> ResponseWriter \<Rightarrow> ResponseWriter \<times> go_error option"

definition encode_failure_body :: string where
  "encode_failure_body =
    ''{'' @ [CHR 0x22] @ ''error'' @ [CHR 0x22] @ '': '' @ [CHR 0x22]
      @ ''failed to encode response'' @ [CHR 0x22] @ ''}''"

definition writeJSON :: "'a encoder \<Rightarrow> ResponseWriter \<Rightarrow> int \<Rightarrow> 'a Response \<Rightarrow> ResponseWriter" where
  "writeJSON enc w statusCode msg =
    (let w1 = Header_Set w CONTENT_TYPE APPLICATION_JSON;
         w2 = WriteHeader w1 statusCode
     in case enc msg w2 of
          (w3, None) \<Rightarrow> w3
        | (w3, Some err) \<Rightarrow> Write (WriteHeader w3 500) encode_failure_body)"

definition ResponseOk :: "'a encoder \<Rightarrow> ResponseWriter \<Rightarrow> 'a \<Rightarrow> ResponseWriter" where
  "ResponseOk enc w msg = writeJSON enc w 200 (SuccessResponse msg)"

definition ResponseAccepted :: "'a encoder \<Rightarrow> ResponseWriter \<Rightarrow> 'a \<Rightarrow> ResponseWriter" where
  "ResponseAccepted enc w msg = writeJSON enc w 202 (SuccessResponse msg)"

definition responseInternalServerError :: "'a encoder \<Rightarrow> ResponseWriter \<Rightarrow> go_error \<Rightarrow> ResponseWriter" where
  "responseInternalServerError enc w err = writeJSON enc w 500 (ErrorResponse (Error err))"

definition responseBadRequest :: "'a encoder \<Rightarrow> ResponseWriter \<Rightarrow> go_error \<Rightarrow> ResponseWriter" where
  "responseBadRequest enc w err = writeJSON enc w 400 (ErrorResponse (Error err))"

definition responseNotFound :: "'a encoder \<Rightarrow> ResponseWriter \<Rightarrow> go_error \<Rightarrow> ResponseWriter" where
  "responseNotFound enc w err = writeJSON enc w 404 (ErrorResponse (Error err))"

definition responseUnauthorized :: "'a encoder \<Rightarrow> ResponseWriter \<Rightarrow> go_error \<Rightarrow> ResponseWriter" where
  "responseUnauthorized enc w err = writeJSON enc w 401 (ErrorResponse (Error err))"

definition responseForbidden :: "'a encoder \<Rightarrow> ResponseWriter \<Rightarrow> go_error \<Rightarrow> ResponseWriter" where
  "responseForbidden enc w err = writeJSON enc w 403 (ErrorResponse (Error err))"

definition responseConflict :: "'a encoder \<Rightarrow> ResponseWriter \<Rightarrow> go_error \<Rightarrow> ResponseWriter" where
  "responseConflict enc w err = writeJSON enc w 409 (ErrorResponse (Error err))"

definition responseTooManyRequests :: "'a encoder \<Rightarrow> ResponseWriter \<Rightarrow> go_error \<Rightarrow> ResponseWriter" where
  "responseTooManyRequests enc w err = writeJSON enc w 429 (ErrorResponse (Error err))"

lemmas response_defs = responseInternalServerError_def responseBadRequest_def
  responseNotFound_def responseUnauthorized_def responseForbidden_def responseConflict_def
  responseTooManyRequests_def

text \<open>
  The type switch of \<open>ResponseError\<close>: the embedded \<open>AppError\<close> of the nine known dynamic
  types, \<open>None\<close> for the \<open>default\<close> branch.
\<close>

fun as_AppError :: "go_error \<Rightarrow> AppError option" where
  "as_AppError (AppErr e) = Some e"
| "as_AppError (NotFoundError e) = Some e"
| "as_AppError (BadRequestError e) = Some e"
| "as_AppError (InternalServerError e) = Some e"
| "as_AppError (UnauthorizedError e) = Some e"
| "as_AppError (ForbiddenError e) = Some e"
| "as_AppError (ConflictError e) = Some e"
| "as_AppError (TooManyRequestsError e) = Some e"
| "as_AppError (DBError e) = Some e"
| "as_AppError _ = None"

definition ResponseError :: "'a encoder \<Rightarrow> ResponseWriter \<Rightarrow> go_error \<Rightarrow> ResponseWriter" where
  "ResponseError enc w err =
    (case as_AppError err of
       None \<Rightarrow> responseInternalServerError enc w err
     | Some appErr \<Rightarrow>
         let t = AppType appErr in
         if t = ErrNotFound then responseNotFound enc w (AppErr appErr)
         else if t = ErrBadRequest then responseBadRequest enc w (AppErr appErr)
         else if t = ErrUnauthorized then responseUnauthorized enc w (AppErr appErr)
         else if t = ErrForbidden then responseForbidden enc w (AppErr appErr)
         else if t = ErrConflict then responseConflict enc w (AppErr appErr)
         else if t = ErrTooManyRequests then responseTooManyRequests enc w (AppErr appErr)
         else if t = ErrInternalServer \<or> t = ErrDatabase
           then responseInternalServerError enc w (AppErr appErr)
         else responseInternalServerError enc w (AppErr appErr))"

section \<open>What a response carries\<close>

text \<open>
  Documented behaviour of the encoder: it reaches the writer through \<open>Write\<close> only.
\<close>

definition encoder_only_writes :: "'a encoder \<Rightarrow> bool" where
  "encoder_only_writes enc \<longleftrightarrow> (\<forall>msg w. \<exists>cs. fst (enc msg w) = foldl Write w cs)"

lemma encoder_only_writesE:
  assumes "encoder_only_writes enc"
  obtains cs where "fst (enc msg w) = foldl Write w cs"
  using assms by (auto simp: encoder_only_writes_def)

text \<open>
  Whatever the encoder does, the status line and the headers of an unstarted writer are
  those of the call; the encoder and the fallback only reach the body.
\<close>

lemma writeJSON_status:
  assumes "encoder_only_writes enc" and "sent_status w = None"
  shows "sent_status (writeJSON enc w code msg) = Some code"
    and "sent_hdr (writeJSON enc w code msg) = (hdr w)(CONTENT_TYPE \<mapsto> APPLICATION_JSON)"
proof -
  let ?w2 = "WriteHeader (Header_Set w CONTENT_TYPE APPLICATION_JSON) code"
  have st: "sent_status ?w2 = Some code" using assms(2) by simp
  have hd: "sent_hdr ?w2 = (hdr w)(CONTENT_TYPE \<mapsto> APPLICATION_JSON)" using assms(2) by simp
  obtain cs where cs: "fst (enc msg ?w2) = foldl Write ?w2 cs"
    using assms(1) by (rule encoder_only_writesE)
  obtain w3 e where enc: "enc msg ?w2 = (w3, e)" by (cases "enc msg ?w2")
  have w3: "sent_status w3 = Some code" "sent_hdr w3 = sent_hdr ?w2"
    using cs enc st by simp_all
  show "sent_status (writeJSON enc w code msg) = Some code"
    using enc w3 by (cases e) (simp_all add: writeJSON_def)
  show "sent_hdr (writeJSON enc w code msg) = (hdr w)(CONTENT_TYPE \<mapsto> APPLICATION_JSON)"
    using enc w3 hd by (cases e) (simp_all add: writeJSON_def)
qed

lemma writeJSON_encode_failure:
  assumes "encoder_only_writes enc" and "sent_status w = None"
    and "snd (enc msg (WriteHeader (Header_Set w CONTENT_TYPE APPLICATION_JSON) code)) = Some err"
  shows "superfluous (writeJSON enc w code msg) = Suc (superfluous w)"
    and "\<exists>part. sent_body (writeJSON enc w code msg) = sent_body w @ part @ encode_failure_body"
proof -
  let ?w2 = "WriteHeader (Header_Set w CONTENT_TYPE APPLICATION_JSON) code"
  have st: "sent_status ?w2 = Some code" using assms(2) by simp
  obtain cs where cs: "fst (enc msg ?w2) = foldl Write ?w2 cs"
    using assms(1) by (rule encoder_only_writesE)
  obtain w3 where enc: "enc msg ?w2 = (w3, Some err)"
    using assms(3) by (cases "enc msg ?w2") simp
  have w3: "sent_status w3 = Some code" "superfluous w3 = superfluous w"
    "sent_body w3 = sent_body w @ concat cs"
    using cs enc st assms(2) by simp_all
  show "superfluous (writeJSON enc w code msg) = Suc (superfluous w)"
    using enc w3 by (simp add: writeJSON_def)
  have "sent_body (writeJSON enc w code msg) = sent_body w @ concat cs @ encode_failure_body"
    using enc w3 by (simp add: writeJSON_def)
  then show "\<exists>part. sent_body (writeJSON enc w code msg) = sent_body w @ part @ encode_failure_body"
    by blast
qed

section \<open>Specification of \<open>ResponseError\<close>\<close>

text \<open>
  What clients rely on: one status per \<open>ErrorType\<close>, 500 for every other value, and the
  error's own text as the body.
\<close>

definition status_table :: "(ErrorType \<times> int) list" where
  "status_table =
    [(ErrNotFound, 404), (ErrBadRequest, 400), (ErrUnauthorized, 401), (ErrForbidden, 403),
     (ErrConflict, 409), (ErrTooManyRequests, 429)]"

definition status_of :: "go_error \<Rightarrow> int" where
  "status_of err =
    (case as_AppError err of
       None \<Rightarrow> 500
     | Some a \<Rightarrow> (case map_of status_table (AppType a) of None \<Rightarrow> 500 | Some c \<Rightarrow> c))"

lemma as_AppError_Error: "as_AppError err = Some a \<Longrightarrow> Error err = Message a"
  by (cases err) simp_all

lemma status_of_New [simp]:
  "status_of (NewNotFoundError e) = 404" "status_of (NewBadRequestError e) = 400"
  "status_of (NewInternalServerError e) = 500" "status_of (NewUnauthorizedError e) = 401"
  "status_of (NewForbiddenError e) = 403" "status_of (NewConflictError e) = 409"
  "status_of (NewTooManyRequestsError e) = 429" "status_of (NewDBError e) = 500"
  by (simp_all add: status_of_def New_defs status_table_def ErrorType_defs)

lemma Error_New [simp]:
  "Error (NewNotFoundError e) = Error e" "Error (NewBadRequestError e) = Error e"
  "Error (NewInternalServerError e) = Error e" "Error (NewUnauthorizedError e) = Error e"
  "Error (NewForbiddenError e) = Error e" "Error (NewConflictError e) = Error e"
  "Error (NewTooManyRequestsError e) = Error e" "Error (NewDBError e) = Error e"
  by (simp_all add: New_defs)

lemma ResponseError_eq_writeJSON:
  "ResponseError enc w err = writeJSON enc w (status_of err) (ErrorResponse (Error err))"
proof (cases "as_AppError err")
  case None
  then show ?thesis by (simp add: ResponseError_def status_of_def response_defs)
next
  case (Some a)
  then have msg: "Error err = Message a" by (rule as_AppError_Error)
  show ?thesis
    using Some msg
    by (simp add: ResponseError_def status_of_def response_defs status_table_def Let_def)
qed

lemma status_of_ge_400: "400 \<le> status_of err"
  by (simp add: status_of_def status_table_def ErrorType_defs split: option.split)

section \<open>Properties\<close>

text \<open>
  \<open>ResponseError\<close> answers every error value: an unstarted response gets the status of
  the error's type (404, 400, 401, 403, 409, 429; 500 for internal, database, unknown and
  foreign errors), the JSON content type, and the error's own text as its payload.
\<close>

lemma ResponseError_answers:
  assumes "encoder_only_writes enc" and "sent_status w = None"
  shows "sent_status (ResponseError enc w err) = Some (status_of err)
    \<and> sent_hdr (ResponseError enc w err) = (hdr w)(''Content-Type'' \<mapsto> ''application/json'')
    \<and> ResponseError enc w err = writeJSON enc w (status_of err) (ErrorResponse (Error err))"
  using writeJSON_status [OF assms] unfolding ResponseError_eq_writeJSON
  by (simp add: CONTENT_TYPE_def APPLICATION_JSON_def)

text \<open>An encoder for text payloads, and one that always fails.\<close>

definition text_encoder :: "string encoder" where
  "text_encoder msg w =
    (case msg of ErrorResponse s \<Rightarrow> (Write w s, None) | SuccessResponse s \<Rightarrow> (Write w s, None))"

definition failing_encoder :: "string encoder" where
  "failing_encoder msg w = (Write w ''part'', Some (ErrorString ''unsupported value''))"

lemma sample_encoders: "encoder_only_writes text_encoder" "encoder_only_writes failing_encoder"
proof -
  have "\<exists>cs. fst (text_encoder msg w) = foldl Write w cs" for msg w
    by (cases msg) (auto simp: text_encoder_def intro: exI [of _ "[s]" for s])
  moreover have "\<exists>cs. fst (failing_encoder msg w) = foldl Write w cs" for msg w
    by (rule exI [of _ "[''part'']"]) (simp add: failing_encoder_def)
  ultimately show "encoder_only_writes text_encoder" "encoder_only_writes failing_encoder"
    unfolding encoder_only_writes_def by blast+
qed

text \<open>
  C22: A response that cannot be encoded keeps its status: the second \<open>WriteHeader\<close> with 500
  is superfluous, and the body is whatever the encoder had written, followed by the fixed
  error object.
\<close>

theorem encode_failure_keeps_status:
  assumes "encoder_only_writes enc" and "sent_status w = None"
    and "snd (enc msg (WriteHeader (Header_Set w CONTENT_TYPE APPLICATION_JSON) code)) = Some err"
  shows "sent_status (writeJSON enc w code msg) = Some code
    \<and> superfluous (writeJSON enc w code msg) = Suc (superfluous w)
    \<and> (\<exists>part. sent_body (writeJSON enc w code msg) = sent_body w @ part @ encode_failure_body)"
  using writeJSON_status(1) [OF assms(1,2)] writeJSON_encode_failure [OF assms] by blast

theorem encode_failure_keeps_status_witness:
  "sent_status (ResponseOk failing_encoder fresh_writer ''v'') = Some 200
    \<and> superfluous (ResponseOk failing_encoder fresh_writer ''v'') = 1"
  using encode_failure_keeps_status [OF sample_encoders(2), of fresh_writer "SuccessResponse ''v''" 200
      "ErrorString ''unsupported value''"]
  by (simp add: failing_encoder_def ResponseOk_def)

end
