(* ===== verification/Http_Request.thy ===== *)
theory Http_Request
  imports Http_Response
begin

text \<open>
  \<open>modules/shared/src/utilhttp/request.go\<close>: typed values in the request context, and
  decoding and validating a request body.  A context is the chain of \<open>context.WithValue\<close>
  links, innermost first; keys compare by their dynamic type and value, so \<open>ctx_key\<close> has
  one constructor per key type the repository declares and one for all other types.
  The type parameter \<open>T\<close> of the Go functions is a HOL type variable with its type
  assertion (\<open>as_T\<close>), its zero value, its JSON decoder and its \<open>Validate\<close> method.
\<close>

section \<open>Contexts\<close>

datatype ctx_key =
    ContextKey string             \<comment> \<open>\<open>utilhttp.ContextKey\<close>\<close>
  | TxKey                         \<comment> \<open>\<open>utiltx.txKey{}\<close>\<close>
  | OtherKey string string        \<comment> \<open>a key of another type: the type and the value\<close>

type_synonym 'v gctx = "(ctx_key \<times> 'v) list"

definition WithValue :: "'v gctx \<Rightarrow> ctx_key \<Rightarrow> 'v \<Rightarrow> 'v gctx" where
  "WithValue ctx k v = (k, v) # ctx"

definition Value :: "'v gctx \<Rightarrow> ctx_key \<Rightarrow> 'v option" where
  "Value ctx k = map_of ctx k"

lemma Value_WithValue: "Value (WithValue ctx k v) l = (if k = l then Some v else Value ctx l)"
  by (simp add: Value_def WithValue_def)

definition SetContextValue :: "'v gctx \<Rightarrow> string \<Rightarrow> 'v \<Rightarrow> 'v gctx" where
  "SetContextValue ctx key val = WithValue ctx (ContextKey key) val"

section \<open>\<open>RequestUrlParam\<close>\<close>

definition RequestUrlParam ::
  "('v \<Rightarrow> 'a option) \<Rightarrow> 'a \<Rightarrow> ('a \<Rightarrow> go_error option) \<Rightarrow> 'v gctx \<Rightarrow> string
    \<Rightarrow> 'a \<times> go_error option" where
  "RequestUrlParam as_T zero Validate ctx key =
    (case Option.bind (Value ctx (ContextKey key)) as_T of
       None \<Rightarrow>
         (zero, Some (NewBadRequestError
           (ErrorString (''missing or invalid URL parameter: '' @ key))))
     | Some t \<Rightarrow>
         (case Validate t of
            Some err \<Rightarrow>
              (zero, Some (NewBadRequestError
                (ErrorString (''invalid URL parameter: '' @ key @ '', error: '' @ Error err))))
          | None \<Rightarrow> (t, None)))"

section \<open>\<open>RequestBody\<close>\<close>

text \<open>
  \<open>req.Body\<close>: the bytes a full read yields, the error it ends with, whether the reader has
  been drained and how often it was closed.
\<close>

record Body =
  bytes :: string
  read_err :: "go_error option"
  drained :: bool
  closes :: nat

definition ReadAll :: "Body \<Rightarrow> (string \<times> go_error option) \<times> Body" where
  "ReadAll b = ((bytes b, read_err b), b\<lparr>drained := True\<rparr>)"

definition Close :: "Body \<Rightarrow> Body" where
  "Close b = b\<lparr>closes := Suc (closes b)\<rparr>"

text \<open>
  The \<open>defer\<close> runs at the end of every path after the read succeeded, and on no other.
  \<open>unmarshal\<close> is \<open>json.Unmarshal\<close> into a zero \<open>T\<close>.
\<close>

definition RequestBody ::
  "(string \<Rightarrow> go_error + 'a) \<Rightarrow> 'a \<Rightarrow> ('a \<Rightarrow> go_error option) \<Rightarrow> Body
    \<Rightarrow> ('a \<times> go_error option) \<times> Body" where
  "RequestBody unmarshal zero Validate body =
    (case ReadAll body of ((b, rerr), body1) \<Rightarrow>
       (case rerr of
          Some err \<Rightarrow> ((zero, Some (NewBadRequestError (Errorf_v ''read request body: '' err))), body1)
        | None \<Rightarrow>
            (case unmarshal b of
               Inl err \<Rightarrow>
                 ((zero, Some (NewBadRequestError (Errorf_v ''unmarshal request body: '' err))), Close body1)
             | Inr t \<Rightarrow>
                 (case Validate t of
                    Some err \<Rightarrow>
                      ((zero, Some (NewBadRequestError (Errorf_v ''invalid request body: '' err))), Close body1)
                  | None \<Rightarrow> ((t, None), Close body1)))))"

section \<open>Facts\<close>

lemma RequestUrlParam_cases:
  "RequestUrlParam as_T zero V ctx key = (t, None) \<longleftrightarrow>
     Option.bind (Value ctx (ContextKey key)) as_T = Some t \<and> V t = None"
  by (auto simp: RequestUrlParam_def split: option.splits)

lemma RequestUrlParam_error:
  "RequestUrlParam as_T zero V ctx key = (t, Some e) \<Longrightarrow> t = zero \<and> status_of e = 400"
  by (auto simp: RequestUrlParam_def split: option.splits)

lemma RequestBody_ok_iff:
  "fst (RequestBody u zero V body) = (t, None) \<longleftrightarrow>
     read_err body = None \<and> u (bytes body) = Inr t \<and> V t = None"
  by (auto simp: RequestBody_def ReadAll_def split: option.splits sum.splits)

lemma RequestBody_error:
  "fst (RequestBody u zero V body) = (t, Some e) \<Longrightarrow> t = zero \<and> status_of e = 400"
  by (auto simp: RequestBody_def ReadAll_def split: option.splits sum.splits)

lemma RequestBody_reader:
  "snd (RequestBody u zero V body) =
     body\<lparr>drained := True, closes := (if read_err body = None then Suc (closes body) else closes body)\<rparr>"
  by (simp add: RequestBody_def ReadAll_def Close_def split: option.split sum.split)

section \<open>Properties\<close>

text \<open>
  \<open>RequestBody\<close> returns a value exactly when the body was read, decoded and validated,
  and then that value; otherwise the zero value with a 400 error.  The body is closed once
  on every path after a successful read, and not closed when the read fails.
\<close>

lemma RequestBody_total:
  "(case fst (RequestBody unmarshal zero Validate body) of
      (t, None) \<Rightarrow> read_err body = None \<and> unmarshal (bytes body) = Inr t \<and> Validate t = None
    | (t, Some e) \<Rightarrow> t = zero \<and> status_of e = 400
        \<and> (case read_err body of
              Some _ \<Rightarrow> True
            | None \<Rightarrow> (case unmarshal (bytes body) of Inl _ \<Rightarrow> True | Inr v \<Rightarrow> Validate v \<noteq> None)))
    \<and> closes (snd (RequestBody unmarshal zero Validate body))
       = (if read_err body = None then Suc (closes body) else closes body)"
  by (auto simp: RequestBody_def ReadAll_def Close_def split: option.split sum.split)

text \<open>
  What \<open>SetContextValue\<close> stored is what \<open>RequestUrlParam\<close> validates and returns, under
  that key and no other, and a transaction put into the context in between is not seen.
\<close>

lemma SetContextValue_RequestUrlParam:
  "RequestUrlParam as_T zero Validate (WithValue (SetContextValue ctx key val) TxKey tx) key' =
    (if key' = key
     then case as_T val of
            None \<Rightarrow> (zero, Some (NewBadRequestError
                (ErrorString (''missing or invalid URL parameter: '' @ key))))
          | Some t \<Rightarrow> (case Validate t of
              Some err \<Rightarrow> (zero, Some (NewBadRequestError
                (ErrorString (''invalid URL parameter: '' @ key @ '', error: '' @ Error err))))
            | None \<Rightarrow> (t, None))
     else RequestUrlParam as_T zero Validate ctx key')"
  by (auto simp: RequestUrlParam_def SetContextValue_def Value_WithValue split: option.split)

end
