(* ===== verification/Transactor.thy ===== *)
theory Transactor
  imports Http_Request
begin

text \<open>
  \<open>modules/shared/src/utiltx/transactor.go\<close>: running a function inside a database
  transaction, and finding the active transaction in the context.

  The database is \<open>database/sql\<close> over a server at its default isolation level (read
  committed): a transaction is the list of updates its statements have queued, applied to
  the committed state when it commits.  \<open>BeginTx\<close>, \<open>Commit\<close> and \<open>Rollback\<close> can fail;
  which calls fail is part of the world (\<open>begin_fault\<close> and so on, indexed by the
  transaction's number).  A failed commit says whether the server had applied it (a
  connection lost after the commit record).  As in \<open>database/sql\<close>, \<open>Commit\<close> and
  \<open>Rollback\<close> finish the handle whatever the driver answers, and return \<open>ErrTxDone\<close> on
  a finished handle.  A transaction in which the server refused a statement is aborted: it
  can only be rolled back, and the driver (\<open>lib/pq\<close>) answers its \<open>Commit\<close> with an error.
  When the context given to \<open>BeginTx\<close> ends before the transaction does, \<open>database/sql\<close> rolls it
  back (\<open>context_done\<close>).
\<close>

section \<open>\<open>database/sql\<close> handles\<close>

datatype tx_status = TxOpen | TxAborted | TxCommitted | TxRolledBack

record 's tx =
  status :: tx_status
  pending :: "('s \<Rightarrow> 's) list"

record 's sqldb =
  committed :: 's
  txs :: "nat \<rightharpoonup> 's tx"
  next_tx :: nat
  begin_fault :: "nat \<Rightarrow> go_error option"
  commit_fault :: "nat \<Rightarrow> (go_error \<times> bool) option"
  rollback_fault :: "nat \<Rightarrow> go_error option"

definition ErrTxDone :: go_error where
  "ErrTxDone = ErrorString ''sql: transaction has already been committed or rolled back''"

definition apply_all :: "('s \<Rightarrow> 's) list \<Rightarrow> 's \<Rightarrow> 's" where
  "apply_all fs s = fold (\<lambda>f. f) fs s"

lemma apply_all_simps [simp]:
  "apply_all [] s = s" "apply_all (f # fs) s = apply_all fs (f s)"
  "apply_all (fs @ gs) s = apply_all gs (apply_all fs s)"
  by (simp_all add: apply_all_def)

definition BeginTx :: "'s sqldb \<Rightarrow> (go_error + nat) \<times> 's sqldb" where
  "BeginTx db =
    (let t = next_tx db in
     case begin_fault db t of
       Some err \<Rightarrow> (Inl err, db\<lparr>next_tx := Suc t\<rparr>)
     | None \<Rightarrow> (Inr t, db\<lparr>next_tx := Suc t, txs := (txs db)(t \<mapsto> \<lparr>status = TxOpen, pending = []\<rparr>)\<rparr>))"

definition ErrInFailedTransaction :: go_error where
  "ErrInFailedTransaction = ErrorString ''pq: Could not complete operation in a failed transaction''"

text \<open>The handle is not finished; the server refuses further statements.\<close>

definition tx_open :: "nat \<Rightarrow> 's sqldb \<Rightarrow> bool" where
  "tx_open t db \<longleftrightarrow> (case txs db t of None \<Rightarrow> False | Some x \<Rightarrow> status x \<in> {TxOpen, TxAborted})"

definition tx_aborted :: "nat \<Rightarrow> 's sqldb \<Rightarrow> bool" where
  "tx_aborted t db \<longleftrightarrow> (case txs db t of None \<Rightarrow> False | Some x \<Rightarrow> status x = TxAborted)"

definition finish :: "nat \<Rightarrow> tx_status \<Rightarrow> 's sqldb \<Rightarrow> 's sqldb" where
  "finish t st db =
    (case txs db t of None \<Rightarrow> db | Some x \<Rightarrow> db\<lparr>txs := (txs db)(t \<mapsto> x\<lparr>status := st\<rparr>)\<rparr>)"

definition Rollback :: "nat \<Rightarrow> 's sqldb \<Rightarrow> go_error option \<times> 's sqldb" where
  "Rollback t db =
    (if \<not> tx_open t db then (Some ErrTxDone, db)
     else (rollback_fault db t, finish t TxRolledBack db))"

definition apply_tx :: "nat \<Rightarrow> 's sqldb \<Rightarrow> 's sqldb" where
  "apply_tx t db =
    (case txs db t of None \<Rightarrow> db | Some x \<Rightarrow> db\<lparr>committed := apply_all (pending x) (committed db)\<rparr>)"

definition Commit :: "nat \<Rightarrow> 's sqldb \<Rightarrow> go_error option \<times> 's sqldb" where
  "Commit t db =
    (if \<not> tx_open t db then (Some ErrTxDone, db)
     else if tx_aborted t db then
       (Some (case rollback_fault db t of Some err \<Rightarrow> err | None \<Rightarrow> ErrInFailedTransaction),
        finish t TxRolledBack db)
     else case commit_fault db t of
       None \<Rightarrow> (None, finish t TxCommitted (apply_tx t db))
     | Some (err, applied) \<Rightarrow>
         (Some err, if applied then finish t TxCommitted (apply_tx t db) else finish t TxRolledBack db))"

text \<open>The context of \<open>BeginTx\<close> ends: an open transaction is rolled back, whatever the driver says.\<close>

definition context_done :: "nat \<Rightarrow> 's sqldb \<Rightarrow> 's sqldb" where
  "context_done t db = (if tx_open t db then finish t TxRolledBack db else db)"

text \<open>A statement, on a transaction or on the pool (where it commits by itself).\<close>

definition exec_tx :: "nat \<Rightarrow> ('s \<Rightarrow> 's) \<Rightarrow> 's sqldb \<Rightarrow> 's sqldb" where
  "exec_tx t f db =
    (case txs db t of None \<Rightarrow> db
     | Some x \<Rightarrow> db\<lparr>txs := (txs db)(t \<mapsto> x\<lparr>pending := pending x @ [f]\<rparr>)\<rparr>)"

definition exec_direct :: "('s \<Rightarrow> 's) \<Rightarrow> 's sqldb \<Rightarrow> 's sqldb" where
  "exec_direct f db = db\<lparr>committed := f (committed db)\<rparr>"

section \<open>\<open>Tx\<close> and \<open>WithinTx\<close>\<close>

datatype ctx_val = SqlTx nat | AnyVal string

type_synonym ctx = "ctx_val gctx"

definition Tx :: "ctx \<Rightarrow> nat option" where
  "Tx ctx = (case Value ctx TxKey of Some (SqlTx t) \<Rightarrow> Some t | _ \<Rightarrow> None)"

type_synonym 's txfn = "ctx \<Rightarrow> 's sqldb \<Rightarrow> go_error option outcome \<times> 's sqldb"

definition WithinTx :: "'s txfn \<Rightarrow> 's txfn" where
  "WithinTx fn ctx db =
    (case BeginTx db of
       (Inl err, db1) \<Rightarrow> (Ret (Some (Errorf_v ''begin transaction: '' err)), db1)
     | (Inr tx, db1) \<Rightarrow>
         (case fn (WithValue ctx TxKey (SqlTx tx)) db1 of
            (Panic v, db2) \<Rightarrow> (Panic v, db2)
          | (Ret (Some err), db2) \<Rightarrow>
              (case Rollback tx db2 of
                 (Some rbErr, db3) \<Rightarrow>
                   (Ret (errors_Join [Some err, Some (Errorf_v ''rollback: '' rbErr)]), db3)
               | (None, db3) \<Rightarrow> (Ret (Some err), db3))
          | (Ret None, db2) \<Rightarrow>
              (case Commit tx db2 of
                 (Some err, db3) \<Rightarrow> (Ret (Some (Errorf_v ''commit: '' err)), db3)
               | (None, db3) \<Rightarrow> (Ret None, db3))))"

text \<open>
  The interface \<open>Transactor\<close> is its one method; the constructor binds the database, which is
  the state here.
\<close>

type_synonym 's Transactor = "'s txfn \<Rightarrow> 's txfn"

definition NewTransactor :: "'s Transactor" where
  "NewTransactor = WithinTx"

text \<open>
  The repository pattern of the package documentation: bind to the active transaction if
  there is one, else to the pool.  \<open>res\<close> is the statement's error; a failing statement has
  no effect.
\<close>

definition repo_save :: "('s \<Rightarrow> 's) \<Rightarrow> go_error option \<Rightarrow> 's txfn" where
  "repo_save f res ctx db =
    (Ret res,
     if res \<noteq> None then db
     else case Tx ctx of Some t \<Rightarrow> exec_tx t f db | None \<Rightarrow> exec_direct f db)"


text \<open>A unit of work: statements in order, stopping at the first error.\<close>

fun save_all :: "(('s \<Rightarrow> 's) \<times> go_error option) list \<Rightarrow> 's txfn" where
  "save_all [] ctx db = (Ret None, db)"
| "save_all ((f, res) # ws) ctx db =
    (case repo_save f res ctx db of
       (Ret None, db') \<Rightarrow> save_all ws ctx db'
     | (r, db') \<Rightarrow> (r, db'))"

fun first_error :: "(('s \<Rightarrow> 's) \<times> go_error option) list \<Rightarrow> go_error option" where
  "first_error [] = None"
| "first_error ((f, None) # ws) = first_error ws"
| "first_error ((f, Some e) # ws) = Some e"

text \<open>The updates such a unit gets to queue: those before its first error.\<close>

fun queued :: "(('s \<Rightarrow> 's) \<times> go_error option) list \<Rightarrow> ('s \<Rightarrow> 's) list" where
  "queued [] = []"
| "queued ((f, None) # ws) = f # queued ws"
| "queued ((f, Some e) # ws) = []"

section \<open>How the operations move the state\<close>

lemma tx_simps [simp]:
  "Tx (WithValue ctx TxKey (SqlTx t)) = Some t"
  "Tx (SetContextValue ctx k v) = Tx ctx"
  "Tx [] = None"
  by (simp_all add: Tx_def SetContextValue_def Value_WithValue) (simp add: Value_def)

lemma committed_finish [go_frame]: "committed (finish t st db) = committed db"
  by (simp add: finish_def split: option.split)

lemma tx_open_finish [simp]:
  "tx_open u (finish t st db) \<longleftrightarrow>
     (if u = t then txs db t \<noteq> None \<and> st \<in> {TxOpen, TxAborted} else tx_open u db)"
  by (auto simp: tx_open_def finish_def split: option.split)

lemma faults_finish [go_frame]:
  "begin_fault (finish t st db) = begin_fault db" "commit_fault (finish t st db) = commit_fault db"
  "rollback_fault (finish t st db) = rollback_fault db" "next_tx (finish t st db) = next_tx db"
  by (simp_all add: finish_def split: option.split)

lemma dom_finish [go_frame]: "dom (txs (finish t st db)) = dom (txs db)"
  by (auto simp: finish_def split: option.split)

lemma committed_context_done [go_frame]: "committed (context_done t db) = committed db"
  by (simp add: context_done_def committed_finish)

lemma tx_open_context_done: "\<not> tx_open t (context_done t db)"
  by (simp add: context_done_def)

lemma apply_tx_frame [go_frame]:
  "begin_fault (apply_tx t db) = begin_fault db" "commit_fault (apply_tx t db) = commit_fault db"
  "rollback_fault (apply_tx t db) = rollback_fault db" "next_tx (apply_tx t db) = next_tx db"
  "txs (apply_tx t db) = txs db"
  by (simp_all add: apply_tx_def split: option.split)

lemma tx_open_apply_tx [simp]: "tx_open u (apply_tx t db) = tx_open u db"
  by (simp add: tx_open_def apply_tx_frame)

lemma exec_tx_frame [go_frame]:
  "committed (exec_tx t f db) = committed db" "next_tx (exec_tx t f db) = next_tx db"
  "begin_fault (exec_tx t f db) = begin_fault db" "commit_fault (exec_tx t f db) = commit_fault db"
  "rollback_fault (exec_tx t f db) = rollback_fault db" "dom (txs (exec_tx t f db)) = dom (txs db)"
  by (auto simp: exec_tx_def split: option.split)

lemma tx_open_exec_tx [simp]: "tx_open u (exec_tx t f db) = tx_open u db"
  by (auto simp: tx_open_def exec_tx_def split: option.split)

text \<open>A unit of work bound to an open transaction only queues its updates there.\<close>

lemma save_all_in_tx:
  assumes "Tx ctx = Some t" and "txs db t = Some x"
  shows "save_all ws ctx db =
    (Ret (first_error ws), db\<lparr>txs := (txs db)(t \<mapsto> x\<lparr>pending := pending x @ queued ws\<rparr>)\<rparr>)"
  using assms
proof (induction ws arbitrary: db x rule: first_error.induct)
  case 1
  then show ?case by (simp add: fun_upd_idem)
next
  case (2 f ws)
  then show ?case by (cases db; cases x) (simp add: repo_save_def exec_tx_def fun_eq_iff)
next
  case (3 f e ws)
  then show ?case by (simp add: repo_save_def fun_upd_idem)
qed

lemma queued_no_error: "first_error ws = None \<Longrightarrow> queued ws = map fst ws"
  by (induction ws rule: first_error.induct) simp_all

section \<open>\<open>WithinTx\<close> on an arbitrary function\<close>

lemma WithinTx_begin_error:
  "begin_fault db (next_tx db) = Some err \<Longrightarrow>
     WithinTx fn ctx db =
       (Ret (Some (Errorf_v ''begin transaction: '' err)), db\<lparr>next_tx := Suc (next_tx db)\<rparr>)"
  by (simp add: WithinTx_def BeginTx_def Let_def)

definition begun :: "'s sqldb \<Rightarrow> 's sqldb" where
  "begun db = db\<lparr>next_tx := Suc (next_tx db),
     txs := (txs db)(next_tx db \<mapsto> \<lparr>status = TxOpen, pending = []\<rparr>)\<rparr>"

lemma begun_simps [simp]:
  "committed (begun db) = committed db" "next_tx (begun db) = Suc (next_tx db)"
  "txs (begun db) = (txs db)(next_tx db \<mapsto> \<lparr>status = TxOpen, pending = []\<rparr>)"
  "begin_fault (begun db) = begin_fault db" "commit_fault (begun db) = commit_fault db"
  "rollback_fault (begun db) = rollback_fault db"
  by (simp_all add: begun_def)

definition tx_ctx :: "ctx \<Rightarrow> 's sqldb \<Rightarrow> ctx" where
  "tx_ctx ctx db = WithValue ctx TxKey (SqlTx (next_tx db))"

lemma WithinTx_begun:
  "begin_fault db (next_tx db) = None \<Longrightarrow>
     WithinTx fn ctx db =
       (case fn (tx_ctx ctx db) (begun db) of
          (Panic v, db2) \<Rightarrow> (Panic v, db2)
        | (Ret (Some err), db2) \<Rightarrow>
            (case Rollback (next_tx db) db2 of
               (Some rbErr, db3) \<Rightarrow>
                 (Ret (errors_Join [Some err, Some (Errorf_v ''rollback: '' rbErr)]), db3)
             | (None, db3) \<Rightarrow> (Ret (Some err), db3))
        | (Ret None, db2) \<Rightarrow>
            (case Commit (next_tx db) db2 of
               (Some err, db3) \<Rightarrow> (Ret (Some (Errorf_v ''commit: '' err)), db3)
             | (None, db3) \<Rightarrow> (Ret None, db3)))"
  by (simp add: WithinTx_def BeginTx_def Let_def begun_def tx_ctx_def)

lemma Rollback_closes: "\<not> tx_open t (snd (Rollback t db))"
  by (simp add: Rollback_def)

lemma Commit_closes: "\<not> tx_open t (snd (Commit t db))"
  by (simp add: Commit_def split: option.split)

lemma WithinTx_closes:
  assumes "WithinTx fn ctx db = (Ret r, db')" and "begin_fault db (next_tx db) = None"
  shows "\<not> tx_open (next_tx db) db'"
proof -
  obtain res db2 where fn: "fn (tx_ctx ctx db) (begun db) = (res, db2)" by (cases "fn (tx_ctx ctx db) (begun db)")
  show ?thesis
  proof (cases res)
    case (Panic v)
    with assms fn show ?thesis by (simp add: WithinTx_begun)
  next
    case (Ret e)
    obtain c d where cd: "Commit (next_tx db) db2 = (c, d)" by (cases "Commit (next_tx db) db2")
    obtain c' d' where rb: "Rollback (next_tx db) db2 = (c', d')" by (cases "Rollback (next_tx db) db2")
    have "db' = d \<or> db' = d'"
      using assms fn Ret cd rb by (auto simp: WithinTx_begun split: option.splits)
    then show ?thesis
      using Commit_closes [of "next_tx db" db2] Rollback_closes [of "next_tx db" db2] cd rb by auto
  qed
qed

text \<open>Nil means: the transaction began, the function returned nil, the commit succeeded.\<close>

lemma WithinTx_nil_iff:
  "fst (WithinTx fn ctx db) = Ret None \<longleftrightarrow>
     begin_fault db (next_tx db) = None \<and> fst (fn (tx_ctx ctx db) (begun db)) = Ret None
     \<and> fst (Commit (next_tx db) (snd (fn (tx_ctx ctx db) (begun db)))) = None"
proof (cases "begin_fault db (next_tx db)")
  case (Some e)
  then show ?thesis by (simp add: WithinTx_begin_error)
next
  case None
  then show ?thesis
    by (simp add: WithinTx_begun errors_Join_def split: prod.split outcome.split option.split)
qed

section \<open>\<open>WithinTx\<close> on a unit of work, in closed form\<close>

definition ended :: "tx_status \<Rightarrow> (('s \<Rightarrow> 's) \<times> go_error option) list \<Rightarrow> 's sqldb \<Rightarrow> 's sqldb" where
  "ended st ws db = db\<lparr>next_tx := Suc (next_tx db),
     txs := (txs db)(next_tx db \<mapsto> \<lparr>status = st, pending = queued ws\<rparr>)\<rparr>"

definition ended_applied :: "(('s \<Rightarrow> 's) \<times> go_error option) list \<Rightarrow> 's sqldb \<Rightarrow> 's sqldb" where
  "ended_applied ws db = (ended TxCommitted ws db)\<lparr>committed := apply_all (queued ws) (committed db)\<rparr>"

lemma ended_simps [simp]:
  "committed (ended st ws db) = committed db"
  "committed (ended_applied ws db) = apply_all (queued ws) (committed db)"
  by (simp_all add: ended_def ended_applied_def)

lemma save_all_begun:
  "save_all ws (tx_ctx ctx db) (begun db) = (Ret (first_error ws), ended TxOpen ws db)"
proof -
  have "Tx (tx_ctx ctx db) = Some (next_tx db)" by (simp add: tx_ctx_def)
  moreover have "txs (begun db) (next_tx db) = Some \<lparr>status = TxOpen, pending = []\<rparr>" by simp
  ultimately show ?thesis by (simp add: save_all_in_tx) (simp add: begun_def ended_def)
qed

lemma Rollback_ended:
  "Rollback (next_tx db) (ended TxOpen ws db) = (rollback_fault db (next_tx db), ended TxRolledBack ws db)"
  by (simp add: Rollback_def ended_def tx_open_def finish_def)

lemma Commit_ended:
  "Commit (next_tx db) (ended TxOpen ws db) =
     (case commit_fault db (next_tx db) of
        None \<Rightarrow> (None, ended_applied ws db)
      | Some (err, True) \<Rightarrow> (Some err, ended_applied ws db)
      | Some (err, False) \<Rightarrow> (Some err, ended TxRolledBack ws db))"
  by (simp add: Commit_def ended_def ended_applied_def tx_open_def tx_aborted_def finish_def apply_tx_def
      split: option.split prod.split)

lemma context_done_ended: "context_done (next_tx db) (ended TxOpen ws db) = ended TxRolledBack ws db"
  by (simp add: context_done_def ended_def tx_open_def finish_def)

lemma WithinTx_save_all:
  assumes "begin_fault db (next_tx db) = None"
  shows "WithinTx (save_all ws) ctx db =
    (case first_error ws of
       Some e \<Rightarrow>
         (Ret (case rollback_fault db (next_tx db) of
                 None \<Rightarrow> Some e
               | Some rb \<Rightarrow> errors_Join [Some e, Some (Errorf_v ''rollback: '' rb)]),
          ended TxRolledBack ws db)
     | None \<Rightarrow>
         (case commit_fault db (next_tx db) of
            None \<Rightarrow> (Ret None, ended_applied ws db)
          | Some (err, True) \<Rightarrow> (Ret (Some (Errorf_v ''commit: '' err)), ended_applied ws db)
          | Some (err, False) \<Rightarrow> (Ret (Some (Errorf_v ''commit: '' err)), ended TxRolledBack ws db)))"
  using assms
  by (simp add: WithinTx_begun save_all_begun Rollback_ended Commit_ended
      split: option.split bool.split)

section \<open>The contract of \<open>Transactor\<close>\<close>

text \<open>
  What callers of the \<open>Transactor\<close> interface rely on: a unit of work is applied whole or
  not at all, only a unit without a failing statement is applied, and nil means applied.
\<close>

locale tx_manager =
  fixes within :: "'s txfn \<Rightarrow> 's txfn"
  assumes all_or_nothing: "within (save_all ws) ctx db = (r, db') \<Longrightarrow>
      committed db' = committed db
      \<or> first_error ws = None \<and> committed db' = apply_all (map fst ws) (committed db)"
    and nil_applied: "within (save_all ws) ctx db = (Ret None, db') \<Longrightarrow>
      first_error ws = None \<and> committed db' = apply_all (map fst ws) (committed db)"

text \<open>A caller that runs one unit after the other, as a sequence of requests does.\<close>

fun run_jobs :: "('s txfn \<Rightarrow> 's txfn) \<Rightarrow> ctx \<Rightarrow> (('s \<Rightarrow> 's) \<times> go_error option) list list
    \<Rightarrow> 's sqldb \<Rightarrow> go_error option outcome list \<times> 's sqldb" where
  "run_jobs W ctx [] db = ([], db)"
| "run_jobs W ctx (j # js) db =
    (case W (save_all j) ctx db of (r, db1) \<Rightarrow>
       (case run_jobs W ctx js db1 of (rs, db2) \<Rightarrow> (r # rs, db2)))"

text \<open>The updates of the units a mask selects, in order.\<close>

fun applied_updates :: "bool list \<Rightarrow> (('s \<Rightarrow> 's) \<times> go_error option) list list \<Rightarrow> ('s \<Rightarrow> 's) list" where
  "applied_updates (m # ms) (j # js) = (if m then map fst j else []) @ applied_updates ms js"
| "applied_updates _ _ = []"

context tx_manager begin

lemma run_jobs_serial:
  assumes "run_jobs within ctx js db = (rs, db')"
  shows "\<exists>ms. list_all2 (\<lambda>r m. r = Ret None \<longrightarrow> m) rs ms
      \<and> list_all2 (\<lambda>j m. m \<longrightarrow> first_error j = None) js ms
      \<and> committed db' = apply_all (applied_updates ms js) (committed db)"
  using assms
proof (induction js arbitrary: db rs db')
  case Nil
  then show ?case by simp
next
  case (Cons j js)
  obtain r db1 where j: "within (save_all j) ctx db = (r, db1)" by (cases "within (save_all j) ctx db")
  obtain rs' where js: "run_jobs within ctx js db1 = (rs', db')" and rs: "rs = r # rs'"
    using Cons.prems j by (auto split: prod.splits)
  obtain ms where ms: "list_all2 (\<lambda>r m. r = Ret None \<longrightarrow> m) rs' ms"
    "list_all2 (\<lambda>j m. m \<longrightarrow> first_error j = None) js ms"
    "committed db' = apply_all (applied_updates ms js) (committed db1)"
    using Cons.IH [OF js] by blast
  consider (none) "r \<noteq> Ret None" "committed db1 = committed db"
    | (all) "first_error j = None" "committed db1 = apply_all (map fst j) (committed db)"
    using all_or_nothing [OF j] nil_applied [of j ctx db db1] j by (cases "r = Ret None") auto
  then show ?case
  proof cases
    case none
    then show ?thesis using ms rs by (intro exI [of _ "False # ms"]) simp
  next
    case all
    then show ?thesis using ms rs by (intro exI [of _ "True # ms"]) simp
  qed
qed

end

interpretation txm: tx_manager WithinTx
proof
  fix ws :: "(('s \<Rightarrow> 's) \<times> go_error option) list" and ctx db r db'
  assume w: "WithinTx (save_all ws) ctx db = (r, db')"
  show "committed db' = committed db
      \<or> first_error ws = None \<and> committed db' = apply_all (map fst ws) (committed db)"
  proof (cases "begin_fault db (next_tx db)")
    case None
    then show ?thesis using w queued_no_error [of ws]
      by (auto simp: WithinTx_save_all split: option.splits bool.splits)
  next
    case (Some e)
    then show ?thesis using w by (auto simp: WithinTx_begin_error)
  qed
next
  fix ws :: "(('s \<Rightarrow> 's) \<times> go_error option) list" and ctx db db'
  assume w: "WithinTx (save_all ws) ctx db = (Ret None, db')"
  have "begin_fault db (next_tx db) = None"
    using w WithinTx_nil_iff [of "save_all ws" ctx db] by simp
  then show "first_error ws = None \<and> committed db' = apply_all (map fst ws) (committed db)"
    using w queued_no_error [of ws]
    by (auto simp: WithinTx_save_all errors_Join_def split: option.splits bool.splits)
qed

section \<open>Properties\<close>

text \<open>
  C3: \<open>WithinTx\<close> is atomic: on a unit of statements it returns nil exactly when the
  transaction began, no statement failed and the commit succeeded; the committed state then
  has all updates, it also has them when only the answer of the commit was lost, and in
  every other case it is unchanged.
\<close>

theorem WithinTx_atomic:
  "(fst (WithinTx (save_all ws) ctx db) = Ret None \<longleftrightarrow>
      begin_fault db (next_tx db) = None \<and> first_error ws = None \<and> commit_fault db (next_tx db) = None)
    \<and> committed (snd (WithinTx (save_all ws) ctx db)) =
       (if begin_fault db (next_tx db) = None \<and> first_error ws = None
           \<and> (case commit_fault db (next_tx db) of None \<Rightarrow> True | Some (_, applied) \<Rightarrow> applied)
        then apply_all (map fst ws) (committed db) else committed db)"
proof (cases "begin_fault db (next_tx db)")
  case (Some e)
  then show ?thesis by (simp add: WithinTx_begin_error)
next
  case None
  then show ?thesis using queued_no_error [of ws]
    by (simp add: WithinTx_save_all errors_Join_def split: option.split bool.split)
qed

text \<open>
  C32: The error of \<open>WithinTx\<close> says which step failed: a failed begin and a failed commit
  are wrapped with their step, a failed statement's error is returned as it is, and joined
  with the rollback's error when the rollback fails too.
\<close>

theorem WithinTx_error:
  "fst (WithinTx (save_all ws) ctx db) = Ret
    (case begin_fault db (next_tx db) of
       Some err \<Rightarrow> Some (ErrorString (''begin transaction: '' @ Error err))
     | None \<Rightarrow>
         (case first_error ws of
            Some err \<Rightarrow>
              (case rollback_fault db (next_tx db) of
                 None \<Rightarrow> Some err
               | Some rb \<Rightarrow> Some (JoinError [err, ErrorString (''rollback: '' @ Error rb)]))
          | None \<Rightarrow>
              (case commit_fault db (next_tx db) of
                 None \<Rightarrow> None
               | Some (err, _) \<Rightarrow> Some (ErrorString (''commit: '' @ Error err)))))"
proof (cases "begin_fault db (next_tx db)")
  case (Some e)
  then show ?thesis by (simp add: WithinTx_begin_error Errorf_v_def)
next
  case None
  then show ?thesis
    by (simp add: WithinTx_save_all errors_Join_def Errorf_v_def split: option.split bool.split)
qed

text \<open>
  Units of work that run one after the other in \<open>WithinTx\<close> leave a serial state: each
  is applied whole or not at all, in order, only units without a failing statement are
  applied, and every unit that reported nil is.
\<close>

lemma WithinTx_serial:
  assumes "run_jobs WithinTx ctx js db = (rs, db')"
  shows "\<exists>ms. list_all2 (\<lambda>r m. r = Ret None \<longrightarrow> m) rs ms
      \<and> list_all2 (\<lambda>j m. m \<longrightarrow> first_error j = None) js ms
      \<and> committed db' = apply_all (applied_updates ms js) (committed db)"
  using assms by (rule txm.run_jobs_serial)

text \<open>A database of numbers without faults.\<close>

definition number_db :: "int sqldb" where
  "number_db = \<lparr>committed = 0, txs = Map.empty, next_tx = 0, begin_fault = \<lambda>_. None,
     commit_fault = \<lambda>_. None, rollback_fault = \<lambda>_. None\<rparr>"

text \<open>
  No transaction leaks on a return: whatever the function does, once its transaction
  has begun and \<open>WithinTx\<close> returns, that transaction is closed.
\<close>

lemma WithinTx_closes_on_return:
  assumes "WithinTx fn ctx db = (Ret r, db')" and "begin_fault db (next_tx db) = None"
  shows "\<not> tx_open (next_tx db) db'"
  using assms by (rule WithinTx_closes)

text \<open>Units of statements that panic at their end, and whose context ends before they return.\<close>

definition save_then_panic :: "string \<Rightarrow> (('s \<Rightarrow> 's) \<times> go_error option) list \<Rightarrow> 's txfn" where
  "save_then_panic v ws ctx db = (Panic v, snd (save_all ws ctx db))"

definition save_then_cancelled :: "nat \<Rightarrow> (('s \<Rightarrow> 's) \<times> go_error option) list \<Rightarrow> 's txfn" where
  "save_then_cancelled t ws ctx db =
    (case save_all ws ctx db of (r, db') \<Rightarrow> (r, context_done t db'))"

text \<open>
  C31: Only the end of its context ends a transaction whose function panics.  \<open>WithinTx\<close> passes
  the panic of a unit on with neither rollback nor commit: nothing is committed, and the
  transaction is still open, with every update the unit had made queued in it; when the
  context it was begun with ends, it is rolled back and can no longer be committed.  If the
  context ends while a unit runs, \<open>WithinTx\<close> reports an error and nothing is committed,
  even if every statement had succeeded.
\<close>

theorem WithinTx_panic_leaks:
  assumes "begin_fault db (next_tx db) = None"
  shows "fst (WithinTx (save_then_panic v ws) ctx db) = Panic v
    \<and> committed (snd (WithinTx (save_then_panic v ws) ctx db)) = committed db
    \<and> txs (snd (WithinTx (save_then_panic v ws) ctx db)) (next_tx db) = Some \<lparr>status = TxOpen, pending = queued ws\<rparr>
    \<and> committed (context_done (next_tx db) (snd (WithinTx (save_then_panic v ws) ctx db))) = committed db
    \<and> Commit (next_tx db) (context_done (next_tx db) (snd (WithinTx (save_then_panic v ws) ctx db)))
        = (Some ErrTxDone, context_done (next_tx db) (snd (WithinTx (save_then_panic v ws) ctx db)))
    \<and> (\<exists>err. fst (WithinTx (save_then_cancelled (next_tx db) ws) ctx db) = Ret (Some err))
    \<and> committed (snd (WithinTx (save_then_cancelled (next_tx db) ws) ctx db)) = committed db"
proof -
  let ?done = "ended TxRolledBack ws db"
  have closed: "\<not> tx_open (next_tx db) ?done" by (simp add: ended_def tx_open_def)
  then have "Rollback (next_tx db) ?done = (Some ErrTxDone, ?done)" "Commit (next_tx db) ?done = (Some ErrTxDone, ?done)"
    by (simp_all add: Rollback_def Commit_def)
  then have cancelled: "WithinTx (save_then_cancelled (next_tx db) ws) ctx db =
    (Ret (Some (case first_error ws of
        None \<Rightarrow> Errorf_v ''commit: '' ErrTxDone
      | Some e \<Rightarrow> JoinError [e, Errorf_v ''rollback: '' ErrTxDone])), ?done)"
    using assms
    by (simp add: WithinTx_begun save_then_cancelled_def save_all_begun context_done_ended errors_Join_def split: option.split)
  have "WithinTx (save_then_panic v ws) ctx db = (Panic v, ended TxOpen ws db)"
    using assms by (simp add: WithinTx_begun save_then_panic_def save_all_begun)
  then show ?thesis using cancelled \<open>Commit (next_tx db) ?done = (Some ErrTxDone, ?done)\<close>
    by (simp add: context_done_ended) (simp add: ended_def)
qed

theorem WithinTx_panic_leaks_witness:
  "fst (WithinTx (save_then_panic ''boom'' [((+) 1, None)]) [] number_db) = Panic ''boom''
    \<and> committed (snd (WithinTx (save_then_panic ''boom'' [((+) 1, None)]) [] number_db)) = 0"
  using WithinTx_panic_leaks [of number_db "''boom''" "[((+) 1, None)]" "[]"] by (simp add: number_db_def)

text \<open>
  C33: A nested \<open>WithinTx\<close> does not join the outer transaction: it begins one of its own, so
  the inner unit stays committed although the outer function fails and is rolled back.
\<close>

theorem nested_WithinTx_is_independent:
  assumes "begin_fault db (next_tx db) = None" and "begin_fault db (Suc (next_tx db)) = None"
    and "commit_fault db (Suc (next_tx db)) = None" and "rollback_fault db (next_tx db) = None"
    and "first_error ws = None"
  shows "fst (WithinTx (\<lambda>c d. (Ret (Some err), snd (WithinTx (save_all ws) c d))) ctx db) = Ret (Some err)
    \<and> committed (snd (WithinTx (\<lambda>c d. (Ret (Some err), snd (WithinTx (save_all ws) c d))) ctx db))
        = apply_all (map fst ws) (committed db)"
  using assms
  by (simp add: WithinTx_begun [of db] WithinTx_save_all queued_no_error Rollback_def tx_open_def
      ended_applied_def ended_def finish_def)

theorem nested_WithinTx_is_independent_witness:
  "committed (snd (WithinTx (\<lambda>c d. (Ret (Some (ErrorString ''late'')),
      snd (WithinTx (save_all [((+) 1, None)]) c d))) [] number_db)) = 1"
  using nested_WithinTx_is_independent [of number_db "[((+) 1, None)]" "ErrorString ''late''" "[]"]
  by (simp add: number_db_def)

end
