(* ===== verification/Sql_Queries.thy ===== *)
theory Sql_Queries
  imports Transactor
begin

text \<open>
  The \<open>DBTX\<close> interface of the generated query packages
  (\<open>modules/audit/src/infra/database/db/db.go\<close>, \<open>modules/auth/src/infra/database/db/db.go\<close>):
  a database handle is the connection pool or a transaction.  A statement is a function on the
  server's state with a result.  On the pool it commits by itself.  On an open transaction it
  sees the transaction's own updates and queues its update there; a statement the server
  refuses aborts the transaction, which then refuses every further one; on a finished
  transaction it is \<open>ErrTxDone\<close>.  Sequences are the exception in PostgreSQL: a number drawn
  by a transaction that does not commit is lost, where the model gives it back, so what is said
  of an uncommitted transaction below concerns rows, not the next number.
\<close>

section \<open>Handles\<close>

datatype DBTX = Pool | OnTx nat

definition ErrTxAborted :: go_error where
  "ErrTxAborted = ErrorString ''pq: current transaction is aborted, commands ignored until end of transaction block''"

text \<open>What a transaction sees: its own updates over the committed state.\<close>

definition tx_view :: "nat \<Rightarrow> 's sqldb \<Rightarrow> 's" where
  "tx_view t db = (case txs db t of
     None \<Rightarrow> committed db
   | Some x \<Rightarrow> apply_all (pending x) (committed db))"

text \<open>\<open>refused\<close> tells the results with which the server refuses a statement.\<close>

definition run_stmt :: "('r \<Rightarrow> bool) \<Rightarrow> DBTX \<Rightarrow> ('s \<Rightarrow> 'r \<times> 's) \<Rightarrow> 's sqldb \<Rightarrow> (go_error + 'r) \<times> 's sqldb" where
  "run_stmt refused h f db = (case h of
     Pool \<Rightarrow> (Inr (fst (f (committed db))), exec_direct (snd \<circ> f) db)
   | OnTx t \<Rightarrow>
       if \<not> tx_open t db then (Inl ErrTxDone, db)
       else if tx_aborted t db then (Inl ErrTxAborted, db)
       else (Inr (fst (f (tx_view t db))),
             if refused (fst (f (tx_view t db))) then finish t TxAborted db else exec_tx t (snd \<circ> f) db))"

definition tx_usable :: "nat \<Rightarrow> 's sqldb \<Rightarrow> bool" where
  "tx_usable t db \<longleftrightarrow> tx_open t db \<and> \<not> tx_aborted t db"

text \<open>
  What code written against \<open>DBTX\<close> relies on: while the handle lives, a statement's answer is
  that of the statement on what the handle sees, and if it is not refused so is its effect.
\<close>

locale sql_handle =
  fixes run :: "('s \<Rightarrow> 'r \<times> 's) \<Rightarrow> 'db \<Rightarrow> (go_error + 'r) \<times> 'db"
    and refused :: "'r \<Rightarrow> bool"
    and view :: "'db \<Rightarrow> 's"
    and live :: "'db \<Rightarrow> bool"
  assumes run_answer: "live db \<Longrightarrow> fst (run f db) = Inr (fst (f (view db)))"
    and run_view: "live db \<Longrightarrow> \<not> refused (fst (f (view db))) \<Longrightarrow> view (snd (run f db)) = snd (f (view db))"
    and run_live: "live db \<Longrightarrow> \<not> refused (fst (f (view db))) \<Longrightarrow> live (snd (run f db))"

text \<open>Statements in order up to the first error, on a handle and on a state.\<close>

fun run_seq :: "(('s \<Rightarrow> 'r \<times> 's) \<Rightarrow> 'db \<Rightarrow> (go_error + 'r) \<times> 'db) \<Rightarrow> ('r \<Rightarrow> go_error option)
    \<Rightarrow> ('s \<Rightarrow> 'r \<times> 's) list \<Rightarrow> 'db \<Rightarrow> go_error option \<times> 'db" where
  "run_seq run failed [] db = (None, db)"
| "run_seq run failed (f # fs) db =
    (case run f db of
       (Inl e, db1) \<Rightarrow> (Some e, db1)
     | (Inr r, db1) \<Rightarrow> (case failed r of
           Some e \<Rightarrow> (Some e, db1)
         | None \<Rightarrow> run_seq run failed fs db1))"

fun seq_on :: "('r \<Rightarrow> go_error option) \<Rightarrow> ('s \<Rightarrow> 'r \<times> 's) list \<Rightarrow> 's \<Rightarrow> go_error option \<times> 's" where
  "seq_on failed [] s = (None, s)"
| "seq_on failed (f # fs) s =
    (case failed (fst (f s)) of
       Some e \<Rightarrow> (Some e, snd (f s))
     | None \<Rightarrow> seq_on failed fs (snd (f s)))"

text \<open>Statements in order whatever they answer, and whether one of them is refused.\<close>

fun run_each :: "(('s \<Rightarrow> 'r \<times> 's) \<Rightarrow> 'db \<Rightarrow> (go_error + 'r) \<times> 'db) \<Rightarrow> ('s \<Rightarrow> 'r \<times> 's) list \<Rightarrow> 'db \<Rightarrow> 'db" where
  "run_each run [] db = db"
| "run_each run (f # fs) db = run_each run fs (snd (run f db))"

fun each_on :: "('s \<Rightarrow> 'r \<times> 's) list \<Rightarrow> 's \<Rightarrow> 's" where
  "each_on [] s = s"
| "each_on (f # fs) s = each_on fs (snd (f s))"

fun one_refused :: "('r \<Rightarrow> bool) \<Rightarrow> ('s \<Rightarrow> 'r \<times> 's) list \<Rightarrow> 's \<Rightarrow> bool" where
  "one_refused refused [] s = False"
| "one_refused refused (f # fs) s = (refused (fst (f s)) \<or> one_refused refused fs (snd (f s)))"

context sql_handle
begin

lemma run_eq: "live db \<Longrightarrow> run f db = (Inr (fst (f (view db))), snd (run f db))"
  using run_answer [of db f] by (metis prod.collapse)

lemma run_seq_view:
  assumes "live db" and "\<And>r. refused r \<Longrightarrow> failed r \<noteq> None"
  shows "fst (run_seq run failed fs db) = fst (seq_on failed fs (view db))
    \<and> (fst (seq_on failed fs (view db)) = None \<longrightarrow>
        view (snd (run_seq run failed fs db)) = snd (seq_on failed fs (view db))
        \<and> live (snd (run_seq run failed fs db)))"
  using assms(1)
proof (induction fs arbitrary: db)
  case (Cons f fs)
  note r = run_eq [OF Cons.prems, of f]
  show ?case
  proof (cases "failed (fst (f (view db)))")
    case None
    then have "\<not> refused (fst (f (view db)))" using assms(2) by metis
    note v = run_view [of db f, OF Cons.prems this] run_live [of db f, OF Cons.prems this]
    show ?thesis using Cons.IH [OF v(2)] v(1) None
      by (subst (1 2 3) run_seq.simps, subst (1 2 3) r) simp
  next
    case (Some e)
    then show ?thesis by (subst (1 2 3) run_seq.simps, subst (1 2 3) r) simp
  qed
qed simp

lemma run_each_view:
  "live db \<Longrightarrow> \<not> one_refused refused fs (view db) \<Longrightarrow>
     view (run_each run fs db) = each_on fs (view db) \<and> live (run_each run fs db)"
proof (induction fs arbitrary: db)
  case (Cons f fs)
  then have "\<not> refused (fst (f (view db)))" by simp
  note v = run_view [of db f, OF Cons.prems(1) this] run_live [of db f, OF Cons.prems(1) this]
  show ?case using Cons.IH [OF v(2)] Cons.prems(2) v(1) by simp
qed simp

end

lemma tx_view_exec_tx: "txs db t \<noteq> None \<Longrightarrow> tx_view t (exec_tx t f db) = f (tx_view t db)"
  by (auto simp: tx_view_def exec_tx_def)

lemma tx_open_Some: "tx_open t db \<Longrightarrow> txs db t \<noteq> None"
  by (cases "txs db t") (simp_all add: tx_open_def)

lemma tx_aborted_exec_tx [simp]: "tx_aborted u (exec_tx t f db) = tx_aborted u db"
  by (auto simp: tx_aborted_def exec_tx_def split: option.split)

interpretation pool: sql_handle "run_stmt refused Pool" refused committed "\<lambda>_. True" for refused
  by unfold_locales (simp_all add: run_stmt_def exec_direct_def)

interpretation in_tx: sql_handle "run_stmt refused (OnTx t)" refused "tx_view t" "tx_usable t" for refused t
  by unfold_locales (simp_all add: run_stmt_def tx_view_exec_tx tx_open_Some tx_usable_def)

section \<open>Aborted transactions\<close>

lemma run_stmt_refused:
  "tx_usable t db \<Longrightarrow> refused (fst (f (tx_view t db))) \<Longrightarrow>
     tx_open t (snd (run_stmt refused (OnTx t) f db)) \<and> tx_aborted t (snd (run_stmt refused (OnTx t) f db))"
  by (auto simp: run_stmt_def tx_usable_def tx_open_Some) (auto simp: tx_aborted_def finish_def tx_open_def split: option.splits)

lemma run_stmt_aborted:
  "tx_open t db \<Longrightarrow> tx_aborted t db \<Longrightarrow> snd (run_stmt refused (OnTx t) f db) = db"
  by (simp add: run_stmt_def)

lemma run_each_aborted:
  "tx_open t db \<Longrightarrow> tx_aborted t db \<Longrightarrow> run_each (run_stmt refused (OnTx t)) fs db = db"
  by (induction fs) (simp_all add: run_stmt_aborted)

text \<open>One refused statement decides: whatever follows, the transaction ends up aborted.\<close>

lemma run_each_refused:
  "tx_usable t db \<Longrightarrow> one_refused refused fs (tx_view t db) \<Longrightarrow>
     tx_open t (run_each (run_stmt refused (OnTx t)) fs db)
     \<and> tx_aborted t (run_each (run_stmt refused (OnTx t)) fs db)"
proof (induction fs arbitrary: db)
  case (Cons f fs)
  show ?case
  proof (cases "refused (fst (f (tx_view t db)))")
    case True
    from run_stmt_refused [of t db refused f, OF Cons.prems(1) this] show ?thesis by (simp add: run_each_aborted)
  next
    case False
    note v = in_tx.run_view [of t db refused f, OF Cons.prems(1) False] in_tx.run_live [of t db refused f, OF Cons.prems(1) False]
    show ?thesis using Cons.IH [OF v(2)] Cons.prems(2) False v(1) by simp
  qed
qed simp

section \<open>Units of statements in a transaction\<close>

lemma run_stmt_tx_frame [go_frame]:
  "committed (snd (run_stmt refused (OnTx t) f db)) = committed db"
  "next_tx (snd (run_stmt refused (OnTx t) f db)) = next_tx db"
  "begin_fault (snd (run_stmt refused (OnTx t) f db)) = begin_fault db"
  "commit_fault (snd (run_stmt refused (OnTx t) f db)) = commit_fault db"
  "rollback_fault (snd (run_stmt refused (OnTx t) f db)) = rollback_fault db"
  by (simp_all add: run_stmt_def go_frame)

lemma run_seq_keeps:
  assumes "\<And>f db. P (snd (run f db)) = P db"
  shows "P (snd (run_seq run failed fs db)) = P db"
proof (induction fs arbitrary: db)
  case (Cons f fs)
  show ?case using Cons.IH assms [of f db]
    by (cases "run f db") (auto split: sum.split option.split)
qed simp

lemma run_each_keeps:
  assumes "\<And>f db. P (snd (run f db)) = P db"
  shows "P (run_each run fs db) = P db"
  using assms by (induction fs arbitrary: db) simp_all

lemmas run_tx_frame =
  run_seq_keeps [where P = committed and run = "run_stmt refused (OnTx t)" for refused t, OF run_stmt_tx_frame(1)]
  run_seq_keeps [where P = commit_fault and run = "run_stmt refused (OnTx t)" for refused t, OF run_stmt_tx_frame(4)]
  run_each_keeps [where P = committed and run = "run_stmt refused (OnTx t)" for refused t, OF run_stmt_tx_frame(1)]
  run_each_keeps [where P = commit_fault and run = "run_stmt refused (OnTx t)" for refused t, OF run_stmt_tx_frame(4)]

text \<open>The repository pattern: the handle is the active transaction if there is one.\<close>

definition active :: "ctx \<Rightarrow> DBTX" where
  "active ctx = (case Tx ctx of None \<Rightarrow> Pool | Some t \<Rightarrow> OnTx t)"

text \<open>A unit that stops at its first error, and one that goes on and reports none.\<close>

definition unit_fn :: "('r \<Rightarrow> bool) \<Rightarrow> ('r \<Rightarrow> go_error option) \<Rightarrow> ('s \<Rightarrow> 'r \<times> 's) list \<Rightarrow> 's txfn" where
  "unit_fn refused failed fs ctx db =
    (case run_seq (run_stmt refused (active ctx)) failed fs db of (e, db1) \<Rightarrow> (Ret e, db1))"

definition careless_fn :: "('r \<Rightarrow> bool) \<Rightarrow> ('s \<Rightarrow> 'r \<times> 's) list \<Rightarrow> 's txfn" where
  "careless_fn refused fs ctx db = (Ret None, run_each (run_stmt refused (active ctx)) fs db)"

lemma committed_Commit:
  "tx_usable t db \<Longrightarrow> committed (snd (Commit t db)) =
     (case commit_fault db t of
        None \<Rightarrow> tx_view t db
      | Some (_, applied) \<Rightarrow> if applied then tx_view t db else committed db)"
  by (auto simp: tx_usable_def Commit_def apply_tx_def tx_view_def tx_open_def go_frame split: option.splits)

lemma Commit_answer: "tx_usable t db \<Longrightarrow> fst (Commit t db) = map_option fst (commit_fault db t)"
  by (simp add: tx_usable_def Commit_def split: option.split)

lemma Commit_aborted:
  "tx_open t db \<Longrightarrow> tx_aborted t db \<Longrightarrow> fst (Commit t db) \<noteq> None \<and> committed (snd (Commit t db)) = committed db"
  by (simp add: Commit_def go_frame)

lemma committed_Rollback: "committed (snd (Rollback t db)) = committed db"
  by (simp add: Rollback_def go_frame)

lemma begun_usable [simp]: "tx_usable (next_tx db) (begun db)" "tx_view (next_tx db) (begun db) = committed db"
  by (simp_all add: tx_usable_def tx_open_def tx_aborted_def tx_view_def)

lemma active_tx_ctx [simp]: "active (tx_ctx ctx db) = OnTx (next_tx db)"
  by (simp add: active_def tx_ctx_def)

text \<open>How \<open>WithinTx\<close> goes on from a function that returned.\<close>

lemma WithinTx_returned_nil:
  assumes "begin_fault db (next_tx db) = None" and "fn (tx_ctx ctx db) (begun db) = (Ret None, db2)"
  shows "fst (WithinTx fn ctx db) = Ret None \<longleftrightarrow> fst (Commit (next_tx db) db2) = None"
    and "committed (snd (WithinTx fn ctx db)) = committed (snd (Commit (next_tx db) db2))"
  by (cases "Commit (next_tx db) db2", simp add: WithinTx_begun assms split: option.split)+

lemma WithinTx_returned_error:
  assumes "begin_fault db (next_tx db) = None" and "fn (tx_ctx ctx db) (begun db) = (Ret (Some e), db2)"
  shows "fst (WithinTx fn ctx db) \<noteq> Ret None" and "committed (snd (WithinTx fn ctx db)) = committed db2"
  using committed_Rollback [of "next_tx db" db2]
  by (cases "Rollback (next_tx db) db2", simp add: WithinTx_begun assms errors_Join_def split: option.split)+

text \<open>
  A unit in a transaction, by its run on the committed state: nil exactly when begin, unit
  and commit succeed; its whole effect when the commit was applied, else none.
\<close>

lemma WithinTx_unit:
  assumes "\<And>r. refused r \<Longrightarrow> failed r \<noteq> None"
  shows "fst (WithinTx (unit_fn refused failed fs) ctx db) = Ret None \<longleftrightarrow>
      begin_fault db (next_tx db) = None \<and> fst (seq_on failed fs (committed db)) = None
      \<and> commit_fault db (next_tx db) = None"
    and "committed (snd (WithinTx (unit_fn refused failed fs) ctx db)) =
      (if begin_fault db (next_tx db) = None \<and> fst (seq_on failed fs (committed db)) = None
          \<and> (case commit_fault db (next_tx db) of None \<Rightarrow> True | Some (_, applied) \<Rightarrow> applied)
       then snd (seq_on failed fs (committed db)) else committed db)" (is ?C)
proof -
  let ?t = "next_tx db"
  obtain e db1 where r: "run_seq (run_stmt refused (OnTx ?t)) failed fs (begun db) = (e, db1)"
    by (metis surj_pair)
  have e: "e = fst (seq_on failed fs (committed db))"
    and db1: "e = None \<Longrightarrow> tx_view ?t db1 = snd (seq_on failed fs (committed db)) \<and> tx_usable ?t db1"
    using in_tx.run_seq_view [where fs = fs and failed = failed and refused = refused and t = ?t,
        OF begun_usable(1) assms] r by auto
  have frame: "committed db1 = committed db" "commit_fault db1 = commit_fault db"
    using run_tx_frame(1,2) [of refused ?t failed fs "begun db"] r by simp_all
  have fn: "unit_fn refused failed fs (tx_ctx ctx db) (begun db) = (Ret e, db1)"
    by (simp add: unit_fn_def r)
  have "(fst (WithinTx (unit_fn refused failed fs) ctx db) = Ret None \<longleftrightarrow>
      begin_fault db ?t = None \<and> e = None \<and> commit_fault db ?t = None) \<and> ?C"
  proof (cases "begin_fault db ?t")
    case None
    show ?thesis
    proof (cases e)
      case 1: None
      note w = WithinTx_returned_nil [of db "unit_fn refused failed fs" ctx db1, OF None fn [unfolded 1]]
      show ?thesis
        unfolding w using None 1 e db1 frame committed_Commit [of ?t db1] Commit_answer [of ?t db1]
        by (simp split: option.split)
    next
      case (Some err)
      then show ?thesis
        using WithinTx_returned_error [of db "unit_fn refused failed fs" ctx err db1, OF None fn [unfolded Some]] None e frame by simp
    qed
  qed (simp add: WithinTx_begin_error)
  then show "fst (WithinTx (unit_fn refused failed fs) ctx db) = Ret None \<longleftrightarrow>
      begin_fault db ?t = None \<and> fst (seq_on failed fs (committed db)) = None \<and> commit_fault db ?t = None"
    and ?C by (simp_all add: e)
qed

text \<open>A careless unit: one refused statement is enough that nothing is committed, and that it is told.\<close>

lemma WithinTx_careless:
  "fst (WithinTx (careless_fn refused fs) ctx db) = Ret None \<longleftrightarrow>
      begin_fault db (next_tx db) = None \<and> \<not> one_refused refused fs (committed db)
      \<and> commit_fault db (next_tx db) = None" (is ?N)
  "committed (snd (WithinTx (careless_fn refused fs) ctx db)) =
      (if begin_fault db (next_tx db) = None \<and> \<not> one_refused refused fs (committed db)
          \<and> (case commit_fault db (next_tx db) of None \<Rightarrow> True | Some (_, applied) \<Rightarrow> applied)
       then each_on fs (committed db) else committed db)" (is ?C)
proof -
  let ?t = "next_tx db" and ?db1 = "run_each (run_stmt refused (OnTx (next_tx db))) fs (begun db)"
  have fn: "careless_fn refused fs (tx_ctx ctx db) (begun db) = (Ret None, ?db1)"
    by (simp add: careless_fn_def)
  have frame: "committed ?db1 = committed db" "commit_fault ?db1 = commit_fault db"
    using run_tx_frame(3,4) [of refused ?t fs "begun db"] by simp_all
  have "?N \<and> ?C"
  proof (cases "begin_fault db ?t")
    case None
    note w = WithinTx_returned_nil [of db "careless_fn refused fs" ctx ?db1, OF None fn]
    show ?thesis
    proof (cases "one_refused refused fs (committed db)")
      case True
      then have "tx_open ?t ?db1 \<and> tx_aborted ?t ?db1"
        using run_each_refused [OF begun_usable(1), of refused fs db] by simp
      then show ?thesis unfolding w using Commit_aborted [of ?t ?db1] True frame by simp
    next
      case False
      then have "tx_view ?t ?db1 = each_on fs (committed db)" "tx_usable ?t ?db1"
        using in_tx.run_each_view [OF begun_usable(1), of refused fs db] by simp_all
      then show ?thesis
        unfolding w using None False frame committed_Commit [of ?t ?db1] Commit_answer [of ?t ?db1]
        by (simp split: option.split)
    qed
  qed (simp add: WithinTx_begin_error)
  then show ?N and ?C by simp_all
qed

end
