(* ===== verification/Pg_Types.thy ===== *)
theory Pg_Types
  imports Prelude
begin

text \<open>
  The PostgreSQL column types that the migrations of the audit and auth services use
  (\<open>modules/audit/src/infra/database/migrations/\<close>,
  \<open>modules/auth/src/infra/database/migrations/\<close>): what the server does with the bytes of a Go
  string that is assigned to a \<open>VARCHAR(n)\<close> or \<open>TEXT\<close> column.
\<close>

section \<open>UTF-8 text\<close>

text \<open>
  PostgreSQL accepts a byte string as text of a UTF-8 database when it is well formed and
  has no zero byte, and \<open>VARCHAR(n)\<close> counts characters.  \<open>seq_len\<close> is the length a lead
  byte announces (0: not a lead byte), \<open>second_ok\<close> the range of the byte after it.
\<close>

definition seq_len :: "nat \<Rightarrow> nat" where
  "seq_len b =
    (if b = 0 then 0 else if b < 128 then 1
     else if 194 \<le> b \<and> b \<le> 223 then 2
     else if 224 \<le> b \<and> b \<le> 239 then 3
     else if 240 \<le> b \<and> b \<le> 244 then 4 else 0)"

definition second_ok :: "nat \<Rightarrow> nat \<Rightarrow> bool" where
  "second_ok b c \<longleftrightarrow>
    (if b = 224 then 160 \<le> c \<and> c \<le> 191
     else if b = 237 then 128 \<le> c \<and> c \<le> 159
     else if b = 240 then 144 \<le> c \<and> c \<le> 191
     else if b = 244 then 128 \<le> c \<and> c \<le> 143
     else 128 \<le> c \<and> c \<le> 191)"

fun conts_ok :: "nat \<Rightarrow> nat list \<Rightarrow> bool" where
  "conts_ok b [] = True"
| "conts_ok b (c # cs) = (second_ok b c \<and> (\<forall>d\<in>set cs. 128 \<le> d \<and> d \<le> 191))"

fun utf8_chars :: "string \<Rightarrow> string list option" where
  "utf8_chars [] = Some []"
| "utf8_chars (a # s) =
    (let k = seq_len (of_char a) - 1; rest = take k s in
     if seq_len (of_char a) = 0 \<or> length s < k \<or> \<not> conts_ok (of_char a) (map of_char rest)
     then None
     else map_option (\<lambda>cs. (a # rest) # cs) (utf8_chars (drop k s)))"

lemma concat_utf8_chars: "utf8_chars s = Some cs \<Longrightarrow> concat cs = s"
  by (induction s arbitrary: cs rule: utf8_chars.induct) (auto simp: Let_def split: if_splits)

lemma utf8_chars_length: "utf8_chars s = Some cs \<Longrightarrow> length cs \<le> length s"
proof (induction s arbitrary: cs rule: utf8_chars.induct)
  case 1
  then show ?case by simp
next
  case (2 a s)
  let ?k = "seq_len (of_char a) - 1"
  from "2.prems" obtain ds where ds: "utf8_chars (drop ?k s) = Some ds" and cs: "length cs = Suc (length ds)"
    and side: "\<not> (seq_len (of_char a) = 0 \<or> length s < ?k \<or> \<not> conts_ok (of_char a) (map of_char (take ?k s)))"
    by (auto simp: Let_def split: if_splits)
  have "length ds \<le> length (drop ?k s)"
    using "2.IH" [OF refl refl] side ds by blast
  then show ?case using cs by simp
qed

section \<open>Column types\<close>

datatype pg_error =
    InvalidText string            \<comment> \<open>22021, with the column\<close>
  | StringTooLong string          \<comment> \<open>22001\<close>
  | InvalidJson                   \<comment> \<open>22P02, column \<open>details\<close>\<close>
  | InvalidInet                   \<comment> \<open>22P02, column \<open>actor_ip\<close>\<close>
  | TimestampRange                \<comment> \<open>22008\<close>
  | CheckViolation string         \<comment> \<open>23514, with the constraint\<close>
  | SequenceLimit                 \<comment> \<open>2200H\<close>
  | NegativeLimit                 \<comment> \<open>2201W\<close>

text \<open>
  Assignment to \<open>VARCHAR(n)\<close>: text longer than \<open>n\<close> characters is an error unless the
  excess is spaces only, which are cut off.
\<close>

definition varchar :: "string \<Rightarrow> nat \<Rightarrow> string \<Rightarrow> pg_error + string" where
  "varchar col n s =
    (case utf8_chars s of
       None \<Rightarrow> Inl (InvalidText col)
     | Some cs \<Rightarrow>
         if length cs \<le> n then Inr s
         else if list_all (\<lambda>c. c = '' '') (drop n cs) then Inr (concat (take n cs))
         else Inl (StringTooLong col))"

definition text_col :: "string \<Rightarrow> string \<Rightarrow> pg_error + string" where
  "text_col col s = (if utf8_chars s = None then Inl (InvalidText col) else Inr s)"

text \<open>A nullable column passes NULL through.\<close>

definition nullable :: "('a \<Rightarrow> 'e + 'b) \<Rightarrow> 'a option \<Rightarrow> 'e + 'b option" where
  "nullable f v = (case v of None \<Rightarrow> Inr None | Some x \<Rightarrow> (case f x of Inl e \<Rightarrow> Inl e | Inr y \<Rightarrow> Inr (Some y)))"

text \<open>A stored value fits its column.\<close>

definition fits :: "nat \<Rightarrow> string \<Rightarrow> bool" where
  "fits n s \<longleftrightarrow> (case utf8_chars s of None \<Rightarrow> False | Some cs \<Rightarrow> length cs \<le> n)"

lemma utf8_chars_prefix:
  assumes "utf8_chars s = Some cs"
  shows "utf8_chars (concat (take n cs)) = Some (take n cs)"
  using assms
proof (induction s arbitrary: cs n rule: utf8_chars.induct)
  case 1
  then show ?case by simp
next
  case (2 a s)
  let ?k = "seq_len (of_char a) - 1"
  from "2.prems" obtain ds where ds: "utf8_chars (drop ?k s) = Some ds" and cs: "cs = (a # take ?k s) # ds"
    and side: "\<not> (seq_len (of_char a) = 0 \<or> length s < ?k \<or> \<not> conts_ok (of_char a) (map of_char (take ?k s)))"
    by (auto simp: Let_def split: if_splits)
  show ?case
  proof (cases n)
    case 0
    then show ?thesis by simp
  next
    case (Suc m)
    have "utf8_chars (concat (take m ds)) = Some (take m ds)"
      using "2.IH" [OF refl refl] side ds by blast
    then show ?thesis using Suc cs side by (simp add: Let_def min_absorb2)
  qed
qed

lemma varchar_fits: "varchar col n s = Inr t \<Longrightarrow> fits n t"
  by (auto simp: varchar_def fits_def utf8_chars_prefix split: option.splits if_splits)

lemma varchar_id: "fits n s \<Longrightarrow> varchar col n s = Inr s"
  by (auto simp: varchar_def fits_def split: option.splits)

lemma text_col_Inr: "text_col col s = Inr t \<longleftrightarrow> t = s \<and> utf8_chars s \<noteq> None"
  by (auto simp: text_col_def)

lemma nullable_Inr:
  "nullable f v = Inr w \<longleftrightarrow>
     (v = None \<and> w = None \<or> (\<exists>x y. v = Some x \<and> w = Some y \<and> f x = Inr y))"
  by (auto simp: nullable_def split: option.splits sum.splits)

end
