(* ===== verification/Audit_Schema.thy ===== *)
theory Audit_Schema
  imports Pg_Types "HOL-Library.Word"
begin

text \<open>
  The data of the audit store: \<open>modules/audit/src/infra/database/db/models.go\<close>
  (\<open>AuditEvent\<close>), the parameter and row structs of \<open>db/audit.sql.go\<close>, and the column
  types and constraints of \<open>migrations/20260507075754_audit_events.sql\<close> that every stored
  row passes.  A Go string is its UTF-8 bytes; \<open>sql.NullString\<close>, \<open>pqtype.Inet\<close> and
  \<open>pqtype.NullRawMessage\<close> are options (\<open>None\<close> is \<open>Valid = false\<close>, SQL NULL); an \<open>Inet\<close> is the
  text it is sent and read as.  A \<open>time.Time\<close> that Go sends counts nanoseconds since the epoch
  (\<open>go_time\<close>); what a \<open>TIMESTAMPTZ\<close> column keeps, and Go reads back, counts microseconds
  (\<open>instant\<close>).
\<close>

type_synonym uuid = "128 word"
type_synonym go_time = int
type_synonym instant = int
type_synonym NullString = "string option"

section \<open>Rows\<close>

text \<open>\<open>InsertEventParams\<close>: the 23 columns a client supplies.\<close>

record InsertEventParams =
  p_EventID :: uuid
  p_OccurredAt :: go_time
  p_SchemaVersion :: "16 word"
  p_ActorType :: string
  p_ActorID :: string
  p_ActorIp :: NullString
  p_ActorUserAgent :: NullString
  p_Action :: string
  p_ResourceType :: string
  p_ResourceID :: NullString
  p_Service :: string
  p_Environment :: string
  p_Region :: NullString
  p_Host :: NullString
  p_Reason :: NullString
  p_RequestID :: NullString
  p_TraceID :: NullString
  p_SpanID :: NullString
  p_Method :: string
  p_Outcome :: string
  p_Severity :: string
  p_Source :: string
  p_Details :: NullString

record InsertEventRow =
  r_ID :: int
  r_EventID :: uuid
  r_RecordedAt :: instant

text \<open>\<open>AuditEvent\<close>: a row, with the four columns the database fills.\<close>

record AuditEvent =
  ID :: int
  EventID :: uuid
  OccurredAt :: instant
  RecordedAt :: instant
  SchemaVersion :: "16 word"
  ActorType :: string
  ActorID :: string
  ActorIp :: NullString
  ActorUserAgent :: NullString
  Action :: string
  ResourceType :: string
  ResourceID :: NullString
  Service :: string
  Environment :: string
  Region :: NullString
  Host :: NullString
  Reason :: NullString
  RequestID :: NullString
  TraceID :: NullString
  SpanID :: NullString
  Method :: string
  Outcome :: string
  Severity :: string
  Source :: string
  Details :: NullString
  PrevHash :: NullString
  Hash :: NullString

text \<open>The four CHECK constraints; PostgreSQL tests them in the order of their names.\<close>

definition actor_types :: "string list" where
  "actor_types = [''user'', ''service'', ''system'', ''anonymous'']"
definition outcomes :: "string list" where
  "outcomes = [''success'', ''failure'', ''denied'']"
definition methods :: "string list" where
  "methods = [''HTTP'', ''gRPC'', ''CLI'', ''JOB'', ''SYSTEM'']"
definition severities :: "string list" where
  "severities = [''debug'', ''info'', ''notice'', ''warning'', ''error'', ''critical'']"

definition check_row :: "AuditEvent \<Rightarrow> pg_error option" where
  "check_row r =
    (if ActorType r \<notin> set actor_types then Some (CheckViolation ''chk_actor_type'')
     else if Method r \<notin> set methods then Some (CheckViolation ''chk_method'')
     else if Outcome r \<notin> set outcomes then Some (CheckViolation ''chk_outcome'')
     else if Severity r \<notin> set severities then Some (CheckViolation ''chk_severity'')
     else None)"

end
