(* ===== verification/Audit_Store.thy ===== *)
theory Audit_Store
  imports Audit_Schema "HOL-Library.Sublist" "HOL-Library.Multiset"
begin

text \<open>
  The audit store: the three queries of \<open>modules/audit/src/infra/database/db/audit.sql.go\<close>
  over the table of \<open>migrations/20260507075754_audit_events.sql\<close>.  The table is the list of
  its rows in insertion order with the next value of its id sequence.  What a query meets
  outside the table is its environment: the statement's clock (in microseconds), the server's
  reading of JSON and of network addresses (a text or a refusal), which way it rounds half a
  microsecond (it multiplies the fraction of the second as a floating-point number),
  whether a statement that fails for a text too long had already drawn a sequence number
  (PostgreSQL never gives one back), and whether the connection fails before the statement
  runs, after it ran but before its answer arrives, or while rows are being fetched.
\<close>

section \<open>Store and environment\<close>

datatype db_error =
    ErrNoRows                 \<comment> \<open>\<open>sql.ErrNoRows\<close>\<close>
  | PgError pg_error          \<comment> \<open>the server refused the statement\<close>
  | LinkError string          \<comment> \<open>the connection failed\<close>

datatype link = LinkOk | LostBefore string | LostAfter string

record pg_env =
  now :: instant
  jsonb_in :: "string \<Rightarrow> string option"
  inet_in :: "string \<Rightarrow> string option"
  half_up :: "go_time \<Rightarrow> bool"
  burned :: bool
  link :: link
  cut :: "(nat \<times> string) option"
  close_fault :: "string option"

record store =
  rows :: "AuditEvent list"
  next_id :: int

definition empty_store :: store where
  "empty_store = \<lparr>rows = [], next_id = 1\<rparr>"

definition max_bigint :: int where "max_bigint = 2 ^ 63 - 1"

section \<open>\<open>InsertEvent\<close>\<close>

text \<open>
  What the server makes of a parameter: an instant is rounded to the nearest microsecond and
  must lie between 4713 BC and 294276 AD; JSON and addresses are UTF-8 the server can read.
\<close>

definition ts_min :: instant where "ts_min = -210866803200000000"
definition ts_end :: instant where "ts_end = 9224318016000000000"

definition micros :: "pg_env \<Rightarrow> go_time \<Rightarrow> instant" where
  "micros env t =
    (let q = t div 1000; ns = t mod 1000 in if 500 < ns \<or> ns = 500 \<and> half_up env t then q + 1 else q)"

definition timestamptz :: "pg_env \<Rightarrow> go_time \<Rightarrow> pg_error + instant" where
  "timestamptz env t =
    (if ts_min \<le> micros env t \<and> micros env t < ts_end then Inr (micros env t) else Inl TimestampRange)"

definition jsonb :: "pg_env \<Rightarrow> string \<Rightarrow> pg_error + string" where
  "jsonb env s = sbind (text_col ''details'' s) (\<lambda>s.
    case jsonb_in env s of None \<Rightarrow> Inl InvalidJson | Some t \<Rightarrow> Inr t)"

definition inet :: "pg_env \<Rightarrow> string \<Rightarrow> pg_error + string" where
  "inet env s = sbind (text_col ''actor_ip'' s) (\<lambda>s.
    case inet_in env s of None \<Rightarrow> Inl InvalidInet | Some t \<Rightarrow> Inr t)"

text \<open>Parameters that are texts must be UTF-8 without a zero byte.\<close>

fun all_text :: "(string \<times> NullString) list \<Rightarrow> pg_error + unit" where
  "all_text [] = Inr ()"
| "all_text ((col, v) # vs) =
    (case nullable (text_col col) v of Inl e \<Rightarrow> Inl e | Inr _ \<Rightarrow> all_text vs)"

text \<open>
  Before the statement runs the server reads the parameters, \<open>$1\<close> to \<open>$23\<close> in order; an event
  id and a schema version are always readable.
\<close>

definition bind_params :: "pg_env \<Rightarrow> InsertEventParams \<Rightarrow> pg_error + (instant \<times> NullString \<times> NullString)" where
  "bind_params env p =
    sbind (timestamptz env (p_OccurredAt p)) (\<lambda>occurred_at.
    sbind (all_text [(''actor_type'', Some (p_ActorType p)), (''actor_id'', Some (p_ActorID p))]) (\<lambda>_.
    sbind (nullable (inet env) (p_ActorIp p)) (\<lambda>actor_ip.
    sbind (all_text [(''actor_user_agent'', p_ActorUserAgent p), (''action'', Some (p_Action p)),
      (''resource_type'', Some (p_ResourceType p)), (''resource_id'', p_ResourceID p),
      (''service'', Some (p_Service p)), (''environment'', Some (p_Environment p)), (''region'', p_Region p),
      (''host'', p_Host p), (''reason'', p_Reason p), (''request_id'', p_RequestID p),
      (''trace_id'', p_TraceID p), (''span_id'', p_SpanID p), (''method'', Some (p_Method p)),
      (''outcome'', Some (p_Outcome p)), (''severity'', Some (p_Severity p)), (''source'', Some (p_Source p))]) (\<lambda>_.
    sbind (nullable (jsonb env) (p_Details p)) (\<lambda>details.
      Inr (occurred_at, actor_ip, details))))))"

text \<open>
  The row an insert builds: the parameters as the server read them, cut to their columns'
  widths in the order of the columns, then the CHECKs.
\<close>

definition fill_columns :: "pg_env \<Rightarrow> int \<Rightarrow> InsertEventParams \<Rightarrow> instant \<Rightarrow> NullString \<Rightarrow> NullString
    \<Rightarrow> pg_error + AuditEvent" where
  "fill_columns env i p occurred_at actor_ip details =
    sbind (varchar ''actor_type'' 16 (p_ActorType p)) (\<lambda>actor_type.
    sbind (varchar ''actor_id'' 128 (p_ActorID p)) (\<lambda>actor_id.
    sbind (nullable (text_col ''actor_user_agent'') (p_ActorUserAgent p)) (\<lambda>user_agent.
    sbind (varchar ''action'' 128 (p_Action p)) (\<lambda>action.
    sbind (varchar ''resource_type'' 64 (p_ResourceType p)) (\<lambda>resource_type.
    sbind (nullable (varchar ''resource_id'' 128) (p_ResourceID p)) (\<lambda>resource_id.
    sbind (varchar ''service'' 32 (p_Service p)) (\<lambda>service.
    sbind (varchar ''environment'' 16 (p_Environment p)) (\<lambda>environment.
    sbind (nullable (varchar ''region'' 32) (p_Region p)) (\<lambda>region.
    sbind (nullable (varchar ''host'' 128) (p_Host p)) (\<lambda>host.
    sbind (nullable (text_col ''reason'') (p_Reason p)) (\<lambda>reason.
    sbind (nullable (varchar ''request_id'' 64) (p_RequestID p)) (\<lambda>request_id.
    sbind (nullable (varchar ''trace_id'' 32) (p_TraceID p)) (\<lambda>trace_id.
    sbind (nullable (varchar ''span_id'' 16) (p_SpanID p)) (\<lambda>span_id.
    sbind (varchar ''method'' 16 (p_Method p)) (\<lambda>method.
    sbind (varchar ''outcome'' 16 (p_Outcome p)) (\<lambda>outcome.
    sbind (varchar ''severity'' 16 (p_Severity p)) (\<lambda>severity.
    sbind (varchar ''source'' 32 (p_Source p)) (\<lambda>source.
      let r = \<lparr>ID = i, EventID = p_EventID p, OccurredAt = occurred_at, RecordedAt = now env,
        SchemaVersion = p_SchemaVersion p, ActorType = actor_type, ActorID = actor_id,
        ActorIp = actor_ip, ActorUserAgent = user_agent, Action = action,
        ResourceType = resource_type, ResourceID = resource_id, Service = service,
        Environment = environment, Region = region, Host = host, Reason = reason,
        RequestID = request_id, TraceID = trace_id, SpanID = span_id, Method = method,
        Outcome = outcome, Severity = severity, Source = source, Details = details,
        PrevHash = None, Hash = None\<rparr>
      in (case check_row r of Some e \<Rightarrow> Inl e | None \<Rightarrow> Inr r)))))))))))))))))))"

definition build_row :: "pg_env \<Rightarrow> int \<Rightarrow> InsertEventParams \<Rightarrow> pg_error + AuditEvent" where
  "build_row env i p =
    sbind (bind_params env p) (\<lambda>(occurred_at, actor_ip, details). fill_columns env i p occurred_at actor_ip details)"

definition has_event :: "store \<Rightarrow> uuid \<Rightarrow> bool" where
  "has_event st k \<longleftrightarrow> (\<exists>r\<in>set (rows st). EventID r = k)"

text \<open>
  The statement on the server: the parameters are read, the id default is drawn, the row is
  built and checked, \<open>ON CONFLICT (event_id) DO NOTHING\<close> then returns no row for a known event
  id.  \<open>after_draw\<close>: a CHECK fails after the number was drawn, a parameter before, and a text
  too long either way, as the widths are applied when the statement is planned or when it
  runs.
\<close>

definition after_draw :: "pg_env \<Rightarrow> pg_error \<Rightarrow> bool" where
  "after_draw env e =
    (case e of CheckViolation _ \<Rightarrow> True | StringTooLong _ \<Rightarrow> burned env | _ \<Rightarrow> False)"

definition exec_insert :: "pg_env \<Rightarrow> InsertEventParams \<Rightarrow> store \<Rightarrow> (db_error + InsertEventRow) \<times> store" where
  "exec_insert env p st =
    (let exhausted = max_bigint < next_id st; drawn = st\<lparr>next_id := next_id st + 1\<rparr> in
       case build_row env (next_id st) p of
         Inl e \<Rightarrow>
           if \<not> after_draw env e then (Inl (PgError e), st)
           else if exhausted then (Inl (PgError SequenceLimit), st)
           else (Inl (PgError e), drawn)
       | Inr r \<Rightarrow>
           if exhausted then (Inl (PgError SequenceLimit), st)
           else if has_event st (EventID r) then (Inl ErrNoRows, drawn)
           else (Inr \<lparr>r_ID = ID r, r_EventID = EventID r, r_RecordedAt = RecordedAt r\<rparr>,
                 drawn\<lparr>rows := rows st @ [r]\<rparr>))"

definition InsertEvent :: "pg_env \<Rightarrow> InsertEventParams \<Rightarrow> store \<Rightarrow> (db_error + InsertEventRow) \<times> store" where
  "InsertEvent env arg st =
    (case link env of
       LostBefore msg \<Rightarrow> (Inl (LinkError msg), st)
     | LostAfter msg \<Rightarrow> (Inl (LinkError msg), snd (exec_insert env arg st))
     | LinkOk \<Rightarrow> exec_insert env arg st)"

section \<open>\<open>GetEventByEventID\<close>\<close>

definition GetEventByEventID :: "pg_env \<Rightarrow> uuid \<Rightarrow> store \<Rightarrow> db_error + AuditEvent" where
  "GetEventByEventID env eventID st =
    (case link env of
       LostBefore msg \<Rightarrow> Inl (LinkError msg)
     | LostAfter msg \<Rightarrow> Inl (LinkError msg)
     | LinkOk \<Rightarrow>
         (case find (\<lambda>r. EventID r = eventID) (rows st) of
            None \<Rightarrow> Inl ErrNoRows
          | Some r \<Rightarrow> Inr r))"

section \<open>\<open>ListEventsByTimeRange\<close>\<close>

text \<open>
  \<open>ORDER BY occurred_at DESC, id DESC\<close>: the sort key, ordered newest first.
\<close>

datatype event_key = EventKey (key_time: instant) (key_id: int)

instantiation event_key :: linorder
begin

definition less_event_key :: "event_key \<Rightarrow> event_key \<Rightarrow> bool" where
  "less_event_key a b \<longleftrightarrow>
     key_time b < key_time a \<or> key_time a = key_time b \<and> key_id b < key_id a"

definition less_eq_event_key :: "event_key \<Rightarrow> event_key \<Rightarrow> bool" where
  "less_eq_event_key a b \<longleftrightarrow>
     key_time b < key_time a \<or> key_time a = key_time b \<and> key_id b \<le> key_id a"

instance
proof
  fix x y z :: event_key
  show "(x < y) = (x \<le> y \<and> \<not> y \<le> x)" by (auto simp: less_event_key_def less_eq_event_key_def)
  show "x \<le> x" by (simp add: less_eq_event_key_def)
  show "x \<le> y \<Longrightarrow> y \<le> z \<Longrightarrow> x \<le> z" by (auto simp: less_eq_event_key_def)
  show "x \<le> y \<Longrightarrow> y \<le> x \<Longrightarrow> x = y"
    by (cases x; cases y) (auto simp: less_eq_event_key_def)
  show "x \<le> y \<or> y \<le> x" by (auto simp: less_eq_event_key_def)
qed

end

definition event_key :: "AuditEvent \<Rightarrow> event_key" where
  "event_key r = EventKey (OccurredAt r) (ID r)"

record ListEventsByTimeRangeParams =
  l_OccurredAt :: go_time
  l_OccurredAt_2 :: go_time
  l_Limit :: "32 word"

definition bind_range :: "pg_env \<Rightarrow> ListEventsByTimeRangeParams \<Rightarrow> pg_error + (instant \<times> instant)" where
  "bind_range env arg =
    sbind (timestamptz env (l_OccurredAt arg)) (\<lambda>lo.
    sbind (timestamptz env (l_OccurredAt_2 arg)) (\<lambda>hi. Inr (lo, hi)))"

definition in_range :: "instant \<Rightarrow> instant \<Rightarrow> AuditEvent \<Rightarrow> bool" where
  "in_range lo hi r \<longleftrightarrow> lo \<le> OccurredAt r \<and> OccurredAt r \<le> hi"

definition exec_list :: "pg_env \<Rightarrow> ListEventsByTimeRangeParams \<Rightarrow> store \<Rightarrow> pg_error + AuditEvent list" where
  "exec_list env arg st =
    sbind (bind_range env arg) (\<lambda>(lo, hi).
      if sint (l_Limit arg) < 0 then Inl NegativeLimit
      else Inr (take (nat (sint (l_Limit arg))) (sort_key event_key (filter (in_range lo hi) (rows st)))))"

text \<open>
  The cursor \<open>database/sql\<close> hands out: the rows that arrive, the error \<open>rows.Close\<close>
  returns, and the error that ended the iteration early, which \<open>rows.Next\<close> hides and
  \<open>rows.Err\<close> reports.
\<close>

record cursor =
  arriving :: "AuditEvent list"
  close_err :: "db_error option"
  iter_err :: "db_error option"

definition deliver :: "pg_env \<Rightarrow> AuditEvent list \<Rightarrow> cursor" where
  "deliver env rs =
    (let ce = map_option LinkError (close_fault env) in
     case cut env of
       Some (k, msg) \<Rightarrow>
         if k < length rs
         then \<lparr>arriving = take k rs, close_err = ce, iter_err = Some (LinkError msg)\<rparr>
         else \<lparr>arriving = rs, close_err = ce, iter_err = None\<rparr>
     | None \<Rightarrow> \<lparr>arriving = rs, close_err = ce, iter_err = None\<rparr>)"

text \<open>The loop over \<open>rows.Next\<close>; \<open>scan\<close> is \<open>rows.Scan\<close> on one row.\<close>

fun scan_rows :: "(AuditEvent \<Rightarrow> db_error + AuditEvent) \<Rightarrow> AuditEvent list \<Rightarrow> AuditEvent list
    \<Rightarrow> db_error + AuditEvent list" where
  "scan_rows scan [] items = Inr items"
| "scan_rows scan (r # rs) items =
    (case scan r of Inl e \<Rightarrow> Inl e | Inr i \<Rightarrow> scan_rows scan rs (items @ [i]))"

definition ListEventsByTimeRange ::
  "pg_env \<Rightarrow> (AuditEvent \<Rightarrow> db_error + AuditEvent) \<Rightarrow> ListEventsByTimeRangeParams \<Rightarrow> store
    \<Rightarrow> db_error + AuditEvent list" where
  "ListEventsByTimeRange env scan arg st =
    (case link env of
       LostBefore msg \<Rightarrow> Inl (LinkError msg)
     | LostAfter msg \<Rightarrow> Inl (LinkError msg)
     | LinkOk \<Rightarrow>
         (case exec_list env arg st of
            Inl e \<Rightarrow> Inl (PgError e)
          | Inr rs \<Rightarrow>
              let c = deliver env rs in
              sbind (scan_rows scan (arriving c) []) (\<lambda>items.
                case close_err c of Some e \<Rightarrow> Inl e
                | None \<Rightarrow> (case iter_err c of Some e \<Rightarrow> Inl e | None \<Rightarrow> Inr items))))"

section \<open>Rows that fit their columns\<close>

definition fits_opt :: "nat \<Rightarrow> NullString \<Rightarrow> bool" where
  "fits_opt n v \<longleftrightarrow> (case v of None \<Rightarrow> True | Some s \<Rightarrow> fits n s)"

definition row_ok :: "AuditEvent \<Rightarrow> bool" where
  "row_ok r \<longleftrightarrow>
     ActorType r \<in> set actor_types \<and> Method r \<in> set methods \<and> Outcome r \<in> set outcomes
     \<and> Severity r \<in> set severities
     \<and> fits 128 (ActorID r) \<and> fits 128 (Action r) \<and> fits 64 (ResourceType r)
     \<and> fits_opt 128 (ResourceID r) \<and> fits 32 (Service r) \<and> fits 16 (Environment r)
     \<and> fits_opt 32 (Region r) \<and> fits_opt 128 (Host r) \<and> fits_opt 64 (RequestID r)
     \<and> fits_opt 32 (TraceID r) \<and> fits_opt 16 (SpanID r) \<and> fits 32 (Source r)
     \<and> ts_min \<le> OccurredAt r \<and> OccurredAt r < ts_end"

lemma check_row_None_iff:
  "check_row r = None \<longleftrightarrow> ActorType r \<in> set actor_types \<and> Method r \<in> set methods
     \<and> Outcome r \<in> set outcomes \<and> Severity r \<in> set severities"
  by (simp add: check_row_def)

lemma nullable_varchar_fits: "nullable (varchar col n) v = Inr w \<Longrightarrow> fits_opt n w"
  by (auto simp: nullable_Inr fits_opt_def varchar_fits)

lemma fill_columns_ok:
  "fill_columns env i p t ip d = Inr r \<Longrightarrow> ts_min \<le> t \<Longrightarrow> t < ts_end \<Longrightarrow> row_ok r"
  unfolding fill_columns_def sbind_Inr_iff Let_def
  by (elim exE conjE)
    (auto simp: row_ok_def check_row_None_iff split: option.splits
      dest: varchar_fits nullable_varchar_fits)

lemma fill_columns_frame:
  "fill_columns env i p t ip d = Inr r \<Longrightarrow>
     ID r = i \<and> EventID r = p_EventID p \<and> OccurredAt r = t \<and> RecordedAt r = now env
     \<and> PrevHash r = None \<and> Hash r = None"
  unfolding fill_columns_def sbind_Inr_iff Let_def
  by (elim exE conjE) (auto split: option.splits)

lemma bind_params_time: "bind_params env p = Inr (t, ip, d) \<Longrightarrow> timestamptz env (p_OccurredAt p) = Inr t"
  unfolding bind_params_def sbind_Inr_iff by auto

lemma timestamptz_range: "timestamptz env t = Inr u \<Longrightarrow> ts_min \<le> u \<and> u < ts_end"
  by (auto simp: timestamptz_def split: if_splits)

lemma build_row_ok: "build_row env i p = Inr r \<Longrightarrow> row_ok r"
  using bind_params_time timestamptz_range
  by (fastforce simp: build_row_def sbind_Inr_iff intro: fill_columns_ok)

lemma build_row_frame:
  "build_row env i p = Inr r \<Longrightarrow>
     ID r = i \<and> EventID r = p_EventID p \<and> timestamptz env (p_OccurredAt p) = Inr (OccurredAt r) \<and> RecordedAt r = now env
     \<and> PrevHash r = None \<and> Hash r = None"
  using bind_params_time by (fastforce simp: build_row_def sbind_Inr_iff dest: fill_columns_frame)

section \<open>The store invariant\<close>

definition store_inv :: "store \<Rightarrow> bool" where
  "store_inv st \<longleftrightarrow>
     distinct (map EventID (rows st)) \<and> sorted_wrt (<) (map ID (rows st))
     \<and> (\<forall>r\<in>set (rows st). 1 \<le> ID r \<and> ID r < next_id st \<and> row_ok r)
     \<and> 1 \<le> next_id st \<and> next_id st \<le> max_bigint + 1"

lemma store_inv_empty: "store_inv empty_store"
  by (simp add: store_inv_def empty_store_def max_bigint_def)

text \<open>The four ways a statement ends.\<close>

lemma exec_insert_cases:
  obtains (refused) e where "exec_insert env p st = (Inl (PgError e), st)"
  | (burned) e where "exec_insert env p st = (Inl (PgError e), st\<lparr>next_id := next_id st + 1\<rparr>)"
      "next_id st \<le> max_bigint"
  | (duplicate) "exec_insert env p st = (Inl ErrNoRows, st\<lparr>next_id := next_id st + 1\<rparr>)"
      "next_id st \<le> max_bigint" "has_event st (p_EventID p)"
  | (inserted) r where "build_row env (next_id st) p = Inr r" "next_id st \<le> max_bigint"
      "\<not> has_event st (p_EventID p)"
      "exec_insert env p st =
        (Inr \<lparr>r_ID = ID r, r_EventID = EventID r, r_RecordedAt = RecordedAt r\<rparr>,
         \<lparr>rows = rows st @ [r], next_id = next_id st + 1\<rparr>)"
proof (cases "build_row env (next_id st) p")
  case (Inl e)
  then show thesis using refused [of e] refused [of SequenceLimit] burned [of e]
    by (cases "after_draw env e"; cases "max_bigint < next_id st") (simp_all add: exec_insert_def Let_def)
next
  case (Inr r)
  have "EventID r = p_EventID p" using build_row_frame [OF Inr] by simp
  then show thesis using Inr duplicate inserted [OF Inr] refused [of SequenceLimit]
    by (cases "max_bigint < next_id st"; cases "has_event st (p_EventID p)") (simp_all add: exec_insert_def Let_def)
qed

lemma exec_insert_inv:
  assumes "store_inv st"
  shows "store_inv (snd (exec_insert env p st))"
proof (cases rule: exec_insert_cases [of env p st])
  case (inserted r)
  have r: "ID r = next_id st" "EventID r = p_EventID p" "row_ok r"
    using build_row_frame [OF inserted(1)] build_row_ok [OF inserted(1)] by simp_all
  have "p_EventID p \<notin> EventID ` set (rows st)"
    using inserted(3) by (auto simp: has_event_def)
  then show ?thesis using assms inserted(2,4) r
    by (auto simp: store_inv_def sorted_wrt_append)
qed (use assms in \<open>auto simp: store_inv_def\<close>)

lemma InsertEvent_inv: "store_inv st \<Longrightarrow> store_inv (snd (InsertEvent env p st))"
  by (simp add: InsertEvent_def exec_insert_inv split: link.split)

text \<open>Append-only: every operation keeps the existing rows as they are.\<close>

lemma exec_insert_prefix: "prefix (rows st) (rows (snd (exec_insert env p st)))"
  by (cases rule: exec_insert_cases [of env p st]) simp_all

lemma InsertEvent_prefix: "prefix (rows st) (rows (snd (InsertEvent env p st)))"
  by (simp add: InsertEvent_def exec_insert_prefix split: link.split)

section \<open>The store as a write-once map\<close>

text \<open>Abstraction: the events by their idempotency key.\<close>

definition event_map :: "store \<Rightarrow> uuid \<Rightarrow> AuditEvent option" where
  "event_map st k = find (\<lambda>r. EventID r = k) (rows st)"

lemma find_append: "find P (xs @ ys) = (case find P xs of None \<Rightarrow> find P ys | Some x \<Rightarrow> Some x)"
  by (induction xs) auto

lemma event_map_None_iff: "event_map st k = None \<longleftrightarrow> \<not> has_event st k"
  by (auto simp: event_map_def has_event_def find_None_iff)

lemma event_map_next_id [simp]: "event_map (st\<lparr>next_id := i\<rparr>) = event_map st"
  by (simp add: event_map_def fun_eq_iff)

lemma event_map_EventID: "event_map st k = Some r \<Longrightarrow> EventID r = k"
  by (auto simp: event_map_def find_Some_iff)

lemma event_map_member:
  assumes "store_inv st" and "r \<in> set (rows st)"
  shows "event_map st (EventID r) = Some r"
  using assms find_unique [of EventID "rows st" r] by (simp add: event_map_def store_inv_def)

lemma GetEventByEventID_ok:
  "link env = LinkOk \<Longrightarrow>
     GetEventByEventID env k st = (case event_map st k of None \<Rightarrow> Inl ErrNoRows | Some r \<Rightarrow> Inr r)"
  by (simp add: GetEventByEventID_def event_map_def)

text \<open>A refinement of the insert: one map update, or none.\<close>

lemma exec_insert_refines:
  "event_map (snd (exec_insert env p st)) =
     (case fst (exec_insert env p st) of
        Inl e \<Rightarrow> event_map st
      | Inr row \<Rightarrow> (event_map st)(p_EventID p \<mapsto> last (rows (snd (exec_insert env p st)))))"
proof (cases rule: exec_insert_cases [of env p st])
  case (inserted r)
  have e: "EventID r = p_EventID p" using build_row_frame [OF inserted(1)] by simp
  have n: "event_map st (p_EventID p) = None" using inserted(3) by (simp add: event_map_None_iff)
  show ?thesis using inserted(4) e n
    by (auto simp: fun_eq_iff event_map_def find_append split: option.split)
qed simp_all

lemma exec_insert_known:
  assumes "event_map st (p_EventID p) = Some v"
  shows "event_map (snd (exec_insert env p st)) = event_map st"
proof (cases rule: exec_insert_cases [of env p st])
  case (inserted r)
  then show ?thesis using assms event_map_None_iff [of st "p_EventID p"] by simp
qed simp_all

lemma exec_insert_other:
  "k \<noteq> p_EventID p \<Longrightarrow> event_map (snd (exec_insert env p st)) k = event_map st k"
  by (simp add: exec_insert_refines split: sum.split)

lemma exec_insert_success:
  assumes "fst (exec_insert env p st) = Inr row"
  shows "event_map st (p_EventID p) = None
    \<and> (\<exists>r. build_row env (next_id st) p = Inr r
        \<and> event_map (snd (exec_insert env p st)) (p_EventID p) = Some r
        \<and> row = \<lparr>r_ID = ID r, r_EventID = EventID r, r_RecordedAt = RecordedAt r\<rparr>)"
proof (cases rule: exec_insert_cases [of env p st])
  case (inserted r)
  have "event_map (snd (exec_insert env p st)) (p_EventID p) = Some r"
    unfolding exec_insert_refines using inserted(4) by simp
  then show ?thesis using assms inserted by (simp add: event_map_None_iff)
qed (use assms in simp_all)

section \<open>The contract of the audit \<open>Querier\<close>\<close>

text \<open>
  What a writer service relies on when it retries: an insert never changes an event that is
  already stored, touches its own key only, and returns the summary of what it stored.
\<close>

locale event_store =
  fixes ins :: "'env \<Rightarrow> 'p \<Rightarrow> 's \<Rightarrow> (db_error + 'row) \<times> 's"
    and lookup :: "'s \<Rightarrow> 'k \<Rightarrow> 'ev option"
    and key :: "'p \<Rightarrow> 'k"
    and summary :: "'ev \<Rightarrow> 'row"
  assumes ins_known: "lookup s (key p) = Some v \<Longrightarrow> lookup (snd (ins env p s)) (key p) = Some v"
    and ins_other: "k \<noteq> key p \<Longrightarrow> lookup (snd (ins env p s)) k = lookup s k"
    and ins_success: "fst (ins env p s) = Inr row \<Longrightarrow>
      \<exists>v. lookup (snd (ins env p s)) (key p) = Some v \<and> row = summary v"
begin

lemma ins_keeps: "lookup s k = Some v \<Longrightarrow> lookup (snd (ins env p s)) k = Some v"
  using ins_known ins_other by (cases "k = key p") simp_all

text \<open>Write-once: no later sequence of inserts changes a stored event.\<close>

lemma run_keeps: "lookup s k = Some v \<Longrightarrow> lookup (fold (\<lambda>(env, p). snd \<circ> ins env p) xs s) k = Some v"
proof (induction xs arbitrary: s)
  case (Cons x xs)
  obtain env p where x: "x = (env, p)" by (cases x)
  have "lookup (snd (ins env p s)) k = Some v" using Cons.prems by (rule ins_keeps)
  then show ?case using Cons.IH x by simp
qed simp

lemma run_summary:
  assumes "fst (ins env p s) = Inr row"
  shows "\<exists>v. lookup (fold (\<lambda>(env, p). snd \<circ> ins env p) xs (snd (ins env p s))) (key p) = Some v
      \<and> row = summary v"
  using ins_success [OF assms] run_keeps by blast

end

interpretation audit: event_store InsertEvent event_map p_EventID
  "\<lambda>r. \<lparr>r_ID = ID r, r_EventID = EventID r, r_RecordedAt = RecordedAt r\<rparr>"
proof
  fix s v env and p :: InsertEventParams
  assume "event_map s (p_EventID p) = Some v"
  then show "event_map (snd (InsertEvent env p s)) (p_EventID p) = Some v"
    by (simp add: InsertEvent_def exec_insert_known split: link.split)
next
  fix k :: uuid and p :: InsertEventParams and env s
  assume "k \<noteq> p_EventID p"
  then show "event_map (snd (InsertEvent env p s)) k = event_map s k"
    by (simp add: InsertEvent_def exec_insert_other split: link.split)
next
  fix env p s row
  assume "fst (InsertEvent env p s) = Inr row"
  then show "\<exists>v. event_map (snd (InsertEvent env p s)) (p_EventID p) = Some v
      \<and> row = \<lparr>r_ID = ID v, r_EventID = EventID v, r_RecordedAt = RecordedAt v\<rparr>"
    using exec_insert_success [of env p s row] by (auto simp: InsertEvent_def split: link.splits)
qed

section \<open>The documented write protocol\<close>

text \<open>
  The comment on \<open>InsertEvent\<close> tells callers how to write: insert; on \<open>sql.ErrNoRows\<close> the
  event is a duplicate, read it back for its \<open>recorded_at\<close>.  \<open>env2\<close> is the environment of
  the read.  No caller exists in the repository yet; the definition states the protocol so
  that what it promises can be proved of the two queries.
\<close>

definition ingest :: "pg_env \<Rightarrow> pg_env \<Rightarrow> InsertEventParams \<Rightarrow> store
    \<Rightarrow> (db_error + (uuid \<times> instant)) \<times> store" where
  "ingest env1 env2 p st =
    (case InsertEvent env1 p st of
       (Inr row, st1) \<Rightarrow> (Inr (r_EventID row, r_RecordedAt row), st1)
     | (Inl ErrNoRows, st1) \<Rightarrow>
         (case GetEventByEventID env2 (p_EventID p) st1 of
            Inl e \<Rightarrow> (Inl e, st1)
          | Inr ev \<Rightarrow> (Inr (EventID ev, RecordedAt ev), st1))
     | (Inl e, st1) \<Rightarrow> (Inl e, st1))"

lemma snd_ingest: "snd (ingest env1 env2 p st) = snd (InsertEvent env1 p st)"
  by (simp add: ingest_def split: prod.split sum.split db_error.split)

lemma GetEventByEventID_Inr:
  "GetEventByEventID env k st = Inr ev \<Longrightarrow> event_map st k = Some ev"
  by (auto simp: GetEventByEventID_def event_map_def split: link.splits option.splits)

text \<open>A successful write reports the stored event, whether it stored it or found it.\<close>

lemma ingest_reports_stored:
  assumes "ingest env1 env2 p st = (Inr (k, t), st')"
  shows "k = p_EventID p \<and> (\<exists>ev. event_map st' (p_EventID p) = Some ev \<and> t = RecordedAt ev)"
proof -
  obtain res st1 where i: "InsertEvent env1 p st = (res, st1)" by (cases "InsertEvent env1 p st")
  have st': "st' = st1" using assms i snd_ingest [of env1 env2 p st] by simp
  show ?thesis
  proof (cases res)
    case (Inr row)
    then obtain v where "event_map st1 (p_EventID p) = Some v"
      "row = \<lparr>r_ID = ID v, r_EventID = EventID v, r_RecordedAt = RecordedAt v\<rparr>"
      using audit.ins_success [of env1 p st row] i by auto
    then show ?thesis using assms i Inr st' event_map_EventID [of st1 "p_EventID p" v]
      by (simp add: ingest_def)
  next
    case (Inl e)
    then obtain ev where "GetEventByEventID env2 (p_EventID p) st1 = Inr ev" "k = EventID ev" "t = RecordedAt ev"
      using assms i by (auto simp: ingest_def split: db_error.splits sum.splits)
    then show ?thesis using st' GetEventByEventID_Inr event_map_EventID by blast
  qed
qed

section \<open>Listing\<close>

lemma scan_rows_Inr_iff:
  "scan_rows scan rs items = Inr xs \<longleftrightarrow>
     (\<exists>ys. list_all2 (\<lambda>r y. scan r = Inr y) rs ys \<and> xs = items @ ys)"
  by (induction rs arbitrary: items) (auto simp: list_all2_Cons1 split: sum.split)

definition faithful_scan :: "(AuditEvent \<Rightarrow> db_error + AuditEvent) \<Rightarrow> bool" where
  "faithful_scan scan \<longleftrightarrow> (\<forall>r. scan r = Inr r)"

lemma scan_rows_faithful: "faithful_scan scan \<Longrightarrow> scan_rows scan rs items = Inr (items @ rs)"
  by (induction rs arbitrary: items) (simp_all add: faithful_scan_def)

text \<open>A listing that returns is the whole answer of the server.\<close>

lemma ListEventsByTimeRange_complete:
  assumes "ListEventsByTimeRange env scan arg st = Inr xs" and "faithful_scan scan"
  shows "exec_list env arg st = Inr xs"
  using assms
  by (auto simp: ListEventsByTimeRange_def deliver_def Let_def scan_rows_faithful
      split: link.splits sum.splits option.splits if_splits)

lemma exec_list_Inr:
  "exec_list env arg st = Inr xs \<longleftrightarrow> (\<exists>lo hi. timestamptz env (l_OccurredAt arg) = Inr lo
     \<and> timestamptz env (l_OccurredAt_2 arg) = Inr hi \<and> 0 \<le> sint (l_Limit arg)
     \<and> xs = take (nat (sint (l_Limit arg))) (sort_key event_key (filter (in_range lo hi) (rows st))))"
  by (auto simp: exec_list_def bind_range_def sbind_Inr_iff not_less)

text \<open>The front of a sorted list holds no more than its length of smaller keys.\<close>

lemma sorted_front_smaller:
  assumes "sorted (map f xs)" and "x \<in> set (take n xs)"
  shows "length (filter (\<lambda>y. f y < f x) xs) < n"
proof -
  obtain i where i: "i < length (take n xs)" "take n xs ! i = x"
    using assms(2) by (meson in_set_conv_nth)
  then have x: "xs ! i = x" "i < length xs" "i < n" by simp_all
  have "\<not> f y < f x" if y: "y \<in> set (drop i xs)" for y
  proof -
    obtain j where "j < length (drop i xs)" "drop i xs ! j = y"
      using y by (meson in_set_conv_nth)
    then have "j < length xs - i" "y = xs ! (i + j)" using x(2) by simp_all
    then have "f (xs ! i) \<le> f y"
      using sorted_nth_mono [OF assms(1), of i "i + j"] by simp
    then show ?thesis using x by simp
  qed
  then have "filter (\<lambda>y. f y < f x) (drop i xs) = []" by (simp add: filter_empty_conv)
  then have "filter (\<lambda>y. f y < f x) xs = filter (\<lambda>y. f y < f x) (take i xs)"
    by (metis append_Nil2 append_take_drop_id filter_append)
  then have "length (filter (\<lambda>y. f y < f x) xs) \<le> i"
    using length_filter_le [of "\<lambda>y. f y < f x" "take i xs"] x by simp
  then show ?thesis using x by simp
qed

lemma length_filter_sort_key: "length (filter P (sort_key f xs)) = length (filter P xs)"
  by (metis mset_filter mset_sort size_mset)

lemma length_filter_mono: "(\<And>x. x \<in> set xs \<Longrightarrow> P x \<Longrightarrow> Q x) \<Longrightarrow> length (filter P xs) \<le> length (filter Q xs)"
  by (induction xs) auto

end
