(* ===== verification/Audit_Properties.thy ===== *)
theory Audit_Properties
  imports Audit_Store
begin

text \<open>
  The audit store over time: the states that sequences of statements reach, and what the
  queries of \<open>modules/audit/src/infra/database/db/audit.sql.go\<close> promise in them.
\<close>

section \<open>Reachable stores\<close>

text \<open>
  A session runs statements one after the other, each in an environment of its own.  The
  repository's queries write by \<open>InsertEvent\<close> only.
\<close>

type_synonym insert_call = "pg_env \<times> InsertEventParams"

definition run_inserts :: "insert_call list \<Rightarrow> store \<Rightarrow> store" where
  "run_inserts xs st = fold (\<lambda>(env, p). snd \<circ> InsertEvent env p) xs st"

lemma run_inserts_simps [simp]:
  "run_inserts [] st = st"
  "run_inserts ((env, p) # xs) st = run_inserts xs (snd (InsertEvent env p st))"
  by (simp_all add: run_inserts_def)

inductive audit_step :: "store \<Rightarrow> store \<Rightarrow> bool" where
  insert: "audit_step st (snd (InsertEvent env p st))"

inductive audit_reaches :: "store \<Rightarrow> bool" where
  start: "audit_reaches empty_store"
| step: "audit_reaches st \<Longrightarrow> audit_step st st' \<Longrightarrow> audit_reaches st'"

inductive_cases audit_stepE: "audit_step st st'"

lemma audit_reaches_inv: "audit_reaches st \<Longrightarrow> store_inv st"
proof (induction rule: audit_reaches.induct)
  case start
  show ?case by (rule store_inv_empty)
next
  case (step st st')
  then show ?case by (auto elim!: audit_stepE intro: InsertEvent_inv)
qed

lemma audit_reaches_run: "audit_reaches st \<Longrightarrow> audit_reaches (run_inserts xs st)"
proof (induction xs arbitrary: st)
  case (Cons x xs)
  then show ?case by (cases x) (auto intro: audit_reaches.step audit_step.insert)
qed simp

lemma run_inserts_prefix: "prefix (rows st) (rows (run_inserts xs st))"
proof (induction xs arbitrary: st)
  case (Cons x xs)
  obtain env p where x: "x = (env, p)" by (cases x)
  have "prefix (rows st) (rows (snd (InsertEvent env p st)))" by (rule InsertEvent_prefix)
  then show ?case using Cons.IH x by (auto intro: prefix_order.trans)
qed simp

lemma run_inserts_keeps: "event_map st k = Some v \<Longrightarrow> event_map (run_inserts xs st) k = Some v"
  unfolding run_inserts_def by (rule audit.run_keeps)

lemma reaches_distinct: "audit_reaches st \<Longrightarrow> distinct (rows st)"
  using audit_reaches_inv [of st] by (simp add: store_inv_def distinct_map)

section \<open>Sample data\<close>

definition sample_env :: "instant \<Rightarrow> link \<Rightarrow> pg_env" where
  "sample_env t l = \<lparr>now = t, jsonb_in = Some, inet_in = Some, half_up = (\<lambda>_. False), burned = False, link = l, cut = None, close_fault = None\<rparr>"

text \<open>Times of the samples are in microseconds.\<close>

definition sample_event :: "uuid \<Rightarrow> instant \<Rightarrow> InsertEventParams" where
  "sample_event k t = \<lparr>p_EventID = k, p_OccurredAt = 1000 * t, p_SchemaVersion = 1, p_ActorType = ''user'',
     p_ActorID = ''u1'', p_ActorIp = None, p_ActorUserAgent = None, p_Action = ''auth.login'',
     p_ResourceType = ''session'', p_ResourceID = None, p_Service = ''auth'', p_Environment = ''dev'',
     p_Region = None, p_Host = None, p_Reason = None, p_RequestID = None, p_TraceID = None,
     p_SpanID = None, p_Method = ''HTTP'', p_Outcome = ''success'', p_Severity = ''info'',
     p_Source = ''api'', p_Details = None\<rparr>"

lemma sample_link [simp]: "link (sample_env t l) = l" "now (sample_env t l) = t"
  by (simp_all add: sample_env_def)

lemma sample_event_fields [simp]:
  "p_EventID (sample_event k t) = k" "p_OccurredAt (sample_event k t) = 1000 * t"
  by (simp_all add: sample_event_def)

definition the_row :: "int \<Rightarrow> instant \<Rightarrow> uuid \<Rightarrow> instant \<Rightarrow> AuditEvent" where
  "the_row i t k u = \<lparr>ID = i, EventID = k, OccurredAt = u, RecordedAt = t, SchemaVersion = 1,
      ActorType = ''user'', ActorID = ''u1'', ActorIp = None, ActorUserAgent = None,
      Action = ''auth.login'', ResourceType = ''session'', ResourceID = None, Service = ''auth'',
      Environment = ''dev'', Region = None, Host = None, Reason = None, RequestID = None,
      TraceID = None, SpanID = None, Method = ''HTTP'', Outcome = ''success'', Severity = ''info'',
      Source = ''api'', Details = None, PrevHash = None, Hash = None\<rparr>"

lemma the_row_simps [simp]:
  "ID (the_row i t k u) = i" "EventID (the_row i t k u) = k" "RecordedAt (the_row i t k u) = t"
  "OccurredAt (the_row i t k u) = u"
  by (simp_all add: the_row_def)

text \<open>Whole microseconds are kept.\<close>

lemma timestamptz_whole [simp]:
  "timestamptz env (1000 * u) = (if ts_min \<le> u \<and> u < ts_end then Inr u else Inl TimestampRange)"
  by (simp add: timestamptz_def micros_def Let_def)

lemma sample_binds:
  "bind_params (sample_env t l) (sample_event k u\<lparr>p_OccurredAt := w\<rparr>) =
    sbind (timestamptz (sample_env t l) w) (\<lambda>t. Inr (t, None, None))"
  by (simp add: bind_params_def sample_event_def nullable_def text_col_def seq_len_def Let_def)

lemma sample_row_from:
  "timestamptz (sample_env t l) w = Inr v \<Longrightarrow>
     build_row (sample_env t l) i (sample_event k u\<lparr>p_OccurredAt := w\<rparr>) = Inr (the_row i t k v)"
  by (simp add: build_row_def sample_binds)
    (simp add: the_row_def fill_columns_def sample_event_def sample_env_def varchar_def nullable_def Let_def
      seq_len_def check_row_def actor_types_def outcomes_def methods_def severities_def)

lemma sample_row_accepted:
  "0 \<le> u \<Longrightarrow> u < 1000 \<Longrightarrow> build_row (sample_env t l) i (sample_event k u) = Inr (the_row i t k u)"
  using sample_row_from [of t l "1000 * u" u i k u]
  by (simp add: sample_event_def) (simp add: ts_min_def ts_end_def)

text \<open>A store with three events, two of the same instant.\<close>

definition sample_store :: store where
  "sample_store = run_inserts
     [(sample_env 10 LinkOk, sample_event 1 5), (sample_env 11 LinkOk, sample_event 2 7),
      (sample_env 12 LinkOk, sample_event 3 7)] empty_store"

lemma sample_reachable: "audit_reaches sample_store"
  unfolding sample_store_def by (rule audit_reaches_run) (rule audit_reaches.start)

section \<open>Writing\<close>

text \<open>
  C2: In every reachable store event ids are unique, row ids strictly increase in insertion
  order and lie below the sequence, and every row satisfies the table's CHECK constraints
  and column widths.
\<close>

theorem audit_store_invariant:
  assumes "audit_reaches st"
  shows "distinct (map EventID (rows st)) \<and> sorted_wrt (<) (map ID (rows st))
    \<and> (\<forall>r\<in>set (rows st). 1 \<le> ID r \<and> ID r < next_id st \<and> ID r \<le> max_bigint \<and> row_ok r)"
proof -
  have "store_inv st" using assms by (rule audit_reaches_inv)
  then show ?thesis by (force simp: store_inv_def)
qed

text \<open>The abstract store: a map in which a key is written once.\<close>

definition put_once :: "uuid \<Rightarrow> AuditEvent \<Rightarrow> (uuid \<Rightarrow> AuditEvent option) \<Rightarrow> uuid \<Rightarrow> AuditEvent option" where
  "put_once k v m = (case m k of None \<Rightarrow> m(k \<mapsto> v) | Some _ \<Rightarrow> m)"

lemma exec_insert_put_once:
  "event_map (snd (exec_insert env p st)) =
    (if max_bigint < next_id st then event_map st
     else case build_row env (next_id st) p of
            Inl _ \<Rightarrow> event_map st
          | Inr r \<Rightarrow> put_once (p_EventID p) r (event_map st))"
proof (cases "build_row env (next_id st) p")
  case (Inr r)
  then have "EventID r = p_EventID p" using build_row_frame by blast
  then show ?thesis
    using Inr event_map_None_iff [of st "p_EventID p"]
    by (auto simp: exec_insert_def Let_def put_once_def fun_eq_iff event_map_def find_append
        split: option.split)
qed (simp add: exec_insert_def Let_def)

lemma exec_insert_answer:
  "fst (exec_insert env p st) =
    (case build_row env (next_id st) p of
       Inl e \<Rightarrow> Inl (PgError (if max_bigint < next_id st \<and> after_draw env e then SequenceLimit else e))
     | Inr r \<Rightarrow>
         if max_bigint < next_id st then Inl (PgError SequenceLimit)
         else (case event_map st (p_EventID p) of
              Some _ \<Rightarrow> Inl ErrNoRows
            | None \<Rightarrow> Inr \<lparr>r_ID = next_id st, r_EventID = p_EventID p, r_RecordedAt = now env\<rparr>))"
proof (cases "build_row env (next_id st) p")
  case (Inr r)
  then have "ID r = next_id st" "EventID r = p_EventID p" "RecordedAt r = now env"
    using build_row_frame by blast+
  then show ?thesis
    using Inr event_map_None_iff [of st "p_EventID p"]
    by (auto simp: exec_insert_def Let_def split: option.split)
qed (simp add: exec_insert_def Let_def)

text \<open>
  C1: \<open>InsertEvent\<close> refines a write-once map: if the statement runs and the row is accepted,
  the event map gets the row under its event id unless the id is taken; in every other case
  (connection lost before, sequence exhausted, row refused) the map stays as it is.  Over a
  working connection it answers \<open>ErrNoRows\<close> exactly for a taken id, the new row's id and
  time for a free one, and the server's error otherwise, which is the row's own unless the
  sequence ran out before the row was checked; over a broken one always the connection's
  error, also when the row was stored.
\<close>

theorem InsertEvent_refines_put_once:
  "event_map (snd (InsertEvent env p st)) =
    (if (\<exists>m. link env = LostBefore m) \<or> max_bigint < next_id st then event_map st
     else case build_row env (next_id st) p of
            Inl _ \<Rightarrow> event_map st
          | Inr r \<Rightarrow> put_once (p_EventID p) r (event_map st))
   \<and> fst (InsertEvent env p st) =
    (case link env of
       LostBefore m \<Rightarrow> Inl (LinkError m)
     | LostAfter m \<Rightarrow> Inl (LinkError m)
     | LinkOk \<Rightarrow>
         (case build_row env (next_id st) p of
            Inl e \<Rightarrow> Inl (PgError (if max_bigint < next_id st \<and> after_draw env e then SequenceLimit else e))
          | Inr r \<Rightarrow>
              if max_bigint < next_id st then Inl (PgError SequenceLimit)
              else (case event_map st (p_EventID p) of
                  Some _ \<Rightarrow> Inl ErrNoRows
                | None \<Rightarrow> Inr \<lparr>r_ID = next_id st, r_EventID = p_EventID p, r_RecordedAt = now env\<rparr>)))"
  by (cases "link env") (simp_all add: InsertEvent_def exec_insert_put_once exec_insert_answer)

text \<open>
  The table is append-only: after any sequence of inserts the rows of before are a
  prefix, and every event stored before is still found, unchanged.
\<close>

lemma inserts_append_only:
  "prefix (rows st) (rows (run_inserts xs st))
    \<and> (case event_map st k of None \<Rightarrow> True | Some v \<Rightarrow> event_map (run_inserts xs st) k = Some v)"
  using run_inserts_prefix run_inserts_keeps by (simp split: option.split)

text \<open>The row behind an acknowledged insert, and where any later read finds it.\<close>

lemma acknowledged_row:
  assumes "fst (InsertEvent env p st) = Inr row"
  obtains r where "build_row env (next_id st) p = Inr r"
    and "event_map (run_inserts xs (snd (InsertEvent env p st))) (p_EventID p) = Some r"
    and "row = \<lparr>r_ID = ID r, r_EventID = EventID r, r_RecordedAt = RecordedAt r\<rparr>"
proof -
  have ok: "fst (exec_insert env p st) = Inr row"
    and same: "snd (InsertEvent env p st) = snd (exec_insert env p st)"
    using assms by (auto simp: InsertEvent_def split: link.splits)
  obtain r where r: "build_row env (next_id st) p = Inr r"
    "event_map (snd (InsertEvent env p st)) (p_EventID p) = Some r"
    "row = \<lparr>r_ID = ID r, r_EventID = EventID r, r_RecordedAt = RecordedAt r\<rparr>"
    unfolding same using exec_insert_success [OF ok] by blast
  show thesis using r(1) run_inserts_keeps [OF r(2)] r(3) by (rule that)
qed

text \<open>
  An acknowledged insert stays readable: after any further inserts, a read over a
  working connection returns an event with the acknowledged id, event id and
  \<open>recorded_at\<close>, and its \<open>recorded_at\<close> is the clock of the acknowledged statement.
\<close>

lemma acknowledged_is_readable:
  assumes "fst (InsertEvent env p st) = Inr row" and "link env2 = LinkOk"
  shows "\<exists>ev. GetEventByEventID env2 (p_EventID p) (run_inserts xs (snd (InsertEvent env p st))) = Inr ev
    \<and> row = \<lparr>r_ID = ID ev, r_EventID = EventID ev, r_RecordedAt = RecordedAt ev\<rparr>
    \<and> RecordedAt ev = now env \<and> ID ev = next_id st"
proof -
  obtain r where r: "build_row env (next_id st) p = Inr r"
    "event_map (run_inserts xs (snd (InsertEvent env p st))) (p_EventID p) = Some r"
    "row = \<lparr>r_ID = ID r, r_EventID = EventID r, r_RecordedAt = RecordedAt r\<rparr>"
    using assms(1) by (rule acknowledged_row)
  then show ?thesis
    using build_row_frame [OF r(1)] assms(2) by (simp add: GetEventByEventID_ok)
qed

text \<open>
  The documented write protocol is idempotent: when two writes of the same event id
  succeed, however different their other fields and whatever ran in between, the second
  reports the \<open>recorded_at\<close> of the first and leaves the events as they are.
\<close>

lemma ingest_idempotent:
  assumes "ingest env1 env2 p st = (Inr (k, t), st1)"
    and "ingest env3 env4 q (run_inserts xs st1) = (Inr (k', t'), st2)"
    and "p_EventID q = p_EventID p"
  shows "k' = k \<and> t' = t \<and> event_map st2 = event_map (run_inserts xs st1)"
proof -
  obtain ev where ev: "event_map st1 (p_EventID p) = Some ev" "t = RecordedAt ev" "k = p_EventID p"
    using ingest_reports_stored [OF assms(1)] by blast
  obtain ev' where ev': "event_map st2 (p_EventID q) = Some ev'" "t' = RecordedAt ev'" "k' = p_EventID q"
    using ingest_reports_stored [OF assms(2)] by blast
  have mid: "event_map (run_inserts xs st1) (p_EventID q) = Some ev"
    using run_inserts_keeps [OF ev(1)] assms(3) by simp
  have st2: "st2 = snd (InsertEvent env3 q (run_inserts xs st1))"
    using snd_ingest [of env3 env4 q "run_inserts xs st1"] assms(2) by simp
  have "event_map st2 = event_map (run_inserts xs st1)"
    unfolding st2 using exec_insert_known [OF mid]
    by (simp add: InsertEvent_def split: link.split)
  then show ?thesis using ev ev' mid assms(3) by simp
qed

text \<open>
  A write whose answer was lost can be retried: if the row was accepted and new, the
  failed call has stored it all the same, and a retry over a working connection succeeds,
  as a duplicate, with the \<open>recorded_at\<close> of the lost call and without a second row.
\<close>

lemma retry_after_lost_answer:
  assumes "build_row env1 (next_id st) p = Inr r" and "link env1 = LostAfter m"
    and "event_map st (p_EventID p) = None" and "next_id st < max_bigint"
    and "link env2 = LinkOk" and "link env3 = LinkOk"
    and "build_row env2 (next_id st + 1) p = Inr r2"
  shows "InsertEvent env1 p st = (Inl (LinkError m), \<lparr>rows = rows st @ [r], next_id = next_id st + 1\<rparr>)
    \<and> fst (ingest env2 env3 p (snd (InsertEvent env1 p st))) = Inr (p_EventID p, now env1)
    \<and> rows (snd (ingest env2 env3 p (snd (InsertEvent env1 p st)))) = rows st @ [r]"
proof -
  have r: "EventID r = p_EventID p" "RecordedAt r = now env1" and r2: "EventID r2 = p_EventID p"
    using build_row_frame [OF assms(1)] build_row_frame [OF assms(7)] by simp_all
  have new: "\<not> has_event st (p_EventID p)" using assms(3) by (simp add: event_map_None_iff)
  have 1: "InsertEvent env1 p st = (Inl (LinkError m), \<lparr>rows = rows st @ [r], next_id = next_id st + 1\<rparr>)"
    using assms(1,2,4) r new by (simp add: InsertEvent_def exec_insert_def)
  have found: "find (\<lambda>x. EventID x = p_EventID p) (rows st @ [r]) = Some r"
    using r assms(3) by (simp add: find_append event_map_def)
  have "InsertEvent env2 p \<lparr>rows = rows st @ [r], next_id = next_id st + 1\<rparr>
      = (Inl ErrNoRows, \<lparr>rows = rows st @ [r], next_id = next_id st + 2\<rparr>)"
    using assms(4,5,7) r r2 by (simp add: InsertEvent_def exec_insert_def has_event_def)
  then show ?thesis using 1 found r assms(6) by (simp add: ingest_def GetEventByEventID_def)
qed

text \<open>Parameters whose texts fit their columns, and what the database checks of the rest.\<close>

definition params_fit :: "InsertEventParams \<Rightarrow> bool" where
  "params_fit p \<longleftrightarrow>
     fits 16 (p_ActorType p) \<and> fits 128 (p_ActorID p) \<and> fits 128 (p_Action p)
     \<and> fits 64 (p_ResourceType p) \<and> fits_opt 128 (p_ResourceID p) \<and> fits 32 (p_Service p)
     \<and> fits 16 (p_Environment p) \<and> fits_opt 32 (p_Region p) \<and> fits_opt 128 (p_Host p)
     \<and> fits_opt 64 (p_RequestID p) \<and> fits_opt 32 (p_TraceID p) \<and> fits_opt 16 (p_SpanID p)
     \<and> fits 16 (p_Method p) \<and> fits 16 (p_Outcome p) \<and> fits 16 (p_Severity p) \<and> fits 32 (p_Source p)
     \<and> (\<forall>s. p_ActorUserAgent p = Some s \<longrightarrow> utf8_chars s \<noteq> None)
     \<and> (\<forall>s. p_Reason p = Some s \<longrightarrow> utf8_chars s \<noteq> None)"

definition params_allowed :: "InsertEventParams \<Rightarrow> bool" where
  "params_allowed p \<longleftrightarrow> p_ActorType p \<in> set actor_types \<and> p_Method p \<in> set methods
     \<and> p_Outcome p \<in> set outcomes \<and> p_Severity p \<in> set severities"

lemma nullable_varchar_id: "fits_opt n v \<Longrightarrow> nullable (varchar col n) v = Inr v"
  by (auto simp: fits_opt_def nullable_def varchar_id split: option.splits)

lemma nullable_text_id: "(\<And>s. v = Some s \<Longrightarrow> utf8_chars s \<noteq> None) \<Longrightarrow> nullable (text_col col) v = Inr v"
  by (cases v) (simp_all add: nullable_def text_col_def)

text \<open>
  The row of parameters whose texts fit: the values the caller supplied, but for the instant,
  the address and the details, which are what the server read.
\<close>

definition plain_row :: "pg_env \<Rightarrow> int \<Rightarrow> InsertEventParams \<Rightarrow> instant \<Rightarrow> NullString \<Rightarrow> NullString \<Rightarrow> AuditEvent" where
  "plain_row env i p t ip d = \<lparr>ID = i, EventID = p_EventID p, OccurredAt = t, RecordedAt = now env,
        SchemaVersion = p_SchemaVersion p, ActorType = p_ActorType p, ActorID = p_ActorID p,
        ActorIp = ip, ActorUserAgent = p_ActorUserAgent p, Action = p_Action p,
        ResourceType = p_ResourceType p, ResourceID = p_ResourceID p, Service = p_Service p,
        Environment = p_Environment p, Region = p_Region p, Host = p_Host p, Reason = p_Reason p,
        RequestID = p_RequestID p, TraceID = p_TraceID p, SpanID = p_SpanID p, Method = p_Method p,
        Outcome = p_Outcome p, Severity = p_Severity p, Source = p_Source p, Details = d,
        PrevHash = None, Hash = None\<rparr>"

lemma all_text_valid: "list_all (\<lambda>(_, v). \<forall>s. v = Some s \<longrightarrow> utf8_chars s \<noteq> None) vs \<Longrightarrow> all_text vs = Inr ()"
proof (induction vs)
  case (Cons x vs)
  obtain c v where x: "x = (c, v)" by (cases x)
  then show ?case using Cons nullable_text_id [of v c] by simp
qed simp

lemma fits_valid: "fits n s \<Longrightarrow> utf8_chars s \<noteq> None" "fits_opt n v \<Longrightarrow> v = Some s \<Longrightarrow> utf8_chars s \<noteq> None"
  by (auto simp: fits_def fits_opt_def split: option.splits)

lemma bind_params_fit:
  assumes "params_fit p"
  shows "bind_params env p = sbind (timestamptz env (p_OccurredAt p)) (\<lambda>t. sbind (nullable (inet env) (p_ActorIp p)) (\<lambda>ip.
    sbind (nullable (jsonb env) (p_Details p)) (\<lambda>d. Inr (t, ip, d))))"
  unfolding bind_params_def using assms
  by (subst (1 2) all_text_valid) (auto simp: params_fit_def dest: fits_valid)

lemma fill_columns_fit:
  assumes "params_fit p"
  shows "fill_columns env i p t ip d =
    (case check_row (plain_row env i p t ip d) of Some e \<Rightarrow> Inl e | None \<Rightarrow> Inr (plain_row env i p t ip d))"
  unfolding plain_row_def using assms
  by (simp add: params_fit_def fill_columns_def varchar_id nullable_varchar_id nullable_text_id Let_def)

lemma build_row_fit:
  assumes "params_fit p"
  shows "build_row env i p = Inr r \<longleftrightarrow> params_allowed p \<and> (\<exists>t ip d. timestamptz env (p_OccurredAt p) = Inr t
    \<and> nullable (inet env) (p_ActorIp p) = Inr ip \<and> nullable (jsonb env) (p_Details p) = Inr d
    \<and> r = plain_row env i p t ip d)"
proof -
  have "check_row (plain_row env i p t ip d) = None \<longleftrightarrow> params_allowed p" for t ip d
    by (auto simp: check_row_None_iff plain_row_def params_allowed_def)
  then show ?thesis
    unfolding build_row_def bind_params_fit [OF assms] sbind_Inr_iff
    by (fastforce simp: fill_columns_fit [OF assms] split: option.splits)
qed

text \<open>The parameters a stored event would be written with.\<close>

definition params_of :: "AuditEvent \<Rightarrow> InsertEventParams" where
  "params_of r = \<lparr>p_EventID = EventID r, p_OccurredAt = 1000 * OccurredAt r, p_SchemaVersion = SchemaVersion r,
     p_ActorType = ActorType r, p_ActorID = ActorID r, p_ActorIp = ActorIp r,
     p_ActorUserAgent = ActorUserAgent r, p_Action = Action r, p_ResourceType = ResourceType r,
     p_ResourceID = ResourceID r, p_Service = Service r, p_Environment = Environment r,
     p_Region = Region r, p_Host = Host r, p_Reason = Reason r, p_RequestID = RequestID r,
     p_TraceID = TraceID r, p_SpanID = SpanID r, p_Method = Method r, p_Outcome = Outcome r,
     p_Severity = Severity r, p_Source = Source r, p_Details = Details r\<rparr>"

lemma params_of_plain:
  "params_of (plain_row env i p t ip d) = p\<lparr>p_OccurredAt := 1000 * t, p_ActorIp := ip, p_Details := d\<rparr>"
  by (cases p) (simp add: params_of_def plain_row_def)

lemma build_row_params_of:
  assumes "params_fit p" and "build_row env i p = Inr r"
  shows "params_of r = p\<lparr>p_OccurredAt := 1000 * OccurredAt r, p_ActorIp := ActorIp r, p_Details := Details r\<rparr>
    \<and> timestamptz env (p_OccurredAt p) = Inr (OccurredAt r)
    \<and> nullable (inet env) (p_ActorIp p) = Inr (ActorIp r) \<and> nullable (jsonb env) (p_Details p) = Inr (Details r)"
proof -
  obtain t ip d where r: "r = plain_row env i p t ip d" "timestamptz env (p_OccurredAt p) = Inr t"
    "nullable (inet env) (p_ActorIp p) = Inr ip" "nullable (jsonb env) (p_Details p) = Inr d"
    using assms(2) unfolding build_row_fit [OF assms(1)] by blast
  moreover have "OccurredAt r = t" "ActorIp r = ip" "Details r = d" using r(1) by (simp_all add: plain_row_def)
  ultimately show ?thesis using params_of_plain by simp
qed

text \<open>Half a microsecond at most is lost.\<close>

lemma timestamptz_near: "timestamptz env t = Inr u \<Longrightarrow> \<bar>1000 * u - t\<bar> \<le> 500"
proof -
  assume "timestamptz env t = Inr u"
  then have u: "u = micros env t" by (simp add: timestamptz_def split: if_splits)
  define q ns where "q = t div 1000" and "ns = t mod 1000"
  then have "t = 1000 * q + ns" "0 \<le> ns" "ns < 1000" by simp_all
  moreover have "u = q + 1 \<and> 500 \<le> ns \<or> u = q \<and> ns \<le> 500"
    unfolding u micros_def Let_def q_def [symmetric] ns_def [symmetric] by auto
  ultimately show ?thesis by auto
qed

lemma sample_fit: "params_fit (sample_event k u)"
  by (simp add: params_fit_def sample_event_def fits_def fits_opt_def seq_len_def Let_def)

text \<open>
  C7: What is inserted is what is read back, up to what the column types change: when every
  text of the parameters fits its column and the insert is acknowledged, a later read (after
  any further inserts, over a working connection) returns an event with the parameters in all
  columns but three: its \<open>occurred_at\<close> is the one sent rounded to the microsecond, so up to
  500 ns off, its address and its details are the server's reading of what was sent; id and
  time are those of the acknowledgement.
\<close>

theorem insert_get_roundtrip:
  assumes "params_fit p" and "fst (InsertEvent env p st) = Inr row" and "link env2 = LinkOk"
  shows "\<exists>ev. GetEventByEventID env2 (p_EventID p) (run_inserts xs (snd (InsertEvent env p st))) = Inr ev
    \<and> params_of ev = p\<lparr>p_OccurredAt := 1000 * OccurredAt ev, p_ActorIp := ActorIp ev, p_Details := Details ev\<rparr>
    \<and> timestamptz env (p_OccurredAt p) = Inr (OccurredAt ev) \<and> \<bar>1000 * OccurredAt ev - p_OccurredAt p\<bar> \<le> 500
    \<and> nullable (inet env) (p_ActorIp p) = Inr (ActorIp ev)
    \<and> nullable (jsonb env) (p_Details p) = Inr (Details ev)
    \<and> ID ev = r_ID row \<and> RecordedAt ev = r_RecordedAt row"
proof -
  obtain r where r: "build_row env (next_id st) p = Inr r"
    "event_map (run_inserts xs (snd (InsertEvent env p st))) (p_EventID p) = Some r"
    "row = \<lparr>r_ID = ID r, r_EventID = EventID r, r_RecordedAt = RecordedAt r\<rparr>"
    using assms(2) by (rule acknowledged_row)
  note p = build_row_params_of [OF assms(1) r(1)]
  show ?thesis
    using r(2,3) p timestamptz_near [OF p [THEN conjunct2, THEN conjunct1]] assms(3) by (intro exI [of _ r]) (simp add: GetEventByEventID_ok)
qed

text \<open>An event of 9 microseconds and 400 nanoseconds comes back as one of 9 microseconds.\<close>

definition fine_event :: InsertEventParams where
  "fine_event = sample_event 4 9\<lparr>p_OccurredAt := 9400\<rparr>"

lemma fine_fit: "params_fit fine_event"
  using sample_fit [of 4 9] by (simp add: fine_event_def params_fit_def)

lemma fine_inserted:
  "InsertEvent (sample_env 30 LinkOk) fine_event empty_store
    = (Inr \<lparr>r_ID = 1, r_EventID = 4, r_RecordedAt = 30\<rparr>, \<lparr>rows = [the_row 1 30 4 9], next_id = 2\<rparr>)"
proof -
  have "timestamptz (sample_env 30 LinkOk) 9400 = Inr 9"
    by (simp add: timestamptz_def micros_def ts_min_def ts_end_def Let_def)
  from sample_row_from [OF this] have "build_row (sample_env 30 LinkOk) 1 fine_event = Inr (the_row 1 30 4 9)"
    by (simp add: fine_event_def)
  then show ?thesis by (simp add: InsertEvent_def exec_insert_def empty_store_def max_bigint_def has_event_def Let_def)
qed

theorem insert_get_roundtrip_witness:
  "\<exists>ev. GetEventByEventID (sample_env 99 LinkOk) 4 (snd (InsertEvent (sample_env 30 LinkOk) fine_event empty_store))
      = Inr ev \<and> params_of ev = fine_event\<lparr>p_OccurredAt := 9000, p_ActorIp := None, p_Details := None\<rparr>"
proof -
  have "fst (InsertEvent (sample_env 30 LinkOk) fine_event empty_store)
      = Inr \<lparr>r_ID = 1, r_EventID = 4, r_RecordedAt = 30\<rparr>" by (simp add: fine_inserted)
  from insert_get_roundtrip [OF fine_fit this, of "sample_env 99 LinkOk" "[]"]
  obtain ev where ev: "GetEventByEventID (sample_env 99 LinkOk) 4
      (snd (InsertEvent (sample_env 30 LinkOk) fine_event empty_store)) = Inr ev"
    "params_of ev = fine_event\<lparr>p_OccurredAt := 1000 * OccurredAt ev, p_ActorIp := ActorIp ev, p_Details := Details ev\<rparr>"
    by (auto simp: fine_event_def)
  have "ev = the_row 1 30 4 9" using ev(1) by (simp add: fine_inserted GetEventByEventID_def)
  then show ?thesis using ev by (simp add: the_row_def)
qed

section \<open>Listing\<close>

text \<open>What a listing that returns consists of.\<close>

lemma listing_is:
  assumes "ListEventsByTimeRange env scan arg st = Inr xs" and "faithful_scan scan"
  obtains lo hi where "timestamptz env (l_OccurredAt arg) = Inr lo" and "timestamptz env (l_OccurredAt_2 arg) = Inr hi"
    and "0 \<le> sint (l_Limit arg)"
    and "xs = take (nat (sint (l_Limit arg))) (sort_key event_key (filter (in_range lo hi) (rows st)))"
  using ListEventsByTimeRange_complete [OF assms] by (auto simp: exec_list_Inr)

definition sample_range :: "int \<Rightarrow> ListEventsByTimeRangeParams" where
  "sample_range n = \<lparr>l_OccurredAt = 0, l_OccurredAt_2 = 1000 * 100, l_Limit = word_of_int n\<rparr>"

lemma sample_store_eq:
  "sample_store = \<lparr>rows = [the_row 1 10 1 5, the_row 2 11 2 7, the_row 3 12 3 7], next_id = 4\<rparr>"
  by (simp add: sample_store_def InsertEvent_def exec_insert_def sample_row_accepted the_row_def empty_store_def
      max_bigint_def has_event_def the_row_def)

lemma sample_bounds: "timestamptz env 0 = Inr 0" "timestamptz env 100000 = Inr 100"
  by (simp_all add: timestamptz_def micros_def ts_min_def ts_end_def Let_def)

lemma sample_listing:
  "ListEventsByTimeRange (sample_env 50 LinkOk) Inr (sample_range 2) sample_store
    = Inr [the_row 3 12 3 7, the_row 2 11 2 7]"
  by (simp add: sample_store_eq ListEventsByTimeRange_def exec_list_def bind_range_def deliver_def sample_range_def
      sample_bounds in_range_def event_key_def the_row_def sample_env_def less_eq_event_key_def)

theorem audit_store_invariant_witness:
  "distinct (map EventID (rows sample_store)) \<and> sorted_wrt (<) (map ID (rows sample_store))
    \<and> ID (the_row 3 12 3 7) < next_id sample_store \<and> row_ok (the_row 3 12 3 7)"
proof -
  have "the_row 3 12 3 7 \<in> set (rows sample_store)" by (simp add: sample_store_eq)
  then show ?thesis using audit_store_invariant [OF sample_reachable] by blast
qed

text \<open>
  The front of the sorted rows of a range: rows of the range only, each once, newest first;
  and what is left out is no newer than what is in it, which is then full.
\<close>

lemma front_rows:
  assumes "distinct rs" and "xs = take n (sort_key event_key (filter P rs))"
  shows "sorted (map event_key xs)" and "distinct xs" and "set xs \<subseteq> {r \<in> set rs. P r}" and "length xs \<le> n"
  using assms by (auto simp: sorted_wrt_take take_map [symmetric] dest!: in_set_takeD)

lemma front_left_out:
  assumes "xs = take n (sort_key event_key (filter P rs))" and "r \<in> set rs" and "P r" and "r \<notin> set xs"
  shows "length xs = n \<and> (\<forall>x\<in>set xs. event_key x \<le> event_key r)"
proof -
  let ?s = "sort_key event_key (filter P rs)"
  have "r \<in> set ?s" using assms(2,3) by simp
  then have r: "r \<in> set (drop n ?s)"
    using assms(1,4) by (metis Un_iff append_take_drop_id set_append)
  then have "n \<le> length ?s" by (cases "n \<le> length ?s") simp_all
  moreover have "\<forall>x\<in>set (take n ?s). \<forall>y\<in>set (drop n ?s). event_key x \<le> event_key y"
  proof -
    have "sorted (map event_key (take n ?s @ drop n ?s))" by simp
    then show ?thesis unfolding map_append sorted_append by auto
  qed
  ultimately show ?thesis using assms(1) r by simp
qed

text \<open>
  C29: What a successful listing is: its bounds are instants the server keeps, rounded to the
  microsecond as those of the rows are; it holds only stored events of that range, each once,
  newest first (by \<open>occurred_at\<close>, then by id), no more than the limit; and an event of the
  range that is left out is older than, or as old as, every event in the answer, which is
  then full.
\<close>

theorem listing_exact:
  assumes "audit_reaches st" and "ListEventsByTimeRange env scan arg st = Inr xs" and "faithful_scan scan"
  shows "\<exists>lo hi. timestamptz env (l_OccurredAt arg) = Inr lo \<and> timestamptz env (l_OccurredAt_2 arg) = Inr hi
    \<and> sorted (map event_key xs) \<and> distinct xs
    \<and> set xs \<subseteq> {r \<in> set (rows st). lo \<le> OccurredAt r \<and> OccurredAt r \<le> hi}
    \<and> int (length xs) \<le> sint (l_Limit arg)
    \<and> (\<forall>r\<in>set (rows st). in_range lo hi r \<longrightarrow> r \<notin> set xs \<longrightarrow>
         int (length xs) = sint (l_Limit arg) \<and> (\<forall>x\<in>set xs. event_key x \<le> event_key r))"
proof -
  let ?n = "nat (sint (l_Limit arg))"
  obtain lo hi where b: "timestamptz env (l_OccurredAt arg) = Inr lo" "timestamptz env (l_OccurredAt_2 arg) = Inr hi"
    and n: "0 \<le> sint (l_Limit arg)" and xs: "xs = take ?n (sort_key event_key (filter (in_range lo hi) (rows st)))"
    using assms(2,3) by (rule listing_is)
  note front = front_rows [OF reaches_distinct [OF assms(1)] xs]
  show ?thesis using b n front front_left_out [OF xs]
    by (intro exI [of _ lo] exI [of _ hi]) (auto simp: in_range_def)
qed

theorem listing_exact_witness:
  "sorted (map event_key [the_row 3 12 3 7, the_row 2 11 2 7])
    \<and> int (length [the_row 3 12 3 7, the_row 2 11 2 7]) = sint (l_Limit (sample_range 2))
    \<and> event_key (the_row 2 11 2 7) \<le> event_key (the_row 1 10 1 5)"
proof -
  have "the_row 1 10 1 5 \<in> set (rows sample_store)" "in_range 0 100 (the_row 1 10 1 5)"
    "the_row 1 10 1 5 \<notin> set [the_row 3 12 3 7, the_row 2 11 2 7]"
    by (simp_all add: sample_store_eq in_range_def the_row_def)
  then show ?thesis
    using listing_exact [OF sample_reachable sample_listing]
    by (auto simp: faithful_scan_def sample_range_def sample_bounds)
qed

text \<open>
  The query cannot page through one instant: an event with at least limit many newer
  rows of its own \<open>occurred_at\<close> is in no answer with that limit, whatever the range.
\<close>

lemma listing_hides_crowded_instant:
  assumes "ListEventsByTimeRange env scan arg st = Inr xs" and "faithful_scan scan"
    and "nat (sint (l_Limit arg))
      \<le> length (filter (\<lambda>y. OccurredAt y = OccurredAt r \<and> ID r < ID y) (rows st))"
  shows "r \<notin> set xs"
proof
  let ?n = "nat (sint (l_Limit arg))"
  obtain lo hi where xs: "xs = take ?n (sort_key event_key (filter (in_range lo hi) (rows st)))"
    using assms(1,2) by (rule listing_is)
  let ?s = "sort_key event_key (filter (in_range lo hi) (rows st))"
  assume r: "r \<in> set xs"
  then have rng: "in_range lo hi r" using xs by (auto dest: in_set_takeD)
  have "length (filter (\<lambda>y. event_key y < event_key r) ?s) < ?n"
    by (rule sorted_front_smaller) (use r xs in simp_all)
  moreover have "length (filter (\<lambda>y. OccurredAt y = OccurredAt r \<and> ID r < ID y) (rows st))
      \<le> length (filter (\<lambda>y. event_key y < event_key r) (filter (in_range lo hi) (rows st)))"
    unfolding filter_filter
    by (rule length_filter_mono) (use rng in \<open>auto simp: in_range_def event_key_def less_event_key_def\<close>)
  ultimately show False using assms(3) by (simp add: length_filter_sort_key)
qed

text \<open>
  An error while rows are fetched is never a short answer: when the connection is cut
  before the last row, the listing fails with an error and returns no events.
\<close>

lemma listing_cut_is_error:
  assumes "link env = LinkOk" and "exec_list env arg st = Inr rs"
    and "cut env = Some (k, msg)" and "k < length rs" and "faithful_scan scan"
  shows "\<exists>e. ListEventsByTimeRange env scan arg st = Inl e"
  using assms
  by (simp add: ListEventsByTimeRange_def deliver_def scan_rows_faithful Let_def split: option.split)

end
