(* ===== verification/Audit_Concurrent.thy ===== *)
theory Audit_Concurrent
  imports Audit_Properties
begin

text \<open>
  Concurrent writers of one event store.  The comment on \<open>InsertEvent\<close>
  (\<open>modules/audit/src/infra/database/db/audit.sql.go\<close>) tells a writer to insert and, on
  \<open>sql.ErrNoRows\<close>, to read the event back; a writer whose call failed may start again.  The two
  queries are two statements, so other writers' statements come between them.  Each move
  is one statement of one writer, in an environment of its own (clock, connection).
\<close>

section \<open>Writers\<close>

datatype writer =
    Start
  | Reading                  \<comment> \<open>the insert answered \<open>sql.ErrNoRows\<close>\<close>
  | Done uuid instant        \<comment> \<open>the event id and \<open>recorded_at\<close> it reports\<close>
  | Failed db_error

record writers =
  shared :: store
  pc :: "nat \<Rightarrow> writer"

fun after_insert :: "db_error + InsertEventRow \<Rightarrow> writer" where
  "after_insert (Inr row) = Done (r_EventID row) (r_RecordedAt row)"
| "after_insert (Inl ErrNoRows) = Reading"
| "after_insert (Inl e) = Failed e"

fun after_read :: "db_error + AuditEvent \<Rightarrow> writer" where
  "after_read (Inr ev) = Done (EventID ev) (RecordedAt ev)"
| "after_read (Inl e) = Failed e"

text \<open>The next statement of writer \<open>i\<close>, whose event has the parameters \<open>ps i\<close>.\<close>

definition move :: "(nat \<Rightarrow> InsertEventParams) \<Rightarrow> nat \<Rightarrow> pg_env \<Rightarrow> writers \<Rightarrow> writers" where
  "move ps i env s =
    (case pc s i of
       Start \<Rightarrow> (case InsertEvent env (ps i) (shared s) of
           (r, st) \<Rightarrow> \<lparr>shared = st, pc = (pc s)(i := after_insert r)\<rparr>)
     | Reading \<Rightarrow> s\<lparr>pc := (pc s)(i := after_read (GetEventByEventID env (p_EventID (ps i)) (shared s)))\<rparr>
     | Done k t \<Rightarrow> s
     | Failed e \<Rightarrow> s\<lparr>pc := (pc s)(i := Start)\<rparr>)"

definition moves :: "(nat \<Rightarrow> InsertEventParams) \<Rightarrow> (nat \<times> pg_env) list \<Rightarrow> writers \<Rightarrow> writers" where
  "moves ps xs s = fold (\<lambda>(i, env). move ps i env) xs s"

text \<open>The states of writers that all start on a store the program can reach.\<close>

inductive writers_reach :: "(nat \<Rightarrow> InsertEventParams) \<Rightarrow> writers \<Rightarrow> bool" for ps where
  start: "audit_reaches st \<Longrightarrow> writers_reach ps \<lparr>shared = st, pc = \<lambda>_. Start\<rparr>"
| move: "writers_reach ps s \<Longrightarrow> writers_reach ps (move ps i env s)"

lemma moves_simps [simp]:
  "moves ps [] s = s" "moves ps ((i, env) # xs) s = moves ps xs (move ps i env s)"
  by (simp_all add: moves_def)

lemma moves_append [simp]: "moves ps (xs @ ys) s = moves ps ys (moves ps xs s)"
  by (simp add: moves_def)

lemma writers_reach_moves: "writers_reach ps s \<Longrightarrow> writers_reach ps (moves ps xs s)"
proof (induction xs arbitrary: s)
  case (Cons x xs)
  then show ?case by (cases x) (simp add: writers_reach.move)
qed simp

section \<open>The invariant\<close>

text \<open>
  A writer that is reading has its event in the store; one that is done reports the stored
  event; none has failed for want of the event.
\<close>

definition writer_ok :: "store \<Rightarrow> uuid \<Rightarrow> writer \<Rightarrow> bool" where
  "writer_ok st k w = (case w of
     Start \<Rightarrow> True
   | Reading \<Rightarrow> event_map st k \<noteq> None
   | Done k' t \<Rightarrow> k' = k \<and> map_option RecordedAt (event_map st k) = Some t
   | Failed e \<Rightarrow> e \<noteq> ErrNoRows)"

lemma writer_ok_later: "writer_ok st k w \<Longrightarrow> writer_ok (snd (InsertEvent env p st)) k w"
  using audit.ins_keeps [of st k _ env p] by (auto simp: writer_ok_def split: writer.splits)

lemma InsertEvent_duplicate:
  assumes "fst (InsertEvent env p st) = Inl ErrNoRows"
  shows "event_map (snd (InsertEvent env p st)) (p_EventID p) \<noteq> None"
proof -
  have "fst (exec_insert env p st) = Inl ErrNoRows"
    using assms by (simp add: InsertEvent_def split: link.splits)
  then obtain v where "event_map st (p_EventID p) = Some v"
    by (auto simp: exec_insert_answer split: if_splits sum.splits option.splits)
  then show ?thesis using audit.ins_keeps by fastforce
qed

lemma after_insert_ok:
  "writer_ok (snd (InsertEvent env p st)) (p_EventID p) (after_insert (fst (InsertEvent env p st)))"
proof (cases "fst (InsertEvent env p st)" rule: after_insert.cases)
  case (1 row)
  then show ?thesis
    using audit.ins_success [OF 1] event_map_EventID by (fastforce simp: writer_ok_def)
next
  case 2
  then show ?thesis using InsertEvent_duplicate [OF 2] by (simp add: writer_ok_def)
qed (simp_all add: writer_ok_def)

lemma after_read_ok:
  "event_map st k \<noteq> None \<Longrightarrow> writer_ok st k (after_read (GetEventByEventID env k st))"
  using event_map_EventID [of st k]
  by (cases "link env") (auto simp: GetEventByEventID_def event_map_def [symmetric] writer_ok_def)

definition writers_inv :: "(nat \<Rightarrow> InsertEventParams) \<Rightarrow> writers \<Rightarrow> bool" where
  "writers_inv ps s \<longleftrightarrow> audit_reaches (shared s) \<and> (\<forall>i. writer_ok (shared s) (p_EventID (ps i)) (pc s i))"

lemma move_inv:
  assumes "writers_inv ps s"
  shows "writers_inv ps (move ps i env s)"
proof -
  have ok: "writer_ok (shared s) (p_EventID (ps j)) (pc s j)" for j
    using assms by (simp add: writers_inv_def)
  have reach: "audit_reaches (shared s)" using assms by (simp add: writers_inv_def)
  show ?thesis
  proof (cases "pc s i")
    case Start
    obtain r st where ins: "InsertEvent env (ps i) (shared s) = (r, st)" by (metis surj_pair)
    have st: "audit_reaches st" using audit_reaches.step [OF reach audit_step.insert, of env "ps i"] ins by simp
    have "writer_ok st (p_EventID (ps i)) (after_insert r)" using after_insert_ok [of env "ps i" "shared s"] ins by simp
    moreover have "writer_ok st (p_EventID (ps j)) (pc s j)" for j
      using writer_ok_later [OF ok, of env "ps i"] ins by simp
    ultimately show ?thesis using st by (simp add: move_def Start ins writers_inv_def)
  next
    case Reading
    then have "event_map (shared s) (p_EventID (ps i)) \<noteq> None" using ok [of i] by (simp add: writer_ok_def)
    note read = after_read_ok [OF this, of env]
    show ?thesis using read ok reach by (simp add: move_def Reading writers_inv_def)
  next
    case (Done k t)
    then show ?thesis using assms by (simp add: move_def)
  next
    case (Failed e)
    have "writer_ok st k Start" for st k by (simp add: writer_ok_def)
    then show ?thesis using ok reach by (simp add: move_def Failed writers_inv_def)
  qed
qed

lemma writers_reach_inv: "writers_reach ps s \<Longrightarrow> writers_inv ps s"
proof (induction rule: writers_reach.induct)
  case (start st)
  then show ?case by (simp add: writers_inv_def writer_ok_def)
qed (rule move_inv)

lemma writers_reach_ok: "writers_reach ps s \<Longrightarrow> writer_ok (shared s) (p_EventID (ps i)) (pc s i)"
  using writers_reach_inv [of ps s] by (simp add: writers_inv_def)

section \<open>Other writers' moves\<close>

lemma move_pc_other: "j \<noteq> i \<Longrightarrow> pc (move ps j env s) i = pc s i"
  by (simp add: move_def split: writer.split prod.split)

lemma moves_pc_other: "list_all (\<lambda>x. fst x \<noteq> i) xs \<Longrightarrow> pc (moves ps xs s) i = pc s i"
  by (induction xs arbitrary: s) (auto simp: move_pc_other)

text \<open>An accepted insert over a working connection stores its event or finds it there.\<close>

lemma accepted_insert:
  assumes "link env = LinkOk" and "next_id st \<le> max_bigint" and "build_row env (next_id st) p = Inr r"
  shows "fst (InsertEvent env p st) = Inl ErrNoRows \<or> (\<exists>row. fst (InsertEvent env p st) = Inr row)"
  using assms by (cases "event_map st (p_EventID p)") (simp_all add: InsertEvent_def exec_insert_answer)

section \<open>Properties\<close>

text \<open>
  C6: Writers of the same event agree: however the statements of any number of writers
  interleave, whatever connections fail and whoever starts again, two writers that are done
  with the same event id report the same id and the same \<open>recorded_at\<close>, the store has exactly
  one row for it, with that \<open>recorded_at\<close>, and no writer ever fails because the
  event it was told to read is missing.
\<close>

theorem concurrent_writers_agree:
  assumes "writers_reach ps s" and "pc s i = Done k t" and "pc s j = Done k' t'"
    and "p_EventID (ps i) = p_EventID (ps j)"
  shows "k' = k \<and> t' = t \<and> map RecordedAt (filter (\<lambda>r. EventID r = k) (rows (shared s))) = [t]
    \<and> pc s l \<noteq> Failed ErrNoRows"
proof -
  note ok = writers_reach_ok [OF assms(1)]
  obtain ev where ev: "event_map (shared s) k = Some ev" "RecordedAt ev = t" "k = p_EventID (ps i)"
    using ok [of i] assms(2) by (auto simp: writer_ok_def)
  have "distinct (map EventID (rows (shared s)))"
    using audit_reaches_inv [of "shared s"] writers_reach_inv [OF assms(1)] by (simp add: writers_inv_def store_inv_def)
  moreover have "ev \<in> set (rows (shared s))" "EventID ev = k"
    using ev(1) by (auto simp: event_map_def find_Some_iff)
  ultimately have "filter (\<lambda>r. EventID r = k) (rows (shared s)) = [ev]"
    using filter_unique [of EventID "rows (shared s)" ev] by simp
  moreover have "pc s l \<noteq> Failed ErrNoRows" using ok [of l] by (auto simp: writer_ok_def)
  ultimately show ?thesis using ok [of j] assms(3,4) ev by (simp add: writer_ok_def)
qed

text \<open>Two writers of event 4; the second one's first answer is lost and it starts again.\<close>

definition two_writers :: "nat \<Rightarrow> InsertEventParams" where
  "two_writers i = sample_event 4 (if i = 0 then 9 else 8)"

lemma two_writers_key [simp]: "p_EventID (two_writers i) = 4"
  by (simp add: two_writers_def)

definition fresh_writers :: writers where
  "fresh_writers = \<lparr>shared = empty_store, pc = \<lambda>_. Start\<rparr>"

definition racing :: writers where
  "racing = moves two_writers
     [(1, sample_env 10 (LostAfter ''reset'')), (0, sample_env 11 LinkOk), (1, sample_env 12 LinkOk),
      (0, sample_env 13 LinkOk), (1, sample_env 14 LinkOk), (1, sample_env 15 LinkOk)] fresh_writers"

lemma fresh_reach: "writers_reach ps fresh_writers"
  unfolding fresh_writers_def by (intro writers_reach.start audit_reaches.start)

lemma racing_is: "pc racing 0 = Done 4 10" "pc racing 1 = Done 4 10"
  by (simp_all add: racing_def fresh_writers_def two_writers_def move_def InsertEvent_def exec_insert_def
      sample_row_accepted empty_store_def max_bigint_def has_event_def GetEventByEventID_def)

theorem concurrent_writers_agree_witness:
  "map RecordedAt (filter (\<lambda>r. EventID r = 4) (rows (shared racing))) = [10]"
proof -
  have reach: "writers_reach two_writers racing"
    unfolding racing_def by (rule writers_reach_moves [OF fresh_reach])
  have "p_EventID (two_writers 0) = p_EventID (two_writers 1)" by simp
  from concurrent_writers_agree [OF reach racing_is this] show ?thesis by simp
qed

text \<open>
  C25: A writer finishes in two statements: when its row is accepted and its own two statements
  find the connection working, it is done after them, whatever statements other writers run
  in between, and what it reports is stored.
\<close>

theorem concurrent_writer_finishes:
  assumes "writers_reach ps s" and "pc s i = Start"
    and "next_id (shared s) \<le> max_bigint" and "build_row env1 (next_id (shared s)) (ps i) = Inr r"
    and "link env1 = LinkOk" and "link env2 = LinkOk" and "list_all (\<lambda>x. fst x \<noteq> i) xs"
  shows "\<exists>t. pc (moves ps ((i, env1) # xs @ [(i, env2)]) s) i = Done (p_EventID (ps i)) t
    \<and> map_option RecordedAt (event_map (shared (moves ps ((i, env1) # xs @ [(i, env2)]) s)) (p_EventID (ps i)))
        = Some t"
proof -
  let ?s1 = "move ps i env1 s" and ?k = "p_EventID (ps i)"
  let ?s2 = "moves ps xs ?s1" and ?s3 = "move ps i env2 (moves ps xs (move ps i env1 s))"
  have s3: "writers_reach ps ?s3" "writers_reach ps ?s2"
    using assms(1) by (auto intro: writers_reach.move writers_reach_moves)
  have "pc ?s1 i = Reading \<or> (\<exists>k t. pc ?s1 i = Done k t)"
    using accepted_insert [OF assms(5,3,4)] assms(2)
    by (cases "InsertEvent env1 (ps i) (shared s)") (auto simp: move_def)
  then consider "pc ?s2 i = Reading" | k t where "pc ?s2 i = Done k t"
    using moves_pc_other [OF assms(7), of ps ?s1] by auto
  then have "\<exists>k t. pc ?s3 i = Done k t"
  proof cases
    case 1
    then obtain ev where "event_map (shared ?s2) ?k = Some ev"
      using writers_reach_ok [OF s3(2), of i] by (auto simp: writer_ok_def)
    then show ?thesis using 1 assms(6) by (simp add: move_def GetEventByEventID_ok)
  qed (simp add: move_def)
  then show ?thesis using writers_reach_ok [OF s3(1), of i] by (auto simp: writer_ok_def)
qed

theorem concurrent_writer_finishes_witness:
  "\<exists>t. pc (moves two_writers [(0, sample_env 10 LinkOk), (1, sample_env 11 LinkOk), (0, sample_env 12 LinkOk)]
      fresh_writers) 0 = Done 4 t"
proof -
  note reach = fresh_reach [of two_writers]
  have s: "pc fresh_writers 0 = Start" "next_id (shared fresh_writers) \<le> max_bigint"
    "build_row (sample_env 10 LinkOk) (next_id (shared fresh_writers)) (two_writers 0)
      = Inr (the_row (next_id (shared fresh_writers)) 10 4 9)"
    by (simp_all add: fresh_writers_def empty_store_def max_bigint_def two_writers_def sample_row_accepted)
  have "list_all (\<lambda>x. fst x \<noteq> 0) [(1 :: nat, sample_env 11 LinkOk)]" by simp
  from concurrent_writer_finishes [OF reach s sample_link(1) sample_link(1) [of 12 LinkOk] this]
  show ?thesis by auto
qed

end
