(* ===== verification/Audit_Queries.thy ===== *)
theory Audit_Queries
  imports Sql_Queries Audit_Concurrent
begin

text \<open>
  \<open>modules/audit/src/infra/database/db/db.go\<close> and \<open>querier.go\<close>: the queries of the event
  store bound to a handle, and what follows when they run in the transactor's
  transactions.  The environment of each statement is an argument, as in Audit_Store.
\<close>

section \<open>\<open>Queries\<close>\<close>

record audit_Queries =
  audit_db :: DBTX

definition audit_New :: "DBTX \<Rightarrow> audit_Queries" where
  "audit_New db = \<lparr>audit_db = db\<rparr>"

definition audit_WithTx :: "audit_Queries \<Rightarrow> nat \<Rightarrow> audit_Queries" where
  "audit_WithTx q tx = \<lparr>audit_db = OnTx tx\<rparr>"

type_synonym ('a, 'r) audit_query = "pg_env \<Rightarrow> 'a \<Rightarrow> store sqldb \<Rightarrow> (go_error + (db_error + 'r)) \<times> store sqldb"

text \<open>The interface \<open>Querier\<close>, and \<open>Queries\<close> as one (\<open>scan\<close> is \<open>rows.Scan\<close>).\<close>

record audit_Querier =
  q_GetEventByEventID :: "(uuid, AuditEvent) audit_query"
  q_InsertEvent :: "(InsertEventParams, InsertEventRow) audit_query"
  q_ListEventsByTimeRange :: "(ListEventsByTimeRangeParams, AuditEvent list) audit_query"

text \<open>
  Which answers mean that the transaction is lost: those of the server and those of a broken
  connection, but not \<open>sql.ErrNoRows\<close>, and not an error of \<open>rows.Scan\<close>.
\<close>

definition db_refused :: "db_error + 'r \<Rightarrow> bool" where
  "db_refused r = (case r of Inl ErrNoRows \<Rightarrow> False | Inl _ \<Rightarrow> True | Inr _ \<Rightarrow> False)"

definition list_refused :: "pg_env \<Rightarrow> ListEventsByTimeRangeParams \<Rightarrow> store \<Rightarrow> bool" where
  "list_refused env arg st \<longleftrightarrow> link env \<noteq> LinkOk \<or>
    (case exec_list env arg st of
       Inl _ \<Rightarrow> True
     | Inr rs \<Rightarrow> close_err (deliver env rs) \<noteq> None \<or> iter_err (deliver env rs) \<noteq> None)"

definition audit_Queries_Querier :: "(AuditEvent \<Rightarrow> db_error + AuditEvent) \<Rightarrow> audit_Queries \<Rightarrow> audit_Querier" where
  "audit_Queries_Querier scan q =
    \<lparr>q_GetEventByEventID = (\<lambda>env k. run_stmt db_refused (audit_db q) (\<lambda>st. (GetEventByEventID env k st, st))),
     q_InsertEvent = (\<lambda>env arg. run_stmt db_refused (audit_db q) (InsertEvent env arg)),
     q_ListEventsByTimeRange = (\<lambda>env arg db.
       case run_stmt fst (audit_db q)
              (\<lambda>st. ((list_refused env arg st, ListEventsByTimeRange env scan arg st), st)) db of
         (Inl err, db1) \<Rightarrow> (Inl err, db1)
       | (Inr (_, r), db1) \<Rightarrow> (Inr r, db1))\<rparr>"

lemma db_refused_simps [simp]:
  "\<not> db_refused (Inr r)" "db_refused (Inl e) \<longleftrightarrow> e \<noteq> ErrNoRows"
  by (simp_all add: db_refused_def split: db_error.split)

section \<open>A batch of events\<close>

text \<open>
  The repository pattern the transactor documents, with the queries of this package: bind
  to the active transaction, if any, and insert event by event up to the first error.
  \<open>as_error\<close> turns a database error into the error the unit returns.
\<close>

definition audit_repo :: "ctx \<Rightarrow> audit_Queries" where
  "audit_repo ctx =
    (let q = audit_New Pool in case Tx ctx of None \<Rightarrow> q | Some tx \<Rightarrow> audit_New (OnTx tx))"

fun insert_all :: "(db_error \<Rightarrow> go_error) \<Rightarrow> (pg_env \<times> InsertEventParams) list \<Rightarrow> store txfn" where
  "insert_all as_error [] ctx db = (Ret None, db)"
| "insert_all as_error ((env, p) # ps) ctx db =
    (case q_InsertEvent (audit_Queries_Querier Inr (audit_repo ctx)) env p db of
       (Inl err, db1) \<Rightarrow> (Ret (Some err), db1)
     | (Inr (Inl err), db1) \<Rightarrow> (Ret (Some (as_error err)), db1)
     | (Inr (Inr row), db1) \<Rightarrow> insert_all as_error ps ctx db1)"

definition insert_failed :: "(db_error \<Rightarrow> go_error) \<Rightarrow> db_error + InsertEventRow \<Rightarrow> go_error option" where
  "insert_failed as_error r = (case r of Inl e \<Rightarrow> Some (as_error e) | Inr _ \<Rightarrow> None)"

lemma insert_failed_simps [simp]:
  "insert_failed as_error (Inl e) = Some (as_error e)" "insert_failed as_error (Inr r) = None"
  by (simp_all add: insert_failed_def)

abbreviation insert_stmts :: "(pg_env \<times> InsertEventParams) list \<Rightarrow> (store \<Rightarrow> (db_error + InsertEventRow) \<times> store) list" where
  "insert_stmts ps \<equiv> map (\<lambda>(env, p). InsertEvent env p) ps"

lemma insert_failed_refused: "db_refused r \<Longrightarrow> insert_failed as_error r \<noteq> None"
  by (cases r) simp_all

lemma audit_repo_active: "audit_db (audit_repo ctx) = active ctx"
  by (simp add: audit_repo_def active_def audit_New_def Let_def split: option.split)

lemma insert_all_is_unit:
  "insert_all as_error ps ctx db = unit_fn db_refused (insert_failed as_error) (insert_stmts ps) ctx db"
proof (induction ps arbitrary: db)
  case (Cons x ps)
  obtain env p where x: "x = (env, p)" by (cases x)
  show ?case using Cons.IH
    by (cases "run_stmt db_refused (active ctx) (InsertEvent env p) db")
      (auto simp: x audit_repo_active audit_Queries_Querier_def unit_fn_def insert_failed_def split: sum.split)
qed (simp add: unit_fn_def)

text \<open>A caller that ignores what the inserts answer, and reports success.\<close>

fun insert_careless :: "(pg_env \<times> InsertEventParams) list \<Rightarrow> store txfn" where
  "insert_careless [] ctx db = (Ret None, db)"
| "insert_careless ((env, p) # ps) ctx db =
    insert_careless ps ctx (snd (q_InsertEvent (audit_Queries_Querier Inr (audit_repo ctx)) env p db))"

lemma insert_careless_is_unit: "insert_careless ps ctx db = careless_fn db_refused (insert_stmts ps) ctx db"
proof (induction ps arbitrary: db)
  case (Cons x ps)
  obtain env p where x: "x = (env, p)" by (cases x)
  show ?case using Cons.IH by (simp add: x audit_repo_active audit_Queries_Querier_def careless_fn_def)
qed (simp add: careless_fn_def)

text \<open>What a batch that goes through leaves in the store.\<close>

lemma seq_on_inserts_keep:
  "event_map s k = Some v \<Longrightarrow> event_map (snd (seq_on failed (insert_stmts ps) s)) k = Some v"
proof (induction ps arbitrary: s)
  case (Cons x ps)
  obtain env p where x: "x = (env, p)" by (cases x)
  have "event_map (snd (InsertEvent env p s)) k = Some v" using Cons.prems by (rule audit.ins_keeps)
  then show ?case using Cons.IH x by (simp split: option.split)
qed simp

lemma InsertEvent_fresh:
  "fst (InsertEvent env p s) = Inr row \<Longrightarrow> event_map s (p_EventID p) = None"
  using exec_insert_success [of env p s row] by (auto simp: InsertEvent_def split: link.splits)

lemma seq_on_inserts_all:
  assumes "fst (seq_on (insert_failed as_error) (insert_stmts ps) s) = None"
  shows "distinct (map (\<lambda>x. p_EventID (snd x)) ps)
    \<and> list_all (\<lambda>x. event_map s (p_EventID (snd x)) = None
      \<and> event_map (snd (seq_on (insert_failed as_error) (insert_stmts ps) s)) (p_EventID (snd x)) \<noteq> None) ps"
  using assms
proof (induction ps arbitrary: s)
  case (Cons x ps)
  obtain env p where x: "x = (env, p)" by (cases x)
  let ?s1 = "snd (InsertEvent env p s)"
  obtain row where row: "fst (InsertEvent env p s) = Inr row"
    and tail: "fst (seq_on (insert_failed as_error) (insert_stmts ps) ?s1) = None"
    using Cons.prems x by (cases "fst (InsertEvent env p s)") auto
  obtain v where v: "event_map ?s1 (p_EventID p) = Some v" using audit.ins_success [OF row] by blast
  have free: "event_map s (p_EventID p) = None"
    using row by (rule InsertEvent_fresh)
  have later: "event_map s k = None" if "event_map ?s1 k = None" for k
    using that audit.ins_keeps [of s k _ env p] by (cases "event_map s k") simp_all
  have seq: "snd (seq_on (insert_failed as_error) (insert_stmts (x # ps)) s)
      = snd (seq_on (insert_failed as_error) (insert_stmts ps) ?s1)"
    using row x by simp
  show ?case
    using Cons.IH [OF tail] v free later seq_on_inserts_keep [OF v, of "insert_failed as_error" ps]
    unfolding seq by (fastforce simp: x list_all_iff)
qed simp

lemma seq_on_inserts_prefix:
  "prefix (rows s) (rows (snd (seq_on failed (insert_stmts ps) s)))"
proof (induction ps arbitrary: s)
  case (Cons x ps)
  obtain env p where x: "x = (env, p)" by (cases x)
  show ?case using Cons.IH InsertEvent_prefix [of s env p]
    by (auto simp: x split: option.split intro: prefix_order.trans)
qed simp

lemma each_on_inserts_keep:
  "event_map s k = Some v \<Longrightarrow> event_map (each_on (insert_stmts ps) s) k = Some v"
proof (induction ps arbitrary: s)
  case (Cons x ps)
  obtain env p where x: "x = (env, p)" by (cases x)
  have "event_map (snd (InsertEvent env p s)) k = Some v" using Cons.prems by (rule audit.ins_keeps)
  then show ?case using Cons.IH x by simp
qed simp

lemma InsertEvent_not_refused:
  assumes "\<not> db_refused (fst (InsertEvent env p s))"
  shows "\<exists>v. event_map (snd (InsertEvent env p s)) (p_EventID p) = Some v"
proof (cases "fst (InsertEvent env p s)")
  case (Inl e)
  then show ?thesis using assms InsertEvent_duplicate [of env p s] by simp
next
  case (Inr row)
  then show ?thesis using audit.ins_success [OF Inr] by blast
qed

lemma each_on_inserts_all:
  "\<not> one_refused db_refused (insert_stmts ps) s \<Longrightarrow>
     list_all (\<lambda>x. event_map (each_on (insert_stmts ps) s) (p_EventID (snd x)) \<noteq> None) ps"
proof (induction ps arbitrary: s)
  case (Cons x ps)
  obtain env p where x: "x = (env, p)" by (cases x)
  obtain v where "event_map (snd (InsertEvent env p s)) (p_EventID p) = Some v"
    using InsertEvent_not_refused [of env p s] Cons.prems x by auto
  then show ?case
    using Cons.IH [of "snd (InsertEvent env p s)"] Cons.prems x each_on_inserts_keep by simp
qed simp

section \<open>Properties\<close>

text \<open>
  C5: A batch of events written in one \<open>WithinTx\<close> is all or nothing: it returns nil exactly
  when the transaction began, every insert stored a new event and the commit succeeded;
  then the store is that of the inserts one after the other, all event ids were new and
  distinct and all are stored; when it returns an error, the rows are unchanged, unless only
  the answer of the commit was lost, and then the store has the whole batch.
\<close>

theorem batch_insert_atomic:
  "(fst (WithinTx (insert_all as_error ps) ctx db) = Ret None \<longleftrightarrow>
      begin_fault db (next_tx db) = None \<and> commit_fault db (next_tx db) = None
      \<and> fst (seq_on (insert_failed as_error) (insert_stmts ps) (committed db)) = None)
   \<and> (if begin_fault db (next_tx db) = None
          \<and> fst (seq_on (insert_failed as_error) (insert_stmts ps) (committed db)) = None
          \<and> (case commit_fault db (next_tx db) of None \<Rightarrow> True | Some (_, applied) \<Rightarrow> applied)
      then committed (snd (WithinTx (insert_all as_error ps) ctx db))
          = snd (seq_on (insert_failed as_error) (insert_stmts ps) (committed db))
      else rows (committed (snd (WithinTx (insert_all as_error ps) ctx db))) = rows (committed db))
   \<and> (case fst (seq_on (insert_failed as_error) (insert_stmts ps) (committed db)) of
        Some _ \<Rightarrow> True
      | None \<Rightarrow> distinct (map (\<lambda>x. p_EventID (snd x)) ps)
          \<and> list_all (\<lambda>x. event_map (committed db) (p_EventID (snd x)) = None
            \<and> event_map (snd (seq_on (insert_failed as_error) (insert_stmts ps) (committed db)))
                (p_EventID (snd x)) \<noteq> None) ps)"
proof -
  have u: "insert_all as_error ps = unit_fn db_refused (insert_failed as_error) (insert_stmts ps)"
    by (intro ext) (rule insert_all_is_unit)
  show ?thesis
    unfolding u using seq_on_inserts_all [of as_error ps "committed db"]
    by (simp add: WithinTx_unit insert_failed_refused split: option.split)
qed

text \<open>
  C27: Errors that a unit of work swallows do not become a partial commit: when a caller
  ignores the answers of its inserts and reports success, \<open>WithinTx\<close> returns nil exactly when
  the transaction began, no insert was refused (a duplicate is not a refusal) and the commit
  succeeded; then every event of the batch is in the store.  If an insert was refused, or
  the transaction was not committed, the rows are unchanged.
\<close>

theorem swallowed_errors_never_commit:
  "(fst (WithinTx (insert_careless ps) ctx db) = Ret None \<longleftrightarrow>
      begin_fault db (next_tx db) = None \<and> commit_fault db (next_tx db) = None
      \<and> \<not> one_refused db_refused (insert_stmts ps) (committed db))
   \<and> (if begin_fault db (next_tx db) = None
          \<and> \<not> one_refused db_refused (insert_stmts ps) (committed db)
          \<and> (case commit_fault db (next_tx db) of None \<Rightarrow> True | Some (_, applied) \<Rightarrow> applied)
      then committed (snd (WithinTx (insert_careless ps) ctx db)) = each_on (insert_stmts ps) (committed db)
        \<and> list_all (\<lambda>x. event_map (committed (snd (WithinTx (insert_careless ps) ctx db)))
            (p_EventID (snd x)) \<noteq> None) ps
      else rows (committed (snd (WithinTx (insert_careless ps) ctx db))) = rows (committed db))"
proof -
  have u: "insert_careless ps = careless_fn db_refused (insert_stmts ps)"
    by (intro ext) (rule insert_careless_is_unit)
  show ?thesis
    unfolding u WithinTx_careless using each_on_inserts_all [of ps "committed db"] by auto
qed

text \<open>Calls of the queries, whatever they answer.\<close>

datatype audit_call =
    CallInsert pg_env InsertEventParams
  | CallGet pg_env uuid
  | CallList pg_env ListEventsByTimeRangeParams

fun run_call :: "audit_Querier \<Rightarrow> audit_call \<Rightarrow> store sqldb \<Rightarrow> store sqldb" where
  "run_call q (CallInsert env p) db = snd (q_InsertEvent q env p db)"
| "run_call q (CallGet env k) db = snd (q_GetEventByEventID q env k db)"
| "run_call q (CallList env arg) db = snd (q_ListEventsByTimeRange q env arg db)"

abbreviation on_pool :: "(AuditEvent \<Rightarrow> db_error + AuditEvent) \<Rightarrow> audit_Querier" where
  "on_pool scan \<equiv> audit_Queries_Querier scan (audit_New Pool)"

abbreviation on_tx :: "(AuditEvent \<Rightarrow> db_error + AuditEvent) \<Rightarrow> audit_Queries \<Rightarrow> nat \<Rightarrow> audit_Querier" where
  "on_tx scan q t \<equiv> audit_Queries_Querier scan (audit_WithTx q t)"

lemma run_call_committed: "committed (run_call (on_tx scan q t) c db) = committed db"
proof (cases c)
  case (CallList env arg)
  then show ?thesis
    using run_stmt_tx_frame(1) [of fst t "\<lambda>st. ((list_refused env arg st, ListEventsByTimeRange env scan arg st), st)" db]
    by (auto simp: audit_Queries_Querier_def audit_WithTx_def split: prod.split sum.split)
qed (simp_all add: audit_Queries_Querier_def audit_WithTx_def run_stmt_tx_frame(1))

lemma run_calls_committed: "committed (fold (run_call (on_tx scan q t)) cs db) = committed db"
  by (induction cs arbitrary: db) (simp_all add: run_call_committed)

text \<open>What the queries on the pool answer depends on the committed state alone.\<close>

lemma pool_answers:
  "fst (q_GetEventByEventID (on_pool scan) env k db) = Inr (GetEventByEventID env k (committed db))"
  "fst (q_ListEventsByTimeRange (on_pool scan) env arg db) = Inr (ListEventsByTimeRange env scan arg (committed db))"
  by (simp_all add: audit_Queries_Querier_def audit_New_def run_stmt_def)

lemma tx_answers:
  "tx_usable t db \<Longrightarrow> fst (q_GetEventByEventID (on_tx scan q t) env k db) = Inr (GetEventByEventID env k (tx_view t db))"
  "tx_usable t db \<Longrightarrow> fst (q_ListEventsByTimeRange (on_tx scan q t) env arg db)
     = Inr (ListEventsByTimeRange env scan arg (tx_view t db))"
  by (simp_all add: audit_Queries_Querier_def audit_WithTx_def run_stmt_def tx_usable_def)

text \<open>An insert that succeeds in a transaction is seen there.\<close>

lemma tx_insert_seen:
  assumes "tx_usable t db" and "q_InsertEvent (on_tx scan q t) env p db = (Inr (Inr row), db1)"
  shows "tx_usable t db1 \<and> (\<exists>ev. event_map (tx_view t db1) (p_EventID p) = Some ev
    \<and> row = \<lparr>r_ID = ID ev, r_EventID = EventID ev, r_RecordedAt = RecordedAt ev\<rparr>)"
proof -
  have ins: "run_stmt db_refused (OnTx t) (InsertEvent env p) db = (Inr (Inr row), db1)"
    using assms(2) by (simp add: audit_Queries_Querier_def audit_WithTx_def)
  have row: "fst (InsertEvent env p (tx_view t db)) = Inr row"
    using in_tx.run_answer [of t db db_refused "InsertEvent env p", OF assms(1)] ins by simp
  then show ?thesis
    using in_tx.run_view [of t db db_refused "InsertEvent env p", OF assms(1)]
      in_tx.run_live [of t db db_refused "InsertEvent env p", OF assms(1)] ins audit.ins_success [OF row] by simp
qed

text \<open>
  C26: Isolation: whatever inserts, reads and listings run through the queries of a
  transaction, a read and a listing on the pool answer what they answered before, and still
  do when the transaction is rolled back or its context ends.  In the transaction an event
  just inserted is read back, with the values of the answer; and once the transaction is
  committed, a read and a listing on the pool answer what the transaction's own answered.
\<close>

theorem tx_queries_isolated:
  assumes "db1 = fold (run_call (on_tx scan q t)) cs db"
    and "db2 \<in> {db1, snd (Rollback t db1), context_done t db1}"
  shows "fst (q_GetEventByEventID (on_pool scan) env k db2) = fst (q_GetEventByEventID (on_pool scan) env k db)
    \<and> fst (q_ListEventsByTimeRange (on_pool scan) env arg db2) = fst (q_ListEventsByTimeRange (on_pool scan) env arg db)
    \<and> (tx_usable t db1 \<longrightarrow> link env = LinkOk \<longrightarrow>
        (case q_InsertEvent (on_tx scan q t) env1 p db1 of
           (Inr (Inr row), db3) \<Rightarrow> (\<exists>ev. fst (q_GetEventByEventID (on_tx scan q t) env (p_EventID p) db3) = Inr (Inr ev)
             \<and> row = \<lparr>r_ID = ID ev, r_EventID = EventID ev, r_RecordedAt = RecordedAt ev\<rparr>)
         | _ \<Rightarrow> True))
    \<and> (tx_usable t db1 \<longrightarrow> fst (Commit t db1) = None \<longrightarrow>
        fst (q_GetEventByEventID (on_pool scan) env k (snd (Commit t db1))) = fst (q_GetEventByEventID (on_tx scan q t) env k db1)
        \<and> fst (q_ListEventsByTimeRange (on_pool scan) env arg (snd (Commit t db1)))
            = fst (q_ListEventsByTimeRange (on_tx scan q t) env arg db1))"
proof -
  have "committed db2 = committed db"
    using assms run_calls_committed by (auto simp: committed_Rollback go_frame)
  moreover have "committed (snd (Commit t db1)) = tx_view t db1" if "tx_usable t db1" "fst (Commit t db1) = None"
    using that by (simp add: committed_Commit Commit_answer)
  ultimately show ?thesis
    using tx_insert_seen [of t db1 scan q env1 p]
    by (auto simp: pool_answers tx_answers GetEventByEventID_ok split: prod.split sum.split)
qed

text \<open>A database over the sample store, and one open transaction.\<close>

definition sample_db :: "store sqldb" where
  "sample_db = \<lparr>committed = sample_store, txs = [0 \<mapsto> \<lparr>status = TxOpen, pending = []\<rparr>], next_tx = 1,
     begin_fault = \<lambda>_. None, commit_fault = \<lambda>_. None, rollback_fault = \<lambda>_. None\<rparr>"

theorem tx_queries_isolated_witness:
  "fst (q_GetEventByEventID (on_pool Inr) (sample_env 30 LinkOk) 9
     (fold (run_call (on_tx Inr (audit_New Pool) 0))
       [CallInsert (sample_env 20 LinkOk) (sample_event 9 8), CallGet (sample_env 21 LinkOk) 9] sample_db))
   = Inr (Inl ErrNoRows)"
proof -
  let ?db1 = "fold (run_call (on_tx Inr (audit_New Pool) 0))
       [CallInsert (sample_env 20 LinkOk) (sample_event 9 8), CallGet (sample_env 21 LinkOk) 9] sample_db"
  have "?db1 \<in> {?db1, snd (Rollback 0 ?db1), context_done 0 ?db1}" by simp
  from tx_queries_isolated [OF refl this, of "sample_env 30 LinkOk" 9]
  have "fst (q_GetEventByEventID (on_pool Inr) (sample_env 30 LinkOk) 9 ?db1)
      = fst (q_GetEventByEventID (on_pool Inr) (sample_env 30 LinkOk) 9 sample_db)" by blast
  then show ?thesis by (simp add: pool_answers sample_db_def GetEventByEventID_def sample_store_eq)
qed

end
