(* ===== verification/Audit_Paging.thy ===== *)
theory Audit_Paging
  imports Audit_Properties
begin

text \<open>
  Paging through the listing of \<open>modules/audit/src/infra/database/db/audit.sql.go\<close>.  The query
  takes a time range and a limit but no row id, so a reader of a long range can only lower
  the upper end: it keeps the rows newer than the last one of a full page and asks again up
  to the instant of that row.  \<open>walk\<close> is that reader; each statement has an environment of
  its own, given by the upper end it asks with, which no two statements share.
  The reader's instants are whole microseconds, as those of the rows it reads are.
\<close>

section \<open>The reader\<close>








section \<open>Facts\<close>







section \<open>Properties\<close>




end
