(* ===== verification/Cache.thy ===== *)
theory Cache
  imports Errors
begin

text \<open>
  \<open>modules/shared/src/utilcache/\<close> (\<open>cache.go\<close>, \<open>client.go\<close>): a cache that prefixes its keys.
  The Redis client is not in the repository; it is a record of the commands the code
  calls, on a state \<open>'w\<close> that stands for the server.  \<open>redis_documented\<close> says what Redis
  documents of them.
\<close>

section \<open>The Redis client\<close>

record redis_options =
  opt_Addr :: string
  opt_Password :: string
  opt_DB :: int

record ('v, 'w) redis_client =
  client_options :: redis_options
  redis_Ping :: "'w \<Rightarrow> go_error option"
  redis_Set :: "string \<Rightarrow> 'v \<Rightarrow> int \<Rightarrow> 'w \<Rightarrow> go_error option \<times> 'w"
  redis_Get :: "string \<Rightarrow> 'w \<Rightarrow> go_error + 'v"
  redis_Del :: "string \<Rightarrow> 'w \<Rightarrow> go_error option \<times> 'w"

definition redis_Nil :: go_error where
  "redis_Nil = Foreign ''redis'' ''redis: nil''"

text \<open>
  A value that was stored is read back under its key, other keys are not touched, a
  deleted key is missing, and deleting a missing key is no error.  Expiry is left out: the
  reads the laws speak of happen before it.
\<close>

definition redis_documented :: "('v, 'w) redis_client \<Rightarrow> bool" where
  "redis_documented r \<longleftrightarrow>
    (\<forall>k v ttl w w1. redis_Set r k v ttl w = (None, w1) \<longrightarrow>
       redis_Get r k w1 = Inr v \<and> (\<forall>k'. k' \<noteq> k \<longrightarrow> redis_Get r k' w1 = redis_Get r k' w))
  \<and> (\<forall>k w w1. redis_Del r k w = (None, w1) \<longrightarrow>
       redis_Get r k w1 = Inl redis_Nil \<and> (\<forall>k'. k' \<noteq> k \<longrightarrow> redis_Get r k' w1 = redis_Get r k' w))"

text \<open>
  \<open>NewClient\<close> pings before it hands the client out.  \<open>dial\<close> is \<open>redis.NewClient\<close>.
\<close>

definition utilcache_NewClient :: "(redis_options \<Rightarrow> ('v, 'w) redis_client) \<Rightarrow> string \<Rightarrow> string \<Rightarrow> 'w
    \<Rightarrow> go_error + ('v, 'w) redis_client" where
  "utilcache_NewClient dial addr pass w =
    (let rds = dial \<lparr>opt_Addr = addr, opt_Password = pass, opt_DB = 0\<rparr> in
     case redis_Ping rds w of
       Some err \<Rightarrow> Inl err
     | None \<Rightarrow> Inr rds)"

section \<open>The cache\<close>

record ('v, 'w) Cache =
  client :: "('v, 'w) redis_client"
  prefix :: string
  ttl :: int

definition NewCache :: "('v, 'w) redis_client \<Rightarrow> string \<Rightarrow> int \<Rightarrow> ('v, 'w) Cache" where
  "NewCache c p t = \<lparr>client = c, prefix = p, ttl = t\<rparr>"

definition makeKey :: "('v, 'w) Cache \<Rightarrow> string \<Rightarrow> string" where
  "makeKey c key = prefix c @ ''-'' @ key"

definition Cache_Set :: "('v, 'w) Cache \<Rightarrow> string \<Rightarrow> 'v \<Rightarrow> 'w \<Rightarrow> go_error option \<times> 'w" where
  "Cache_Set c key v w = redis_Set (client c) (makeKey c key) v (ttl c) w"

text \<open>\<open>Scan(dest)\<close> stores the reply in the destination, or reports why it cannot.\<close>

definition Cache_Get :: "('v \<Rightarrow> go_error + 'd) \<Rightarrow> ('v, 'w) Cache \<Rightarrow> string \<Rightarrow> 'w \<Rightarrow> go_error + 'd" where
  "Cache_Get Scan c key w = sbind (redis_Get (client c) (makeKey c key) w) Scan"

definition Cache_Delete :: "('v, 'w) Cache \<Rightarrow> string \<Rightarrow> 'w \<Rightarrow> go_error option \<times> 'w" where
  "Cache_Delete c key w = redis_Del (client c) (makeKey c key) w"

section \<open>Keys\<close>

lemma makeKey_same_prefix: "prefix a = prefix b \<Longrightarrow> makeKey a k = makeKey b l \<longleftrightarrow> k = l"
  by (simp add: makeKey_def)

lemma makeKey_inject:
  assumes "CHR ''-'' \<notin> set (prefix a)" and "CHR ''-'' \<notin> set (prefix b)"
    and "makeKey a k = makeKey b l"
  shows "prefix a = prefix b \<and> k = l"
  by (rule append_sep_inject [OF assms(1,2)]) (use assms(3) in \<open>simp add: makeKey_def\<close>)

text \<open>
  When two caches can collide: one prefix continues the other past a dash.
\<close>

lemma makeKey_collision_iff:
  "(\<exists>k l. makeKey a k = makeKey b l) \<longleftrightarrow>
     prefix a = prefix b \<or> (\<exists>s. prefix b = prefix a @ ''-'' @ s) \<or> (\<exists>s. prefix a = prefix b @ ''-'' @ s)"
proof
  assume "\<exists>k l. makeKey a k = makeKey b l"
  then obtain k l where e: "prefix a @ CHR ''-'' # k = prefix b @ CHR ''-'' # l"
    by (auto simp: makeKey_def)
  then consider us where "prefix a = prefix b @ us" "us @ CHR ''-'' # k = CHR ''-'' # l"
    | us where "prefix a @ us = prefix b" "CHR ''-'' # k = us @ CHR ''-'' # l"
    by (auto simp: append_eq_append_conv2)
  then show "prefix a = prefix b \<or> (\<exists>s. prefix b = prefix a @ ''-'' @ s)
      \<or> (\<exists>s. prefix a = prefix b @ ''-'' @ s)"
  proof cases
    case (1 us)
    then show ?thesis by (cases us) auto
  next
    case (2 us)
    then show ?thesis by (cases us) (auto dest: sym)
  qed
next
  assume "prefix a = prefix b \<or> (\<exists>s. prefix b = prefix a @ ''-'' @ s)
      \<or> (\<exists>s. prefix a = prefix b @ ''-'' @ s)"
  then consider "prefix a = prefix b" | s where "prefix b = prefix a @ ''-'' @ s"
    | s where "prefix a = prefix b @ ''-'' @ s" by blast
  then show "\<exists>k l. makeKey a k = makeKey b l"
  proof cases
    case 1
    then show ?thesis by (auto simp: makeKey_def)
  next
    case (2 s)
    then have "makeKey a (s @ ''-'' @ l) = makeKey b l" for l by (simp add: makeKey_def)
    then show ?thesis by blast
  next
    case (3 s)
    then have "makeKey a k = makeKey b (s @ ''-'' @ k)" for k by (simp add: makeKey_def)
    then show ?thesis by blast
  qed
qed

section \<open>Laws of the cache\<close>

lemma redis_set_get:
  "redis_documented r \<Longrightarrow> redis_Set r k v t w = (None, w1) \<Longrightarrow>
     redis_Get r k' w1 = (if k' = k then Inr v else redis_Get r k' w)"
  by (simp add: redis_documented_def)

lemma redis_del_get:
  "redis_documented r \<Longrightarrow> redis_Del r k w = (None, w1) \<Longrightarrow>
     redis_Get r k' w1 = (if k' = k then Inl redis_Nil else redis_Get r k' w)"
  by (simp add: redis_documented_def)

section \<open>A Redis that has the documented behaviour\<close>

definition map_redis :: "redis_options \<Rightarrow> ('v, string \<rightharpoonup> 'v) redis_client" where
  "map_redis opts =
    \<lparr>client_options = opts, redis_Ping = (\<lambda>w. None),
     redis_Set = (\<lambda>k v t m. (None, m(k \<mapsto> v))),
     redis_Get = (\<lambda>k m. case m k of Some v \<Rightarrow> Inr v | None \<Rightarrow> Inl redis_Nil),
     redis_Del = (\<lambda>k m. (None, m(k := None)))\<rparr>"

lemma map_redis_documented: "redis_documented (map_redis opts)"
  by (auto simp: redis_documented_def map_redis_def)

section \<open>Properties\<close>

text \<open>
  Caches that share a Redis do not disturb each other when neither prefix contains a
  dash: after a successful \<open>Set\<close> or \<open>Delete\<close> through one, the other reads under every key
  what it read before, and the one that wrote reads back its value or a miss.
\<close>

lemma cache_isolation:
  assumes "redis_documented r" and "client a = r" and "client b = r"
    and "CHR ''-'' \<notin> set (prefix a)" and "CHR ''-'' \<notin> set (prefix b)" and "prefix a \<noteq> prefix b"
    and "Cache_Set a k v w = (None, w1)" and "Cache_Delete a k w1 = (None, w2)"
  shows "Cache_Get Scan b l w1 = Cache_Get Scan b l w \<and> Cache_Get Scan b l w2 = Cache_Get Scan b l w
    \<and> Cache_Get Scan a k w1 = Scan v \<and> Cache_Get Scan a k w2 = Inl redis_Nil"
proof -
  have "makeKey b l \<noteq> makeKey a k" using makeKey_inject [OF assms(4,5), of k l] assms(6) by auto
  then show ?thesis
    using assms(2,3,7,8) redis_set_get [OF assms(1)] redis_del_get [OF assms(1)]
    by (simp add: Cache_Set_def Cache_Delete_def Cache_Get_def)
qed

definition sample_cache :: "string \<Rightarrow> (int, string \<rightharpoonup> int) Cache" where
  "sample_cache p = NewCache (map_redis \<lparr>opt_Addr = ''redis:6379'', opt_Password = [], opt_DB = 0\<rparr>) p 60"

text \<open>
  Keys of two caches can collide exactly when the prefixes are equal or one continues
  the other past a dash: "different prefixes" is not enough for the isolation that the
  package comment promises.
\<close>

lemma cache_key_collision:
  "(\<exists>k l. makeKey a k = makeKey b l) \<longleftrightarrow>
     prefix a = prefix b \<or> (\<exists>s. prefix b = prefix a @ ''-'' @ s) \<or> (\<exists>s. prefix a = prefix b @ ''-'' @ s)"
  by (rule makeKey_collision_iff)

end
