(* ===== verification/Cache_Expiry.thy ===== *)
theory Cache_Expiry
  imports Cache
begin

text \<open>
  The caches of \<open>modules/shared/src/utilcache/cache.go\<close> in time: every entry is stored with the
  cache's \<open>ttl\<close>, and Redis drops it when that has passed.  Redis is described by what it
  holds under each key now and later; the abstract state is a map from prefix and key to
  what is known of the entry.
\<close>

section \<open>Redis in time\<close>

text \<open>
  \<open>wait\<close> lets nanoseconds pass, \<open>up\<close> says whether the server can be reached, \<open>holds\<close> is its
  content.
\<close>

record ('v, 'w) redis_server =
  wait :: "int \<Rightarrow> 'w \<Rightarrow> 'w"
  up :: "'w \<Rightarrow> bool"
  holds :: "string \<Rightarrow> 'w \<Rightarrow> 'v option"

definition millisecond :: int where "millisecond = 1000000"

text \<open>The client sends a time to live in whole milliseconds, and at least one.\<close>

definition lifetime :: "int \<Rightarrow> int" where
  "lifetime t = max millisecond (t div millisecond * millisecond)"

text \<open>
  What Redis and its client document, without eviction: \<open>GET\<close> answers the content; a key
  set without a time to live stays, one set with it is dropped when that has passed, and at
  most a millisecond later; a deleted key is gone; no command touches another key.
\<close>

definition redis_timed :: "('v, 'w) redis_server \<Rightarrow> ('v, 'w) redis_client \<Rightarrow> bool" where
  "redis_timed sv r \<longleftrightarrow>
    (\<forall>k w. up sv w \<longrightarrow> redis_Get r k w = (case holds sv k w of None \<Rightarrow> Inl redis_Nil | Some v \<Rightarrow> Inr v))
  \<and> (\<forall>w. wait sv 0 w = w)
  \<and> (\<forall>a b w. 0 \<le> a \<longrightarrow> 0 \<le> b \<longrightarrow> wait sv a (wait sv b w) = wait sv (a + b) w)
  \<and> (\<forall>k v t w w1 d. 0 \<le> t \<longrightarrow> 0 \<le> d \<longrightarrow> redis_Set r k v t w = (None, w1) \<longrightarrow>
       (t = 0 \<or> d < lifetime t \<longrightarrow> holds sv k (wait sv d w1) = Some v)
       \<and> (0 < t \<and> lifetime t + millisecond \<le> d \<longrightarrow> holds sv k (wait sv d w1) = None))
  \<and> (\<forall>k v t w k' d. k' \<noteq> k \<longrightarrow> 0 \<le> d \<longrightarrow>
       holds sv k' (wait sv d (snd (redis_Set r k v t w))) = holds sv k' (wait sv d w))
  \<and> (\<forall>k w w1 d. 0 \<le> d \<longrightarrow> redis_Del r k w = (None, w1) \<longrightarrow> holds sv k (wait sv d w1) = None)
  \<and> (\<forall>k w k' d. k' \<noteq> k \<longrightarrow> 0 \<le> d \<longrightarrow>
       holds sv k' (wait sv d (snd (redis_Del r k w))) = holds sv k' (wait sv d w))"

section \<open>Entries\<close>

text \<open>What is known of an entry; \<open>Until v left\<close>: it holds \<open>v\<close> for \<open>left\<close> nanoseconds more.\<close>

datatype 'v entry = Missing | Lasting 'v | Until 'v int | Unknown

definition agrees :: "'v entry \<Rightarrow> (int \<Rightarrow> 'v option) \<Rightarrow> bool" where
  "agrees e f \<longleftrightarrow> (case e of
     Missing \<Rightarrow> \<forall>d\<ge>0. f d = None
   | Lasting v \<Rightarrow> \<forall>d\<ge>0. f d = Some v
   | Until v left \<Rightarrow> \<forall>d\<ge>0. (d < left \<longrightarrow> f d = Some v) \<and> (left + millisecond \<le> d \<longrightarrow> f d = None)
   | Unknown \<Rightarrow> True)"

fun later :: "int \<Rightarrow> 'v entry \<Rightarrow> 'v entry" where
  "later d (Until v left) = Until v (left - d)"
| "later d e = e"

lemma agrees_later: "0 \<le> d \<Longrightarrow> agrees e f \<Longrightarrow> agrees (later d e) (\<lambda>x. f (x + d))"
  by (cases e) (auto simp: agrees_def)

lemma agrees_cong: "(\<And>d. 0 \<le> d \<Longrightarrow> f d = g d) \<Longrightarrow> agrees e f = agrees e g"
  by (cases e) (auto simp: agrees_def)

lemmas timed_laws =
  redis_timed_def [THEN iffD1, THEN conjunct1]
  redis_timed_def [THEN iffD1, THEN conjunct2, THEN conjunct1]
  redis_timed_def [THEN iffD1, THEN conjunct2, THEN conjunct2, THEN conjunct1]
  redis_timed_def [THEN iffD1, THEN conjunct2, THEN conjunct2, THEN conjunct2, THEN conjunct1]
  redis_timed_def [THEN iffD1, THEN conjunct2, THEN conjunct2, THEN conjunct2, THEN conjunct2, THEN conjunct1]
  redis_timed_def [THEN iffD1, THEN conjunct2, THEN conjunct2, THEN conjunct2, THEN conjunct2, THEN conjunct2, THEN conjunct1]
  redis_timed_def [THEN iffD1, THEN conjunct2, THEN conjunct2, THEN conjunct2, THEN conjunct2, THEN conjunct2, THEN conjunct2]

text \<open>The laws of the two commands in these terms.\<close>

lemma timed_set:
  assumes "redis_timed sv r" and "redis_Set r k v t w = (None, w1)" and "0 \<le> t"
  shows "agrees (if t = 0 then Lasting v else Until v (lifetime t)) (\<lambda>d. holds sv k (wait sv d w1))"
proof -
  have "(t = 0 \<or> d < lifetime t \<longrightarrow> holds sv k (wait sv d w1) = Some v)
       \<and> (0 < t \<and> lifetime t + millisecond \<le> d \<longrightarrow> holds sv k (wait sv d w1) = None)" if "0 \<le> d" for d
    using timed_laws(4) [OF assms(1), THEN spec [of _ k], THEN spec [of _ v], THEN spec [of _ t], THEN spec [of _ w],
        THEN spec [of _ w1], THEN spec [of _ d]] assms(2,3) that by blast
  then show ?thesis using assms(3) by (simp add: agrees_def)
qed

lemma timed_del:
  "redis_timed sv r \<Longrightarrow> redis_Del r k w = (None, w1) \<Longrightarrow> agrees Missing (\<lambda>d. holds sv k (wait sv d w1))"
  using timed_laws(6) [of sv r] unfolding agrees_def entry.case by blast

lemma timed_other:
  "redis_timed sv r \<Longrightarrow> redis_Set r k v t w = (err, w1) \<Longrightarrow> k' \<noteq> k \<Longrightarrow> 0 \<le> d \<Longrightarrow>
     holds sv k' (wait sv d w1) = holds sv k' (wait sv d w)"
  "redis_timed sv r \<Longrightarrow> redis_Del r k w = (err, w1) \<Longrightarrow> k' \<noteq> k \<Longrightarrow> 0 \<le> d \<Longrightarrow>
     holds sv k' (wait sv d w1) = holds sv k' (wait sv d w)"
  using timed_laws(5,7) [of sv r] by (metis snd_conv)+

section \<open>Operations of caches, and what they let one know\<close>

datatype ('v, 'w) cache_op =
    Put "('v, 'w) Cache" string 'v
  | Remove "('v, 'w) Cache" string
  | Pass nat

fun run_op :: "('v, 'w) redis_server \<Rightarrow> ('v, 'w) cache_op \<Rightarrow> 'w \<Rightarrow> go_error option \<times> 'w" where
  "run_op sv (Put c k v) w = Cache_Set c k v w"
| "run_op sv (Remove c k) w = Cache_Delete c k w"
| "run_op sv (Pass d) w = (None, wait sv (int d) w)"

type_synonym 'v known = "string \<times> string \<Rightarrow> 'v entry"

text \<open>An operation that answers an error may have been carried out or not.\<close>

fun track :: "('v, 'w) cache_op \<Rightarrow> go_error option \<Rightarrow> 'v known \<Rightarrow> 'v known" where
  "track (Put c k v) err m = m((prefix c, k) :=
     (if err \<noteq> None then Unknown else if ttl c = 0 then Lasting v else Until v (lifetime (ttl c))))"
| "track (Remove c k) err m = m((prefix c, k) := (if err \<noteq> None then Unknown else Missing))"
| "track (Pass d) err m = (\<lambda>x. later (int d) (m x))"

fun run_ops :: "('v, 'w) redis_server \<Rightarrow> ('v, 'w) cache_op list \<Rightarrow> 'w \<times> 'v known \<Rightarrow> 'w \<times> 'v known" where
  "run_ops sv [] s = s"
| "run_ops sv (op # ops) (w, m) = (case run_op sv op w of (err, w1) \<Rightarrow> run_ops sv ops (w1, track op err m))"

definition plain_cache :: "('v, 'w) redis_client \<Rightarrow> ('v, 'w) Cache \<Rightarrow> bool" where
  "plain_cache r c \<longleftrightarrow> client c = r \<and> CHR ''-'' \<notin> set (prefix c) \<and> 0 \<le> ttl c"

fun plain_op :: "('v, 'w) redis_client \<Rightarrow> ('v, 'w) cache_op \<Rightarrow> bool" where
  "plain_op r (Put c k v) = plain_cache r c"
| "plain_op r (Remove c k) = plain_cache r c"
| "plain_op r (Pass d) = True"

section \<open>The simulation\<close>

text \<open>The known entries are those of the server, now and later.\<close>

definition simulates :: "('v, 'w) redis_server \<Rightarrow> 'w \<Rightarrow> 'v known \<Rightarrow> bool" where
  "simulates sv w m \<longleftrightarrow>
    (\<forall>p k. CHR ''-'' \<notin> set p \<longrightarrow> agrees (m (p, k)) (\<lambda>d. holds sv (p @ ''-'' @ k) (wait sv d w)))"

text \<open>An update of one key, by the entry it leaves there.\<close>

lemma simulates_update:
  assumes "simulates sv w m" and "CHR ''-'' \<notin> set p"
    and "agrees e (\<lambda>d. holds sv (p @ ''-'' @ k) (wait sv d w1))"
    and "\<And>k' d. k' \<noteq> p @ ''-'' @ k \<Longrightarrow> 0 \<le> d \<Longrightarrow> holds sv k' (wait sv d w1) = holds sv k' (wait sv d w)"
  shows "simulates sv w1 (m((p, k) := e))"
  unfolding simulates_def
proof (intro allI impI)
  fix q l
  assume q: "CHR ''-'' \<notin> set q"
  show "agrees ((m((p, k) := e)) (q, l)) (\<lambda>d. holds sv (q @ ''-'' @ l) (wait sv d w1))"
  proof (cases "(q, l) = (p, k)")
    case False
    then have "q @ ''-'' @ l \<noteq> p @ ''-'' @ k" using append_sep_inject [OF q assms(2)] by auto
    then have "agrees x (\<lambda>d. holds sv (q @ ''-'' @ l) (wait sv d w1))
        = agrees x (\<lambda>d. holds sv (q @ ''-'' @ l) (wait sv d w))" for x
      using assms(4) by (intro agrees_cong)
    then show ?thesis using assms(1) q False by (auto simp: simulates_def)
  qed (use assms(3) in simp)
qed

lemma simulates_op:
  assumes "redis_timed sv r" and "plain_op r op" and "simulates sv w m" and "run_op sv op w = (err, w1)"
  shows "simulates sv w1 (track op err m)"
proof (cases op)
  case (Put c k v)
  let ?key = "prefix c @ ''-'' @ k"
  have c: "client c = r" "CHR ''-'' \<notin> set (prefix c)" "0 \<le> ttl c"
    using assms(2) Put by (simp_all add: plain_cache_def)
  have set: "redis_Set r ?key v (ttl c) w = (err, w1)"
    using assms(4) Put c(1) by (simp add: Cache_Set_def makeKey_def)
  let ?e = "if err \<noteq> None then Unknown else if ttl c = 0 then Lasting v else Until v (lifetime (ttl c))"
  have "agrees ?e (\<lambda>d. holds sv ?key (wait sv d w1))"
    using timed_set [OF assms(1), of ?key v "ttl c" w w1] set c(3) by (simp add: agrees_def)
  then show ?thesis
    using simulates_update [OF assms(3) c(2) _ timed_other(1) [OF assms(1) set]] Put by simp
next
  case (Remove c k)
  let ?key = "prefix c @ ''-'' @ k"
  have c: "client c = r" "CHR ''-'' \<notin> set (prefix c)"
    using assms(2) Remove by (simp_all add: plain_cache_def)
  have del: "redis_Del r ?key w = (err, w1)"
    using assms(4) Remove c(1) by (simp add: Cache_Delete_def makeKey_def)
  have "agrees (if err \<noteq> None then Unknown else Missing) (\<lambda>d. holds sv ?key (wait sv d w1))"
    using timed_del [OF assms(1), of ?key w w1] del by (simp add: agrees_def)
  then show ?thesis
    using simulates_update [OF assms(3) c(2) _ timed_other(2) [OF assms(1) del]] Remove by simp
next
  case (Pass n)
  have "wait sv d (wait sv (int n) w) = wait sv (d + int n) w" if "0 \<le> d" for d
    using timed_laws(3) [OF assms(1)] that by simp
  then have eq: "agrees e (\<lambda>d. holds sv k (wait sv d w1)) = agrees e (\<lambda>d. holds sv k (wait sv (d + int n) w))" for e k
    using assms(4) Pass by (intro agrees_cong) simp
  show ?thesis
    unfolding simulates_def
  proof (intro allI impI)
    fix p :: string and k
    assume "CHR ''-'' \<notin> set p"
    then have "agrees (m (p, k)) (\<lambda>d. holds sv (p @ ''-'' @ k) (wait sv d w))"
      using assms(3) by (simp add: simulates_def)
    from agrees_later [OF _ this, of "int n"] eq
    show "agrees (track op err m (p, k)) (\<lambda>d. holds sv (p @ ''-'' @ k) (wait sv d w1))"
      using Pass by simp
  qed
qed

lemma simulates_ops:
  "redis_timed sv r \<Longrightarrow> \<forall>op\<in>set ops. plain_op r op \<Longrightarrow> simulates sv w m \<Longrightarrow> run_ops sv ops (w, m) = (w1, m1)
     \<Longrightarrow> simulates sv w1 m1"
proof (induction ops arbitrary: w m)
  case (Cons op ops)
  obtain err w2 where op: "run_op sv op w = (err, w2)" by (cases "run_op sv op w")
  have "simulates sv w2 (track op err m)"
    by (rule simulates_op [OF Cons.prems(1) _ Cons.prems(3) op]) (use Cons.prems(2) in simp)
  then show ?case using Cons.IH [OF Cons.prems(1)] Cons.prems(2,4) op by simp
qed simp

lemma simulates_Unknown: "simulates sv w (\<lambda>_. Unknown)"
  by (simp add: simulates_def agrees_def)

lemma simulates_Get:
  assumes "redis_timed sv r" and "simulates sv w m" and "plain_cache r c" and "up sv w"
  shows "case m (prefix c, k) of
      Missing \<Rightarrow> Cache_Get Scan c k w = Inl redis_Nil
    | Lasting v \<Rightarrow> Cache_Get Scan c k w = Scan v
    | Until v left \<Rightarrow> (0 < left \<longrightarrow> Cache_Get Scan c k w = Scan v)
        \<and> (left + millisecond \<le> 0 \<longrightarrow> Cache_Get Scan c k w = Inl redis_Nil)
    | Unknown \<Rightarrow> True"
proof -
  let ?key = "prefix c @ ''-'' @ k"
  have g: "Cache_Get Scan c k w = sbind (case holds sv ?key w of None \<Rightarrow> Inl redis_Nil | Some v \<Rightarrow> Inr v) Scan"
    using assms(1,3,4) by (simp add: redis_timed_def Cache_Get_def plain_cache_def makeKey_def)
  have "agrees (m (prefix c, k)) (\<lambda>d. holds sv ?key (wait sv d w))" "wait sv 0 w = w"
    using assms(1,2,3) by (simp_all add: simulates_def plain_cache_def redis_timed_def)
  then show ?thesis unfolding g by (cases "m (prefix c, k)") (force simp: agrees_def)+
qed

section \<open>A Redis with a clock\<close>

type_synonym 'v clocked = "int \<times> (string \<rightharpoonup> 'v \<times> int option)"

definition clocked_redis :: "redis_options \<Rightarrow> ('v, 'v clocked) redis_client" where
  "clocked_redis opts =
    \<lparr>client_options = opts, redis_Ping = (\<lambda>w. None),
     redis_Set = (\<lambda>k v t (n, m). (None, n, m(k \<mapsto> (v, if 0 < t then Some (n + lifetime t) else None)))),
     redis_Get = (\<lambda>k (n, m). case m k of
        Some (v, None) \<Rightarrow> Inr v
      | Some (v, Some e) \<Rightarrow> if n < e then Inr v else Inl redis_Nil
      | None \<Rightarrow> Inl redis_Nil),
     redis_Del = (\<lambda>k (n, m). (None, n, m(k := None)))\<rparr>"

definition clocked_server :: "('v, 'v clocked) redis_server" where
  "clocked_server = \<lparr>wait = (\<lambda>d (n, m). (n + d, m)), up = (\<lambda>_. True),
     holds = (\<lambda>k (n, m). case m k of
        Some (v, None) \<Rightarrow> Some v
      | Some (v, Some e) \<Rightarrow> if n < e then Some v else None
      | None \<Rightarrow> None)\<rparr>"

lemma clocked_redis_timed: "redis_timed clocked_server (clocked_redis opts)"
  by (auto simp: redis_timed_def clocked_server_def clocked_redis_def millisecond_def split: option.split)

section \<open>Properties\<close>

text \<open>
  C24: Caches over one Redis are timed maps: whatever caches with dash-free prefixes did
  before, in any order and with any time between, a read through one of them returns the
  value last set under its prefix and key while the cache's time to live has not passed,
  and a miss when it has passed (by a millisecond or more) or when the key was deleted;
  writes under other prefixes or keys make no difference.
\<close>

theorem caches_are_timed_maps:
  assumes "redis_timed sv r" and "\<forall>op\<in>set ops. plain_op r op" and "plain_cache r c"
    and "run_ops sv ops (w, \<lambda>_. Unknown) = (w1, m1)" and "up sv w1"
  shows "case m1 (prefix c, k) of
      Missing \<Rightarrow> Cache_Get Scan c k w1 = Inl redis_Nil
    | Lasting v \<Rightarrow> Cache_Get Scan c k w1 = Scan v
    | Until v left \<Rightarrow> (0 < left \<longrightarrow> Cache_Get Scan c k w1 = Scan v)
        \<and> (left + millisecond \<le> 0 \<longrightarrow> Cache_Get Scan c k w1 = Inl redis_Nil)
    | Unknown \<Rightarrow> True"
  using simulates_Get [OF assms(1) simulates_ops [OF assms(1,2) simulates_Unknown assms(4)] assms(3,5)] .

text \<open>Two caches of a minute; one entry outlives the other.\<close>

definition minute_cache :: "string \<Rightarrow> (int, int clocked) Cache" where
  "minute_cache p = NewCache (clocked_redis \<lparr>opt_Addr = ''redis:6379'', opt_Password = [], opt_DB = 0\<rparr>) p
     (60 * 1000 * millisecond)"

definition minute_ops :: "(int, int clocked) cache_op list" where
  "minute_ops = [Put (minute_cache ''session'') ''k'' 3, Pass 40000000000,
     Put (minute_cache ''rate'') ''k'' 4, Pass 30000000000]"

theorem caches_are_timed_maps_witness:
  "Cache_Get Inr (minute_cache ''session'') ''k'' (fst (run_ops clocked_server minute_ops ((0, Map.empty), \<lambda>_. Unknown)))
      = Inl redis_Nil
    \<and> Cache_Get Inr (minute_cache ''rate'') ''k'' (fst (run_ops clocked_server minute_ops ((0, Map.empty), \<lambda>_. Unknown)))
      = Inr 4"
proof -
  let ?s = "run_ops clocked_server minute_ops ((0, Map.empty), \<lambda>_. Unknown)"
  let ?r = "clocked_redis \<lparr>opt_Addr = ''redis:6379'', opt_Password = [], opt_DB = 0\<rparr>"
  have plain: "plain_cache ?r (minute_cache ''session'')" "plain_cache ?r (minute_cache ''rate'')"
    by (simp_all add: plain_cache_def minute_cache_def NewCache_def millisecond_def)
  then have ops: "\<forall>op\<in>set minute_ops. plain_op ?r op" by (simp add: minute_ops_def)
  have s: "?s = (fst ?s, snd ?s)" and up: "up clocked_server (fst ?s)"
    by (simp_all add: clocked_server_def)
  have pre: "prefix (minute_cache p) = p" "ttl (minute_cache p) = 60 * 1000 * millisecond" for p
    by (simp_all add: minute_cache_def NewCache_def)
  have known: "snd ?s (''session'', ''k'') = Until 3 (- 10000000000)" "snd ?s (''rate'', ''k'') = Until 4 30000000000"
    by (simp_all add: minute_ops_def pre lifetime_def millisecond_def split_beta
      Cache_Set_def minute_cache_def NewCache_def clocked_redis_def)
  note t = caches_are_timed_maps [OF clocked_redis_timed ops _ s up, where k = "''k''" and Scan = Inr]
  show ?thesis
    using t [OF plain(1)] t [OF plain(2)] unfolding pre known by (simp add: millisecond_def)
qed

end
