(* ===== verification/Slog.thy ===== *)
theory Slog
  imports Errors
begin

text \<open>
  The process-wide effects the services share: the default \<open>log/slog\<close> logger that
  \<open>modules/shared/src/utillog/log.go\<close> installs, the lines it has written, and the clock
  \<open>time.Now\<close> reads.  The record \<open>world\<close> is extensible: a service adds its own state.
\<close>

section \<open>The world\<close>

datatype attr_val = AStr string | AInt int | AErr go_error

record log_line =
  line_level :: int
  line_msg :: string
  line_attrs :: "(string \<times> attr_val) list"

text \<open>The levels of \<open>log/slog\<close>.\<close>

definition LevelDebug :: int where "LevelDebug = - 4"
definition LevelInfo :: int where "LevelInfo = 0"
definition LevelWarn :: int where "LevelWarn = 4"
definition LevelError :: int where "LevelError = 8"

lemmas Level_defs = LevelDebug_def LevelInfo_def LevelWarn_def LevelError_def

datatype log_format = TextFormat | JSONFormat

record logger =
  min_level :: int
  format :: log_format

record world =
  default_logger :: logger
  log_out :: "log_line list"
  clock :: int                 \<comment> \<open>nanoseconds, monotonic\<close>
  stack_text :: string         \<comment> \<open>what \<open>debug.Stack\<close> returns\<close>

text \<open>Before \<open>NewLogger\<close> the default logger writes text from level info up.\<close>

definition initial_logger :: logger where
  "initial_logger = \<lparr>min_level = LevelInfo, format = TextFormat\<rparr>"

definition initial_world :: world where
  "initial_world = \<lparr>default_logger = initial_logger, log_out = [], clock = 0, stack_text = []\<rparr>"

definition NewLogger :: "'a world_scheme \<Rightarrow> 'a world_scheme" where
  "NewLogger w = w\<lparr>default_logger := \<lparr>min_level = LevelDebug, format = JSONFormat\<rparr>\<rparr>"

definition slog :: "int \<Rightarrow> string \<Rightarrow> (string \<times> attr_val) list \<Rightarrow> 'a world_scheme \<Rightarrow> 'a world_scheme" where
  "slog lvl msg attrs w =
    (if min_level (default_logger w) \<le> lvl
     then w\<lparr>log_out := log_out w @ [\<lparr>line_level = lvl, line_msg = msg, line_attrs = attrs\<rparr>]\<rparr>
     else w)"

section \<open>Facts\<close>

lemma slog_frame [simp]:
  "default_logger (slog l m as w) = default_logger w" "clock (slog l m as w) = clock w"
  "stack_text (slog l m as w) = stack_text w" "world.more (slog l m as w) = world.more w"
  by (simp_all add: slog_def)

lemma log_out_slog:
  "min_level (default_logger w) \<le> l \<Longrightarrow>
     log_out (slog l m as w) = log_out w @ [\<lparr>line_level = l, line_msg = m, line_attrs = as\<rparr>]"
  by (simp add: slog_def)

lemma NewLogger_simps [simp]:
  "default_logger (NewLogger w) = \<lparr>min_level = LevelDebug, format = JSONFormat\<rparr>"
  "log_out (NewLogger w) = log_out w" "clock (NewLogger w) = clock w"
  by (simp_all add: NewLogger_def)

text \<open>A logger that shows at least informational lines, as both loggers above do.\<close>

definition logs_info :: "'a world_scheme \<Rightarrow> bool" where
  "logs_info w \<longleftrightarrow> min_level (default_logger w) \<le> LevelInfo"

lemma logs_info_slog [simp]: "logs_info (slog l m as w) = logs_info w"
  by (simp add: logs_info_def)

lemma logs_info_NewLogger [simp]: "logs_info (NewLogger w)"
  by (simp add: logs_info_def Level_defs)

end
