(* ===== verification/Otel.thy ===== *)
theory Otel
  imports Errors
begin

text \<open>
  \<open>modules/shared/src/utilotel/\<close> (\<open>http.go\<close>, \<open>init.go\<close>; \<open>grpc.go\<close> is with the gRPC
  theories).  The OpenTelemetry SDK is not in the repository: whether each of its
  constructors fails, and what its shutdowns return, is given by the record \<open>sdk\<close>.
\<close>

section \<open>HTTP middleware\<close>

record http_request =
  Method :: string
  Pattern :: string
  URL_Path :: string

record httpConfig =
  shouldTrace :: "http_request \<Rightarrow> bool"

type_synonym HTTPOption = "httpConfig \<Rightarrow> httpConfig"

definition WithRequestFilter :: "(http_request \<Rightarrow> bool) \<Rightarrow> HTTPOption" where
  "WithRequestFilter fn c = c\<lparr>shouldTrace := fn\<rparr>"

definition defaultShouldTrace :: "http_request \<Rightarrow> bool" where
  "defaultShouldTrace r \<longleftrightarrow> Method r \<noteq> ''GET'' \<or> URL_Path r \<noteq> ''/health''"

definition spanNameFromPattern :: "string \<Rightarrow> http_request \<Rightarrow> string" where
  "spanNameFromPattern operation r =
    (if Pattern r = '''' then operation
     else if HasPrefix (Pattern r) (Method r @ '' '') then Pattern r
     else Method r @ '' '' @ Pattern r)"

text \<open>What the middleware hands to \<open>otelhttp.NewMiddleware\<close>.\<close>

record otelhttp_config =
  operation :: string
  request_filter :: "http_request \<Rightarrow> bool"
  span_name :: "string \<Rightarrow> http_request \<Rightarrow> string"

definition HTTPMiddleware :: "(otelhttp_config \<Rightarrow> 'm) \<Rightarrow> string \<Rightarrow> HTTPOption list \<Rightarrow> 'm" where
  "HTTPMiddleware NewMiddleware serverName opts =
    (let cfg = fold (\<lambda>opt c. opt c) opts \<lparr>shouldTrace = defaultShouldTrace\<rparr>
     in NewMiddleware \<lparr>operation = serverName, request_filter = shouldTrace cfg,
                       span_name = spanNameFromPattern\<rparr>)"

section \<open>Init\<close>

text \<open>The process-wide providers, and how many SDK pipelines run in the background.\<close>

datatype provider = Unset | Noop | Sdk

record otel_globals =
  propagator :: bool          \<comment> \<open>whether TraceContext and Baggage are installed\<close>
  tracer_provider :: provider
  meter_provider :: provider
  runtime_metrics :: bool

record sdk =
  resource_New :: "go_error option"
  otlptracegrpc_New :: "go_error option"
  otlpmetricgrpc_New :: "go_error option"
  runtime_Start :: "go_error option"
  tp_Shutdown :: "int \<Rightarrow> go_error option"    \<comment> \<open>by the time the context leaves, in ns\<close>
  mp_Shutdown :: "int \<Rightarrow> go_error option"

definition shutdownTimeout :: int where
  "shutdownTimeout = 5 * 1000000000"

text \<open>
  The two shutdown functions \<open>Init\<close> returns, by the time left in the caller's context; the
  second limits it to five seconds for both shutdowns together.
\<close>

definition noop_shutdown :: "int \<Rightarrow> go_error option" where
  "noop_shutdown budget = None"

definition sdk_shutdown :: "sdk \<Rightarrow> int \<Rightarrow> go_error option" where
  "sdk_shutdown s budget =
    (let sctx = min budget shutdownTimeout
     in errors_Join [tp_Shutdown s sctx, mp_Shutdown s sctx])"

definition Init :: "string \<Rightarrow> sdk \<Rightarrow> otel_globals
    \<Rightarrow> (go_error + (int \<Rightarrow> go_error option)) \<times> otel_globals" where
  "Init endpoint s g =
    (let g1 = g\<lparr>propagator := True\<rparr> in
     if endpoint = '''' then
       (Inr noop_shutdown, g1\<lparr>tracer_provider := Noop, meter_provider := Noop\<rparr>)
     else case resource_New s of
       Some err \<Rightarrow> (Inl (Errorf_v ''utilotel: build resource: '' err), g1)
     | None \<Rightarrow>
    (case otlptracegrpc_New s of
       Some err \<Rightarrow> (Inl (Errorf_v ''utilotel: otlp trace exporter: '' err), g1)
     | None \<Rightarrow>
     let g2 = g1\<lparr>tracer_provider := Sdk\<rparr> in
    (case otlpmetricgrpc_New s of
       Some err \<Rightarrow> (Inl (Errorf_v ''utilotel: otlp metric exporter: '' err), g2)
     | None \<Rightarrow>
     let g3 = g2\<lparr>meter_provider := Sdk\<rparr> in
    (case runtime_Start s of
       Some err \<Rightarrow> (Inl (Errorf_v ''utilotel: start runtime metrics: '' err), g3)
     | None \<Rightarrow> (Inr (sdk_shutdown s), g3\<lparr>runtime_metrics := True\<rparr>)))))"

section \<open>Facts\<close>

lemma errors_Join_None_iff: "errors_Join es = None \<longleftrightarrow> list_all (\<lambda>e. e = None) es"
  by (simp add: errors_Join_def Let_def filter_empty_conv list_all_iff)

lemma Init_ok_iff:
  "(\<exists>f. fst (Init ep s g) = Inr f) \<longleftrightarrow> ep = '''' \<or> (resource_New s = None \<and>
     otlptracegrpc_New s = None \<and> otlpmetricgrpc_New s = None \<and> runtime_Start s = None)"
  by (auto simp: Init_def Let_def split: option.splits)

section \<open>Properties\<close>

text \<open>
  A span has one canonical name whether the router stores the bare pattern (chi) or the
  pattern with its method (the standard multiplexer): for a path pattern and a method
  without a slash both give method, blank, pattern; without a pattern the name is the
  operation's.
\<close>

lemma span_name_canonical:
  assumes "CHR ''/'' \<notin> set (Method r)"
  shows "spanNameFromPattern op (r\<lparr>Pattern := CHR ''/'' # p\<rparr>) = Method r @ '' '' @ CHR ''/'' # p
    \<and> spanNameFromPattern op (r\<lparr>Pattern := Method r @ '' '' @ CHR ''/'' # p\<rparr>) = Method r @ '' '' @ CHR ''/'' # p
    \<and> spanNameFromPattern op (r\<lparr>Pattern := []\<rparr>) = op"
proof -
  have "\<not> HasPrefix (CHR ''/'' # p) (Method r @ '' '')"
    using assms by (cases "Method r") (auto simp: HasPrefix_def)
  moreover have "HasPrefix (Method r @ '' '' @ CHR ''/'' # p) (Method r @ '' '')"
    using HasPrefix_append [of "Method r @ '' ''" "CHR ''/'' # p"] by simp
  ultimately show ?thesis by (simp add: spanNameFromPattern_def)
qed

text \<open>
  C35: \<open>Init\<close> succeeds exactly when no endpoint is configured or every SDK constructor does;
  it always installs the propagator; and when it fails after the trace exporter was made it
  leaves the SDK tracer provider installed although no shutdown function is returned.
\<close>

theorem Init_outcome:
  "((\<exists>f. fst (Init ep s g) = Inr f) \<longleftrightarrow> ep = [] \<or> (resource_New s = None \<and>
       otlptracegrpc_New s = None \<and> otlpmetricgrpc_New s = None \<and> runtime_Start s = None))
   \<and> propagator (snd (Init ep s g))
   \<and> tracer_provider (snd (Init ep s g)) =
       (if ep = [] then Noop
        else if resource_New s = None \<and> otlptracegrpc_New s = None then Sdk else tracer_provider g)
   \<and> meter_provider (snd (Init ep s g)) =
       (if ep = [] then Noop
        else if resource_New s = None \<and> otlptracegrpc_New s = None \<and> otlpmetricgrpc_New s = None
        then Sdk else meter_provider g)
   \<and> (sdk_shutdown s budget = None \<longleftrightarrow> tp_Shutdown s (min budget 5000000000) = None
        \<and> mp_Shutdown s (min budget 5000000000) = None)"
  by (simp add: Init_ok_iff sdk_shutdown_def Let_def errors_Join_None_iff shutdownTimeout_def)
    (simp add: Init_def Let_def split: option.split)

end
