(* ===== verification/Lifecycle.thy ===== *)
theory Lifecycle
  imports Slog Otel Cache
begin

text \<open>
  The four binaries from start to exit: \<open>modules/auth/src/cmd/api/main.go\<close> with
  \<open>infra/database/database.go\<close>, \<open>modules/audit/src/cmd/api/main.go\<close>,
  \<open>modules/queue/src/cmd/api/main.go\<close> and \<open>modules/audit/src/cmd/worker/main.go\<close>.  A run is
  the list of the main goroutine's events; what the outside world answers (the SDK, Redis,
  the database, the listener, how long a shutdown takes) is an argument.  The serving
  goroutine has a list of its own, and a process trace interleaves the two.
\<close>

section \<open>Events\<close>

datatype event =
    InitOtel string
  | DialRedis redis_options
  | OpenDB string
  | Listen string
  | NewServer
  | Log int string "go_error option"
  | AwaitSignal
  | ShutdownHTTP int            \<comment> \<open>time left in the shutdown context, in ns\<close>
  | GracefulStop
  | Stop
  | ShutdownOtel int            \<comment> \<open>time left in the shutdown context\<close>
  | CloseCache
  | CloseDB
  | AwaitDeadline
  | Exit int

definition seconds :: "int \<Rightarrow> int" where "seconds n = n * 1000000000"

definition shutdown_deadline :: int where "shutdown_deadline = seconds 30"

text \<open>A context by when it expires: \<open>context.Background()\<close> never does.\<close>

datatype deadline = Background | Until int

fun expired :: "deadline \<Rightarrow> int \<Rightarrow> bool" where
  "expired Background t = False"
| "expired (Until d) t = (d \<le> t)"

text \<open>Log an error if there is one: \<open>if err := ...; err != nil { slog.Error(msg, ...) }\<close>.\<close>

definition log_if :: "string \<Rightarrow> go_error option \<Rightarrow> event list" where
  "log_if msg err = (case err of None \<Rightarrow> [] | Some e \<Rightarrow> [Log LevelError msg (Some e)])"

text \<open>\<open>main\<close>: exit code 1 with a log line on an error, 0 otherwise.\<close>

definition main_of :: "event list \<times> go_error option \<Rightarrow> event list" where
  "main_of r = fst r @ (case snd r of
     Some e \<Rightarrow> [Log LevelError ''failed to run application'' (Some e), Exit 1]
   | None \<Rightarrow> [Exit 0])"

text \<open>
  The runs of a process: the serving goroutine starts after \<open>before\<close>, runs alongside the
  main goroutine and is cut off by its exit.
\<close>

definition process_trace :: "event list \<Rightarrow> event list \<Rightarrow> event list \<Rightarrow> event list \<Rightarrow> bool" where
  "process_trace before main server t \<longleftrightarrow>
     (\<exists>n s. t = before @ s \<and> s \<in> shuffles main (take n server))"

section \<open>The auth service\<close>

definition EnvDbUrl :: string where "EnvDbUrl = ''DB_URL''"
definition EnvCacheAddr :: string where "EnvCacheAddr = ''CACHE_ADDR''"
definition EnvCachePrefix :: string where "EnvCachePrefix = ''CACHE_PREFIX''"
definition EnvOTLPEndpoint :: string where "EnvOTLPEndpoint = ''OTEL_EXPORTER_OTLP_ENDPOINT''"

lemmas Env_defs = EnvDbUrl_def EnvCacheAddr_def EnvCachePrefix_def EnvOTLPEndpoint_def

record env =
  dbUrl :: string
  cacheAddr :: string
  cachePrefix :: string

text \<open>\<open>getenv\<close> is \<open>os.Getenv\<close>: the empty string for an unset variable.\<close>

definition newEnv :: "(string \<Rightarrow> string) \<Rightarrow> env" where
  "newEnv getenv = \<lparr>dbUrl = getenv EnvDbUrl, cacheAddr = getenv EnvCacheAddr,
     cachePrefix = getenv EnvCachePrefix\<rparr>"

definition env_validate :: "env \<Rightarrow> go_error option" where
  "env_validate e =
    (if dbUrl e = '''' then Some (ErrorString (''empty env '' @ EnvDbUrl))
     else if cacheAddr e = '''' then Some (ErrorString (''empty env '' @ EnvCacheAddr))
     else if cachePrefix e = '''' then Some (ErrorString (''empty env '' @ EnvCachePrefix))
     else None)"

text \<open>The \<open>database/sql\<close> side of \<open>NewDB\<close>: \<open>sql.Open\<close> by driver and URI, then a ping.\<close>

record 'db sql_api =
  sql_Open :: "string \<Rightarrow> string \<Rightarrow> go_error + 'db"
  PingContext :: "'db \<Rightarrow> go_error option"

definition NewDB :: "'db sql_api \<Rightarrow> string \<Rightarrow> go_error + 'db" where
  "NewDB api uri =
    (case sql_Open api ''postgres'' uri of
       Inl err \<Rightarrow> Inl err
     | Inr db \<Rightarrow> (case PingContext api db of Some err \<Rightarrow> Inl err | None \<Rightarrow> Inr db))"

text \<open>
  How a shutdown that returns goes: the error and the time of \<open>srv.Shutdown\<close> and the time of
  the telemetry flush, by the time left, and the error and the time of each close.
\<close>

record http_stop =
  srv_Shutdown :: "int \<Rightarrow> go_error option \<times> int"
  flush_time :: "int \<Rightarrow> int"
  rds_Close :: "go_error option"
  rds_time :: int
  db_Close :: "go_error option"
  db_time :: int

text \<open>
  \<open>shutdown\<close>: its events and the time that has passed since the context was made.  It ends
  by waiting for the context, which nothing cancels before its deadline.
\<close>

definition auth_shutdown :: "http_stop \<Rightarrow> (int \<Rightarrow> go_error option) \<Rightarrow> event list \<times> int" where
  "auth_shutdown hs otelShutdown =
    (let (srv_err, t1) = srv_Shutdown hs shutdown_deadline;
         left = max 0 (shutdown_deadline - t1);
         t2 = t1 + flush_time hs left
     in ([Log LevelInfo ''shutdown signal received'' None, ShutdownHTTP shutdown_deadline]
         @ log_if ''server shutdown failed'' srv_err
         @ [ShutdownOtel left] @ log_if ''failed to shutdown otel'' (otelShutdown left)
         @ [CloseCache] @ log_if ''failed to close cache'' (rds_Close hs)
         @ [CloseDB] @ log_if ''failed to close database'' (db_Close hs)
         @ [AwaitDeadline, Log LevelInfo ''graceful shutdown completed'' None],
         max (t2 + rds_time hs + db_time hs) shutdown_deadline))"

record ('v, 'w, 'db) auth_outside =
  getenv :: "string \<Rightarrow> string"
  telemetry :: sdk
  globals :: otel_globals
  redis_dial :: "redis_options \<Rightarrow> ('v, 'w) redis_client"
  redis_state :: 'w
  sql :: "'db sql_api"
  stop :: http_stop

definition auth_run :: "('v, 'w, 'db) auth_outside \<Rightarrow> event list \<times> go_error option" where
  "auth_run ou =
    (let e = newEnv (getenv ou) in
     case env_validate e of
       Some err \<Rightarrow> ([], Some err)
     | None \<Rightarrow>
     let ev1 = [InitOtel ''auth-api''] in
    (case fst (Init (getenv ou EnvOTLPEndpoint) (telemetry ou) (globals ou)) of
       Inl err \<Rightarrow> (ev1, Some err)
     | Inr otelShutdown \<Rightarrow>
    (case utilcache_NewClient (redis_dial ou) (cacheAddr e) (cachePrefix e) (redis_state ou) of
       Inl err \<Rightarrow> (ev1 @ [DialRedis \<lparr>opt_Addr = cacheAddr e, opt_Password = cachePrefix e, opt_DB = 0\<rparr>], Some err)
     | Inr rds \<Rightarrow>
     let ev2 = ev1 @ [DialRedis \<lparr>opt_Addr = cacheAddr e, opt_Password = cachePrefix e, opt_DB = 0\<rparr>, OpenDB (dbUrl e)] in
    (case NewDB (sql ou) (dbUrl e) of
       Inl err \<Rightarrow> (ev2, Some err)
     | Inr connDB \<Rightarrow>
        (ev2 @ [NewServer, AwaitSignal, Log LevelInfo ''shutdown signal received'' None]
          @ fst (auth_shutdown (stop ou) otelShutdown), None)))))"

text \<open>The serving goroutine, by what \<open>ListenAndServe\<close> returns.\<close>

definition ErrServerClosed :: go_error where
  "ErrServerClosed = Foreign ''net/http'' ''http: Server closed''"

definition auth_serve :: "go_error option \<Rightarrow> event list" where
  "auth_serve res =
    [Log LevelInfo ''starting server on port 8080'' None]
    @ (case res of
         None \<Rightarrow> []
       | Some err \<Rightarrow> if err \<noteq> ErrServerClosed
                    then [Log LevelError ''failed to start server'' (Some err)] else [])"

section \<open>The gRPC services\<close>

text \<open>
  How a gRPC server stops: when \<open>GracefulStop\<close> returns, if it does, which branch \<open>select\<close>
  takes when both are ready, and what the listener answered.
\<close>

record grpc_stop =
  graceful_after :: "int option"
  tie_to_done :: bool
  listen_result :: "go_error option"

definition stops_in_time :: "grpc_stop \<Rightarrow> bool" where
  "stops_in_time gs = (case graceful_after gs of
     None \<Rightarrow> False
   | Some d \<Rightarrow> d < shutdown_deadline \<or> d = shutdown_deadline \<and> tie_to_done gs)"

definition time_left :: "grpc_stop \<Rightarrow> int" where
  "time_left gs = (if stops_in_time gs then shutdown_deadline - the (graceful_after gs) else 0)"

definition audit_shutdown :: "grpc_stop \<Rightarrow> (int \<Rightarrow> go_error option) \<Rightarrow> event list" where
  "audit_shutdown gs otelShutdown =
    [GracefulStop]
    @ (if stops_in_time gs
       then [Log LevelInfo ''graceful shutdown completed'' None]
       else [Log LevelWarn ''graceful shutdown timed out, forcing stop'' None, Stop])
    @ [ShutdownOtel (time_left gs)] @ log_if ''failed to shutdown otel'' (otelShutdown (time_left gs))"

definition audit_run :: "string \<Rightarrow> sdk \<Rightarrow> otel_globals \<Rightarrow> grpc_stop \<Rightarrow> event list \<times> go_error option" where
  "audit_run endpoint s g gs =
    (case fst (Init endpoint s g) of
       Inl err \<Rightarrow> ([InitOtel ''audit-api''], Some err)
     | Inr otelShutdown \<Rightarrow>
     let ev = [InitOtel ''audit-api'', NewServer, Listen '':8080''] in
    (case listen_result gs of
       Some err \<Rightarrow> (ev, Some err)
     | None \<Rightarrow>
        (ev @ [AwaitSignal, Log LevelInfo ''shutdown signal received'' None]
          @ audit_shutdown gs otelShutdown, None)))"

definition audit_serve :: "go_error option \<Rightarrow> event list" where
  "audit_serve res =
    Log LevelInfo ''starting grpc server on port 8080'' None # log_if ''grpc server stopped'' res"

definition queue_shutdown :: "grpc_stop \<Rightarrow> (int \<Rightarrow> go_error option) \<Rightarrow> event list" where
  "queue_shutdown gs otelShutdown =
    [GracefulStop]
    @ (if stops_in_time gs
       then [Log LevelInfo ''graceful shutdown completed'' None]
       else [Log LevelWarn ''graceful shutdown timed out, forcing stop'' None, Stop])
    @ [ShutdownOtel (time_left gs)] @ log_if ''failed to shutdown otel'' (otelShutdown (time_left gs))"

definition queue_run :: "string \<Rightarrow> sdk \<Rightarrow> otel_globals \<Rightarrow> grpc_stop \<Rightarrow> event list \<times> go_error option" where
  "queue_run endpoint s g gs =
    (case fst (Init endpoint s g) of
       Inl err \<Rightarrow> ([InitOtel ''queue-api''], Some err)
     | Inr otelShutdown \<Rightarrow>
     let ev = [InitOtel ''queue-api'', NewServer, Listen '':8080''] in
    (case listen_result gs of
       Some err \<Rightarrow> (ev, Some err)
     | None \<Rightarrow>
        (ev @ [AwaitSignal, Log LevelInfo ''shutdown signal received'' None]
          @ queue_shutdown gs otelShutdown, None)))"

definition queue_serve :: "go_error option \<Rightarrow> event list" where
  "queue_serve res =
    Log LevelInfo ''starting grpc server on port 8080'' None # log_if ''grpc server stopped'' res"

section \<open>The audit worker\<close>

definition worker_run :: "string \<Rightarrow> sdk \<Rightarrow> otel_globals \<Rightarrow> event list \<times> go_error option" where
  "worker_run endpoint s g =
    (case fst (Init endpoint s g) of
       Inl err \<Rightarrow> ([InitOtel ''audit-worker''], Some err)
     | Inr otelShutdown \<Rightarrow>
        ([InitOtel ''audit-worker'', Log LevelInfo ''audit-worker idle (Phase 1.1 stub)'' None,
          AwaitSignal, Log LevelInfo ''shutdown signal received'' None, ShutdownOtel shutdown_deadline]
         @ log_if ''failed to shutdown otel'' (otelShutdown shutdown_deadline)
         @ [Log LevelInfo ''graceful shutdown completed'' None], None))"

section \<open>Facts\<close>

lemma shutdown_deadline_pos: "0 < shutdown_deadline"
  by (simp add: shutdown_deadline_def seconds_def)

lemma set_log_if: "ev \<in> set (log_if msg err) \<Longrightarrow> \<exists>e. ev = Log LevelError msg (Some e)"
  by (cases err) (auto simp: log_if_def)

lemma queue_shutdown_is_audit: "queue_shutdown = audit_shutdown" "queue_serve = audit_serve"
  by (simp_all add: fun_eq_iff queue_shutdown_def audit_shutdown_def queue_serve_def audit_serve_def)

lemma env_validate_None:
  "env_validate e = None \<longleftrightarrow> dbUrl e \<noteq> [] \<and> cacheAddr e \<noteq> [] \<and> cachePrefix e \<noteq> []"
  by (simp add: env_validate_def)

text \<open>In an interleaving each goroutine's events keep their order.\<close>

lemma shuffles_filter:
  "t \<in> shuffles xs ys \<Longrightarrow> \<forall>y\<in>set ys. \<not> P y \<Longrightarrow> filter P t = filter P xs"
proof -
  assume "t \<in> shuffles xs ys" and no: "\<forall>y\<in>set ys. \<not> P y"
  then have "filter P t \<in> shuffles (filter P xs) (filter P ys)"
    using filter_shuffles [of P xs ys] by blast
  moreover have "filter P ys = []" using no by (simp add: filter_empty_conv)
  ultimately show ?thesis by simp
qed

section \<open>Process traces\<close>

fun is_log :: "event \<Rightarrow> bool" where
  "is_log (Log _ _ _) = True"
| "is_log _ = False"

lemma is_log_log_if: "\<forall>ev\<in>set (log_if msg err). is_log ev"
  by (auto dest!: set_log_if)

lemma filter_log_if [simp]: "filter (\<lambda>ev. \<not> is_log ev) (log_if msg err) = []"
  using is_log_log_if [of msg err] by (simp add: filter_empty_conv)

lemma serve_only_logs:
  "ev \<in> set (auth_serve res) \<Longrightarrow> is_log ev" "ev \<in> set (audit_serve res) \<Longrightarrow> is_log ev"
  "ev \<in> set (queue_serve res) \<Longrightarrow> is_log ev"
  by (auto simp: auth_serve_def audit_serve_def queue_serve_def dest: set_log_if split: option.splits if_splits)

text \<open>
  A trace of a whole process: the main goroutine's events, with the serving goroutine
  started after the first \<open>k\<close> of them.
\<close>

definition binary_trace :: "nat \<Rightarrow> event list \<times> go_error option \<Rightarrow> event list \<Rightarrow> event list \<Rightarrow> bool" where
  "binary_trace k run serve t \<longleftrightarrow>
     process_trace (take k (main_of run)) (drop k (main_of run)) serve t"

lemma binary_trace_steps:
  assumes "binary_trace k run serve t" and "\<forall>ev\<in>set serve. is_log ev"
  shows "filter (\<lambda>ev. \<not> is_log ev) t = filter (\<lambda>ev. \<not> is_log ev) (main_of run)"
proof -
  obtain n u where t: "t = take k (main_of run) @ u" "u \<in> shuffles (drop k (main_of run)) (take n serve)"
    using assms(1) unfolding binary_trace_def process_trace_def by blast
  have "filter (\<lambda>ev. \<not> is_log ev) u = filter (\<lambda>ev. \<not> is_log ev) (drop k (main_of run))"
    by (rule shuffles_filter [OF t(2)]) (use assms(2) in \<open>auto dest: in_set_takeD\<close>)
  then show ?thesis unfolding t(1) by (metis append_take_drop_id filter_append)
qed

section \<open>Properties\<close>

text \<open>
  How the audit and queue API processes and the audit worker end, however the serving
  goroutine is interleaved: after start-up they wait for the signal; the servers stop
  gracefully, and are stopped by force exactly when the graceful stop misses the 30 s
  deadline; telemetry is flushed last and the exit code is 0.  After a forced stop no time
  is left for that flush.
\<close>

lemma grpc_process_steps:
  assumes "fst (Init endpoint s g) = Inr f" and "listen_result gs = None"
    and "binary_trace 3 (audit_run endpoint s g gs) (audit_serve res) t"
    and "binary_trace 3 (queue_run endpoint s g gs) (queue_serve res) u"
  shows "filter (\<lambda>ev. \<not> is_log ev) t =
      [InitOtel ''audit-api'', NewServer, Listen '':8080'', AwaitSignal, GracefulStop]
      @ (if stops_in_time gs then [] else [Stop]) @ [ShutdownOtel (time_left gs), Exit 0]
    \<and> filter (\<lambda>ev. \<not> is_log ev) u =
      [InitOtel ''queue-api'', NewServer, Listen '':8080'', AwaitSignal, GracefulStop]
      @ (if stops_in_time gs then [] else [Stop]) @ [ShutdownOtel (time_left gs), Exit 0]
    \<and> filter (\<lambda>ev. \<not> is_log ev) (main_of (worker_run endpoint s g)) =
      [InitOtel ''audit-worker'', AwaitSignal, ShutdownOtel (30 * 1000000000), Exit 0]
    \<and> (stops_in_time gs \<or> time_left gs = 0)"
proof -
  have t: "filter (\<lambda>ev. \<not> is_log ev) t = filter (\<lambda>ev. \<not> is_log ev) (main_of (audit_run endpoint s g gs))"
    using binary_trace_steps [OF assms(3)] serve_only_logs(2) by blast
  have u: "filter (\<lambda>ev. \<not> is_log ev) u = filter (\<lambda>ev. \<not> is_log ev) (main_of (queue_run endpoint s g gs))"
    using binary_trace_steps [OF assms(4)] serve_only_logs(3) by blast
  show ?thesis
    unfolding t u using assms(1,2)
    by (simp add: main_of_def audit_run_def queue_run_def worker_run_def audit_shutdown_def
        queue_shutdown_def Let_def time_left_def shutdown_deadline_def seconds_def)
qed

definition quiet_sdk :: sdk where
  "quiet_sdk = \<lparr>resource_New = None, otlptracegrpc_New = None, otlpmetricgrpc_New = None,
     runtime_Start = None, tp_Shutdown = (\<lambda>_. None), mp_Shutdown = (\<lambda>_. None)\<rparr>"

definition no_globals :: otel_globals where
  "no_globals = \<lparr>propagator = False, tracer_provider = Unset, meter_provider = Unset, runtime_metrics = False\<rparr>"

lemma main_alone: "binary_trace k run serve (main_of run)"
  unfolding binary_trace_def process_trace_def by (rule exI [of _ 0]) simp

lemma Init_noop: "fst (Init [] s g) = Inr noop_shutdown"
  by (simp add: Init_def Let_def)

text \<open>The auth start-up, its failures and its steps, each alone.\<close>

lemma auth_run_starts:
  "snd (auth_run ou) = None \<longleftrightarrow>
      getenv ou ''DB_URL'' \<noteq> [] \<and> getenv ou ''CACHE_ADDR'' \<noteq> [] \<and> getenv ou ''CACHE_PREFIX'' \<noteq> []
      \<and> (\<exists>f. fst (Init (getenv ou EnvOTLPEndpoint) (telemetry ou) (globals ou)) = Inr f)
      \<and> redis_Ping (redis_dial ou \<lparr>opt_Addr = getenv ou ''CACHE_ADDR'',
            opt_Password = getenv ou ''CACHE_PREFIX'', opt_DB = 0\<rparr>) (redis_state ou) = None
      \<and> (\<exists>db. NewDB (sql ou) (getenv ou ''DB_URL'') = Inr db)"
  by (simp add: auth_run_def newEnv_def env_validate_def EnvDbUrl_def EnvCacheAddr_def EnvCachePrefix_def
      utilcache_NewClient_def Let_def split: sum.split option.split)

lemma auth_run_fails: "snd (auth_run ou) = Some err \<Longrightarrow> last (main_of (auth_run ou)) = Exit 1"
  by (simp add: main_of_def)

text \<open>
  A start that fails after the SDK is up releases nothing: the telemetry is not flushed, and
  neither the cache nor the database is closed.
\<close>

lemma failed_start_releases_nothing:
  "snd (auth_run ou) = Some err \<Longrightarrow> ev \<in> set (fst (auth_run ou)) \<Longrightarrow>
     ev \<in> {InitOtel ''auth-api'', OpenDB (getenv ou ''DB_URL'')} \<or> (\<exists>o'. ev = DialRedis o')"
  "listen_result gs \<noteq> None \<Longrightarrow> ev \<in> set (fst (audit_run endpoint s g gs)) \<union> set (fst (queue_run endpoint s g gs)) \<Longrightarrow>
     ev \<in> {InitOtel ''audit-api'', InitOtel ''queue-api'', NewServer, Listen '':8080''}"
  by (auto simp: auth_run_def audit_run_def queue_run_def newEnv_def EnvDbUrl_def Let_def split: option.splits sum.splits)

lemma auth_shutdown_steps:
  "\<exists>left. filter (\<lambda>ev. \<not> is_log ev) (fst (auth_shutdown hs f)) =
     [ShutdownHTTP shutdown_deadline, ShutdownOtel left, CloseCache, CloseDB, AwaitDeadline]"
  by (simp add: auth_shutdown_def Let_def split: prod.split)

lemma auth_run_steps:
  assumes "snd (auth_run ou) = None"
  shows "\<exists>left. filter (\<lambda>ev. \<not> is_log ev) (main_of (auth_run ou)) =
           [InitOtel ''auth-api'', DialRedis \<lparr>opt_Addr = getenv ou ''CACHE_ADDR'',
              opt_Password = getenv ou ''CACHE_PREFIX'', opt_DB = 0\<rparr>,
            OpenDB (getenv ou ''DB_URL''), NewServer, AwaitSignal, ShutdownHTTP (30 * 1000000000),
            ShutdownOtel left, CloseCache, CloseDB, AwaitDeadline, Exit 0]"
proof -
  obtain f where f: "fst (Init (getenv ou EnvOTLPEndpoint) (telemetry ou) (globals ou)) = Inr f"
    using assms unfolding auth_run_starts by blast
  obtain left where left: "filter (\<lambda>ev. \<not> is_log ev) (fst (auth_shutdown (stop ou) f)) =
     [ShutdownHTTP shutdown_deadline, ShutdownOtel left, CloseCache, CloseDB, AwaitDeadline]"
    using auth_shutdown_steps by blast
  have "fst (auth_run ou) = [InitOtel ''auth-api'', DialRedis \<lparr>opt_Addr = getenv ou ''CACHE_ADDR'',
              opt_Password = getenv ou ''CACHE_PREFIX'', opt_DB = 0\<rparr>,
            OpenDB (getenv ou ''DB_URL''), NewServer, AwaitSignal,
            Log LevelInfo ''shutdown signal received'' None] @ fst (auth_shutdown (stop ou) f)"
    using assms f unfolding auth_run_starts
    by (auto simp: auth_run_def newEnv_def env_validate_def EnvDbUrl_def EnvCacheAddr_def EnvCachePrefix_def
        utilcache_NewClient_def Let_def)
  then show ?thesis
    using assms left by (simp add: main_of_def shutdown_deadline_def seconds_def)
qed

text \<open>
  C30: The auth process: start-up succeeds exactly when the three variables are set and
  telemetry, Redis and the database answer; then its steps are, in this order and whatever
  the serving goroutine does (even when it fails to listen), the dial of Redis with the key
  prefix as its password, the database, the server, the signal, the HTTP shutdown, the
  telemetry flush, the cache, the database, a wait for the deadline, and exit code 0.  The
  shutdown never takes less than its 30 seconds.
\<close>

theorem auth_process_steps:
  assumes "binary_trace 4 (auth_run ou) (auth_serve res) t"
  shows "(snd (auth_run ou) = None \<longleftrightarrow>
      getenv ou ''DB_URL'' \<noteq> [] \<and> getenv ou ''CACHE_ADDR'' \<noteq> [] \<and> getenv ou ''CACHE_PREFIX'' \<noteq> []
      \<and> (\<exists>f. fst (Init (getenv ou EnvOTLPEndpoint) (telemetry ou) (globals ou)) = Inr f)
      \<and> redis_Ping (redis_dial ou \<lparr>opt_Addr = getenv ou ''CACHE_ADDR'',
            opt_Password = getenv ou ''CACHE_PREFIX'', opt_DB = 0\<rparr>) (redis_state ou) = None
      \<and> (\<exists>db. NewDB (sql ou) (getenv ou ''DB_URL'') = Inr db))
    \<and> (case snd (auth_run ou) of
         Some err \<Rightarrow> last (main_of (auth_run ou)) = Exit 1
       | None \<Rightarrow> \<exists>left. filter (\<lambda>ev. \<not> is_log ev) t =
           [InitOtel ''auth-api'', DialRedis \<lparr>opt_Addr = getenv ou ''CACHE_ADDR'',
              opt_Password = getenv ou ''CACHE_PREFIX'', opt_DB = 0\<rparr>,
            OpenDB (getenv ou ''DB_URL''), NewServer, AwaitSignal, ShutdownHTTP (30 * 1000000000),
            ShutdownOtel left, CloseCache, CloseDB, AwaitDeadline, Exit 0])
    \<and> 30 * 1000000000 \<le> snd (auth_shutdown (stop ou) flush)"
proof -
  have "\<forall>ev\<in>set (auth_serve res). is_log ev" using serve_only_logs(1) by blast
  note steps = binary_trace_steps [OF assms this]
  have "shutdown_deadline \<le> snd (auth_shutdown (stop ou) flush)"
    by (simp add: auth_shutdown_def Let_def split: prod.split)
  moreover have "case snd (auth_run ou) of
         Some err \<Rightarrow> last (main_of (auth_run ou)) = Exit 1
       | None \<Rightarrow> \<exists>left. filter (\<lambda>ev. \<not> is_log ev) (main_of (auth_run ou)) =
           [InitOtel ''auth-api'', DialRedis \<lparr>opt_Addr = getenv ou ''CACHE_ADDR'',
              opt_Password = getenv ou ''CACHE_PREFIX'', opt_DB = 0\<rparr>,
            OpenDB (getenv ou ''DB_URL''), NewServer, AwaitSignal, ShutdownHTTP (30 * 1000000000),
            ShutdownOtel left, CloseCache, CloseDB, AwaitDeadline, Exit 0]"
    by (cases "snd (auth_run ou)") (simp_all only: option.case auth_run_steps auth_run_fails)
  ultimately show ?thesis
    unfolding steps using auth_run_starts [of ou] by (simp only: shutdown_deadline_def seconds_def)
qed

text \<open>An outside world in which everything answers.\<close>

definition sample_outside :: "(int, string \<rightharpoonup> int, unit) auth_outside" where
  "sample_outside = \<lparr>getenv = (\<lambda>k. if k = EnvOTLPEndpoint then [] else ''x''), telemetry = quiet_sdk,
     globals = no_globals, redis_dial = map_redis, redis_state = Map.empty,
     sql = \<lparr>sql_Open = (\<lambda>driver uri. Inr ()), PingContext = (\<lambda>db. None)\<rparr>,
     stop = \<lparr>srv_Shutdown = (\<lambda>left. (None, 1)), flush_time = (\<lambda>left. 1), rds_Close = None,
       rds_time = 1, db_Close = None, db_time = 1\<rparr>\<rparr>"

theorem auth_process_steps_witness:
  "DialRedis \<lparr>opt_Addr = ''x'', opt_Password = ''x'', opt_DB = 0\<rparr> \<in> set (main_of (auth_run sample_outside))"
proof -
  note t = auth_process_steps [OF main_alone, of sample_outside]
  have ok: "snd (auth_run sample_outside) = None"
    unfolding t [THEN conjunct1] by (simp add: sample_outside_def EnvOTLPEndpoint_def Init_noop map_redis_def NewDB_def)
  have env: "getenv sample_outside ''CACHE_ADDR'' = ''x''" "getenv sample_outside ''CACHE_PREFIX'' = ''x''"
    by (simp_all add: sample_outside_def EnvOTLPEndpoint_def)
  have "DialRedis \<lparr>opt_Addr = ''x'', opt_Password = ''x'', opt_DB = 0\<rparr>
      \<in> set (filter (\<lambda>ev. \<not> is_log ev) (main_of (auth_run sample_outside)))"
    using t [THEN conjunct2, THEN conjunct1] unfolding ok option.case env by (elim exE) (simp only: list.set insert_iff, simp)
  then show ?thesis by simp
qed

end
