(* ===== verification/Process_Output.thy ===== *)
theory Process_Output
  imports Lifecycle
begin

text \<open>
  What the four binaries write: the \<open>init\<close> of each \<open>main.go\<close> installs the JSON logger, then
  \<open>main\<close> runs.  The log events of a run go through that logger.
\<close>

section \<open>From events to lines\<close>

definition error_attr :: "go_error option \<Rightarrow> (string \<times> attr_val) list" where
  "error_attr e = (case e of None \<Rightarrow> [] | Some err \<Rightarrow> [(''error'', AErr err)])"

fun log_event :: "event \<Rightarrow> 'a world_scheme \<Rightarrow> 'a world_scheme" where
  "log_event (Log l m e) w = slog l m (error_attr e) w"
| "log_event _ w = w"

definition written :: "event list \<Rightarrow> 'a world_scheme \<Rightarrow> 'a world_scheme" where
  "written t w = fold log_event t w"

section \<open>The binaries\<close>

definition auth_binary :: "('v, 'r, 'db) auth_outside \<Rightarrow> 'a world_scheme \<Rightarrow> event list \<times> 'a world_scheme" where
  "auth_binary ou w = (let w1 = NewLogger w; evs = main_of (auth_run ou) in (evs, written evs w1))"

definition audit_binary :: "string \<Rightarrow> sdk \<Rightarrow> otel_globals \<Rightarrow> grpc_stop \<Rightarrow> 'a world_scheme
    \<Rightarrow> event list \<times> 'a world_scheme" where
  "audit_binary endpoint s g gs w =
    (let w1 = NewLogger w; evs = main_of (audit_run endpoint s g gs) in (evs, written evs w1))"

definition queue_binary :: "string \<Rightarrow> sdk \<Rightarrow> otel_globals \<Rightarrow> grpc_stop \<Rightarrow> 'a world_scheme
    \<Rightarrow> event list \<times> 'a world_scheme" where
  "queue_binary endpoint s g gs w =
    (let w1 = NewLogger w; evs = main_of (queue_run endpoint s g gs) in (evs, written evs w1))"

definition worker_binary :: "string \<Rightarrow> sdk \<Rightarrow> otel_globals \<Rightarrow> 'a world_scheme \<Rightarrow> event list \<times> 'a world_scheme" where
  "worker_binary endpoint s g w =
    (let w1 = NewLogger w; evs = main_of (worker_run endpoint s g) in (evs, written evs w1))"

section \<open>Facts\<close>

lemma default_logger_log_event [simp]: "default_logger (log_event ev w) = default_logger w"
  by (cases ev) simp_all

lemma default_logger_written [simp]: "default_logger (written t w) = default_logger w"
  unfolding written_def by (induction t arbitrary: w) simp_all

lemma written_append [simp]: "written (s @ t) w = written t (written s w)"
  by (simp add: written_def)

text \<open>The last lines of a run that failed, whatever it had logged before.\<close>

definition reports :: "go_error option \<Rightarrow> event list \<times> 'a world_scheme \<Rightarrow> bool" where
  "reports res p \<longleftrightarrow> (case res of
     None \<Rightarrow> last (fst p) = Exit 0
   | Some err \<Rightarrow> last (fst p) = Exit 1 \<and> last (log_out (snd p)) =
       \<lparr>line_level = LevelError, line_msg = ''failed to run application'', line_attrs = [(''error'', AErr err)]\<rparr>)"

lemma main_reports: "reports (snd r) (main_of r, written (main_of r) (NewLogger w))"
proof (cases "snd r")
  case (Some err)
  let ?w = "written (fst r) (NewLogger w)"
  have "written [Log LevelError ''failed to run application'' (Some err), Exit 1] ?w
      = slog LevelError ''failed to run application'' [(''error'', AErr err)] ?w"
    by (simp add: written_def error_attr_def)
  moreover have "min_level (default_logger ?w) \<le> LevelError" by (simp add: Level_defs)
  ultimately show ?thesis using Some by (simp add: reports_def main_of_def log_out_slog)
qed (simp add: reports_def main_of_def)

text \<open>
  Every binary whose start fails says why: its last line, which the JSON logger does not
  filter, is the error of \<open>run\<close>, and it exits with code 1; otherwise it exits with code 0.
\<close>

lemma binaries_report:
  "reports (snd (auth_run ou)) (auth_binary ou w)"
  "reports (snd (audit_run endpoint s g gs)) (audit_binary endpoint s g gs w)"
  "reports (snd (queue_run endpoint s g gs)) (queue_binary endpoint s g gs w)"
  "reports (snd (worker_run endpoint s g)) (worker_binary endpoint s g w)"
  by (simp_all add: auth_binary_def audit_binary_def queue_binary_def worker_binary_def Let_def main_reports)

end
