(* ===== verification/Auth_Domain.thy ===== *)
theory Auth_Domain
  imports Http_Request "HOL-Library.Word"
begin

text \<open>
  The auth service's data and its user lookup: \<open>modules/auth/src/domain/token.go\<close>,
  \<open>domain/user.go\<close>, \<open>infra/database/db/models.go\<close> and \<open>infra/database/db/login.sql.go\<close>
  over the \<open>users\<close> table of \<open>migrations/20250701140441.sql\<close>.  A \<open>time.Time\<close> is its
  nanoseconds since the Unix epoch; its zero value is January 1 of year 1.  A
  \<open>time.Duration\<close> is a 64-bit count of nanoseconds.
\<close>

section \<open>Tokens\<close>

type_synonym time = int

definition zero_time :: time where "zero_time = - 62135596800 * 10 ^ 9"

definition Minute :: "64 word" where "Minute = 60 * 10 ^ 9"
definition Hour :: "64 word" where "Hour = 60 * Minute"

definition time_Add :: "time \<Rightarrow> 64 word \<Rightarrow> time" where
  "time_Add t d = t + sint d"

record Token =
  UserID :: string
  Scope :: string
  Role :: string
  Expired :: time

definition zero_Token :: Token where
  "zero_Token = \<lparr>UserID = [], Scope = [], Role = [], Expired = zero_time\<rparr>"

text \<open>\<open>now\<close> is what \<open>time.Now\<close> returns.\<close>

definition createToken :: "time \<Rightarrow> string \<Rightarrow> string \<Rightarrow> string \<Rightarrow> 64 word \<Rightarrow> Token" where
  "createToken now uid scope role expired =
    \<lparr>UserID = uid, Scope = scope, Role = role, Expired = time_Add now expired\<rparr>"

definition NewAccessToken :: "time \<Rightarrow> string \<Rightarrow> string \<Rightarrow> string \<Rightarrow> Token" where
  "NewAccessToken now uid scope role = createToken now uid scope role (15 * Minute)"

definition NewRefreshToken :: "time \<Rightarrow> string \<Rightarrow> string \<Rightarrow> string \<Rightarrow> Token" where
  "NewRefreshToken now uid scope role = createToken now uid scope role (12 * Hour)"

lemma sint_15_Minute: "sint (15 * Minute) = 900 * 10 ^ 9"
  by (simp add: Minute_def)

lemma sint_12_Hour: "sint (12 * Hour) = 43200 * 10 ^ 9"
  by (simp add: Hour_def Minute_def)

section \<open>Users\<close>

record LoginInput =
  in_Email :: string
  in_Password :: string

definition NewLoginInput :: "string \<Rightarrow> string \<Rightarrow> LoginInput" where
  "NewLoginInput email password = \<lparr>in_Email = email, in_Password = password\<rparr>"

record domain_User =
  du_ID :: string
  du_Email :: string
  du_Password :: string

definition NewUser :: "string \<Rightarrow> string \<Rightarrow> string \<Rightarrow> domain_User" where
  "NewUser uid email password = \<lparr>du_ID = uid, du_Email = email, du_Password = password\<rparr>"

text \<open>\<open>db.User\<close>, a row of \<open>users\<close>; a NULL time is \<open>None\<close>.\<close>

record User =
  user_ID :: "32 word"
  LoginID :: string
  Password :: string
  Email :: string
  CreatedAt :: "time option"
  UpdatedAt :: "time option"

definition sql_ErrNoRows :: go_error where
  "sql_ErrNoRows = ErrorString ''sql: no rows in result set''"

text \<open>
  \<open>GetUser\<close>: the first row with that e-mail.  \<open>fault\<close> is the error of a query that fails
  before it returns a row (connection, encoding).
\<close>

definition GetUser :: "(string \<Rightarrow> go_error option) \<Rightarrow> User list \<Rightarrow> string \<Rightarrow> go_error + User" where
  "GetUser fault users email =
    (case fault email of
       Some err \<Rightarrow> Inl err
     | None \<Rightarrow>
         (case find (\<lambda>u. Email u = email) users of
            None \<Rightarrow> Inl sql_ErrNoRows
          | Some i \<Rightarrow> Inr i))"

text \<open>The constraints of \<open>users\<close>: three unique columns.\<close>

definition users_inv :: "User list \<Rightarrow> bool" where
  "users_inv us \<longleftrightarrow> distinct (map user_ID us) \<and> distinct (map LoginID us) \<and> distinct (map Email us)"

lemma GetUser_found:
  "users_inv us \<Longrightarrow> u \<in> set us \<Longrightarrow> fault (Email u) = None \<Longrightarrow> GetUser fault us (Email u) = Inr u"
  by (simp add: GetUser_def users_inv_def find_unique)

lemma GetUser_Inr: "GetUser fault us email = Inr u \<Longrightarrow> u \<in> set us \<and> Email u = email"
  by (auto simp: GetUser_def find_Some_iff split: option.splits)

section \<open>Properties\<close>

text \<open>
  C34: Token lifetimes: the 64-bit durations do not overflow, an access token expires 15
  minutes after its creation and a refresh token after 12 hours, so the refresh token of the
  same moment outlives the access token; both carry the subject, scope and role unchanged.
  These are the lifetimes of the code: the design document of the module plans 30 days for a
  refresh token.
\<close>

theorem token_lifetimes:
  "Expired (NewAccessToken now uid scope role) = now + 15 * 60 * 1000000000
    \<and> Expired (NewRefreshToken now uid scope role) = now + 12 * 3600 * 1000000000
    \<and> Expired (NewAccessToken now uid scope role) < Expired (NewRefreshToken now uid scope role)
    \<and> UserID (NewAccessToken now uid scope role) = uid \<and> UserID (NewRefreshToken now uid scope role) = uid
    \<and> Scope (NewAccessToken now uid scope role) = scope \<and> Scope (NewRefreshToken now uid scope role) = scope
    \<and> Role (NewAccessToken now uid scope role) = role \<and> Role (NewRefreshToken now uid scope role) = role"
  using sint_15_Minute sint_12_Hour
  by (simp add: NewAccessToken_def NewRefreshToken_def createToken_def time_Add_def)

end
