(* ===== verification/Auth_Login.thy ===== *)
theory Auth_Login
  imports Auth_Domain
begin

text \<open>
  The login request from body to response: \<open>modules/auth/src/route/request/login.go\<close>,
  \<open>service/login.go\<close>, \<open>route/login.go\<close>.  The validation library
  (\<open>github.com/go-ozzo/ozzo-validation\<close>) is the parameter \<open>ozzo\<close>: its rules and its
  \<open>ValidateStruct\<close>.
\<close>

section \<open>\<open>LoginRequest\<close>\<close>

record LoginRequest =
  req_Email :: string
  req_Password :: string

definition zero_LoginRequest :: LoginRequest where
  "zero_LoginRequest = \<lparr>req_Email = [], req_Password = []\<rparr>"

type_synonym rule = "string \<Rightarrow> go_error option"

record ozzo =
  Required :: rule
  EmailFormat :: rule
  Length :: "int \<Rightarrow> int \<Rightarrow> rule"
  ValidateStruct :: "(string \<times> rule list) list \<Rightarrow> go_error option"

definition LoginRequest_Validate :: "ozzo \<Rightarrow> LoginRequest \<Rightarrow> go_error option" where
  "LoginRequest_Validate oz r =
    ValidateStruct oz
      [(req_Email r, [Required oz, EmailFormat oz, Length oz 5 100]),
       (req_Password r, [Required oz, Length oz 6 100])]"

text \<open>
  Documented behaviour of ozzo-validation: \<open>Required\<close> rejects the empty string, the other
  rules accept it, \<open>Length\<close> counts bytes, and \<open>ValidateStruct\<close> is nil when every rule of
  every field is.  \<open>email_ok\<close> is the library's e-mail syntax.
\<close>

definition ozzo_documented :: "ozzo \<Rightarrow> (string \<Rightarrow> bool) \<Rightarrow> bool" where
  "ozzo_documented oz email_ok \<longleftrightarrow>
    (\<forall>s. Required oz s = None \<longleftrightarrow> s \<noteq> [])
    \<and> (\<forall>s. EmailFormat oz s = None \<longleftrightarrow> s = [] \<or> email_ok s)
    \<and> (\<forall>lo hi s. 0 < hi \<longrightarrow> (Length oz lo hi s = None \<longleftrightarrow>
          s = [] \<or> lo \<le> int (length s) \<and> int (length s) \<le> hi))
    \<and> (\<forall>fs. ValidateStruct oz fs = None \<longleftrightarrow> (\<forall>(v, rules)\<in>set fs. \<forall>rule\<in>set rules. rule v = None))"

text \<open>
  A login request is valid exactly when its e-mail has 5 to 100 bytes and the library's
  e-mail syntax and its password has 6 to 100 bytes.
\<close>

lemma login_request_valid_iff:
  assumes "ozzo_documented oz email_ok"
  shows "LoginRequest_Validate oz r = None \<longleftrightarrow>
    email_ok (req_Email r) \<and> 5 \<le> length (req_Email r) \<and> length (req_Email r) \<le> 100
    \<and> 6 \<le> length (req_Password r) \<and> length (req_Password r) \<le> 100"
  using assms by (auto simp: LoginRequest_Validate_def ozzo_documented_def)

section \<open>\<open>LoginService\<close>\<close>

text \<open>
  \<open>Post\<close> returns a token pointer and an error; \<open>get_user\<close> is the repository it was built
  with.  The transactor it holds is not used.
\<close>

definition LoginService_Post ::
  "(string \<Rightarrow> go_error + User) \<Rightarrow> LoginInput \<Rightarrow> Token option \<times> go_error option" where
  "LoginService_Post get_user input =
    (case get_user (in_Email input) of
       Inl err \<Rightarrow>
         (None, Some (NewDBError (Errorf_v ''failed to retrieve user from database: '' err)))
     | Inr user \<Rightarrow>
         if Password user \<noteq> in_Password input
         then (None, Some (NewUnauthorizedError (ErrorString ''invalid credentials'')))
         else (Some zero_Token, None))"

section \<open>The login handler\<close>

record response =
  resp_Token :: "Token option"

definition newResponse :: "Token option \<Rightarrow> response" where
  "newResponse token = \<lparr>resp_Token = token\<rparr>"

type_synonym post_fn = "LoginInput \<Rightarrow> Token option \<times> go_error option"

definition login ::
  "response encoder \<Rightarrow> (string \<Rightarrow> go_error + LoginRequest) \<Rightarrow> ozzo \<Rightarrow> post_fn
    \<Rightarrow> ResponseWriter \<Rightarrow> Body \<Rightarrow> ResponseWriter \<times> Body" where
  "login enc unmarshal oz Post w body =
    (case RequestBody unmarshal zero_LoginRequest (LoginRequest_Validate oz) body of
       ((_, Some err), body1) \<Rightarrow> (ResponseError enc w err, body1)
     | ((req, None), body1) \<Rightarrow>
         (case Post (NewLoginInput (req_Email req) (req_Password req)) of
            (_, Some err) \<Rightarrow> (ResponseError enc w err, body1)
          | (token, None) \<Rightarrow> (ResponseOk enc w (newResponse token), body1)))"

section \<open>The contract of the \<open>loginService\<close> interface\<close>

text \<open>
  The handler relies on two things: without an error there is a token, and an error is one
  of the typed errors of \<open>utilhttp\<close>, so that it maps to a deliberate status.
\<close>

locale login_service =
  fixes Post :: post_fn
  assumes token_on_success: "Post i = (t, None) \<Longrightarrow> t \<noteq> None"
    and typed_error: "Post i = (t, Some e) \<Longrightarrow> t = None \<and> as_AppError e \<noteq> None"
begin

text \<open>The response the handler writes, as a status and a payload.\<close>

lemma login_writes:
  "\<exists>code msg. fst (login enc unmarshal oz Post w body) = writeJSON enc w code msg
     \<and> (code = 200 \<and> (\<exists>t. msg = SuccessResponse (newResponse (Some t)))
        \<or> 400 \<le> code \<and> (\<exists>s. msg = ErrorResponse s))"
proof -
  obtain req e body1 where rb:
    "RequestBody unmarshal zero_LoginRequest (LoginRequest_Validate oz) body = ((req, e), body1)"
    by (metis prod.collapse)
  show ?thesis
  proof (cases e)
    case (Some err)
    then show ?thesis using rb status_of_ge_400 [of err]
      by (auto simp: login_def ResponseError_eq_writeJSON)
  next
    case None
    obtain t pe where p: "Post (NewLoginInput (req_Email req) (req_Password req)) = (t, pe)"
      by (metis prod.collapse)
    show ?thesis
    proof (cases pe)
      case (Some err)
      then show ?thesis using rb None p status_of_ge_400 [of err]
        by (auto simp: login_def ResponseError_eq_writeJSON)
    next
      case no_err: None
      then obtain tok where "t = Some tok" using p token_on_success by blast
      then show ?thesis using rb None p no_err by (auto simp: login_def ResponseOk_def)
    qed
  qed
qed

end

interpretation login_svc: login_service "LoginService_Post get_user" for get_user
  by unfold_locales
    (auto simp: LoginService_Post_def NewDBError_def NewUnauthorizedError_def
      split: sum.splits if_splits)

section \<open>Properties\<close>

text \<open>The status a login request deserves, by the request and the user store.\<close>

definition login_status ::
  "(string \<Rightarrow> go_error + LoginRequest) \<Rightarrow> ozzo \<Rightarrow> (string \<Rightarrow> go_error + User) \<Rightarrow> Body \<Rightarrow> int" where
  "login_status unmarshal oz get_user body =
    (if read_err body \<noteq> None then 400
     else case unmarshal (bytes body) of
       Inl _ \<Rightarrow> 400
     | Inr req \<Rightarrow>
         if LoginRequest_Validate oz req \<noteq> None then 400
         else case get_user (req_Email req) of
           Inl _ \<Rightarrow> 500
         | Inr user \<Rightarrow> if Password user = req_Password req then 200 else 401)"

lemma login_writes_status:
  "\<exists>msg. fst (login enc unmarshal oz (LoginService_Post get_user) w body)
      = writeJSON enc w (login_status unmarshal oz get_user body) msg"
  by (auto simp: login_def login_status_def RequestBody_def ReadAll_def LoginService_Post_def
      NewLoginInput_def ResponseError_eq_writeJSON ResponseOk_def split: option.split sum.split)

text \<open>
  The login endpoint answers every request with exactly one status: 400 when the body
  cannot be read, decoded or validated, 500 when the user lookup fails, 401 when the
  password differs, 200 otherwise.
\<close>

lemma login_endpoint_status:
  assumes "encoder_only_writes enc" and "sent_status w = None"
  shows "sent_status (fst (login enc unmarshal oz (LoginService_Post get_user) w body))
    = Some (login_status unmarshal oz get_user body)"
  using login_writes_status [of enc unmarshal oz get_user w body] writeJSON_status(1) [OF assms]
  by auto

text \<open>A request decoder, rules and users for samples.\<close>

definition sample_unmarshal :: "string \<Rightarrow> go_error + LoginRequest" where
  "sample_unmarshal s =
    (if s = ''good'' then Inr \<lparr>req_Email = ''a@b.c'', req_Password = ''secret''\<rparr>
     else Inl (ErrorString ''invalid character''))"

definition simple_ozzo :: "(string \<Rightarrow> bool) \<Rightarrow> ozzo" where
  "simple_ozzo email_ok = \<lparr>
     Required = (\<lambda>s. if s = [] then Some (ErrorString ''cannot be blank'') else None),
     EmailFormat = (\<lambda>s. if s = [] \<or> email_ok s then None else Some (ErrorString ''must be a valid email address'')),
     Length = (\<lambda>lo hi s. if s = [] \<or> lo \<le> int (length s) \<and> int (length s) \<le> hi then None
                         else Some (ErrorString ''the length must be in range'')),
     ValidateStruct = (\<lambda>fs. if list_all (\<lambda>(v, rules). list_all (\<lambda>rule. rule v = None) rules) fs then None
                            else Some (ErrorString ''invalid''))\<rparr>"

lemma simple_ozzo_documented: "ozzo_documented (simple_ozzo ok) ok"
  by (auto simp: ozzo_documented_def simple_ozzo_def list_all_iff)

definition sample_user :: User where
  "sample_user = \<lparr>user_ID = 1, LoginID = ''a'', Password = ''secret'', Email = ''a@b.c'',
     CreatedAt = None, UpdatedAt = None\<rparr>"

definition sample_body :: "string \<Rightarrow> Body" where
  "sample_body s = \<lparr>bytes = s, read_err = None, drained = False, closes = 0\<rparr>"

definition reply_encoder :: "response encoder" where
  "reply_encoder msg w = (Write w ''{}'', None)"

lemma reply_encoder_only_writes: "encoder_only_writes reply_encoder"
  unfolding encoder_only_writes_def reply_encoder_def by (auto intro: exI [of _ "[''{}'']"])

text \<open>
  Logging in is authentication: over a user table with its uniqueness constraints and
  working queries, the answer is 200 exactly when the request decodes and validates and the
  one user with that e-mail has exactly that password.
\<close>

lemma login_authenticates:
  assumes "encoder_only_writes enc" and "sent_status w = None" and "users_inv us"
  shows "sent_status (fst (login enc unmarshal oz (LoginService_Post (GetUser (\<lambda>_. None) us)) w body)) = Some 200
    \<longleftrightarrow> (\<exists>req u. read_err body = None \<and> unmarshal (bytes body) = Inr req
         \<and> LoginRequest_Validate oz req = None
         \<and> u \<in> set us \<and> Email u = req_Email req \<and> Password u = req_Password req)"
proof -
  have get: "GetUser (\<lambda>_. None) us e = Inr u \<longleftrightarrow> u \<in> set us \<and> Email u = e" for e u
    using GetUser_found [OF assms(3), of u "\<lambda>_. None"] GetUser_Inr [of "\<lambda>_. None" us e u] by auto
  have "login_status unmarshal oz (GetUser (\<lambda>_. None) us) body = 200
    \<longleftrightarrow> (\<exists>req u. read_err body = None \<and> unmarshal (bytes body) = Inr req
         \<and> LoginRequest_Validate oz req = None
         \<and> GetUser (\<lambda>_. None) us (req_Email req) = Inr u \<and> Password u = req_Password req)"
    by (auto simp: login_status_def split: sum.split)
  also have "\<dots> \<longleftrightarrow> (\<exists>req u. read_err body = None \<and> unmarshal (bytes body) = Inr req
         \<and> LoginRequest_Validate oz req = None
         \<and> u \<in> set us \<and> Email u = req_Email req \<and> Password u = req_Password req)"
    unfolding get by blast
  finally show ?thesis using login_writes_status [of enc unmarshal oz "GetUser (\<lambda>_. None) us" w body]
      writeJSON_status(1) [OF assms(1,2)] by auto
qed

text \<open>
  Whatever a login request meets, the response is either 200 with a token or a status of
  at least 400 with an error message, written once; and the token of a success is the zero
  token, with no subject and an expiry in year 1.
\<close>

lemma login_response_shape:
  "(\<exists>code msg. fst (login enc unmarshal oz (LoginService_Post get_user) w body) = writeJSON enc w code msg
     \<and> (code = 200 \<and> (\<exists>t. msg = SuccessResponse (newResponse (Some t)))
        \<or> 400 \<le> code \<and> (\<exists>s. msg = ErrorResponse s)))
   \<and> fst (LoginService_Post get_user input) \<in> {None, Some zero_Token}
   \<and> UserID zero_Token = [] \<and> Expired zero_Token < 0"
  using login_svc.login_writes
  by (auto simp: LoginService_Post_def zero_Token_def zero_time_def split: sum.split)

end
