(* ===== verification/Auth_Route.thy ===== *)
theory Auth_Route
  imports Auth_Login Otel
begin

text \<open>
  \<open>modules/auth/src/route/handler.go\<close>: the handler and its router.  chi is not in the
  repository; what the code puts into the multiplexer is kept in \<open>mux\<close>: its middlewares in
  order, and its routes as method, full pattern and endpoint.  \<open>Route\<close> mounts a
  sub-router under a prefix, as chi documents.
\<close>

section \<open>Definitions\<close>

record ('mw, 'ep) mux =
  middlewares :: "'mw list"
  routes :: "(string \<times> string \<times> 'ep) list"

definition NewMux :: "('mw, 'ep) mux" where
  "NewMux = \<lparr>middlewares = [], routes = []\<rparr>"

definition Use :: "'mw list \<Rightarrow> ('mw, 'ep) mux \<Rightarrow> ('mw, 'ep) mux" where
  "Use ms r = r\<lparr>middlewares := middlewares r @ ms\<rparr>"

definition Get :: "string \<Rightarrow> 'ep \<Rightarrow> ('mw, 'ep) mux \<Rightarrow> ('mw, 'ep) mux" where
  "Get pattern ep r = r\<lparr>routes := routes r @ [(''GET'', pattern, ep)]\<rparr>"

definition Post :: "string \<Rightarrow> 'ep \<Rightarrow> ('mw, 'ep) mux \<Rightarrow> ('mw, 'ep) mux" where
  "Post pattern ep r = r\<lparr>routes := routes r @ [(''POST'', pattern, ep)]\<rparr>"

definition Route :: "string \<Rightarrow> (('mw, 'ep) mux \<Rightarrow> ('mw, 'ep) mux) \<Rightarrow> ('mw, 'ep) mux \<Rightarrow> ('mw, 'ep) mux" where
  "Route prefix f r =
    r\<lparr>routes := routes r @ map (\<lambda>(m, p, ep). (m, prefix @ p, ep)) (routes (f NewMux))\<rparr>"

text \<open>The endpoints: \<open>health\<close> is the empty handler, \<open>LoginEndpoint\<close> the method \<open>login\<close>.\<close>

datatype auth_endpoint = HealthEndpoint | LoginEndpoint

record route_handler =
  loginSvc :: post_fn

definition auth_NewHandler :: "post_fn \<Rightarrow> route_handler" where
  "auth_NewHandler svc = \<lparr>loginSvc = svc\<rparr>"

text \<open>\<open>mw\<close> is \<open>otelhttp.NewMiddleware\<close>.\<close>

definition Router :: "(otelhttp_config \<Rightarrow> 'mw) \<Rightarrow> ('mw, auth_endpoint) mux" where
  "Router mw =
    (let r0 = NewMux;
         r1 = Use (middlewares r0) r0;
         r2 = Use [HTTPMiddleware mw ''auth-api'' []] r1;
         r3 = Get ''/health'' HealthEndpoint r2
     in Route ''/auth/v1'' (Route ''/token'' (Post ''/login'' LoginEndpoint)) r3)"

text \<open>Running an endpoint on a request body.  The health handler writes nothing.\<close>

definition run_endpoint ::
  "response encoder \<Rightarrow> (string \<Rightarrow> go_error + LoginRequest) \<Rightarrow> ozzo \<Rightarrow> route_handler
    \<Rightarrow> auth_endpoint \<Rightarrow> ResponseWriter \<Rightarrow> Body \<Rightarrow> ResponseWriter \<times> Body" where
  "run_endpoint enc unmarshal oz h ep w body =
    (case ep of
       HealthEndpoint \<Rightarrow> (w, body)
     | LoginEndpoint \<Rightarrow> login enc unmarshal oz (loginSvc h) w body)"

end
