(* ===== verification/Auth_Schema.thy ===== *)
theory Auth_Schema
  imports Auth_Domain Pg_Types
begin

text \<open>
  The tables of the auth service: \<open>modules/auth/src/infra/database/db/models.go\<close> over
  \<open>migrations/20250701140441.sql\<close>.  No Go code writes them; what the migration declares (the
  column widths, the unique and primary keys, the foreign keys) holds of every state
  PostgreSQL keeps, whoever writes, and is the predicate \<open>auth_db_ok\<close>.
\<close>

section \<open>Rows\<close>

record UserRole =
  ur_UserID :: "32 word"
  ur_RoleID :: "32 word"
  ur_CreatedAt :: "time option"
  ur_UpdatedAt :: "time option"

record UserRoleType =
  urt_ID :: "32 word"
  urt_Role :: string
  urt_CreatedAt :: "time option"
  urt_UpdatedAt :: "time option"

record UserScope =
  us_UserID :: "32 word"
  us_ScopeID :: "32 word"
  us_CreatedAt :: "time option"
  us_UpdatedAt :: "time option"

record UserScopeType =
  ust_ID :: "32 word"
  ust_Scope :: string
  ust_CreatedAt :: "time option"
  ust_UpdatedAt :: "time option"

record auth_db =
  users :: "User list"
  user_roles :: "UserRole list"
  user_role_types :: "UserRoleType list"
  user_scopes :: "UserScope list"
  user_scope_types :: "UserScopeType list"

section \<open>What the migration declares\<close>

definition user_fits :: "User \<Rightarrow> bool" where
  "user_fits u \<longleftrightarrow> fits 255 (LoginID u) \<and> fits 255 (Password u) \<and> fits 255 (Email u)"

definition roles_ok :: "auth_db \<Rightarrow> bool" where
  "roles_ok d \<longleftrightarrow> distinct (map urt_ID (user_role_types d)) \<and> distinct (map urt_Role (user_role_types d))
    \<and> list_all (\<lambda>r. fits 16 (urt_Role r)) (user_role_types d)
    \<and> distinct (map (\<lambda>r. (ur_UserID r, ur_RoleID r)) (user_roles d))
    \<and> list_all (\<lambda>r. ur_UserID r \<in> user_ID ` set (users d) \<and> ur_RoleID r \<in> urt_ID ` set (user_role_types d)) (user_roles d)"

definition scopes_ok :: "auth_db \<Rightarrow> bool" where
  "scopes_ok d \<longleftrightarrow> distinct (map ust_ID (user_scope_types d)) \<and> distinct (map ust_Scope (user_scope_types d))
    \<and> list_all (\<lambda>r. fits 64 (ust_Scope r)) (user_scope_types d)
    \<and> distinct (map (\<lambda>r. (us_UserID r, us_ScopeID r)) (user_scopes d))
    \<and> list_all (\<lambda>r. us_UserID r \<in> user_ID ` set (users d) \<and> us_ScopeID r \<in> ust_ID ` set (user_scope_types d)) (user_scopes d)"

definition auth_db_ok :: "auth_db \<Rightarrow> bool" where
  "auth_db_ok d \<longleftrightarrow> users_inv (users d) \<and> list_all user_fits (users d) \<and> roles_ok d \<and> scopes_ok d"

lemma auth_db_ok_users: "auth_db_ok d \<Longrightarrow> users_inv (users d)"
  by (simp add: auth_db_ok_def)

section \<open>A database with one user who holds one role\<close>

definition one_user :: User where
  "one_user = \<lparr>user_ID = 1, LoginID = ''a'', Password = ''secret'', Email = ''a@b.c'',
     CreatedAt = None, UpdatedAt = None\<rparr>"

definition one_user_db :: auth_db where
  "one_user_db = \<lparr>users = [one_user],
     user_roles = [\<lparr>ur_UserID = 1, ur_RoleID = 7, ur_CreatedAt = None, ur_UpdatedAt = None\<rparr>],
     user_role_types = [\<lparr>urt_ID = 7, urt_Role = ''admin'', urt_CreatedAt = None, urt_UpdatedAt = None\<rparr>],
     user_scopes = [], user_scope_types = []\<rparr>"

lemma one_user_db_is: "users one_user_db = [one_user]"
  by (simp add: one_user_db_def)

lemma one_user_db_ok: "auth_db_ok one_user_db"
  by (simp add: auth_db_ok_def roles_ok_def scopes_ok_def users_inv_def user_fits_def one_user_db_def one_user_def
      fits_def seq_len_def Let_def)

end
