(* ===== verification/Auth_Wiring.thy ===== *)
theory Auth_Wiring
  imports Auth_Route Auth_Schema Sql_Queries
begin

text \<open>
  The auth service put together: the queries bound to a handle
  (\<open>modules/auth/src/infra/database/db/db.go\<close>, \<open>querier.go\<close>), the login service over them and
  the transactor (\<open>service/login.go\<close>), and the wiring of \<open>run\<close> in \<open>cmd/api/main.go\<close>, from the
  database to the router.
\<close>

section \<open>\<open>Queries\<close>\<close>

record auth_Queries =
  auth_handle :: DBTX

definition auth_New :: "DBTX \<Rightarrow> auth_Queries" where
  "auth_New db = \<lparr>auth_handle = db\<rparr>"

definition auth_WithTx :: "auth_Queries \<Rightarrow> nat \<Rightarrow> auth_Queries" where
  "auth_WithTx q tx = \<lparr>auth_handle = OnTx tx\<rparr>"

text \<open>The interface \<open>Querier\<close>, and \<open>Queries\<close> as one; \<open>fault\<close> as in \<open>GetUser\<close>.\<close>

record auth_Querier =
  q_GetUser :: "string \<Rightarrow> auth_db sqldb \<Rightarrow> (go_error + User) \<times> auth_db sqldb"

text \<open>Which answers mean that the transaction is lost: all errors but \<open>sql.ErrNoRows\<close>.\<close>

definition auth_refused :: "go_error + 'r \<Rightarrow> bool" where
  "auth_refused r = (case r of Inl e \<Rightarrow> e \<noteq> sql_ErrNoRows | Inr _ \<Rightarrow> False)"

definition auth_Queries_Querier :: "(string \<Rightarrow> go_error option) \<Rightarrow> auth_Queries \<Rightarrow> auth_Querier" where
  "auth_Queries_Querier fault q =
    \<lparr>q_GetUser = (\<lambda>email db.
       case run_stmt auth_refused (auth_handle q) (\<lambda>d. (GetUser fault (users d) email, d)) db of
         (Inl err, db1) \<Rightarrow> (Inl err, db1)
       | (Inr r, db1) \<Rightarrow> (r, db1))\<rparr>"

section \<open>\<open>LoginService\<close>\<close>

record LoginService =
  repo :: auth_Querier
  svc_tx :: "auth_db Transactor"

definition NewLoginService :: "auth_Querier \<Rightarrow> auth_db Transactor \<Rightarrow> LoginService" where
  "NewLoginService r t = \<lparr>repo = r, svc_tx = t\<rparr>"

text \<open>The service's \<open>Post\<close> over a database in a state: the lookup is a read.\<close>

definition service_Post :: "LoginService \<Rightarrow> auth_db sqldb \<Rightarrow> post_fn" where
  "service_Post s db = LoginService_Post (\<lambda>email. fst (q_GetUser (repo s) email db))"

text \<open>The wiring of \<open>run\<close>: transactor, queries on the pool, service, handler.\<close>

definition auth_wired :: "(string \<Rightarrow> go_error option) \<Rightarrow> auth_db sqldb \<Rightarrow> route_handler" where
  "auth_wired fault db =
    (let tx = NewTransactor
     in auth_NewHandler (service_Post (NewLoginService (auth_Queries_Querier fault (auth_New Pool)) tx) db))"

section \<open>Routing\<close>

text \<open>
  chi is not in the repository.  As documented, a request is dispatched to the route with its
  method whose pattern matches the path, and a pattern without a placeholder or a wildcard
  matches itself only; for other requests no endpoint runs (404 or 405).
\<close>

definition static_pattern :: "string \<Rightarrow> bool" where
  "static_pattern p \<longleftrightarrow> CHR 0x7B \<notin> set p \<and> CHR ''*'' \<notin> set p"

definition chi_documented :: "(('mw, 'ep) mux \<Rightarrow> string \<Rightarrow> string \<Rightarrow> (string \<times> 'ep) option) \<Rightarrow> bool" where
  "chi_documented lookup \<longleftrightarrow> (\<forall>r m p. list_all (\<lambda>(_, pat, _). static_pattern pat) (routes r) \<longrightarrow>
     lookup r m p = map_option snd (find (\<lambda>(m', pat, _). m' = m \<and> pat = p) (routes r)))"

lemma Router_routes:
  "routes (Router mw) = [(''GET'', ''/health'', HealthEndpoint), (''POST'', ''/auth/v1/token/login'', LoginEndpoint)]"
  by (simp add: Router_def Let_def NewMux_def Use_def Get_def Post_def Route_def)

lemma Router_middlewares:
  "middlewares (Router mw) = [mw \<lparr>operation = ''auth-api'', request_filter = defaultShouldTrace,
     span_name = spanNameFromPattern\<rparr>]"
  by (simp add: Router_def Let_def NewMux_def Use_def Get_def Post_def Route_def HTTPMiddleware_def)

lemma Router_lookup:
  assumes "chi_documented lookup"
  shows "lookup (Router mw) m p =
    (if m = ''GET'' \<and> p = ''/health'' then Some (''/health'', HealthEndpoint)
     else if m = ''POST'' \<and> p = ''/auth/v1/token/login'' then Some (''/auth/v1/token/login'', LoginEndpoint)
     else None)"
proof -
  have "list_all (\<lambda>(_, pat, _). static_pattern pat) (routes (Router mw))"
    by (simp add: Router_routes static_pattern_def)
  then show ?thesis using assms unfolding chi_documented_def by (auto simp: Router_routes)
qed

section \<open>Facts\<close>

lemma pool_GetUser:
  "q_GetUser (auth_Queries_Querier fault (auth_New Pool)) email db = (GetUser fault (users (committed db)) email, db)"
  by (simp add: auth_Queries_Querier_def auth_New_def run_stmt_def exec_direct_def)

lemma loginSvc_wired: "loginSvc (auth_wired fault db) = LoginService_Post (GetUser fault (users (committed db)))"
  by (simp add: auth_wired_def auth_NewHandler_def service_Post_def NewLoginService_def pool_GetUser)

section \<open>Properties\<close>

text \<open>
  C4: The auth service from the router to the tables: of all requests only \<open>GET /health\<close> and
  \<open>POST /auth/v1/token/login\<close> reach an endpoint; every request but \<open>GET /health\<close> is traced, a
  login under the name \<open>POST /auth/v1/token/login\<close>; the health endpoint writes nothing (the
  server then sends 200 with an empty body); and over tables that satisfy the constraints of
  the migration, as long as no lookup fails, a login is answered 200 exactly when it decodes,
  has an e-mail of 5 to 100 bytes in the library's syntax and a password of 6 to 100 bytes,
  and a committed user has that e-mail and that password, where updates an open transaction
  has queued do not count.
\<close>

theorem auth_service_end_to_end:
  assumes "chi_documented lookup" and "encoder_only_writes enc" and "sent_status w = None"
    and "auth_db_ok (committed db)" and "ozzo_documented oz email_ok"
  shows "map_option snd (lookup (Router mw) m p) =
      (if m = ''GET'' \<and> p = ''/health'' then Some HealthEndpoint
       else if m = ''POST'' \<and> p = ''/auth/v1/token/login'' then Some LoginEndpoint else None)
    \<and> middlewares (Router (\<lambda>c. (request_filter c rq, span_name c (operation c)
          \<lparr>Method = ''POST'', Pattern = ''/auth/v1/token/login'', URL_Path = ''/auth/v1/token/login''\<rparr>)))
      = [(Method rq \<noteq> ''GET'' \<or> URL_Path rq \<noteq> ''/health'', ''POST /auth/v1/token/login'')]
    \<and> run_endpoint enc unmarshal oz (auth_wired (\<lambda>_. None) db) HealthEndpoint w body = (w, body)
    \<and> (sent_status (fst (run_endpoint enc unmarshal oz (auth_wired (\<lambda>_. None) db) LoginEndpoint w body)) = Some 200
       \<longleftrightarrow> (\<exists>req u. read_err body = None \<and> unmarshal (bytes body) = Inr req
            \<and> email_ok (req_Email req) \<and> 5 \<le> length (req_Email req) \<and> length (req_Email req) \<le> 100
            \<and> 6 \<le> length (req_Password req) \<and> length (req_Password req) \<le> 100
            \<and> u \<in> set (users (committed db)) \<and> Email u = req_Email req \<and> Password u = req_Password req))"
proof -
  have "users_inv (users (committed db))" by (rule auth_db_ok_users [OF assms(4)])
  note login = login_authenticates [OF assms(2,3) this, of unmarshal oz body]
  have "span_name \<lparr>operation = ''auth-api'', request_filter = defaultShouldTrace, span_name = spanNameFromPattern\<rparr>
      ''auth-api'' \<lparr>Method = ''POST'', Pattern = ''/auth/v1/token/login'', URL_Path = ''/auth/v1/token/login''\<rparr>
      = ''POST /auth/v1/token/login''"
    by (simp add: spanNameFromPattern_def HasPrefix_def)
  then show ?thesis
    by (simp add: Router_lookup [OF assms(1)] Router_middlewares defaultShouldTrace_def run_endpoint_def
        loginSvc_wired login login_request_valid_iff [OF assms(5)])
qed

text \<open>A router that searches its routes.\<close>

definition search_routes :: "('mw, 'ep) mux \<Rightarrow> string \<Rightarrow> string \<Rightarrow> (string \<times> 'ep) option" where
  "search_routes r m p = map_option snd (find (\<lambda>(m', pat, _). m' = m \<and> pat = p) (routes r))"

lemma search_routes_documented: "chi_documented search_routes"
  by (simp add: chi_documented_def search_routes_def)

definition one_user_sqldb :: "auth_db sqldb" where
  "one_user_sqldb = \<lparr>committed = one_user_db, txs = Map.empty, next_tx = 0,
     begin_fault = \<lambda>_. None, commit_fault = \<lambda>_. None, rollback_fault = \<lambda>_. None\<rparr>"

theorem auth_service_end_to_end_witness:
  "sent_status (fst (run_endpoint reply_encoder sample_unmarshal (simple_ozzo (\<lambda>s. CHR ''@'' \<in> set s))
      (auth_wired (\<lambda>_. None) one_user_sqldb) LoginEndpoint fresh_writer (sample_body ''good''))) = Some 200"
proof -
  have r: "auth_db_ok (committed one_user_sqldb)"
    by (simp add: one_user_sqldb_def one_user_db_ok)
  show ?thesis
    by (subst auth_service_end_to_end [OF search_routes_documented reply_encoder_only_writes fresh_writer_simps(1) r
        simple_ozzo_documented,
        THEN conjunct2, THEN conjunct2, THEN conjunct2])
      (simp add: sample_unmarshal_def sample_body_def one_user_sqldb_def one_user_db_is one_user_def)
qed

end
