(* ===== verification/Go_Json.thy ===== *)
theory Go_Json
  imports Pg_Types Errors
begin

text \<open>
  JSON as Go's standard library reads and writes it (\<open>encoding/json\<close>, which
  \<open>modules/shared/src/utilhttp/request.go\<close> decodes with): text is bytes, a string literal is
  decoded to UTF-8 with invalid bytes and lone surrogates replaced by U+FFFD, and values
  nest at most 10000 deep.  Writers of JSON differ in what they escape; \<open>escape\<close> is what the
  same library does: control characters, the HTML characters and the two line separators.
\<close>

section \<open>Runes\<close>

abbreviation quote :: char where "quote \<equiv> CHR 0x22"
abbreviation backslash :: char where "backslash \<equiv> CHR 0x5C"

text \<open>
  \<open>utf8.DecodeRune\<close>: the length of the rune at the front, 0 when the first byte does not
  start one.
\<close>

definition rune_len :: "string \<Rightarrow> nat" where
  "rune_len s = (case s of
     [] \<Rightarrow> 0
   | a # t \<Rightarrow>
       let n = of_char a in
       if n < 128 then 1
       else if seq_len n = 0 \<or> length t < seq_len n - 1 \<or> \<not> conts_ok n (map of_char (take (seq_len n - 1) t))
       then 0 else seq_len n)"

text \<open>U+FFFD, and \<open>utf8.EncodeRune\<close>.\<close>

definition replacement :: string where
  "replacement = [CHR 0xEF, CHR 0xBF, CHR 0xBD]"

definition encode_rune :: "nat \<Rightarrow> string" where
  "encode_rune n =
    (if n < 128 then [char_of n]
     else if n < 2048 then [char_of (192 + n div 64), char_of (128 + n mod 64)]
     else if n < 65536 then
       [char_of (224 + n div 4096), char_of (128 + n div 64 mod 64), char_of (128 + n mod 64)]
     else [char_of (240 + n div 262144), char_of (128 + n div 4096 mod 64),
           char_of (128 + n div 64 mod 64), char_of (128 + n mod 64)])"

section \<open>String literals\<close>

definition hex_digit :: "char \<Rightarrow> nat option" where
  "hex_digit c =
    (let n = of_char c in
     if 48 \<le> n \<and> n \<le> 57 then Some (n - 48)
     else if 97 \<le> n \<and> n \<le> 102 then Some (n - 87)
     else if 65 \<le> n \<and> n \<le> 70 then Some (n - 55) else None)"

fun hex4 :: "string \<Rightarrow> (nat \<times> string) option" where
  "hex4 (a # b # c # d # r) =
    (case (hex_digit a, hex_digit b, hex_digit c, hex_digit d) of
       (Some w, Some x, Some y, Some z) \<Rightarrow> Some (((w * 16 + x) * 16 + y) * 16 + z, r)
     | _ \<Rightarrow> None)"
| "hex4 _ = None"

text \<open>The second half of a surrogate pair: an escape of its own.\<close>

definition low_half :: "nat \<Rightarrow> string \<Rightarrow> (nat \<times> string) option" where
  "low_half hi r =
    (if take 2 r = [backslash, CHR ''u''] \<and> 55296 \<le> hi \<and> hi < 56320 then
       (case hex4 (drop 2 r) of
          None \<Rightarrow> None
        | Some (lo, r1) \<Rightarrow>
            if 56320 \<le> lo \<and> lo < 57344 then Some (65536 + (hi - 55296) * 1024 + (lo - 56320), r1) else None)
     else None)"

definition simple_escapes :: "(char \<times> char) list" where
  "simple_escapes = [(quote, quote), (backslash, backslash), (CHR ''/'', CHR ''/''), (CHR ''b'', CHR 0x08),
     (CHR ''f'', CHR 0x0C), (CHR ''n'', CHR 0x0A), (CHR ''r'', CHR 0x0D), (CHR ''t'', CHR 0x09)]"

text \<open>One character of a literal: what it stands for, and the rest.\<close>

definition next_unit :: "string \<Rightarrow> (string \<times> string) option" where
  "next_unit s = (case s of
     [] \<Rightarrow> None
   | c # r \<Rightarrow>
       if of_char c < (32 :: nat) \<or> c = quote then None
       else if c = backslash then
         (case r of
            [] \<Rightarrow> None
          | e # r1 \<Rightarrow>
              if e = CHR ''u'' then
                (case hex4 r1 of
                   None \<Rightarrow> None
                 | Some (n, r2) \<Rightarrow>
                     if 55296 \<le> n \<and> n < 57344 then
                       (case low_half n r2 of
                          Some (m, r3) \<Rightarrow> Some (encode_rune m, r3)
                        | None \<Rightarrow> Some (replacement, r2))
                     else Some (encode_rune n, r2))
              else map_option (\<lambda>b. ([b], r1)) (map_of simple_escapes e))
       else if rune_len s = 0 then Some (replacement, r)
       else Some (take (rune_len s) s, drop (rune_len s) s))"

lemma hex4_shorter: "hex4 s = Some (n, r) \<Longrightarrow> length r < length s"
  by (induction s rule: hex4.induct) (auto split: option.splits)

lemma low_half_shorter: "low_half hi s = Some (n, r) \<Longrightarrow> length r < length s"
  using hex4_shorter [of "drop 2 s"] by (fastforce simp: low_half_def split: if_splits option.splits)

lemma next_unit_shorter: "next_unit s = Some (bs, r) \<Longrightarrow> length r < length s"
  by (auto simp: next_unit_def split: list.splits if_splits option.splits
      dest!: hex4_shorter low_half_shorter)

text \<open>The literal from behind its opening quote.\<close>

function jstring :: "string \<Rightarrow> (string \<times> string) option" where
  "jstring s =
    (if s \<noteq> [] \<and> hd s = quote then Some ([], tl s)
     else case next_unit s of
       None \<Rightarrow> None
     | Some (bs, r) \<Rightarrow> (case jstring r of None \<Rightarrow> None | Some (t, r1) \<Rightarrow> Some (bs @ t, r1)))"
  by pat_completeness auto
termination by (relation "measure length") (auto dest: next_unit_shorter)

declare jstring.simps [simp del]

section \<open>Values\<close>

datatype json =
    JNull
  | JBool bool
  | JNumber string
  | JString string
  | JArray "json list"
  | JObject "(string \<times> json) list"

definition skip :: "string \<Rightarrow> string" where
  "skip = dropWhile (\<lambda>c. c \<in> {CHR '' '', CHR 0x09, CHR 0x0A, CHR 0x0D})"

text \<open>The rest behind a character, after white space; the rest behind a word.\<close>

definition expect :: "char \<Rightarrow> string \<Rightarrow> string option" where
  "expect c s = (case skip s of [] \<Rightarrow> None | a # r \<Rightarrow> if a = c then Some r else None)"

definition word :: "string \<Rightarrow> json \<Rightarrow> string \<Rightarrow> (json \<times> string) option" where
  "word w v s = (if take (length w) s = w then Some (v, drop (length w) s) else None)"

definition is_digit :: "char \<Rightarrow> bool" where
  "is_digit c \<longleftrightarrow> 48 \<le> (of_char c :: nat) \<and> (of_char c :: nat) \<le> 57"

definition digits :: "string \<Rightarrow> (string \<times> string) option" where
  "digits s = (let ds = takeWhile is_digit s in if ds = [] then None else Some (ds, dropWhile is_digit s))"

text \<open>A number in its parts: sign, whole part, fraction, exponent.\<close>

definition sign_part :: "string \<Rightarrow> string \<times> string" where
  "sign_part s = (if s \<noteq> [] \<and> hd s = CHR ''-'' then (''-'', tl s) else ([], s))"

definition whole_part :: "string \<Rightarrow> (string \<times> string) option" where
  "whole_part s = (if s \<noteq> [] \<and> hd s = CHR ''0'' then Some (''0'', tl s) else digits s)"

definition frac_part :: "string \<Rightarrow> (string \<times> string) option" where
  "frac_part s =
    (if s \<noteq> [] \<and> hd s = CHR ''.''
     then map_option (\<lambda>(ds, r). (CHR ''.'' # ds, r)) (digits (tl s)) else Some ([], s))"

definition exp_sign :: "string \<Rightarrow> string \<times> string" where
  "exp_sign s = (if s \<noteq> [] \<and> hd s \<in> {CHR ''+'', CHR ''-''} then ([hd s], tl s) else ([], s))"

definition exp_part :: "string \<Rightarrow> (string \<times> string) option" where
  "exp_part s =
    (if s \<noteq> [] \<and> hd s \<in> {CHR ''e'', CHR ''E''}
     then map_option (\<lambda>(ds, r). (hd s # fst (exp_sign (tl s)) @ ds, r)) (digits (snd (exp_sign (tl s))))
     else Some ([], s))"

definition number :: "string \<Rightarrow> (string \<times> string) option" where
  "number s =
    (case whole_part (snd (sign_part s)) of
       None \<Rightarrow> None
     | Some (whole, s2) \<Rightarrow>
    (case frac_part s2 of
       None \<Rightarrow> None
     | Some (frac, s3) \<Rightarrow>
         map_option (\<lambda>(ex, r). (fst (sign_part s) @ whole @ frac @ ex, r)) (exp_part s3)))"

text \<open>
  The elements of an array and the members of an object, from behind the opening bracket;
  \<open>p\<close> reads one value.
\<close>

function elements :: "(string \<Rightarrow> (json \<times> string) option) \<Rightarrow> string \<Rightarrow> (json list \<times> string) option" where
  "elements p s =
    (case p s of
       None \<Rightarrow> None
     | Some (v, r) \<Rightarrow>
         (case expect (CHR '']'') r of
            Some r1 \<Rightarrow> Some ([v], r1)
          | None \<Rightarrow>
              (case expect (CHR '','') r of
                 None \<Rightarrow> None
               | Some r1 \<Rightarrow>
                   if length r1 < length s
                   then (case elements p r1 of None \<Rightarrow> None | Some (vs, r2) \<Rightarrow> Some (v # vs, r2))
                   else None)))"
  by pat_completeness auto
termination by (relation "measure (\<lambda>(p, s). length s)") auto

function members :: "(string \<Rightarrow> (json \<times> string) option) \<Rightarrow> string
    \<Rightarrow> ((string \<times> json) list \<times> string) option" where
  "members p s =
    (case Option.bind (expect quote s) jstring of
       None \<Rightarrow> None
     | Some (k, r1) \<Rightarrow>
         (case Option.bind (expect (CHR '':'') r1) p of
            None \<Rightarrow> None
          | Some (v, r) \<Rightarrow>
              (case expect (CHR ''}'') r of
                 Some r2 \<Rightarrow> Some ([(k, v)], r2)
               | None \<Rightarrow>
                   (case expect (CHR '','') r of
                      None \<Rightarrow> None
                    | Some r2 \<Rightarrow>
                        if length r2 < length s
                        then (case members p r2 of None \<Rightarrow> None | Some (ms, r3) \<Rightarrow> Some ((k, v) # ms, r3))
                        else None))))"
  by pat_completeness auto
termination by (relation "measure (\<lambda>(p, s). length s)") auto

declare elements.simps [simp del] members.simps [simp del]

text \<open>\<open>d\<close> is how deep values may still nest.\<close>

fun jvalue :: "nat \<Rightarrow> string \<Rightarrow> (json \<times> string) option" where
  "jvalue d s =
    (case skip s of
       [] \<Rightarrow> None
     | c # r \<Rightarrow>
         if c = quote then map_option (\<lambda>(t, r1). (JString t, r1)) (jstring r)
         else if c = CHR ''{'' then
           (if d = 0 then None
            else case expect (CHR ''}'') r of
              Some r1 \<Rightarrow> Some (JObject [], r1)
            | None \<Rightarrow> map_option (\<lambda>(ms, r1). (JObject ms, r1)) (members (jvalue (d - 1)) r))
         else if c = CHR ''['' then
           (if d = 0 then None
            else case expect (CHR '']'') r of
              Some r1 \<Rightarrow> Some (JArray [], r1)
            | None \<Rightarrow> map_option (\<lambda>(vs, r1). (JArray vs, r1)) (elements (jvalue (d - 1)) r))
         else if c = CHR ''t'' then word ''rue'' (JBool True) r
         else if c = CHR ''f'' then word ''alse'' (JBool False) r
         else if c = CHR ''n'' then word ''ull'' JNull r
         else map_option (\<lambda>(t, r1). (JNumber t, r1)) (number (c # r)))"

declare jvalue.simps [simp del]

definition max_depth :: nat where "max_depth = 10000"

definition json_text :: "string \<Rightarrow> json option" where
  "json_text s =
    (case jvalue max_depth s of
       None \<Rightarrow> None
     | Some (v, r) \<Rightarrow> if skip r = [] then Some v else None)"

section \<open>The encoder\<close>

definition hex_char :: "nat \<Rightarrow> char" where
  "hex_char n = char_of (if n < 10 then 48 + n else 87 + n)"

text \<open>An ASCII character, and a whole rune, inside a literal.\<close>

definition escape_ascii :: "char \<Rightarrow> string" where
  "escape_ascii c =
    (let n = of_char c in
     if c = quote \<or> c = backslash then [backslash, c]
     else if c = CHR 0x08 then [backslash, CHR ''b'']
     else if c = CHR 0x0C then [backslash, CHR ''f'']
     else if c = CHR 0x0A then [backslash, CHR ''n'']
     else if c = CHR 0x0D then [backslash, CHR ''r'']
     else if c = CHR 0x09 then [backslash, CHR ''t'']
     else if n < 32 \<or> c \<in> {CHR ''<'', CHR ''>'', CHR ''&''}
     then [backslash, CHR ''u'', CHR ''0'', CHR ''0'', hex_char (n div 16), hex_char (n mod 16)]
     else [c])"

definition escape_rune :: "string \<Rightarrow> string" where
  "escape_rune u =
    (if length u = 1 then escape_ascii (hd u)
     else if u = [CHR 0xE2, CHR 0x80, CHR 0xA8] then backslash # ''u2028''
     else if u = [CHR 0xE2, CHR 0x80, CHR 0xA9] then backslash # ''u2029''
     else u)"

function escape :: "string \<Rightarrow> string" where
  "escape s =
    (if s = [] then []
     else if rune_len s = 0 then backslash # ''ufffd'' @ escape (tl s)
     else escape_rune (take (rune_len s) s) @ escape (drop (rune_len s) s))"
  by pat_completeness auto
termination by (relation "measure length") auto

text \<open>What a reader of the literal gets: the text with its invalid bytes replaced.\<close>

function coerce :: "string \<Rightarrow> string" where
  "coerce s =
    (if s = [] then []
     else if rune_len s = 0 then replacement @ coerce (tl s)
     else take (rune_len s) s @ coerce (drop (rune_len s) s))"
  by pat_completeness auto
termination by (relation "measure length") auto

declare escape.simps [simp del] coerce.simps [simp del]

text \<open>Values without spaces; \<open>esc\<close> is what a writer puts between the quotes of a literal.\<close>

definition literal :: "(string \<Rightarrow> string) \<Rightarrow> string \<Rightarrow> string" where
  "literal esc s = quote # esc s @ [quote]"

fun render :: "(string \<Rightarrow> string) \<Rightarrow> json \<Rightarrow> string" where
  "render esc JNull = ''null''"
| "render esc (JBool b) = (if b then ''true'' else ''false'')"
| "render esc (JNumber n) = n"
| "render esc (JString s) = literal esc s"
| "render esc (JArray vs) = ''['' @ join_with '','' (map (render esc) vs) @ '']''"
| "render esc (JObject ms) =
    ''{'' @ join_with '','' (map (\<lambda>(k, v). literal esc k @ '':'' @ render esc v) ms) @ ''}''"

end
