(* ===== verification/Json_Roundtrip.thy ===== *)
theory Json_Roundtrip
  imports Go_Json
begin

text \<open>
  What a writer of JSON writes, the decoder reads back.  The documents of a value are the
  grammar of RFC 8259, as relations of their own: white space between the tokens, numbers,
  any escapes.  Every document that is not too deep is read as its value, literal by literal
  and token by token; an encoder that writes without spaces writes such a document, with the
  bytes that are not UTF-8 replaced.
\<close>

section \<open>Runes\<close>

lemma seq_len_cases: "128 \<le> n \<Longrightarrow> seq_len n \<in> {0, 2, 3, 4}"
  by (simp add: seq_len_def)

lemma rune_len_le: "rune_len s \<le> length s"
proof (cases s)
  case (Cons a t)
  have "seq_len n \<le> Suc (length t)" if "\<not> length t < seq_len n - 1" for n using that by linarith
  then show ?thesis using Cons by (simp add: rune_len_def Let_def)
qed (simp add: rune_len_def)

lemma rune_len_take: "rune_len s \<noteq> 0 \<Longrightarrow> rune_len (take (rune_len s) s @ r) = rune_len s"
proof (cases s)
  case (Cons a t)
  assume k: "rune_len s \<noteq> 0"
  show ?thesis
  proof (cases "of_char a < (128 :: nat)")
    case True
    then show ?thesis using Cons by (simp add: rune_len_def Let_def)
  next
    case False
    let ?k = "seq_len (of_char a)"
    have s: "rune_len s = ?k" "?k \<noteq> 0" "?k - 1 \<le> length t" "conts_ok (of_char a) (map of_char (take (?k - 1) t))"
      using k False Cons by (auto simp: rune_len_def Let_def split: if_splits)
    have "take ?k s = a # take (?k - 1) t" using Cons s(2) by (cases ?k) simp_all
    moreover have "take (?k - 1) (take (?k - 1) t @ r) = take (?k - 1) t" using s(3) by simp
    ultimately show ?thesis using s False by (simp add: rune_len_def Let_def)
  qed
qed (simp add: rune_len_def)

lemma rune_len_ascii: "s = c # t \<Longrightarrow> rune_len s = 1 \<longleftrightarrow> of_char c < (128 :: nat)"
  using seq_len_cases [of "of_char c"] by (auto simp: rune_len_def Let_def)

lemma rune_len_wide:
  assumes "s = c # t" and "rune_len s \<noteq> 0" and "rune_len s \<noteq> 1"
  shows "128 \<le> (of_char c :: nat)" and "1 < rune_len s"
  using rune_len_ascii [OF assms(1)] assms by auto

lemma hex_digit_char: "i < 16 \<Longrightarrow> hex_digit (hex_char i) = Some i"
  by (auto simp: hex_digit_def hex_char_def Let_def)

lemma char_of_consts:
  "char_of (226 :: nat) = CHR 0xE2" "char_of (128 :: nat) = CHR 0x80" "char_of (168 :: nat) = CHR 0xA8"
  "char_of (169 :: nat) = CHR 0xA9" "char_of (239 :: nat) = CHR 0xEF" "char_of (191 :: nat) = CHR 0xBF"
  "char_of (189 :: nat) = CHR 0xBD"
  by (simp_all add: char_of_eq_iff)

section \<open>Literals\<close>

lemma next_unit_raw:
  assumes "of_char c \<ge> (32 :: nat)" and "c \<noteq> quote" and "c \<noteq> backslash" and "rune_len (c # t) \<noteq> 0"
  shows "next_unit (take (rune_len (c # t)) (c # t) @ r) = Some (take (rune_len (c # t)) (c # t), r)"
proof -
  let ?u = "take (rune_len (c # t)) (c # t)"
  obtain v where u: "?u = c # v" using assms(4) by (cases "rune_len (c # t)") simp_all
  have len: "length ?u = rune_len (c # t)" using rune_len_le [of "c # t"] by (simp add: min_absorb2)
  have "rune_len (?u @ r) = length ?u" using rune_len_take [OF assms(4)] len by simp
  moreover have "length ?u = Suc (length v)" unfolding u by simp
  ultimately have "rune_len (c # v @ r) = Suc (length v)" by (simp only: u append_Cons)
  then show ?thesis unfolding u using assms(1-3) by (simp add: next_unit_def)
qed

lemma next_unit_escape_ascii:
  assumes "of_char c < (128 :: nat)"
  shows "next_unit (escape_ascii c @ r) = Some ([c], r)"
proof -
  let ?n = "of_char c :: nat"
  have raw: "next_unit (c # r) = Some ([c], r)" if "32 \<le> ?n" "c \<noteq> quote" "c \<noteq> backslash"
    using that assms by (simp add: next_unit_def rune_len_def Let_def)
  have n: "(?n div 16 * 16 + ?n mod 16) = ?n" "?n div 16 < 16" "?n mod 16 < 16" using assms by simp_all
  have "hex_digit (CHR ''0'') = Some 0" by (simp add: hex_digit_def Let_def)
  then have "hex4 (CHR ''0'' # CHR ''0'' # hex_char (?n div 16) # hex_char (?n mod 16) # r) = Some (?n, r)"
    using n by (simp add: hex_digit_char)
  moreover have "encode_rune ?n = [c]" using assms by (simp add: encode_rune_def)
  ultimately have "next_unit (backslash # CHR ''u'' # CHR ''0'' # CHR ''0'' # hex_char (?n div 16) # hex_char (?n mod 16) # r)
      = Some ([c], r)"
    using assms by (simp add: next_unit_def)
  then show ?thesis using raw
    by (auto simp: escape_ascii_def Let_def next_unit_def simple_escapes_def)
qed

lemma next_unit_escape_rune:
  assumes "rune_len s \<noteq> 0"
  shows "next_unit (escape_rune (take (rune_len s) s) @ r) = Some (take (rune_len s) s, r)"
proof (cases s)
  case (Cons c t)
  let ?u = "take (rune_len s) s"
  have len: "length ?u = rune_len s" using rune_len_le [of s] by (simp add: min_absorb2)
  show ?thesis
  proof (cases "rune_len s = 1")
    case True
    then have "?u = [c]" using Cons by simp
    then show ?thesis
      using next_unit_escape_ascii [of c r] rune_len_ascii [OF Cons] True by (simp add: escape_rune_def)
  next
    case False
    note w = rune_len_wide [OF Cons assms False]
    have "c \<noteq> quote" "c \<noteq> backslash" using w(1) by auto
    then have "next_unit (?u @ r) = Some (?u, r)"
      using next_unit_raw [of c t r] w(1) assms Cons by simp
    moreover have "next_unit ((backslash # ''u2028'') @ r) = Some ([CHR 0xE2, CHR 0x80, CHR 0xA8], r)"
      "next_unit ((backslash # ''u2029'') @ r) = Some ([CHR 0xE2, CHR 0x80, CHR 0xA9], r)"
      by (simp_all add: next_unit_def hex_digit_def encode_rune_def char_of_consts)
    ultimately show ?thesis using len w(2) by (simp add: escape_rune_def)
  qed
qed (use assms in \<open>simp add: rune_len_def\<close>)

lemma jstring_unit:
  "next_unit s = Some (bs, r) \<Longrightarrow>
     jstring s = (case jstring r of None \<Rightarrow> None | Some (t, r1) \<Rightarrow> Some (bs @ t, r1))"
  by (subst jstring.simps) (auto simp: next_unit_def split: list.splits)

lemma jstring_quote: "jstring (quote # r) = Some ([], r)"
  by (subst jstring.simps) simp

lemma escape_Nil: "escape [] = []" and coerce_Nil: "coerce [] = []"
  by (subst escape.simps, simp) (subst coerce.simps, simp)

lemma jstring_escape: "jstring (escape s @ quote # r) = Some (coerce s, r)"
proof (induction s rule: escape.induct)
  case (1 s)
  consider "s = []" | "s \<noteq> []" "rune_len s = 0" | "s \<noteq> []" "rune_len s \<noteq> 0" by blast
  then show ?case
  proof cases
    case 1
    then show ?thesis by (simp add: escape_Nil coerce_Nil jstring_quote)
  next
    case 2
    have "next_unit ((backslash # ''ufffd'') @ x) = Some (replacement, x)" for x
      by (simp add: next_unit_def hex_digit_def encode_rune_def replacement_def char_of_consts)
    note u = jstring_unit [OF this]
    show ?thesis
      using 1(1) [OF 2] u [of "escape (tl s) @ quote # r"] 2
      by (simp add: escape.simps [of s] coerce.simps [of s])
  next
    case 3
    note u = jstring_unit [OF next_unit_escape_rune [OF 3(2), of "escape (drop (rune_len s) s) @ quote # r"]]
    show ?thesis
      using 1(2) [OF 3] u 3 by (simp add: escape.simps [of s] coerce.simps [of s])
  qed
qed

section \<open>Documents\<close>

text \<open>White space, and what may follow a number.\<close>

definition blank :: "string \<Rightarrow> bool" where
  "blank w \<longleftrightarrow> list_all (\<lambda>c. c \<in> {CHR '' '', CHR 0x09, CHR 0x0A, CHR 0x0D}) w"

definition apart :: "string \<Rightarrow> bool" where
  "apart r \<longleftrightarrow> (case r of [] \<Rightarrow> True | c # _ \<Rightarrow> \<not> is_digit c \<and> c \<notin> {CHR ''.'', CHR ''e'', CHR ''E''})"

text \<open>Numbers as RFC 8259 has them.\<close>

definition digit_text :: "string \<Rightarrow> bool" where
  "digit_text ds \<longleftrightarrow> ds \<noteq> [] \<and> list_all is_digit ds"

inductive json_number :: "string \<Rightarrow> bool" where
  "sign \<in> {[], ''-''} \<Longrightarrow> whole = ''0'' \<or> digit_text whole \<and> hd whole \<noteq> CHR ''0'' \<Longrightarrow>
   frac = [] \<or> (\<exists>ds. digit_text ds \<and> frac = CHR ''.'' # ds) \<Longrightarrow>
   ex = [] \<or> (\<exists>e sg ds. e \<in> {CHR ''e'', CHR ''E''} \<and> sg \<in> {[], ''+'', ''-''} \<and> digit_text ds \<and> ex = e # sg @ ds) \<Longrightarrow>
   json_number (sign @ whole @ frac @ ex)"

text \<open>
  What may stand between the quotes of a literal for a text, as RFC 8259 has it: runes as
  they are, the short escapes, four hexadecimal digits for a code, and two such codes for a
  surrogate pair.
\<close>

inductive json_literal :: "string \<Rightarrow> string \<Rightarrow> bool" where
  no_more: "json_literal [] []"
| rune: "u \<noteq> [] \<Longrightarrow> rune_len u = length u \<Longrightarrow> 32 \<le> (of_char (hd u) :: nat) \<Longrightarrow> hd u \<notin> {quote, backslash}
    \<Longrightarrow> json_literal t l \<Longrightarrow> json_literal (u @ t) (u @ l)"
| short: "(e, c) \<in> set simple_escapes \<Longrightarrow> json_literal t l \<Longrightarrow> json_literal (c # t) (backslash # e # l)"
| code: "hex4 h = Some (n, []) \<Longrightarrow> n < 55296 \<or> 57344 \<le> n \<Longrightarrow> json_literal t l
    \<Longrightarrow> json_literal (encode_rune n @ t) (backslash # CHR ''u'' # h @ l)"
| pair: "hex4 h = Some (hi, []) \<Longrightarrow> hex4 k = Some (lo, []) \<Longrightarrow> 55296 \<le> hi \<Longrightarrow> hi < 56320 \<Longrightarrow> 56320 \<le> lo \<Longrightarrow> lo < 57344
    \<Longrightarrow> json_literal t l \<Longrightarrow> json_literal (encode_rune (65536 + (hi - 55296) * 1024 + (lo - 56320)) @ t)
          (backslash # CHR ''u'' # h @ backslash # CHR ''u'' # k @ l)"

text \<open>
  The documents of a value: white space anywhere between the tokens; \<open>lit\<close> says which
  literals stand for a text.
\<close>

inductive json_doc :: "(string \<Rightarrow> string \<Rightarrow> bool) \<Rightarrow> json \<Rightarrow> string \<Rightarrow> bool"
  and json_elements :: "(string \<Rightarrow> string \<Rightarrow> bool) \<Rightarrow> json list \<Rightarrow> string \<Rightarrow> bool"
  and json_members :: "(string \<Rightarrow> string \<Rightarrow> bool) \<Rightarrow> (string \<times> json) list \<Rightarrow> string \<Rightarrow> bool" for lit where
  null: "json_doc lit JNull ''null''"
| yes: "json_doc lit (JBool True) ''true''"
| no: "json_doc lit (JBool False) ''false''"
| num: "json_number n \<Longrightarrow> json_doc lit (JNumber n) n"
| str: "lit t l \<Longrightarrow> json_doc lit (JString t) (quote # l @ [quote])"
| no_elements: "blank w \<Longrightarrow> json_doc lit (JArray []) (''['' @ w @ '']'')"
| array: "json_elements lit vs s \<Longrightarrow> json_doc lit (JArray vs) (''['' @ s @ '']'')"
| no_members: "blank w \<Longrightarrow> json_doc lit (JObject []) (''{'' @ w @ ''}'')"
| object: "json_members lit ms s \<Longrightarrow> json_doc lit (JObject ms) (''{'' @ s @ ''}'')"
| one_element: "blank w \<Longrightarrow> json_doc lit v s \<Longrightarrow> blank w' \<Longrightarrow> json_elements lit [v] (w @ s @ w')"
| more_elements: "blank w \<Longrightarrow> json_doc lit v s \<Longrightarrow> blank w' \<Longrightarrow> json_elements lit vs t
    \<Longrightarrow> json_elements lit (v # vs) (w @ s @ w' @ '','' @ t)"
| one_member: "blank w \<Longrightarrow> lit k l \<Longrightarrow> blank w' \<Longrightarrow> blank x \<Longrightarrow> json_doc lit v s \<Longrightarrow> blank x'
    \<Longrightarrow> json_members lit [(k, v)] (w @ quote # l @ quote # w' @ '':'' @ x @ s @ x')"
| more_members: "blank w \<Longrightarrow> lit k l \<Longrightarrow> blank w' \<Longrightarrow> blank x \<Longrightarrow> json_doc lit v s \<Longrightarrow> blank x'
    \<Longrightarrow> json_members lit ms t
    \<Longrightarrow> json_members lit ((k, v) # ms) (w @ quote # l @ quote # w' @ '':'' @ x @ s @ x' @ '','' @ t)"

text \<open>Values that nest at most \<open>d\<close> deep.\<close>

fun nests :: "nat \<Rightarrow> json \<Rightarrow> bool" where
  "nests d (JArray vs) = (0 < d \<and> (\<forall>v\<in>set vs. nests (d - 1) v))"
| "nests d (JObject ms) = (0 < d \<and> (\<forall>m\<in>set ms. nests (d - 1) (snd m)))"
| "nests d _ = True"

section \<open>Reading the parts\<close>

lemma skip_simps [simp]:
  "skip [] = []"
  "skip (c # s) = (if c \<in> {CHR '' '', CHR 0x09, CHR 0x0A, CHR 0x0D} then skip s else c # s)"
  by (simp_all add: skip_def)

lemma skip_blank: "blank w \<Longrightarrow> skip (w @ s) = skip s"
  by (induction w) (auto simp: blank_def)

lemma blank_skip: "blank w \<longleftrightarrow> skip w = []"
  by (induction w) (auto simp: blank_def)

lemma expect_blank: "blank w \<Longrightarrow> expect c (w @ s) = expect c s"
  by (simp add: expect_def skip_blank)

lemma expect_Cons [simp]:
  "c \<notin> {CHR '' '', CHR 0x09, CHR 0x0A, CHR 0x0D} \<Longrightarrow> expect a (c # r) = (if c = a then Some r else None)"
  by (simp add: expect_def)

lemma word_simps [simp]: "word w v (w @ r) = Some (v, r)"
  by (simp add: word_def)

lemma apart_Nil [simp]: "apart []"
  by (simp add: apart_def)

lemma apart_blank: "blank w \<Longrightarrow> apart r \<Longrightarrow> apart (w @ r)"
  by (cases w) (auto simp: apart_def blank_def is_digit_def)

lemma apart_Cons: "c \<in> {CHR '','', CHR '']'', CHR ''}''} \<Longrightarrow> apart (c # r)"
  by (auto simp: apart_def is_digit_def)

lemma digits_append:
  assumes "digit_text ds" and "case r of [] \<Rightarrow> True | c # _ \<Rightarrow> \<not> is_digit c"
  shows "digits (ds @ r) = Some (ds, r)"
proof -
  have "\<forall>c\<in>set ds. is_digit c" using assms(1) by (simp add: digit_text_def list_all_iff)
  then have "takeWhile is_digit (ds @ r) = ds" "dropWhile is_digit (ds @ r) = r"
    using assms(2) by (auto simp: takeWhile_append dropWhile_append takeWhile_eq_Nil_iff split: list.splits)
  then show ?thesis using assms(1) by (simp add: digits_def Let_def digit_text_def)
qed

lemma number_reads:
  assumes "json_number n" and "apart r"
  shows "number (n @ r) = Some (n, r)"
  using assms(1)
proof cases
  case (1 sign whole frac ex)
  have r: "case r of [] \<Rightarrow> True | c # _ \<Rightarrow> \<not> is_digit c" using assms(2) by (auto simp: apart_def split: list.splits)
  have ex: "exp_part (ex @ r) = Some (ex, r)"
  proof (cases "ex = []")
    case True
    then show ?thesis using assms(2) by (cases r) (auto simp: exp_part_def apart_def)
  next
    case False
    then obtain e sg ds where e: "e \<in> {CHR ''e'', CHR ''E''}" "sg \<in> {[], ''+'', ''-''}" "digit_text ds" "ex = e # sg @ ds"
      using 1(5) by blast
    obtain d ds' where "ds = d # ds'" "is_digit d" using e(3) by (cases ds) (auto simp: digit_text_def)
    then have "exp_sign (sg @ ds @ r) = (sg, ds @ r)" using e(2) by (auto simp: exp_sign_def is_digit_def)
    then show ?thesis using e digits_append [OF e(3) r] by (auto simp: exp_part_def)
  qed
  have nodigit: "case ex @ r of [] \<Rightarrow> True | c # _ \<Rightarrow> \<not> is_digit c"
    using 1(5) r by (auto simp: is_digit_def)
  have nopoint: "ex @ r = [] \<or> hd (ex @ r) \<noteq> CHR ''.''"
    using 1(5) assms(2) by (cases r) (auto simp: apart_def)
  have frac: "frac_part (frac @ ex @ r) = Some (frac, ex @ r)"
    using 1(4) nopoint digits_append [OF _ nodigit] by (auto simp: frac_part_def)
  have "case frac @ ex @ r of [] \<Rightarrow> True | c # _ \<Rightarrow> \<not> is_digit c"
    using 1(4) nodigit by (auto simp: is_digit_def)
  then have whole: "whole_part (whole @ frac @ ex @ r) = Some (whole, frac @ ex @ r)"
    using 1(3) digits_append [of whole "frac @ ex @ r"]
    by (cases whole) (auto simp: whole_part_def digit_text_def)
  have "whole \<noteq> [] \<and> hd whole \<noteq> CHR ''-''"
    using 1(3) by (cases whole) (auto simp: digit_text_def is_digit_def)
  then have "sign_part (sign @ whole @ frac @ ex @ r) = (sign, whole @ frac @ ex @ r)"
    using 1(2) by (auto simp: sign_part_def)
  then show ?thesis using whole frac ex 1(1) by (simp add: number_def)
qed

text \<open>A number starts with a digit or a minus sign.\<close>

lemma number_first: "json_number n \<Longrightarrow> \<exists>c t. n = c # t \<and> (c = CHR ''-'' \<or> is_digit c)"
  by (induction rule: json_number.induct) (auto simp: digit_text_def is_digit_def neq_Nil_conv)

text \<open>A document starts with a character that is no white space and closes nothing.\<close>

lemma doc_first:
  "json_doc lit v s \<Longrightarrow> \<exists>c t. s = c # t \<and> c \<notin> {CHR '' '', CHR 0x09, CHR 0x0A, CHR 0x0D, CHR '']'', CHR ''}''}"
  by (induction rule: json_doc.cases) (auto dest!: number_first simp: is_digit_def)

lemma doc_not_closed:
  assumes "json_doc lit v s" and "blank w" and "c \<in> {CHR '']'', CHR ''}''}"
  shows "expect c (w @ s @ r) = None"
  using doc_first [OF assms(1)] assms(2,3) by (auto simp: expect_blank)

lemma jvalue_blank: "blank w \<Longrightarrow> jvalue d (w @ s) = jvalue d s"
  by (subst (1 2) jvalue.simps) (simp add: skip_blank)

section \<open>Literals of the grammar\<close>

lemma hex4_append: "hex4 h = Some (n, []) \<Longrightarrow> hex4 (h @ r) = Some (n, r)"
  by (induction h rule: hex4.induct) (auto split: option.splits)

lemma json_literal_reads: "json_literal t l \<Longrightarrow> jstring (l @ quote # r) = Some (t, r)"
proof (induction rule: json_literal.induct)
  case no_more
  show ?case by (simp add: jstring_quote)
next
  case (rune u t l)
  obtain c v where u: "u = c # v" using rune(1) by (cases u) auto
  have "rune_len (u @ x) = length u" for x
    using rune_len_take [of u x] rune(1,2) by simp
  then have "next_unit (u @ l @ quote # r) = Some (u, l @ quote # r)"
    using rune(3,4) unfolding u by (simp add: next_unit_def)
  from jstring_unit [OF this] show ?case using rune.IH by simp
next
  case (short e c t l)
  then have "next_unit (backslash # e # l @ quote # r) = Some ([c], l @ quote # r)"
    by (auto simp: next_unit_def simple_escapes_def)
  from jstring_unit [OF this] show ?case using short.IH by simp
next
  case (code h n t l)
  then have "next_unit (backslash # CHR ''u'' # h @ l @ quote # r) = Some (encode_rune n, l @ quote # r)"
    using hex4_append [OF code(1), of "l @ quote # r"] by (auto simp: next_unit_def)
  from jstring_unit [OF this] show ?case using code.IH by simp
next
  case (pair h hi k lo t l)
  let ?m = "65536 + (hi - 55296) * 1024 + (lo - 56320)"
  have "low_half hi (backslash # CHR ''u'' # k @ l @ quote # r) = Some (?m, l @ quote # r)"
    using pair hex4_append [OF pair(2), of "l @ quote # r"] by (simp add: low_half_def)
  then have "next_unit (backslash # CHR ''u'' # h @ backslash # CHR ''u'' # k @ l @ quote # r) = Some (encode_rune ?m, l @ quote # r)"
    using pair hex4_append [OF pair(1), of "backslash # CHR ''u'' # k @ l @ quote # r"] by (simp add: next_unit_def)
  from jstring_unit [OF this] show ?case using pair.IH by simp
qed

text \<open>Plain ASCII text may stand for itself.\<close>

lemma json_literal_ascii:
  "list_all (\<lambda>c. 32 \<le> (of_char c :: nat) \<and> (of_char c :: nat) < 128 \<and> c \<notin> {quote, backslash}) s \<Longrightarrow> json_literal s s"
proof (induction s)
  case (Cons c s)
  then show ?case
    using json_literal.rune [of "[c]" s s] rune_len_ascii [of "[c]" c "[]"] by simp
qed (simp add: json_literal.no_more)

section \<open>Reading a document\<close>

text \<open>
  What a reader relies on: the literals that may stand for a text are read as that text.
\<close>

locale literals =
  fixes lit :: "string \<Rightarrow> string \<Rightarrow> bool"
  assumes reads: "lit t l \<Longrightarrow> jstring (l @ quote # r) = Some (t, r)"
begin

lemma doc_reads:
  "json_doc lit v s \<Longrightarrow> nests d v \<Longrightarrow> apart r \<Longrightarrow> jvalue d (s @ r) = Some (v, r)"
  "json_elements lit vs s \<Longrightarrow> \<forall>v\<in>set vs. nests d v \<Longrightarrow>
     elements (jvalue d) (s @ CHR '']'' # r) = Some (vs, r) \<and> expect (CHR '']'') (s @ x) = None"
  "json_members lit ms s \<Longrightarrow> \<forall>m\<in>set ms. nests d (snd m) \<Longrightarrow>
     members (jvalue d) (s @ CHR ''}'' # r) = Some (ms, r) \<and> expect (CHR ''}'') (s @ x) = None"
proof (induction arbitrary: d r and d r x and d r x rule: json_doc_json_elements_json_members.inducts)
  case null
  then show ?case using word_simps [of "''ull''" JNull r] by (subst jvalue.simps) simp
next
  case yes
  then show ?case using word_simps [of "''rue''" "JBool True" r] by (subst jvalue.simps) simp
next
  case no
  then show ?case using word_simps [of "''alse''" "JBool False" r] by (subst jvalue.simps) simp
next
  case (num n)
  obtain c t where c: "n = c # t" "c = CHR ''-'' \<or> is_digit c" using number_first [OF num(1)] by blast
  then have "c \<notin> {quote, CHR ''{'', CHR ''['', CHR ''t'', CHR ''f'', CHR ''n'', CHR '' '', CHR 0x09, CHR 0x0A, CHR 0x0D}"
    by (auto simp: is_digit_def)
  then show ?case using number_reads [OF num(1,3)] c(1) by (subst jvalue.simps) simp
next
  case (str t l)
  then show ?case by (subst jvalue.simps) (simp add: reads)
next
  case (no_elements w)
  then show ?case by (subst jvalue.simps) (simp add: expect_blank)
next
  case (array vs s)
  have "vs \<noteq> []" using array(1) by (cases rule: json_elements.cases) auto
  then show ?case using array(2) [of "d - 1" r "CHR '']'' # r"] array.prems by (subst jvalue.simps) simp
next
  case (no_members w)
  then show ?case by (subst jvalue.simps) (simp add: expect_blank)
next
  case (object ms s)
  then show ?case using object(2) [of "d - 1" r "CHR ''}'' # r"] object.prems by (subst jvalue.simps) simp
next
  case (one_element w v s w')
  have "jvalue d (s @ w' @ CHR '']'' # r) = Some (v, w' @ CHR '']'' # r)"
    using one_element by (auto intro: apart_blank apart_Cons)
  then show ?case using one_element doc_not_closed [OF one_element(3,1), of "CHR '']''" "w' @ x"]
    by (subst elements.simps) (simp add: jvalue_blank expect_blank)
next
  case (more_elements w v s w' vs t)
  have "jvalue d (s @ w' @ CHR '','' # t @ CHR '']'' # r) = Some (v, w' @ CHR '','' # t @ CHR '']'' # r)"
    using more_elements by (auto intro: apart_blank apart_Cons)
  then show ?case using more_elements doc_not_closed [OF more_elements(3,1), of "CHR '']''" "w' @ '','' @ t @ x"]
    by (subst elements.simps) (simp add: jvalue_blank expect_blank)
next
  case (one_member w k l w' x1 v s x')
  have "jvalue d (s @ x' @ CHR ''}'' # r) = Some (v, x' @ CHR ''}'' # r)"
    using one_member by (auto intro: apart_blank apart_Cons)
  then show ?case using one_member
    by (subst members.simps) (simp add: jvalue_blank expect_blank reads)
next
  case (more_members w k l w' x1 v s x' ms t)
  have "jvalue d (s @ x' @ CHR '','' # t @ CHR ''}'' # r) = Some (v, x' @ CHR '','' # t @ CHR ''}'' # r)"
    using more_members by (auto intro: apart_blank apart_Cons)
  then show ?case using more_members
    by (subst members.simps) (simp add: jvalue_blank expect_blank reads)
qed

text \<open>A whole text: a document with white space around it.\<close>

lemma json_text_reads:
  assumes "json_doc lit v s" and "nests max_depth v" and "blank w" and "blank w'"
  shows "json_text (w @ s @ w') = Some v"
  using doc_reads(1) [OF assms(1,2), of w'] apart_blank [OF assms(4), of "[]"] assms(3,4)
  by (simp add: json_text_def jvalue_blank blank_skip)

end

interpretation grammar: literals json_literal
  by unfold_locales (rule json_literal_reads)

section \<open>Documents without white space\<close>

text \<open>
  What an encoder writes: \<open>esc\<close> is what it puts between the quotes of a literal.  A value
  can be written when it nests at most \<open>d\<close> deep and its numbers are numbers.
\<close>

fun plain :: "nat \<Rightarrow> json \<Rightarrow> bool" where
  "plain d (JNumber n) = json_number n"
| "plain d (JArray vs) = (0 < d \<and> (\<forall>v\<in>set vs. plain (d - 1) v))"
| "plain d (JObject ms) = (0 < d \<and> (\<forall>m\<in>set ms. plain (d - 1) (snd m)))"
| "plain d _ = True"

fun coerce_json :: "json \<Rightarrow> json" where
  "coerce_json (JString s) = JString (coerce s)"
| "coerce_json (JArray vs) = JArray (map coerce_json vs)"
| "coerce_json (JObject ms) = JObject (map (\<lambda>(k, v). (coerce k, coerce_json v)) ms)"
| "coerce_json v = v"

definition written :: "(string \<Rightarrow> string) \<Rightarrow> string \<Rightarrow> string \<Rightarrow> bool" where
  "written esc t l \<longleftrightarrow> (\<exists>s. t = coerce s \<and> l = esc s)"

lemma join_with_Cons: "join_with sep (s # ss) = s @ (if ss = [] then [] else sep @ join_with sep ss)"
  by (cases ss) simp_all

lemma blank_Nil [simp]: "blank []"
  by (simp add: blank_def)

lemma elements_render:
  "vs \<noteq> [] \<Longrightarrow> \<forall>v\<in>set vs. json_doc lit (f v) (g v) \<Longrightarrow> json_elements lit (map f vs) (join_with '','' (map g vs))"
proof (induction vs)
  case (Cons v vs)
  then show ?case
    using json_doc_json_elements_json_members.one_element [of "[]" lit "f v" "g v" "[]"]
      json_doc_json_elements_json_members.more_elements [of "[]" lit "f v" "g v" "[]" "map f vs" "join_with '','' (map g vs)"]
    by (cases "vs = []") (simp_all add: join_with_Cons)
qed simp

lemma members_render:
  "ms \<noteq> [] \<Longrightarrow> \<forall>m\<in>set ms. json_doc (written esc) (f (snd m)) (g (snd m)) \<Longrightarrow>
     json_members (written esc) (map (\<lambda>(k, v). (coerce k, f v)) ms)
       (join_with '','' (map (\<lambda>(k, v). literal esc k @ '':'' @ g v) ms))"
proof (induction ms)
  case (Cons m ms)
  obtain k v where m: "m = (k, v)" by (cases m)
  have "written esc (coerce k) (esc k)" by (auto simp: written_def)
  then show ?case using Cons m
      json_doc_json_elements_json_members.one_member [of "[]" "written esc" "coerce k" "esc k" "[]" "[]" "f v" "g v" "[]"]
      json_doc_json_elements_json_members.more_members [of "[]" "written esc" "coerce k" "esc k" "[]" "[]" "f v" "g v" "[]"
        "map (\<lambda>(k, v). (coerce k, f v)) ms" "join_with '','' (map (\<lambda>(k, v). literal esc k @ '':'' @ g v) ms)"]
    by (cases "ms = []") (simp_all add: join_with_Cons literal_def)
qed simp

lemma render_doc: "plain d v \<Longrightarrow> json_doc (written esc) (coerce_json v) (render esc v)"
proof (induction v arbitrary: d)
  case (JBool b)
  then show ?case by (cases b) (simp_all add: json_doc_json_elements_json_members.intros(2,3))
next
  case (JString s)
  have "written esc (coerce s) (esc s)" by (auto simp: written_def)
  from json_doc_json_elements_json_members.str [of "written esc", OF this] show ?case by (simp add: literal_def)
next
  case (JArray vs)
  then have "\<forall>v\<in>set vs. json_doc (written esc) (coerce_json v) (render esc v)" by auto
  then show ?case
    using elements_render [of vs "written esc" coerce_json "render esc"] json_doc_json_elements_json_members.no_elements [of "[]" "written esc"]
      json_doc_json_elements_json_members.array
    by (cases "vs = []") auto
next
  case (JObject ms)
  then have "\<forall>m\<in>set ms. json_doc (written esc) (coerce_json (snd m)) (render esc (snd m))" by (auto simp: snds.simps)
  then show ?case
    using members_render [of ms esc coerce_json "render esc"] json_doc_json_elements_json_members.no_members [of "[]" "written esc"]
      json_doc_json_elements_json_members.object
    by (cases "ms = []") auto
qed (simp_all add: json_doc_json_elements_json_members.intros)

lemma plain_nests: "plain d v \<Longrightarrow> nests d (coerce_json v)"
  by (induction d v rule: plain.induct) auto

text \<open>
  A writer's literals, whatever they escape, stand for the text with its invalid bytes
  replaced.
\<close>

locale literal_writer =
  fixes esc :: "string \<Rightarrow> string"
  assumes reads_back: "jstring (esc s @ quote # r) = Some (coerce s, r)"

sublocale literal_writer \<subseteq> literals "written esc"
  by unfold_locales (auto simp: written_def reads_back)

context literal_writer
begin

text \<open>A document with white space behind it, as an encoder writes a line end.\<close>

lemma json_text_render:
  "plain max_depth v \<Longrightarrow> skip r = [] \<Longrightarrow> json_text (render esc v @ r) = Some (coerce_json v)"
  using json_text_reads [OF render_doc plain_nests, of max_depth v "[]" r] by (simp add: blank_skip)

end

interpretation go_escape: literal_writer escape
  by unfold_locales (rule jstring_escape)

section \<open>Well-formed text\<close>

text \<open>Bytes that are UTF-8 throughout are kept.\<close>

function utf8_valid :: "string \<Rightarrow> bool" where
  "utf8_valid s =
    (if s = [] then True else if rune_len s = 0 then False else utf8_valid (drop (rune_len s) s))"
  by pat_completeness auto
termination by (relation "measure length") auto

declare utf8_valid.simps [simp del]

lemma coerce_valid: "utf8_valid s \<Longrightarrow> coerce s = s"
proof (induction s rule: utf8_valid.induct)
  case (1 s)
  show ?case
  proof (cases "s = []")
    case False
    then have "rune_len s \<noteq> 0" "utf8_valid (drop (rune_len s) s)"
      using 1(2) utf8_valid.simps [of s] by (simp_all split: if_splits)
    then show ?thesis using 1(1) False by (subst coerce.simps) simp
  qed (simp add: coerce_Nil)
qed

lemma utf8_valid_ascii: "list_all (\<lambda>c. of_char c < (128 :: nat)) s \<Longrightarrow> utf8_valid s"
proof (induction s)
  case (Cons c s)
  then show ?case using rune_len_ascii [of "c # s" c s] by (subst utf8_valid.simps) simp
qed (subst utf8_valid.simps, simp)

end
