(* ===== verification/Http_Json.thy ===== *)
theory Http_Json
  imports Http_Request Json_Roundtrip
begin

text \<open>
  The JSON of the HTTP layer: the documents that the struct tags of \<open>ErrorResponse\<close> and
  \<open>SuccessResponse\<close> in \<open>modules/shared/src/utilhttp/response.go\<close> stand for, and what a client
  that parses a response finds in it.
\<close>

section \<open>Documents\<close>

text \<open>\<open>data\<close> is the document of the payload.\<close>

definition response_json :: "('a \<Rightarrow> json) \<Rightarrow> 'a Response \<Rightarrow> json" where
  "response_json data msg =
    (case msg of
       ErrorResponse s \<Rightarrow> JObject [(''error'', JString s)]
     | SuccessResponse d \<Rightarrow> JObject [(''data'', data d)])"

text \<open>
  A string field with the option \<open>omitempty\<close>.
\<close>

definition omitempty :: "string \<Rightarrow> string \<Rightarrow> (string \<times> json) list" where
  "omitempty k s = (if s = [] then [] else [(k, JString s)])"

text \<open>
  Documented behaviour of \<open>github.com/goccy/go-json\<close>, a replacement of \<open>encoding/json\<close>: an
  encoder writes the value and a line end, in any number of writes.  Which characters its
  literals escape is left open.
\<close>

definition encodes_json :: "(string \<Rightarrow> string) \<Rightarrow> ('a \<Rightarrow> json) \<Rightarrow> 'a encoder \<Rightarrow> bool" where
  "encodes_json esc data enc \<longleftrightarrow> literal_writer esc
    \<and> (\<forall>msg w. \<exists>cs. enc msg w = (foldl Write w cs, None)
          \<and> concat cs = render esc (response_json data msg) @ [CHR 0x0A])"

lemma encodes_jsonE:
  assumes "encodes_json esc data enc"
  obtains cs where "enc msg w = (foldl Write w cs, None)"
    and "concat cs = render esc (response_json data msg) @ [CHR 0x0A]"
  using assms by (auto simp: encodes_json_def)

lemma encodes_json_only_writes: "encodes_json esc data enc \<Longrightarrow> encoder_only_writes enc"
  unfolding encodes_json_def encoder_only_writes_def by (metis fst_conv)

text \<open>A response as a client gets it: its status, its content type, its document.\<close>

definition received :: "ResponseWriter \<Rightarrow> int option \<times> string option \<times> json option" where
  "received w = (sent_status w, sent_hdr w CONTENT_TYPE, json_text (sent_body w))"

lemma writeJSON_received:
  assumes "encodes_json esc data enc" and "sent_status w = None" and "sent_body w = []"
    and "plain max_depth (response_json data msg)"
  shows "received (writeJSON enc w code msg) =
      (Some code, Some APPLICATION_JSON, Some (coerce_json (response_json data msg)))"
    and "superfluous (writeJSON enc w code msg) = superfluous w"
proof -
  let ?w2 = "WriteHeader (Header_Set w CONTENT_TYPE APPLICATION_JSON) code"
  have writer: "literal_writer esc" using assms(1) by (simp add: encodes_json_def)
  obtain cs where cs: "enc msg ?w2 = (foldl Write ?w2 cs, None)"
    "concat cs = render esc (response_json data msg) @ [CHR 0x0A]"
    using assms(1) by (rule encodes_jsonE)
  have "json_text (sent_body (writeJSON enc w code msg)) = Some (coerce_json (response_json data msg))"
    using cs assms(3) literal_writer.json_text_render [OF writer assms(4), of "[CHR 0x0A]"]
    by (simp add: writeJSON_def)
  then show "received (writeJSON enc w code msg) =
      (Some code, Some APPLICATION_JSON, Some (coerce_json (response_json data msg)))"
    using writeJSON_status [OF encodes_json_only_writes [OF assms(1)] assms(2), of code msg]
    by (simp add: received_def)
  show "superfluous (writeJSON enc w code msg) = superfluous w"
    using cs(1) assms(2) by (simp add: writeJSON_def)
qed

section \<open>Well-formed names\<close>

lemma coerce_ascii: "list_all (\<lambda>c. of_char c < (128 :: nat)) s \<Longrightarrow> coerce s = s"
  by (rule coerce_valid [OF utf8_valid_ascii])

lemma plain_depth_pos: "0 < max_depth" "0 < max_depth - 1" "0 < max_depth - 1 - 1"
  by (simp_all add: max_depth_def)

text \<open>Errors and successes as a client gets them.\<close>

lemma responses_received:
  assumes "encodes_json esc data enc" and "sent_status w = None" and "sent_body w = []"
    and "plain (max_depth - 1) (data d)"
  shows "received (ResponseError enc w err) =
      (Some (status_of err), Some ''application/json'', Some (JObject [(''error'', JString (coerce (Error err)))]))
    \<and> received (ResponseOk enc w d) =
      (Some 200, Some ''application/json'', Some (JObject [(''data'', coerce_json (data d))]))
    \<and> received (ResponseAccepted enc w d) =
      (Some 202, Some ''application/json'', Some (JObject [(''data'', coerce_json (data d))]))
    \<and> superfluous (ResponseError enc w err) = superfluous w
    \<and> superfluous (ResponseOk enc w d) = superfluous w \<and> superfluous (ResponseAccepted enc w d) = superfluous w"
proof -
  have names: "coerce ''error'' = ''error''" "coerce ''data'' = ''data''" by (simp_all add: coerce_ascii)
  have "plain max_depth (response_json data (ErrorResponse s))" for s
    using plain_depth_pos by (simp add: response_json_def)
  note e = writeJSON_received [OF assms(1-3) this]
  have "plain max_depth (response_json data (SuccessResponse d))"
    using plain_depth_pos assms(4) by (simp add: response_json_def)
  note s = writeJSON_received [OF assms(1-3) this]
  show ?thesis
    unfolding ResponseError_eq_writeJSON ResponseOk_def ResponseAccepted_def
    using e s by (simp add: response_json_def names APPLICATION_JSON_def)
qed

section \<open>Properties\<close>

text \<open>
  C21: Every response a service writes reads back as what it means.  A client that parses
  the answer to an error finds the JSON content type, the status of the error's type (404,
  400, 401, 403, 409, 429, else 500) and the document with the error's own text as its one
  member \<open>error\<close>; the answers of \<open>ResponseOk\<close> and \<open>ResponseAccepted\<close> have status 200 and 202
  and the payload as their one member \<open>data\<close>, for every payload that nests at most 9999 deep
  (the reader's limit is 10000) and whose numbers are written as JSON has them.  Bytes that
  are not UTF-8 arrive as U+FFFD, and no superfluous status is written.
\<close>

theorem responses_read_back:
  assumes "encodes_json esc data enc" and "sent_status w = None" and "sent_body w = []"
    and "plain (max_depth - 1) (data d)"
  shows "received (ResponseError enc w err) =
      (Some (status_of err), Some ''application/json'', Some (JObject [(''error'', JString (coerce (Error err)))]))
    \<and> received (ResponseOk enc w d) =
      (Some 200, Some ''application/json'', Some (JObject [(''data'', coerce_json (data d))]))
    \<and> received (ResponseAccepted enc w d) =
      (Some 202, Some ''application/json'', Some (JObject [(''data'', coerce_json (data d))]))
    \<and> superfluous (ResponseError enc w err) = superfluous w
    \<and> superfluous (ResponseOk enc w d) = superfluous w \<and> superfluous (ResponseAccepted enc w d) = superfluous w"
  by (rule responses_received [OF assms])

text \<open>An encoder in one write.\<close>

definition json_encoder :: "('a \<Rightarrow> json) \<Rightarrow> 'a encoder" where
  "json_encoder data msg w = (Write w (render escape (response_json data msg) @ [CHR 0x0A]), None)"

lemma json_encoder_encodes: "encodes_json escape data (json_encoder data)"
  unfolding encodes_json_def json_encoder_def
  using go_escape.literal_writer_axioms
  by (auto intro: exI [of _ "[render escape (response_json data msg) @ [CHR 0x0A]]" for msg])

text \<open>The payload of the package's own tests: a name and a number.\<close>

definition payload_json :: "string \<times> string \<Rightarrow> json" where
  "payload_json p = JObject [(''name'', JString (fst p)), (''n'', JNumber (snd p))]"

lemma json_number_7: "json_number ''7''"
  using json_number.intros [of "[]" "''7''" "[]" "[]"] by (simp add: digit_text_def is_digit_def)

theorem responses_read_back_witness:
  "received (ResponseError (json_encoder payload_json) fresh_writer (NewConflictError (ErrorString ''duplicate <id>'')))
    = (Some 409, Some ''application/json'', Some (JObject [(''error'', JString ''duplicate <id>'')]))
   \<and> received (ResponseOk (json_encoder payload_json) fresh_writer (''a'', ''7''))
    = (Some 200, Some ''application/json'',
       Some (JObject [(''data'', JObject [(''name'', JString ''a''), (''n'', JNumber ''7'')])]))"
proof -
  have "coerce ''duplicate <id>'' = ''duplicate <id>''" "coerce ''name'' = ''name''" "coerce ''n'' = ''n''"
    "coerce ''a'' = ''a''" by (simp_all add: coerce_ascii)
  moreover have "plain (max_depth - 1) (payload_json (''a'', ''7''))"
    by (simp add: payload_json_def json_number_7 max_depth_def)
  ultimately show ?thesis
    using responses_read_back [OF json_encoder_encodes fresh_writer_simps(1,2), of payload_json "(''a'', ''7'')"
        "NewConflictError (ErrorString ''duplicate <id>'')"]
    by (simp add: payload_json_def)
qed

end
