(* ===== verification/Auth_Json.thy ===== *)
theory Auth_Json
  imports Auth_Wiring Http_Json
begin

text \<open>
  A login from the client's document to the answer's: the request decoded by
  \<open>encoding/json\<close> into \<open>LoginRequest\<close> (\<open>modules/auth/src/route/request/login.go\<close>), the token
  and the response encoded by their struct tags (\<open>domain/token.go\<close>, \<open>route/login.go\<close>).
\<close>

section \<open>Decoding \<open>LoginRequest\<close>\<close>

text \<open>
  The decoder matches member names with the tags \<open>email\<close> and \<open>password\<close> up to case.  Two
  letters outside ASCII fold to ASCII: the long s (U+017F) and the Kelvin sign (U+212A).
\<close>

definition upper :: "char \<Rightarrow> char" where
  "upper c = (let n = of_char c :: nat in if 97 \<le> n \<and> n \<le> 122 then char_of (n - 32) else c)"

function fold_name :: "string \<Rightarrow> string" where
  "fold_name s =
    (if s = [] then []
     else if take 2 s = [CHR 0xC5, CHR 0xBF] then CHR ''S'' # fold_name (drop 2 s)
     else if take 3 s = [CHR 0xE2, CHR 0x84, CHR 0xAA] then CHR ''K'' # fold_name (drop 3 s)
     else upper (hd s) # fold_name (tl s))"
  by pat_completeness auto
termination by (relation "measure length") auto

declare fold_name.simps [simp del]

datatype login_field = EmailField | PasswordField

text \<open>The fields with their \<open>json\<close> tags, and the field a member name stands for.\<close>

definition LoginRequest_tags :: "(string \<times> login_field) list" where
  "LoginRequest_tags = [(''email'', EmailField), (''password'', PasswordField)]"

definition tag_of :: "string \<Rightarrow> (string \<times> login_field) option" where
  "tag_of k = find (\<lambda>(tag, _). fold_name tag = fold_name k) LoginRequest_tags"

fun kind_of :: "json \<Rightarrow> string" where
  "kind_of JNull = ''null''"
| "kind_of (JBool _) = ''bool''"
| "kind_of (JNumber _) = ''number''"
| "kind_of (JString _) = ''string''"
| "kind_of (JArray _) = ''array''"
| "kind_of (JObject _) = ''object''"

definition field_error :: "string \<Rightarrow> json \<Rightarrow> string" where
  "field_error tag v = ''json: cannot unmarshal '' @ kind_of v @ '' into Go struct field LoginRequest.''
    @ tag @ '' of type string''"

definition set_field :: "login_field \<Rightarrow> string \<Rightarrow> LoginRequest \<Rightarrow> LoginRequest" where
  "set_field f s r = (case f of EmailField \<Rightarrow> r\<lparr>req_Email := s\<rparr> | PasswordField \<Rightarrow> r\<lparr>req_Password := s\<rparr>)"

text \<open>
  One member: an unknown name is skipped, null leaves the field, a text sets it, and the
  first other value is the error the decoder reports at the end.
\<close>

definition store_member ::
  "LoginRequest \<times> string option \<Rightarrow> string \<times> json \<Rightarrow> LoginRequest \<times> string option" where
  "store_member st m =
    (case (tag_of (fst m), snd m) of
       (None, _) \<Rightarrow> st
     | (Some _, JNull) \<Rightarrow> st
     | (Some (_, f), JString s) \<Rightarrow> (set_field f s (fst st), snd st)
     | (Some (tag, _), v) \<Rightarrow> (fst st, case snd st of None \<Rightarrow> Some (field_error tag v) | Some e \<Rightarrow> Some e))"

text \<open>\<open>syn\<close> is the text of the error for bytes that are not JSON.\<close>

definition Unmarshal_LoginRequest :: "(string \<Rightarrow> string) \<Rightarrow> string \<Rightarrow> go_error + LoginRequest" where
  "Unmarshal_LoginRequest syn b =
    (case json_text b of
       None \<Rightarrow> Inl (Foreign ''json'' (syn b))
     | Some JNull \<Rightarrow> Inr zero_LoginRequest
     | Some (JObject ms) \<Rightarrow>
         (case foldl store_member (zero_LoginRequest, None) ms of
            (_, Some e) \<Rightarrow> Inl (Foreign ''json'' e)
          | (r, None) \<Rightarrow> Inr r)
     | Some v \<Rightarrow> Inl (Foreign ''json''
         (''json: cannot unmarshal '' @ kind_of v @ '' into Go value of type request.LoginRequest'')))"

section \<open>The answer's document\<close>

text \<open>
  \<open>Expired\<close> is a defined type over \<open>time.Time\<close>: a struct without exported fields and without
  the methods of \<open>time.Time\<close>, so it is the empty object whatever it holds, and
  \<open>omitempty\<close> does not drop a struct.
\<close>

definition token_json :: "Token \<Rightarrow> json" where
  "token_json t = JObject (omitempty ''user_id'' (UserID t) @ omitempty ''scope'' (Scope t)
     @ omitempty ''role'' (Role t) @ [(''expired'', JObject [])])"

definition login_response_json :: "response \<Rightarrow> json" where
  "login_response_json r =
    JObject [(''token'', case resp_Token r of None \<Rightarrow> JNull | Some t \<Rightarrow> token_json t)]"

section \<open>Specification\<close>

text \<open>
  The last text given under a name in capitals, empty without one; the first login member of
  a wrong kind.
\<close>

definition last_text :: "string \<Rightarrow> (string \<times> json) list \<Rightarrow> string" where
  "last_text n ms = last ([] # [s. (k, JString s) \<leftarrow> ms, fold_name k = n])"

definition given_request :: "(string \<times> json) list \<Rightarrow> LoginRequest" where
  "given_request ms = \<lparr>req_Email = last_text ''EMAIL'' ms, req_Password = last_text ''PASSWORD'' ms\<rparr>"

definition mismatch :: "(string \<times> json) list \<Rightarrow> (string \<times> json) option" where
  "mismatch ms = find (\<lambda>(k, v). fold_name k \<in> {''EMAIL'', ''PASSWORD''} \<and> kind_of v \<notin> {''null'', ''string''}) ms"

definition mismatch_text :: "string \<Rightarrow> json \<Rightarrow> string" where
  "mismatch_text k v = ''json: cannot unmarshal '' @ kind_of v @ '' into Go struct field LoginRequest.''
    @ (if fold_name k = ''EMAIL'' then ''email'' else ''password'') @ '' of type string''"

definition error_json :: "string \<Rightarrow> json" where
  "error_json s = JObject [(''error'', JString (coerce s))]"

definition empty_token_json :: json where
  "empty_token_json = JObject [(''data'', JObject [(''token'', JObject [(''expired'', JObject [])])])]"

text \<open>What a request deserves: a status and a document.\<close>

definition login_reply ::
  "(string \<Rightarrow> go_error + LoginRequest) \<Rightarrow> ozzo \<Rightarrow> (string \<Rightarrow> go_error + User) \<Rightarrow> Body \<Rightarrow> int \<times> json" where
  "login_reply unmarshal oz get_user body =
    (case read_err body of
       Some err \<Rightarrow> (400, error_json (''read request body: '' @ Error err))
     | None \<Rightarrow>
    (case unmarshal (bytes body) of
       Inl err \<Rightarrow> (400, error_json (''unmarshal request body: '' @ Error err))
     | Inr req \<Rightarrow>
    (case LoginRequest_Validate oz req of
       Some err \<Rightarrow> (400, error_json (''invalid request body: '' @ Error err))
     | None \<Rightarrow>
    (case get_user (req_Email req) of
       Inl err \<Rightarrow> (500, error_json (''failed to retrieve user from database: '' @ Error err))
     | Inr u \<Rightarrow>
         if Password u = req_Password req then (200, empty_token_json)
         else (401, error_json ''invalid credentials'')))))"

section \<open>Facts\<close>

lemma tag_of_eq:
  "tag_of k = (if fold_name k = ''EMAIL'' then Some (''email'', EmailField)
     else if fold_name k = ''PASSWORD'' then Some (''password'', PasswordField) else None)"
proof -
  have "fold_name ''email'' = ''EMAIL''" "fold_name ''password'' = ''PASSWORD''"
    by (simp_all add: fold_name.simps upper_def char_of_eq_iff)
  then show ?thesis by (auto simp: tag_of_def LoginRequest_tags_def)
qed

lemma kind_of_text: "kind_of v \<in> {''null'', ''string''} \<longleftrightarrow> v = JNull \<or> (\<exists>s. v = JString s)"
  by (cases v) simp_all

lemma store_members:
  assumes "mismatch ms = None"
  shows "foldl store_member (r, None) ms =
    (\<lparr>req_Email = last (req_Email r # [s. (k, JString s) \<leftarrow> ms, fold_name k = ''EMAIL'']),
      req_Password = last (req_Password r # [s. (k, JString s) \<leftarrow> ms, fold_name k = ''PASSWORD''])\<rparr>, None)"
  using assms
proof (induction ms arbitrary: r)
  case (Cons m ms)
  obtain k v where m: "m = (k, v)" by (cases m)
  have ms: "mismatch ms = None" using Cons.prems by (simp add: mismatch_def m split: if_splits)
  have "fold_name k \<notin> {''EMAIL'', ''PASSWORD''} \<or> v = JNull \<or> (\<exists>s. v = JString s)"
    using Cons.prems kind_of_text [of v] by (simp add: mismatch_def m split: if_splits)
  then consider "fold_name k \<notin> {''EMAIL'', ''PASSWORD''} \<or> v = JNull"
    | f s where "v = JString s" "tag_of k = Some f"
    by (cases "fold_name k = ''EMAIL''"; cases "fold_name k = ''PASSWORD''") (auto simp: tag_of_eq)
  then show ?case
  proof cases
    case 1
    then have "store_member (r, None) m = (r, None)" by (auto simp: store_member_def m tag_of_eq)
    then show ?thesis using Cons.IH [OF ms, of r] 1 by (auto simp: m split: json.split)
  next
    case 2
    then have "store_member (r, None) m = (set_field (snd f) s r, None)"
      by (simp add: store_member_def m split: prod.split)
    then show ?thesis using Cons.IH [OF ms, of "set_field (snd f) s r"] 2
      by (auto simp: m set_field_def tag_of_eq split: if_splits)
  qed
qed simp

lemma store_error_kept: "snd (foldl store_member (r, Some e) ms) = Some e"
proof (induction ms arbitrary: r)
  case (Cons m ms)
  have "snd (store_member (r, Some e) m) = Some e"
    by (simp add: store_member_def split: option.split json.split)
  then show ?case using Cons.IH [of "fst (store_member (r, Some e) m)"]
    by (cases "store_member (r, Some e) m") simp
qed simp

lemma store_mismatch:
  assumes "mismatch ms = Some (k, v)"
  shows "snd (foldl store_member (r, None) ms) = Some (mismatch_text k v)"
  using assms
proof (induction ms arbitrary: r)
  case (Cons m ms)
  obtain l u where m: "m = (l, u)" by (cases m)
  show ?case
  proof (cases "fold_name l \<in> {''EMAIL'', ''PASSWORD''} \<and> kind_of u \<notin> {''null'', ''string''}")
    case True
    then have "l = k" "u = v" using Cons.prems by (simp_all add: mismatch_def m)
    then have "store_member (r, None) m = (r, Some (mismatch_text k v))"
      using True by (cases v) (auto simp: store_member_def m tag_of_eq field_error_def mismatch_text_def)
    then show ?thesis by (simp add: store_error_kept)
  next
    case False
    then have "mismatch ms = Some (k, v)" using Cons.prems by (simp add: mismatch_def m split: if_splits)
    moreover have "snd (store_member (r, None) m) = None"
      using False by (cases u) (auto simp: store_member_def m tag_of_eq)
    ultimately show ?thesis using Cons.IH [of "fst (store_member (r, None) m)"]
      by (cases "store_member (r, None) m") simp
  qed
qed (simp add: mismatch_def)

text \<open>Decoding any document of an object.\<close>

lemma Unmarshal_document:
  assumes "json_doc json_literal (JObject ms) doc" and "nests max_depth (JObject ms)" and "blank ws" and "blank ws'"
  shows "Unmarshal_LoginRequest syn (ws @ doc @ ws') =
    (case mismatch ms of
       None \<Rightarrow> Inr (given_request ms)
     | Some (k, v) \<Rightarrow> Inl (Foreign ''json'' (mismatch_text k v)))"
proof -
  have parsed: "json_text (ws @ doc @ ws') = Some (JObject ms)" by (rule grammar.json_text_reads [OF assms])
  show ?thesis
  proof (cases "mismatch ms")
    case None
    then show ?thesis using parsed store_members [OF None, of zero_LoginRequest]
      by (simp add: Unmarshal_LoginRequest_def zero_LoginRequest_def given_request_def last_text_def)
  next
    case (Some m)
    obtain k v where m: "m = (k, v)" by (cases m)
    show ?thesis using parsed store_mismatch [of ms k v zero_LoginRequest] Some m
      by (cases "foldl store_member (zero_LoginRequest, None) ms") (simp add: Unmarshal_LoginRequest_def)
  qed
qed

lemma names_ascii: "coerce ''token'' = ''token''" "coerce ''expired'' = ''expired''" "coerce ''data'' = ''data''"
  "coerce ''error'' = ''error''" "coerce ''invalid credentials'' = ''invalid credentials''"
  by (simp_all add: coerce_ascii)

text \<open>Whatever the decoder and the service, the answer a client parses is the specified one.\<close>

lemma login_received:
  assumes "encodes_json esc login_response_json enc" and "sent_status w = None" and "sent_body w = []"
  shows "received (fst (login enc unmarshal oz (LoginService_Post get_user) w body)) =
    (case login_reply unmarshal oz get_user body of (code, doc) \<Rightarrow> (Some code, Some ''application/json'', Some doc))"
proof -
  have "plain (max_depth - 1) (login_response_json (newResponse (Some zero_Token)))"
    by (simp add: max_depth_def login_response_json_def newResponse_def token_json_def omitempty_def zero_Token_def)
  note answers = responses_received [OF assms this]
  show ?thesis
    using answers
    by (auto simp: login_def login_reply_def RequestBody_def ReadAll_def LoginService_Post_def NewLoginInput_def
        Errorf_v_def error_json_def empty_token_json_def login_response_json_def newResponse_def token_json_def
        omitempty_def zero_Token_def names_ascii split: option.split sum.split)
qed

section \<open>Properties\<close>

text \<open>
  C10: Every login is answered, and the client can tell what happened: its parser finds 400
  with the reason when the body cannot be read, decoded or validated, 500 with the
  database's text when the lookup fails, 401 with \<open>invalid credentials\<close> for a wrong password,
  and otherwise 200 with a token document whose only member, \<open>expired\<close>, is the empty object.
\<close>

theorem login_answers:
  assumes "encodes_json esc login_response_json enc" and "sent_status w = None" and "sent_body w = []"
  shows "received (fst (login enc unmarshal oz (LoginService_Post get_user) w body)) =
    (case login_reply unmarshal oz get_user body of (code, doc) \<Rightarrow> (Some code, Some ''application/json'', Some doc))"
  by (rule login_received [OF assms])

text \<open>
  A client's document: names in any case, a member the service does not know with a number,
  spaces and a line end.
\<close>

definition sample_members :: "(string \<times> json) list" where
  "sample_members = [(''Email'', JString ''a@b.c''), (''age'', JNumber ''7''), (''passWord'', JString ''secret'')]"

definition quoted :: "string \<Rightarrow> string" where
  "quoted s = quote # s @ [quote]"

definition sample_document :: string where
  "sample_document = ''{'' @ quoted ''Email'' @ '': '' @ quoted ''a@b.c'' @ '', '' @ quoted ''age'' @ '': 7, ''
     @ quoted ''passWord'' @ '': '' @ quoted ''secret'' @ ''}''"

definition sample_json_body :: Body where
  "sample_json_body = sample_body (sample_document @ [CHR 0x0A])"

lemma ascii_literal: "list_all (\<lambda>c. 32 \<le> (of_char c :: nat) \<and> of_char c < (128 :: nat) \<and> c \<notin> {quote, backslash}) s
  \<Longrightarrow> json_literal s s"
proof (induction s)
  case (Cons c s)
  then show ?case using json_literal.rune [of "[c]" s s] rune_len_ascii [of "[c]" c "[]"] by simp
qed (simp add: json_literal.no_more)

lemma sample_doc: "json_doc json_literal (JObject sample_members) sample_document"
proof -
  note I = json_doc_json_elements_json_members.intros
  have lit: "json_literal ''Email'' ''Email''" "json_literal ''a@b.c'' ''a@b.c''" "json_literal ''age'' ''age''"
    "json_literal ''passWord'' ''passWord''" "json_literal ''secret'' ''secret''"
    by (rule ascii_literal, simp)+
  have b: "blank []" "blank '' ''" by (simp_all add: blank_def)
  note p = I(12) [OF b(2) lit(4) b(1,2) I(5) [of json_literal, OF lit(5)] b(1)]
  note a = I(13) [OF b(2) lit(3) b(1,2) I(4) [OF json_number_7] b(1) p]
  note e = I(13) [OF b(1) lit(1) b(1,2) I(5) [of json_literal, OF lit(2)] b(1) a]
  from I(9) [OF e] show ?thesis by (simp add: sample_members_def sample_document_def quoted_def)
qed

lemma sample_members_ok:
  "nests max_depth (JObject sample_members)" "mismatch sample_members = None"
  "given_request sample_members = \<lparr>req_Email = ''a@b.c'', req_Password = ''secret''\<rparr>"
  by (simp_all add: sample_members_def max_depth_def mismatch_def given_request_def
      last_text_def fold_name.simps upper_def char_of_eq_iff)

lemma sample_blanks: "blank []" "blank [CHR 0x0A]"
  by (simp_all add: blank_def)

lemma sample_json_body_simps:
  "read_err sample_json_body = None" "bytes sample_json_body = [] @ sample_document @ [CHR 0x0A]"
  by (simp_all add: sample_json_body_def sample_body_def)

lemma sample_decodes:
  "Unmarshal_LoginRequest syn (bytes sample_json_body) = Inr \<lparr>req_Email = ''a@b.c'', req_Password = ''secret''\<rparr>"
  unfolding sample_json_body_simps
  by (simp only: Unmarshal_document [OF sample_doc sample_members_ok(1) sample_blanks] sample_members_ok option.case)

theorem login_answers_witness:
  "received (fst (login (json_encoder login_response_json) (Unmarshal_LoginRequest (\<lambda>_. []))
      (simple_ozzo (\<lambda>s. CHR ''@'' \<in> set s)) (LoginService_Post (GetUser (\<lambda>_. None) [sample_user])) fresh_writer
      sample_json_body)) = (Some 200, Some ''application/json'', Some empty_token_json)"
proof -
  let ?un = "Unmarshal_LoginRequest (\<lambda>_. [])" and ?oz = "simple_ozzo (\<lambda>s. CHR ''@'' \<in> set s)"
  have "LoginRequest_Validate ?oz \<lparr>req_Email = ''a@b.c'', req_Password = ''secret''\<rparr> = None"
    by (simp add: login_request_valid_iff [OF simple_ozzo_documented])
  then have "login_reply ?un ?oz (GetUser (\<lambda>_. None) [sample_user]) sample_json_body = (200, empty_token_json)"
    unfolding login_reply_def sample_decodes by (simp add: sample_json_body_simps(1) GetUser_def sample_user_def)
  then show ?thesis by (simp add: login_answers [OF json_encoder_encodes fresh_writer_simps(1,2)])
qed

text \<open>
  C11: What a client writes is what the handler gets.  A JSON document (RFC 8259: white space
  between any tokens, numbers, any escapes) of an object that nests at most 10000 deep, with
  members in any order, names in any case, repeated or unknown, is decoded to the request
  with the last text given for each of \<open>email\<close> and \<open>password\<close>, empty where none or null is
  given, and comes back if it validates; a login member that is a number, a bool, an array
  or an object is a 400 whose text names the first such kind and field.
\<close>

theorem login_body_read_back:
  assumes "json_doc json_literal (JObject ms) doc" and "nests max_depth (JObject ms)"
    and "blank ws" and "blank ws'" and "read_err body = None" and "bytes body = ws @ doc @ ws'"
  shows "fst (RequestBody (Unmarshal_LoginRequest syn) zero_LoginRequest V body) =
    (case mismatch ms of
       Some (k, v) \<Rightarrow> (zero_LoginRequest, Some (NewBadRequestError (ErrorString
          (''unmarshal request body: json: cannot unmarshal '' @ kind_of v @ '' into Go struct field LoginRequest.''
             @ (if fold_name k = ''EMAIL'' then ''email'' else ''password'') @ '' of type string''))))
     | None \<Rightarrow>
         (case V (given_request ms) of
            None \<Rightarrow> (given_request ms, None)
          | Some err \<Rightarrow> (zero_LoginRequest, Some (NewBadRequestError (Errorf_v ''invalid request body: '' err)))))"
  using Unmarshal_document [OF assms(1-4), of syn] assms(5,6)
  by (simp add: RequestBody_def ReadAll_def Errorf_v_def mismatch_text_def split: option.split prod.split)

theorem login_body_read_back_witness:
  "fst (RequestBody (Unmarshal_LoginRequest (\<lambda>_. [])) zero_LoginRequest (\<lambda>_. None) sample_json_body)
    = (\<lparr>req_Email = ''a@b.c'', req_Password = ''secret''\<rparr>, None)"
  by (simp add: login_body_read_back [OF sample_doc sample_members_ok(1) sample_blanks sample_json_body_simps]
      sample_members_ok)

text \<open>
  C9: A login from the client's JSON to the service's JSON, through the wired service over
  tables that satisfy the constraints of the migration: a client that sends any JSON document
  (RFC 8259, white space anywhere, nesting at most 10000 deep) with an e-mail and a password of the required lengths and form reads 500 with
  the driver's text when the lookup fails; otherwise 200 and the token document exactly when
  a committed user has both, 401 when a user has the e-mail with another password, and 500
  with the driver's text when no user has the e-mail, so the two refusals can be told apart.
\<close>

theorem login_over_json:
  assumes "encodes_json esc login_response_json enc" and "sent_status w = None" and "sent_body w = []"
    and "json_doc json_literal (JObject ms) doc" and "nests max_depth (JObject ms)"
    and "blank ws" and "blank ws'" and "read_err body = None" and "bytes body = ws @ doc @ ws'"
    and "mismatch ms = None" and "given_request ms = \<lparr>req_Email = e, req_Password = p\<rparr>"
    and "ozzo_documented oz email_ok" and "email_ok e" and "length e \<in> {5..100}" and "length p \<in> {6..100}"
    and "auth_db_ok (committed db)"
  shows "received (fst (run_endpoint enc (Unmarshal_LoginRequest syn) oz (auth_wired fault db) LoginEndpoint w body)) =
    (case fault e of
       Some err \<Rightarrow> (Some 500, Some ''application/json'',
         Some (error_json (''failed to retrieve user from database: '' @ Error err)))
     | None \<Rightarrow>
         if \<exists>u. u \<in> set (users (committed db)) \<and> Email u = e \<and> Password u = p
         then (Some 200, Some ''application/json'', Some empty_token_json)
         else if \<exists>u. u \<in> set (users (committed db)) \<and> Email u = e
         then (Some 401, Some ''application/json'', Some (error_json ''invalid credentials''))
         else (Some 500, Some ''application/json'',
           Some (error_json ''failed to retrieve user from database: sql: no rows in result set'')))"
proof -
  let ?us = "users (committed db)"
  note inv = auth_db_ok_users [OF assms(16)]
  have req: "Unmarshal_LoginRequest syn (bytes body) = Inr \<lparr>req_Email = e, req_Password = p\<rparr>"
    using Unmarshal_document [OF assms(4-7), of syn] assms(9-11) by simp
  have valid: "LoginRequest_Validate oz \<lparr>req_Email = e, req_Password = p\<rparr> = None"
    using assms(13-15) by (simp add: login_request_valid_iff [OF assms(12)])
  note answer = login_received [OF assms(1-3), of "Unmarshal_LoginRequest syn" oz "GetUser fault ?us" body]
  show ?thesis
  proof (cases "fault e")
    case (Some err)
    then have "GetUser fault ?us e = Inl err" by (simp add: GetUser_def)
    then show ?thesis using Some answer req valid assms(8)
      by (simp add: run_endpoint_def loginSvc_wired login_reply_def)
  next
    case None
    have found: "GetUser fault ?us e = Inr u" if "u \<in> set ?us" "Email u = e" for u
      using GetUser_found [OF inv that(1), of fault] that(2) None by simp
    show ?thesis
    proof (cases "\<exists>u. u \<in> set ?us \<and> Email u = e")
      case True
      then obtain u where u: "u \<in> set ?us" "Email u = e" by blast
      have "(\<exists>v. v \<in> set ?us \<and> Email v = e \<and> Password v = p) \<longleftrightarrow> Password u = p"
        using u found by (metis sum.inject(2))
      then show ?thesis using True None answer found [OF u] req valid assms(8)
        by (simp add: run_endpoint_def loginSvc_wired login_reply_def)
    next
      case False
      then have "GetUser fault ?us e = Inl sql_ErrNoRows"
        using None by (auto simp: GetUser_def find_None_iff split: option.split)
      moreover from False have "\<not> (\<exists>u. u \<in> set ?us \<and> Email u = e \<and> Password u = p)" by blast
      ultimately show ?thesis using False None answer req valid assms(8)
        by (simp add: run_endpoint_def loginSvc_wired login_reply_def sql_ErrNoRows_def)
    qed
  qed
qed

theorem login_over_json_witness:
  "received (fst (run_endpoint (json_encoder login_response_json) (Unmarshal_LoginRequest (\<lambda>_. []))
      (simple_ozzo (\<lambda>s. CHR ''@'' \<in> set s)) (auth_wired (\<lambda>_. None) one_user_sqldb) LoginEndpoint fresh_writer
      sample_json_body)) = (Some 200, Some ''application/json'', Some empty_token_json)"
proof -
  have r: "auth_db_ok (committed one_user_sqldb)" by (simp add: one_user_sqldb_def one_user_db_ok)
  show ?thesis
    by (subst login_over_json [OF json_encoder_encodes fresh_writer_simps(1,2) sample_doc sample_members_ok(1)
          sample_blanks sample_json_body_simps sample_members_ok(2,3) simple_ozzo_documented _ _ _ r])
      (simp_all add: one_user_sqldb_def one_user_db_is one_user_def)
qed

end
