(* ===== verification/Interceptors.thy ===== *)
theory Interceptors
  imports Slog
begin

text \<open>
  The unary interceptors: \<open>modules/audit/src/route/interceptor/\<close> and
  \<open>modules/queue/src/route/interceptor/\<close> (\<open>logging.go\<close>, \<open>recovery.go\<close>) on the server
  side, \<open>modules/shared/src/utilgrpc/interceptor.go\<close> on the client side.  A handler is a
  function of context, request and world that returns or panics.  The gRPC status
  package is not in the repository: \<open>grpc_status\<close> holds the two functions the code calls,
  \<open>status.Error\<close> (code name and message) and the code name of \<open>status.FromError\<close>.
\<close>

record grpc_status =
  status_Error :: "string \<Rightarrow> string \<Rightarrow> go_error"
  status_Code :: "go_error option \<Rightarrow> string"

text \<open>Documented: nil is \<open>OK\<close>, and a status error carries the code it was made with.\<close>

definition status_documented :: "grpc_status \<Rightarrow> bool" where
  "status_documented st \<longleftrightarrow>
     status_Code st None = ''OK'' \<and> (\<forall>c m. status_Code st (Some (status_Error st c m)) = c)"

section \<open>Server interceptors\<close>

type_synonym 'r result = "'r option \<times> go_error option"

type_synonym ('c, 'q, 'r, 'w) unary_handler = "'c \<Rightarrow> 'q \<Rightarrow> 'w \<Rightarrow> 'r result outcome \<times> 'w"

type_synonym ('c, 'q, 'r, 'w) unary_interceptor =
  "'c \<Rightarrow> 'q \<Rightarrow> string \<Rightarrow> ('c, 'q, 'r, 'w) unary_handler \<Rightarrow> 'w \<Rightarrow> 'r result outcome \<times> 'w"

definition call_attrs :: "string \<Rightarrow> string \<Rightarrow> int \<Rightarrow> int \<Rightarrow> (string \<times> attr_val) list" where
  "call_attrs method code start fin =
    [(''method'', AStr method), (''code'', AStr code),
     (''duration_ms'', AInt (go_quot (fin - start) 1000000))]"

text \<open>
  \<open>Logging\<close> does not defer its log line: when the handler panics past it, nothing is logged.
\<close>

definition audit_Logging :: "grpc_status \<Rightarrow> ('c, 'q, 'r, 'a world_scheme) unary_interceptor" where
  "audit_Logging st ctx req method handler w =
    (let start = clock w in
     case handler ctx req w of
       (Panic v, w1) \<Rightarrow> (Panic v, w1)
     | (Ret (resp, err), w1) \<Rightarrow>
         (Ret (resp, err),
          slog LevelInfo ''grpc call'' (call_attrs method (status_Code st err) start (clock w1)) w1))"

definition queue_Logging :: "grpc_status \<Rightarrow> ('c, 'q, 'r, 'a world_scheme) unary_interceptor" where
  "queue_Logging st ctx req method handler w =
    (let start = clock w in
     case handler ctx req w of
       (Panic v, w1) \<Rightarrow> (Panic v, w1)
     | (Ret (resp, err), w1) \<Rightarrow>
         (Ret (resp, err),
          slog LevelInfo ''grpc call'' (call_attrs method (status_Code st err) start (clock w1)) w1))"

text \<open>
  \<open>Recovery\<close>: the deferred function sees the panic value and sets both named results.
\<close>

definition audit_Recovery :: "grpc_status \<Rightarrow> ('c, 'q, 'r, 'a world_scheme) unary_interceptor" where
  "audit_Recovery st ctx req method handler w =
    (case handler ctx req w of
       (Panic r, w1) \<Rightarrow>
         (Ret (None, Some (status_Error st ''Internal'' ''internal server error'')),
          slog LevelError ''panic recovered''
            [(''method'', AStr method), (''panic'', AStr r), (''stack'', AStr (stack_text w1))] w1)
     | (Ret res, w1) \<Rightarrow> (Ret res, w1))"

definition queue_Recovery :: "grpc_status \<Rightarrow> ('c, 'q, 'r, 'a world_scheme) unary_interceptor" where
  "queue_Recovery st ctx req method handler w =
    (case handler ctx req w of
       (Panic r, w1) \<Rightarrow>
         (Ret (None, Some (status_Error st ''Internal'' ''internal server error'')),
          slog LevelError ''panic recovered''
            [(''method'', AStr method), (''panic'', AStr r), (''stack'', AStr (stack_text w1))] w1)
     | (Ret res, w1) \<Rightarrow> (Ret res, w1))"

lemma queue_interceptors_are_audit:
  "queue_Logging = audit_Logging" "queue_Recovery = audit_Recovery"
  by (simp_all add: fun_eq_iff queue_Logging_def audit_Logging_def queue_Recovery_def audit_Recovery_def)

text \<open>Two interceptors, the first outermost: what \<open>grpc.ChainUnaryInterceptor\<close> documents.\<close>

definition nest :: "('c, 'q, 'r, 'w) unary_interceptor \<Rightarrow> ('c, 'q, 'r, 'w) unary_interceptor
    \<Rightarrow> ('c, 'q, 'r, 'w) unary_interceptor" where
  "nest outer inner ctx req method handler w =
    outer ctx req method (\<lambda>c q. inner c q method handler) w"

definition chain_documented ::
  "(('c, 'q, 'r, 'w) unary_interceptor list \<Rightarrow> ('c, 'q, 'r, 'w) unary_interceptor) \<Rightarrow> bool" where
  "chain_documented chain \<longleftrightarrow> (\<forall>a b. chain [a, b] = nest a b)"

section \<open>The client interceptor\<close>

text \<open>
  An invoker sends the request and fills the reply, which is returned filled; \<open>target\<close> is
  \<open>cc.Target()\<close>.
\<close>

type_synonym ('q, 'm, 'w) invoker = "string \<Rightarrow> 'q \<Rightarrow> 'm \<Rightarrow> 'w \<Rightarrow> (go_error option \<times> 'm) outcome \<times> 'w"

definition out_attrs :: "string \<Rightarrow> string \<Rightarrow> string \<Rightarrow> int \<Rightarrow> int \<Rightarrow> (string \<times> attr_val) list" where
  "out_attrs method target code start fin =
    [(''direction'', AStr ''out''), (''method'', AStr method), (''target'', AStr target),
     (''code'', AStr code), (''duration_ms'', AInt (go_quot (fin - start) 1000000))]"

definition LoggingInterceptor ::
  "grpc_status \<Rightarrow> string \<Rightarrow> string \<Rightarrow> 'q \<Rightarrow> 'm \<Rightarrow> ('q, 'm, 'a world_scheme) invoker \<Rightarrow> 'a world_scheme
    \<Rightarrow> (go_error option \<times> 'm) outcome \<times> 'a world_scheme" where
  "LoggingInterceptor st target method req reply invoker w =
    (let start = clock w in
     case invoker method req reply w of
       (Panic v, w1) \<Rightarrow> (Panic v, w1)
     | (Ret (err, reply1), w1) \<Rightarrow>
         (Ret (err, reply1),
          slog LevelInfo ''grpc call'' (out_attrs method target (status_Code st err) start (clock w1)) w1))"

section \<open>What an interceptor may do\<close>

text \<open>
  The contract of a project interceptor: it hands the handler's result through when there
  is one, and whatever it adds to the world is log lines.  A safe one never panics.
\<close>

definition only_logs :: "'a world_scheme \<Rightarrow> 'a world_scheme \<Rightarrow> bool" where
  "only_logs w w' \<longleftrightarrow> (\<exists>ls. w' = w\<lparr>log_out := log_out w @ ls\<rparr>)"

lemma only_logs_refl [simp]: "only_logs w w"
  unfolding only_logs_def by (rule exI [of _ "[]"]) simp

lemma only_logs_slog [simp]: "only_logs w (slog l m as w)"
  unfolding only_logs_def slog_def by (cases "min_level (default_logger w) \<le> l")
    (auto intro: exI [of _ "[]"])

lemma only_logs_trans: "only_logs u v \<Longrightarrow> only_logs v w \<Longrightarrow> only_logs u w"
  by (auto simp: only_logs_def)

locale passing_interceptor =
  fixes ic :: "('c, 'q, 'r, 'a world_scheme) unary_interceptor"
  assumes transparent: "handler ctx req w = (Ret res, w1) \<Longrightarrow>
      \<exists>w'. ic ctx req m handler w = (Ret res, w') \<and> only_logs w1 w'"
    and on_panic: "handler ctx req w = (Panic v, w1) \<Longrightarrow>
      only_logs w1 (snd (ic ctx req m handler w))"
begin

lemma effects_of_handler: "only_logs (snd (handler ctx req w)) (snd (ic ctx req m handler w))"
proof (cases "handler ctx req w")
  case (Pair r w1)
  show ?thesis
  proof (cases r)
    case (Ret res)
    then show ?thesis using transparent [of handler ctx req w res w1 m] Pair by auto
  next
    case (Panic v)
    then show ?thesis using on_panic [of handler ctx req w v w1 m] Pair by simp
  qed
qed

end

locale safe_interceptor = passing_interceptor +
  assumes no_panic: "\<exists>res. fst (ic ctx req m handler w) = Ret res"

text \<open>Nesting keeps the contract, and one safe interceptor inside makes the whole safe.\<close>

locale interceptor_pair =
  outer: passing_interceptor outer + inner: safe_interceptor inner
  for outer :: "('c, 'q, 'r, 'a world_scheme) unary_interceptor"
    and inner :: "('c, 'q, 'r, 'a world_scheme) unary_interceptor"
begin

lemma pair_result:
  "fst (nest outer inner ctx req m handler w) = fst (inner ctx req m handler w)"
  "only_logs (snd (inner ctx req m handler w)) (snd (nest outer inner ctx req m handler w))"
proof -
  obtain res w' where i: "inner ctx req m handler w = (Ret res, w')"
    using inner.no_panic [of ctx req m handler w] by (cases "inner ctx req m handler w") auto
  obtain w'' where "nest outer inner ctx req m handler w = (Ret res, w'')" "only_logs w' w''"
    using outer.transparent [of "\<lambda>c q. inner c q m handler" ctx req w res w' m] i
    by (auto simp: nest_def)
  with i show "fst (nest outer inner ctx req m handler w) = fst (inner ctx req m handler w)"
    and "only_logs (snd (inner ctx req m handler w)) (snd (nest outer inner ctx req m handler w))"
    by simp_all
qed

lemma pair_returns: "\<exists>res. fst (nest outer inner ctx req m handler w) = Ret res"
  unfolding pair_result(1) by (rule inner.no_panic)

lemma pair_only_logs:
  "only_logs (snd (handler ctx req w)) (snd (nest outer inner ctx req m handler w))"
  using inner.effects_of_handler pair_result(2) by (rule only_logs_trans)

lemma pair_transparent:
  assumes "handler ctx req w = (Ret res, w1)"
  shows "\<exists>w'. nest outer inner ctx req m handler w = (Ret res, w') \<and> only_logs w1 w'"
proof -
  have "fst (nest outer inner ctx req m handler w) = Ret res"
    unfolding pair_result(1) using inner.transparent [of handler ctx req w res w1 m, OF assms]
    by auto
  moreover have "only_logs w1 (snd (nest outer inner ctx req m handler w))"
    using pair_only_logs [of handler ctx req w m] assms by simp
  ultimately show ?thesis
    by (cases "nest outer inner ctx req m handler w") simp
qed

lemma pair_on_panic:
  "handler ctx req w = (Panic v, w1) \<Longrightarrow> only_logs w1 (snd (nest outer inner ctx req m handler w))"
  using pair_only_logs [of handler ctx req w m] by simp

end

sublocale interceptor_pair \<subseteq> both: safe_interceptor "nest outer inner"
  by unfold_locales (fact pair_transparent pair_on_panic pair_returns)+

interpretation logging: passing_interceptor "audit_Logging st" for st
  by unfold_locales (auto simp: audit_Logging_def Let_def)

lemma audit_Recovery_returns: "\<exists>res. fst (audit_Recovery st ctx req m handler w) = Ret res"
  by (simp add: audit_Recovery_def split: prod.split outcome.split)

interpretation recovery: safe_interceptor "audit_Recovery st" for st
  by unfold_locales (simp add: audit_Recovery_def, simp add: audit_Recovery_def,
    rule audit_Recovery_returns)

interpretation server_chain: interceptor_pair "audit_Logging st" "audit_Recovery st" for st
  by unfold_locales

end
