(* ===== verification/Pb_Runtime.thy ===== *)
theory Pb_Runtime
  imports "HOL-Library.Word" Errors
begin

text \<open>
  What the generated message code of both services shares
  (\<open>modules/audit/src/route/grpc/audit.pb.go\<close>, \<open>modules/queue/src/route/grpc/queue.pb.go\<close>):
  nil-safe reads through a pointer, the struct tags, the exporter switch, and the state of
  the package's descriptor variables.  A pointer to a message is an \<open>option\<close>; \<open>nil\<close> slices
  are empty lists.  The protobuf runtime (\<open>protoimpl\<close>) is not in the repository: gzip
  and \<open>TypeBuilder.Build\<close> are arguments.
\<close>

section \<open>Pointers\<close>

definition nil_dereference :: string where
  "nil_dereference = ''runtime error: invalid memory address or nil pointer dereference''"

text \<open>What the getters read: the message, or the zero message behind a nil pointer.\<close>

definition pointee :: "'m \<Rightarrow> 'm option \<Rightarrow> 'm" where
  "pointee zero p = (case p of None \<Rightarrow> zero | Some m \<Rightarrow> m)"

lemma pointee_simps [simp]: "pointee zero None = zero" "pointee zero (Some m) = m"
  by (simp_all add: pointee_def)

section \<open>Struct tags\<close>

datatype tag_kind = TagBytes | TagVarint

datatype tag_label = TagOpt | TagRep

text \<open>\<open>protobuf:"<kind>,<number>,<label>,name=<name>,..."\<close> of the Go field \<open>tag_field\<close>\<close>

record field_tag =
  tag_field :: string
  tag_kind :: tag_kind
  tag_number :: nat
  tag_label :: tag_label
  tag_name :: string

text \<open>Field numbers that the wire format allows and that no two fields of a message share.\<close>

definition tags_ok :: "field_tag list \<Rightarrow> bool" where
  "tags_ok ts \<longleftrightarrow> distinct (map tag_number ts) \<and> distinct (map tag_name ts)
     \<and> list_all (\<lambda>t. 1 \<le> tag_number t \<and> tag_number t < 19000) ts"

section \<open>Exporters\<close>

datatype internal_field = FieldState | FieldSizeCache | FieldUnknown

text \<open>
  The exporter set for message type \<open>T\<close>: the type assertion on the argument, then the
  switch on the field index.
\<close>

definition exporter :: "string \<Rightarrow> string \<Rightarrow> int \<Rightarrow> internal_field option outcome" where
  "exporter T dyn i =
    (if dyn \<noteq> T then Panic (''interface conversion: interface {} is *'' @ dyn @ '', not *'' @ T)
     else Ret (if i = 0 then Some FieldState
               else if i = 1 then Some FieldSizeCache
               else if i = 2 then Some FieldUnknown
               else None))"

section \<open>Package variables\<close>

text \<open>
  \<open>goTypes\<close> lists Go pointer types by name; the entries the generator writes as \<open>nil\<close>
  (map entries) are \<open>None\<close>.  \<open>depIdxs\<close> indexes it.  A nil byte slice is \<open>[]\<close>.
\<close>

record builder =
  RawDescriptor :: "nat list"
  NumEnums :: nat
  NumMessages :: nat
  NumExtensions :: nat
  NumServices :: nat
  GoTypes :: "string option list"
  DependencyIndexes :: "nat list"

record 'file pb_package =
  pb_File :: "'file option"
  pb_rawDesc :: "nat list"
  pb_once :: bool               \<comment> \<open>\<open>rawDescOnce\<close> has run\<close>
  pb_rawDescData :: "nat list"
  pb_exporters :: "(string \<Rightarrow> int \<Rightarrow> internal_field option outcome) option list"
  pb_goTypes :: "string option list"
  pb_depIdxs :: "nat list"

text \<open>\<open>sync.Once\<close> around the compression: the data is replaced at the first call only.\<close>

definition rawDescGZIP :: "(nat list \<Rightarrow> nat list) \<Rightarrow> 'file pb_package \<Rightarrow> nat list \<times> 'file pb_package" where
  "rawDescGZIP gzip p =
    (let p1 = (if pb_once p then p
               else p\<lparr>pb_once := True, pb_rawDescData := gzip (pb_rawDescData p)\<rparr>)
     in (pb_rawDescData p1, p1))"

text \<open>\<open>Descriptor\<close> of the message with index \<open>i\<close>\<close>

definition Descriptor ::
  "(nat list \<Rightarrow> nat list) \<Rightarrow> nat \<Rightarrow> 'file pb_package \<Rightarrow> (nat list \<times> nat list) \<times> 'file pb_package" where
  "Descriptor gzip i p = (let (d, p1) = rawDescGZIP gzip p in ((d, [i]), p1))"

lemma rawDescGZIP_once: "pb_once (snd (rawDescGZIP gzip p))"
  by (simp add: rawDescGZIP_def Let_def)

lemma rawDescGZIP_again:
  "rawDescGZIP gzip (snd (rawDescGZIP gzip p)) = rawDescGZIP gzip p"
  by (simp add: rawDescGZIP_def Let_def)

section \<open>Sub-lists of the dependency table\<close>

text \<open>
  The last five entries of \<open>depIdxs\<close> are the starts of its parts: method outputs, method
  inputs, extension types, extendees, field types.  What the runtime's documentation
  promises to read there.
\<close>

record dep_parts =
  field_types :: "nat list"
  method_inputs :: "nat list"
  method_outputs :: "nat list"

definition split_deps :: "nat list \<Rightarrow> dep_parts option" where
  "split_deps ds =
    (case rev ds of
       f # ee # et # mi # mo # rest \<Rightarrow>
         let body = rev rest in
         if f = 0 \<and> f \<le> ee \<and> ee \<le> et \<and> et \<le> mi \<and> mi \<le> mo \<and> mo \<le> length body
         then Some \<lparr>field_types = take (ee - f) (drop f body),
                    method_inputs = take (mo - mi) (drop mi body),
                    method_outputs = drop mo body\<rparr>
         else None
     | _ \<Rightarrow> None)"

definition resolve :: "string option list \<Rightarrow> nat list \<Rightarrow> string option list" where
  "resolve types is = map (\<lambda>i. if i < length types then types ! i else None) is"

end
