(* ===== verification/Grpc_Runtime.thy ===== *)
theory Grpc_Runtime
  imports Interceptors Pb_Runtime
begin

text \<open>
  What the generated service code of both services shares
  (\<open>modules/audit/src/route/grpc/audit_grpc.pb.go\<close>,
  \<open>modules/queue/src/route/grpc/queue_grpc.pb.go\<close>): typed methods, service descriptions,
  and how a typed reply becomes an interface value.  A value that Go passes as
  \<open>interface{}\<close> and fills in place (the argument of \<open>dec\<close>, the \<open>out\<close> of \<open>Invoke\<close>) is
  returned filled, and a function on such values is a record with one member per message
  type it is used at.
\<close>

text \<open>A typed RPC method: the request and the reply are pointers.\<close>

type_synonym ('c, 'q, 'r, 'w) rpc =
  "'c \<Rightarrow> 'q option \<Rightarrow> 'w \<Rightarrow> ('r option \<times> go_error option) outcome \<times> 'w"

text \<open>Filling a message: an error or nil, and the message as it was left.\<close>

type_synonym ('m, 'w) fill = "'m \<Rightarrow> 'w \<Rightarrow> (go_error option \<times> 'm) outcome \<times> 'w"

text \<open>
  Returning \<open>(*T, error)\<close> as \<open>(interface{}, error)\<close>: a nil pointer becomes a non-nil
  interface value that holds it.
\<close>

definition boxed :: "('r option \<Rightarrow> 'any) \<Rightarrow> ('r option \<times> go_error option) outcome \<times> 'w
    \<Rightarrow> 'any result outcome \<times> 'w" where
  "boxed box res = (case res of
     (Panic v, w) \<Rightarrow> (Panic v, w)
   | (Ret (r, e), w) \<Rightarrow> (Ret (Some (box r), e), w))"

lemma boxed_simps [simp]:
  "boxed box (Panic v, w) = (Panic v, w)" "boxed box (Ret (r, e), w) = (Ret (Some (box r), e), w)"
  by (simp_all add: boxed_def)

definition failed_assertion :: "string \<Rightarrow> string \<Rightarrow> string" where
  "failed_assertion dyn T = ''interface conversion: interface {} is '' @ dyn @ '', not '' @ T"

text \<open>How \<open>Unimplemented...Server\<close> is embedded in a server.\<close>

datatype embedding = NotEmbedded | ByValue | ByPointer bool  \<comment> \<open>whether the pointer is non-nil\<close>

text \<open>Calling the promoted \<open>testEmbeddedByValue\<close>, where the server has it.\<close>

definition testEmbeddedByValue :: "embedding \<Rightarrow> unit outcome" where
  "testEmbeddedByValue e = (if e = ByPointer False then Panic nil_dereference else Ret ())"

record ('srv, 'c, 'dec, 'any, 'w) ServiceDesc =
  ServiceName :: string
  HandlerType :: string
  Methods :: "(string \<times> ('srv \<Rightarrow> 'c \<Rightarrow> 'dec \<Rightarrow> ('c, 'any, 'any, 'w) unary_interceptor option
                \<Rightarrow> 'w \<Rightarrow> 'any result outcome \<times> 'w)) list"
  Streams :: "string list"
  Metadata :: string

text \<open>Call options: the one the generated clients add, and those of callers.\<close>

datatype 'o call_option = StaticMethod | CallerOption 'o

text \<open>The end of every generated client method: \<open>if err != nil { return nil, err }; return out, nil\<close>.\<close>

definition client_reply :: "(go_error option \<times> 'm) outcome \<times> 'w
    \<Rightarrow> ('m option \<times> go_error option) outcome \<times> 'w" where
  "client_reply res = (case res of
     (Panic v, w) \<Rightarrow> (Panic v, w)
   | (Ret (Some err, _), w) \<Rightarrow> (Ret (None, Some err), w)
   | (Ret (None, out), w) \<Rightarrow> (Ret (Some out, None), w))"

lemma client_reply_simps [simp]:
  "client_reply (Panic v, w) = (Panic v, w)"
  "client_reply (Ret (Some err, m), w) = (Ret (None, Some err), w)"
  "client_reply (Ret (None, m), w) = (Ret (Some m, None), w)"
  by (simp_all add: client_reply_def)

text \<open>A generated client never returns both a reply and an error, nor neither.\<close>

lemma client_reply_exclusive:
  "client_reply res = (Ret (r, e), w) \<Longrightarrow> (r = None) \<noteq> (e = None)"
  by (auto simp: client_reply_def split: prod.splits outcome.splits option.splits)

section \<open>What the transport does\<close>

text \<open>
  gRPC between the two ends, as its documentation describes a unary call: the server
  decodes the client's request message and runs the handler registered under the method;
  the client receives an error with the same status if there is one, and the reply message
  otherwise.  \<open>relay\<close> is that last step for the reply type that \<open>sel\<close> selects: \<open>wire\<close> is the
  client's copy of an error, and \<open>out\<close> the message the client had made.
\<close>

definition relay :: "(go_error \<Rightarrow> go_error) \<Rightarrow> ('any \<Rightarrow> 'm option) \<Rightarrow> 'm \<Rightarrow> 'any result
    \<Rightarrow> go_error option \<times> 'm" where
  "relay wire sel out res = (case res of
     (_, Some err) \<Rightarrow> (Some (wire err), out)
   | (Some r, None) \<Rightarrow> (None, pointee out (sel r))
   | (None, None) \<Rightarrow> (None, out))"

lemma relay_simps [simp]:
  "relay wire sel out (r, Some err) = (Some (wire err), out)"
  "relay wire sel out (Some a, None) = (None, pointee out (sel a))"
  by (cases r, simp_all add: relay_def)

definition wire_documented :: "grpc_status \<Rightarrow> (go_error \<Rightarrow> go_error) \<Rightarrow> bool" where
  "wire_documented st wire \<longleftrightarrow> (\<forall>c m. wire (status_Error st c m) = status_Error st c m)"

end
