(* ===== verification/Pb_Queue.thy ===== *)
theory Pb_Queue
  imports Pb_Runtime
begin

text \<open>
  \<open>modules/queue/src/route/grpc/queue.pb.go\<close>: the messages of the queue service as records
  (a field is named after its message), their zero values, \<open>Reset\<close>, getters and struct tags,
  and the package's type tables.  \<open>'d\<close> and \<open>'t\<close> stand for protobuf's \<open>Duration\<close> and
  \<open>Timestamp\<close>.  The raw descriptor bytes are an argument of \<open>queue_initial\<close>.
\<close>

section \<open>Topic\<close>

record ('d, 't) Topic =
  Topic_unknownFields :: "8 word list"
  Topic_Name :: string
  Topic_DefaultTtl :: "'d option"
  Topic_MaxPriority :: "32 word"
  Topic_CreatedAt :: "'t option"

definition Topic_zero :: "('d, 't) Topic" where
  "Topic_zero = \<lparr>Topic_unknownFields = [], Topic_Name = [], Topic_DefaultTtl = None, Topic_MaxPriority = 0, Topic_CreatedAt = None\<rparr>"

definition Topic_Reset :: "('d, 't) Topic option \<Rightarrow> ('d, 't) Topic option outcome" where
  "Topic_Reset x = (case x of None \<Rightarrow> Panic nil_dereference | Some _ \<Rightarrow> Ret (Some Topic_zero))"

definition Topic_tags :: "field_tag list" where
  "Topic_tags =
    [\<lparr>tag_field = ''Name'', tag_kind = TagBytes, tag_number = 1, tag_label = TagOpt, tag_name = ''name''\<rparr>,
     \<lparr>tag_field = ''DefaultTtl'', tag_kind = TagBytes, tag_number = 2, tag_label = TagOpt, tag_name = ''default_ttl''\<rparr>,
     \<lparr>tag_field = ''MaxPriority'', tag_kind = TagVarint, tag_number = 3, tag_label = TagOpt, tag_name = ''max_priority''\<rparr>,
     \<lparr>tag_field = ''CreatedAt'', tag_kind = TagBytes, tag_number = 4, tag_label = TagOpt, tag_name = ''created_at''\<rparr>]"

definition Topic_GetName :: "('d, 't) Topic option \<Rightarrow> string" where
  "Topic_GetName x = (case x of Some m \<Rightarrow> Topic_Name m | None \<Rightarrow> [])"

definition Topic_GetDefaultTtl :: "('d, 't) Topic option \<Rightarrow> 'd option" where
  "Topic_GetDefaultTtl x = (case x of Some m \<Rightarrow> Topic_DefaultTtl m | None \<Rightarrow> None)"

definition Topic_GetMaxPriority :: "('d, 't) Topic option \<Rightarrow> 32 word" where
  "Topic_GetMaxPriority x = (case x of Some m \<Rightarrow> Topic_MaxPriority m | None \<Rightarrow> 0)"

definition Topic_GetCreatedAt :: "('d, 't) Topic option \<Rightarrow> 't option" where
  "Topic_GetCreatedAt x = (case x of Some m \<Rightarrow> Topic_CreatedAt m | None \<Rightarrow> None)"

lemma Topic_getters:
  "Topic_GetName x = Topic_Name (pointee Topic_zero x)"
    "Topic_GetDefaultTtl x = Topic_DefaultTtl (pointee Topic_zero x)"
    "Topic_GetMaxPriority x = Topic_MaxPriority (pointee Topic_zero x)"
    "Topic_GetCreatedAt x = Topic_CreatedAt (pointee Topic_zero x)"
  by (cases x; simp add: Topic_zero_def Topic_GetName_def Topic_GetDefaultTtl_def Topic_GetMaxPriority_def Topic_GetCreatedAt_def)+

section \<open>CreateTopicRequest\<close>

record 'd CreateTopicRequest =
  CreateTopicRequest_unknownFields :: "8 word list"
  CreateTopicRequest_Name :: string
  CreateTopicRequest_DefaultTtl :: "'d option"
  CreateTopicRequest_MaxPriority :: "32 word"

definition CreateTopicRequest_zero :: "'d CreateTopicRequest" where
  "CreateTopicRequest_zero = \<lparr>CreateTopicRequest_unknownFields = [], CreateTopicRequest_Name = [], CreateTopicRequest_DefaultTtl = None, CreateTopicRequest_MaxPriority = 0\<rparr>"

definition CreateTopicRequest_Reset :: "'d CreateTopicRequest option \<Rightarrow> 'd CreateTopicRequest option outcome" where
  "CreateTopicRequest_Reset x = (case x of None \<Rightarrow> Panic nil_dereference | Some _ \<Rightarrow> Ret (Some CreateTopicRequest_zero))"

definition CreateTopicRequest_tags :: "field_tag list" where
  "CreateTopicRequest_tags =
    [\<lparr>tag_field = ''Name'', tag_kind = TagBytes, tag_number = 1, tag_label = TagOpt, tag_name = ''name''\<rparr>,
     \<lparr>tag_field = ''DefaultTtl'', tag_kind = TagBytes, tag_number = 2, tag_label = TagOpt, tag_name = ''default_ttl''\<rparr>,
     \<lparr>tag_field = ''MaxPriority'', tag_kind = TagVarint, tag_number = 3, tag_label = TagOpt, tag_name = ''max_priority''\<rparr>]"

definition CreateTopicRequest_GetName :: "'d CreateTopicRequest option \<Rightarrow> string" where
  "CreateTopicRequest_GetName x = (case x of Some m \<Rightarrow> CreateTopicRequest_Name m | None \<Rightarrow> [])"

definition CreateTopicRequest_GetDefaultTtl :: "'d CreateTopicRequest option \<Rightarrow> 'd option" where
  "CreateTopicRequest_GetDefaultTtl x = (case x of Some m \<Rightarrow> CreateTopicRequest_DefaultTtl m | None \<Rightarrow> None)"

definition CreateTopicRequest_GetMaxPriority :: "'d CreateTopicRequest option \<Rightarrow> 32 word" where
  "CreateTopicRequest_GetMaxPriority x = (case x of Some m \<Rightarrow> CreateTopicRequest_MaxPriority m | None \<Rightarrow> 0)"

lemma CreateTopicRequest_getters:
  "CreateTopicRequest_GetName x = CreateTopicRequest_Name (pointee CreateTopicRequest_zero x)"
    "CreateTopicRequest_GetDefaultTtl x = CreateTopicRequest_DefaultTtl (pointee CreateTopicRequest_zero x)"
    "CreateTopicRequest_GetMaxPriority x = CreateTopicRequest_MaxPriority (pointee CreateTopicRequest_zero x)"
  by (cases x; simp add: CreateTopicRequest_zero_def CreateTopicRequest_GetName_def CreateTopicRequest_GetDefaultTtl_def CreateTopicRequest_GetMaxPriority_def)+

section \<open>PublishRequest\<close>

record 't PublishRequest =
  PublishRequest_unknownFields :: "8 word list"
  PublishRequest_Topic :: string
  PublishRequest_Payload :: "8 word list"
  PublishRequest_Priority :: "32 word"
  PublishRequest_PartitionKey :: string
  PublishRequest_Headers :: "(string \<rightharpoonup> string) option"
  PublishRequest_AvailableAt :: "'t option"
  PublishRequest_ExpiresAt :: "'t option"

definition PublishRequest_zero :: "'t PublishRequest" where
  "PublishRequest_zero = \<lparr>PublishRequest_unknownFields = [], PublishRequest_Topic = [], PublishRequest_Payload = [], PublishRequest_Priority = 0, PublishRequest_PartitionKey = [], PublishRequest_Headers = None, PublishRequest_AvailableAt = None, PublishRequest_ExpiresAt = None\<rparr>"

definition PublishRequest_Reset :: "'t PublishRequest option \<Rightarrow> 't PublishRequest option outcome" where
  "PublishRequest_Reset x = (case x of None \<Rightarrow> Panic nil_dereference | Some _ \<Rightarrow> Ret (Some PublishRequest_zero))"

definition PublishRequest_tags :: "field_tag list" where
  "PublishRequest_tags =
    [\<lparr>tag_field = ''Topic'', tag_kind = TagBytes, tag_number = 1, tag_label = TagOpt, tag_name = ''topic''\<rparr>,
     \<lparr>tag_field = ''Payload'', tag_kind = TagBytes, tag_number = 2, tag_label = TagOpt, tag_name = ''payload''\<rparr>,
     \<lparr>tag_field = ''Priority'', tag_kind = TagVarint, tag_number = 3, tag_label = TagOpt, tag_name = ''priority''\<rparr>,
     \<lparr>tag_field = ''PartitionKey'', tag_kind = TagBytes, tag_number = 4, tag_label = TagOpt, tag_name = ''partition_key''\<rparr>,
     \<lparr>tag_field = ''Headers'', tag_kind = TagBytes, tag_number = 5, tag_label = TagRep, tag_name = ''headers''\<rparr>,
     \<lparr>tag_field = ''AvailableAt'', tag_kind = TagBytes, tag_number = 6, tag_label = TagOpt, tag_name = ''available_at''\<rparr>,
     \<lparr>tag_field = ''ExpiresAt'', tag_kind = TagBytes, tag_number = 7, tag_label = TagOpt, tag_name = ''expires_at''\<rparr>]"

definition PublishRequest_GetTopic :: "'t PublishRequest option \<Rightarrow> string" where
  "PublishRequest_GetTopic x = (case x of Some m \<Rightarrow> PublishRequest_Topic m | None \<Rightarrow> [])"

definition PublishRequest_GetPayload :: "'t PublishRequest option \<Rightarrow> 8 word list" where
  "PublishRequest_GetPayload x = (case x of Some m \<Rightarrow> PublishRequest_Payload m | None \<Rightarrow> [])"

definition PublishRequest_GetPriority :: "'t PublishRequest option \<Rightarrow> 32 word" where
  "PublishRequest_GetPriority x = (case x of Some m \<Rightarrow> PublishRequest_Priority m | None \<Rightarrow> 0)"

definition PublishRequest_GetPartitionKey :: "'t PublishRequest option \<Rightarrow> string" where
  "PublishRequest_GetPartitionKey x = (case x of Some m \<Rightarrow> PublishRequest_PartitionKey m | None \<Rightarrow> [])"

definition PublishRequest_GetHeaders :: "'t PublishRequest option \<Rightarrow> (string \<rightharpoonup> string) option" where
  "PublishRequest_GetHeaders x = (case x of Some m \<Rightarrow> PublishRequest_Headers m | None \<Rightarrow> None)"

definition PublishRequest_GetAvailableAt :: "'t PublishRequest option \<Rightarrow> 't option" where
  "PublishRequest_GetAvailableAt x = (case x of Some m \<Rightarrow> PublishRequest_AvailableAt m | None \<Rightarrow> None)"

definition PublishRequest_GetExpiresAt :: "'t PublishRequest option \<Rightarrow> 't option" where
  "PublishRequest_GetExpiresAt x = (case x of Some m \<Rightarrow> PublishRequest_ExpiresAt m | None \<Rightarrow> None)"

lemma PublishRequest_getters:
  "PublishRequest_GetTopic x = PublishRequest_Topic (pointee PublishRequest_zero x)"
    "PublishRequest_GetPayload x = PublishRequest_Payload (pointee PublishRequest_zero x)"
    "PublishRequest_GetPriority x = PublishRequest_Priority (pointee PublishRequest_zero x)"
    "PublishRequest_GetPartitionKey x = PublishRequest_PartitionKey (pointee PublishRequest_zero x)"
    "PublishRequest_GetHeaders x = PublishRequest_Headers (pointee PublishRequest_zero x)"
    "PublishRequest_GetAvailableAt x = PublishRequest_AvailableAt (pointee PublishRequest_zero x)"
    "PublishRequest_GetExpiresAt x = PublishRequest_ExpiresAt (pointee PublishRequest_zero x)"
  by (cases x; simp add: PublishRequest_zero_def PublishRequest_GetTopic_def PublishRequest_GetPayload_def PublishRequest_GetPriority_def PublishRequest_GetPartitionKey_def PublishRequest_GetHeaders_def PublishRequest_GetAvailableAt_def PublishRequest_GetExpiresAt_def)+

section \<open>PublishResponse\<close>

record PublishResponse =
  PublishResponse_unknownFields :: "8 word list"
  PublishResponse_MessageId :: "64 word"

definition PublishResponse_zero :: "PublishResponse" where
  "PublishResponse_zero = \<lparr>PublishResponse_unknownFields = [], PublishResponse_MessageId = 0\<rparr>"

definition PublishResponse_Reset :: "PublishResponse option \<Rightarrow> PublishResponse option outcome" where
  "PublishResponse_Reset x = (case x of None \<Rightarrow> Panic nil_dereference | Some _ \<Rightarrow> Ret (Some PublishResponse_zero))"

definition PublishResponse_tags :: "field_tag list" where
  "PublishResponse_tags =
    [\<lparr>tag_field = ''MessageId'', tag_kind = TagVarint, tag_number = 1, tag_label = TagOpt, tag_name = ''message_id''\<rparr>]"

definition PublishResponse_GetMessageId :: "PublishResponse option \<Rightarrow> 64 word" where
  "PublishResponse_GetMessageId x = (case x of Some m \<Rightarrow> PublishResponse_MessageId m | None \<Rightarrow> 0)"

lemma PublishResponse_getters: "PublishResponse_GetMessageId x = PublishResponse_MessageId (pointee PublishResponse_zero x)"
  by (cases x) (simp_all add: PublishResponse_zero_def PublishResponse_GetMessageId_def)

section \<open>ConsumeRequest\<close>

record 'd ConsumeRequest =
  ConsumeRequest_unknownFields :: "8 word list"
  ConsumeRequest_Topic :: string
  ConsumeRequest_Subscription :: string
  ConsumeRequest_MaxMessages :: "32 word"
  ConsumeRequest_MaxWait :: "'d option"
  ConsumeRequest_ConsumerId :: string

definition ConsumeRequest_zero :: "'d ConsumeRequest" where
  "ConsumeRequest_zero = \<lparr>ConsumeRequest_unknownFields = [], ConsumeRequest_Topic = [], ConsumeRequest_Subscription = [], ConsumeRequest_MaxMessages = 0, ConsumeRequest_MaxWait = None, ConsumeRequest_ConsumerId = []\<rparr>"

definition ConsumeRequest_Reset :: "'d ConsumeRequest option \<Rightarrow> 'd ConsumeRequest option outcome" where
  "ConsumeRequest_Reset x = (case x of None \<Rightarrow> Panic nil_dereference | Some _ \<Rightarrow> Ret (Some ConsumeRequest_zero))"

definition ConsumeRequest_tags :: "field_tag list" where
  "ConsumeRequest_tags =
    [\<lparr>tag_field = ''Topic'', tag_kind = TagBytes, tag_number = 1, tag_label = TagOpt, tag_name = ''topic''\<rparr>,
     \<lparr>tag_field = ''Subscription'', tag_kind = TagBytes, tag_number = 2, tag_label = TagOpt, tag_name = ''subscription''\<rparr>,
     \<lparr>tag_field = ''MaxMessages'', tag_kind = TagVarint, tag_number = 3, tag_label = TagOpt, tag_name = ''max_messages''\<rparr>,
     \<lparr>tag_field = ''MaxWait'', tag_kind = TagBytes, tag_number = 4, tag_label = TagOpt, tag_name = ''max_wait''\<rparr>,
     \<lparr>tag_field = ''ConsumerId'', tag_kind = TagBytes, tag_number = 5, tag_label = TagOpt, tag_name = ''consumer_id''\<rparr>]"

definition ConsumeRequest_GetTopic :: "'d ConsumeRequest option \<Rightarrow> string" where
  "ConsumeRequest_GetTopic x = (case x of Some m \<Rightarrow> ConsumeRequest_Topic m | None \<Rightarrow> [])"

definition ConsumeRequest_GetSubscription :: "'d ConsumeRequest option \<Rightarrow> string" where
  "ConsumeRequest_GetSubscription x = (case x of Some m \<Rightarrow> ConsumeRequest_Subscription m | None \<Rightarrow> [])"

definition ConsumeRequest_GetMaxMessages :: "'d ConsumeRequest option \<Rightarrow> 32 word" where
  "ConsumeRequest_GetMaxMessages x = (case x of Some m \<Rightarrow> ConsumeRequest_MaxMessages m | None \<Rightarrow> 0)"

definition ConsumeRequest_GetMaxWait :: "'d ConsumeRequest option \<Rightarrow> 'd option" where
  "ConsumeRequest_GetMaxWait x = (case x of Some m \<Rightarrow> ConsumeRequest_MaxWait m | None \<Rightarrow> None)"

definition ConsumeRequest_GetConsumerId :: "'d ConsumeRequest option \<Rightarrow> string" where
  "ConsumeRequest_GetConsumerId x = (case x of Some m \<Rightarrow> ConsumeRequest_ConsumerId m | None \<Rightarrow> [])"

lemma ConsumeRequest_getters:
  "ConsumeRequest_GetTopic x = ConsumeRequest_Topic (pointee ConsumeRequest_zero x)"
    "ConsumeRequest_GetSubscription x = ConsumeRequest_Subscription (pointee ConsumeRequest_zero x)"
    "ConsumeRequest_GetMaxMessages x = ConsumeRequest_MaxMessages (pointee ConsumeRequest_zero x)"
    "ConsumeRequest_GetMaxWait x = ConsumeRequest_MaxWait (pointee ConsumeRequest_zero x)"
    "ConsumeRequest_GetConsumerId x = ConsumeRequest_ConsumerId (pointee ConsumeRequest_zero x)"
  by (cases x; simp add: ConsumeRequest_zero_def ConsumeRequest_GetTopic_def ConsumeRequest_GetSubscription_def ConsumeRequest_GetMaxMessages_def ConsumeRequest_GetMaxWait_def ConsumeRequest_GetConsumerId_def)+

section \<open>LeasedMessage\<close>

record 't LeasedMessage =
  LeasedMessage_unknownFields :: "8 word list"
  LeasedMessage_LeaseId :: string
  LeasedMessage_MessageId :: "64 word"
  LeasedMessage_Payload :: "8 word list"
  LeasedMessage_Priority :: "32 word"
  LeasedMessage_PartitionKey :: string
  LeasedMessage_Headers :: "(string \<rightharpoonup> string) option"
  LeasedMessage_ProducerId :: string
  LeasedMessage_Attempt :: "32 word"
  LeasedMessage_EnqueuedAt :: "'t option"
  LeasedMessage_LeasedUntil :: "'t option"

definition LeasedMessage_zero :: "'t LeasedMessage" where
  "LeasedMessage_zero = \<lparr>LeasedMessage_unknownFields = [], LeasedMessage_LeaseId = [], LeasedMessage_MessageId = 0, LeasedMessage_Payload = [], LeasedMessage_Priority = 0, LeasedMessage_PartitionKey = [], LeasedMessage_Headers = None, LeasedMessage_ProducerId = [], LeasedMessage_Attempt = 0, LeasedMessage_EnqueuedAt = None, LeasedMessage_LeasedUntil = None\<rparr>"

definition LeasedMessage_Reset :: "'t LeasedMessage option \<Rightarrow> 't LeasedMessage option outcome" where
  "LeasedMessage_Reset x = (case x of None \<Rightarrow> Panic nil_dereference | Some _ \<Rightarrow> Ret (Some LeasedMessage_zero))"

definition LeasedMessage_tags :: "field_tag list" where
  "LeasedMessage_tags =
    [\<lparr>tag_field = ''LeaseId'', tag_kind = TagBytes, tag_number = 1, tag_label = TagOpt, tag_name = ''lease_id''\<rparr>,
     \<lparr>tag_field = ''MessageId'', tag_kind = TagVarint, tag_number = 2, tag_label = TagOpt, tag_name = ''message_id''\<rparr>,
     \<lparr>tag_field = ''Payload'', tag_kind = TagBytes, tag_number = 3, tag_label = TagOpt, tag_name = ''payload''\<rparr>,
     \<lparr>tag_field = ''Priority'', tag_kind = TagVarint, tag_number = 4, tag_label = TagOpt, tag_name = ''priority''\<rparr>,
     \<lparr>tag_field = ''PartitionKey'', tag_kind = TagBytes, tag_number = 5, tag_label = TagOpt, tag_name = ''partition_key''\<rparr>,
     \<lparr>tag_field = ''Headers'', tag_kind = TagBytes, tag_number = 6, tag_label = TagRep, tag_name = ''headers''\<rparr>,
     \<lparr>tag_field = ''ProducerId'', tag_kind = TagBytes, tag_number = 7, tag_label = TagOpt, tag_name = ''producer_id''\<rparr>,
     \<lparr>tag_field = ''Attempt'', tag_kind = TagVarint, tag_number = 8, tag_label = TagOpt, tag_name = ''attempt''\<rparr>,
     \<lparr>tag_field = ''EnqueuedAt'', tag_kind = TagBytes, tag_number = 9, tag_label = TagOpt, tag_name = ''enqueued_at''\<rparr>,
     \<lparr>tag_field = ''LeasedUntil'', tag_kind = TagBytes, tag_number = 10, tag_label = TagOpt, tag_name = ''leased_until''\<rparr>]"

definition LeasedMessage_GetLeaseId :: "'t LeasedMessage option \<Rightarrow> string" where
  "LeasedMessage_GetLeaseId x = (case x of Some m \<Rightarrow> LeasedMessage_LeaseId m | None \<Rightarrow> [])"

definition LeasedMessage_GetMessageId :: "'t LeasedMessage option \<Rightarrow> 64 word" where
  "LeasedMessage_GetMessageId x = (case x of Some m \<Rightarrow> LeasedMessage_MessageId m | None \<Rightarrow> 0)"

definition LeasedMessage_GetPayload :: "'t LeasedMessage option \<Rightarrow> 8 word list" where
  "LeasedMessage_GetPayload x = (case x of Some m \<Rightarrow> LeasedMessage_Payload m | None \<Rightarrow> [])"

definition LeasedMessage_GetPriority :: "'t LeasedMessage option \<Rightarrow> 32 word" where
  "LeasedMessage_GetPriority x = (case x of Some m \<Rightarrow> LeasedMessage_Priority m | None \<Rightarrow> 0)"

definition LeasedMessage_GetPartitionKey :: "'t LeasedMessage option \<Rightarrow> string" where
  "LeasedMessage_GetPartitionKey x = (case x of Some m \<Rightarrow> LeasedMessage_PartitionKey m | None \<Rightarrow> [])"

definition LeasedMessage_GetHeaders :: "'t LeasedMessage option \<Rightarrow> (string \<rightharpoonup> string) option" where
  "LeasedMessage_GetHeaders x = (case x of Some m \<Rightarrow> LeasedMessage_Headers m | None \<Rightarrow> None)"

definition LeasedMessage_GetProducerId :: "'t LeasedMessage option \<Rightarrow> string" where
  "LeasedMessage_GetProducerId x = (case x of Some m \<Rightarrow> LeasedMessage_ProducerId m | None \<Rightarrow> [])"

definition LeasedMessage_GetAttempt :: "'t LeasedMessage option \<Rightarrow> 32 word" where
  "LeasedMessage_GetAttempt x = (case x of Some m \<Rightarrow> LeasedMessage_Attempt m | None \<Rightarrow> 0)"

definition LeasedMessage_GetEnqueuedAt :: "'t LeasedMessage option \<Rightarrow> 't option" where
  "LeasedMessage_GetEnqueuedAt x = (case x of Some m \<Rightarrow> LeasedMessage_EnqueuedAt m | None \<Rightarrow> None)"

definition LeasedMessage_GetLeasedUntil :: "'t LeasedMessage option \<Rightarrow> 't option" where
  "LeasedMessage_GetLeasedUntil x = (case x of Some m \<Rightarrow> LeasedMessage_LeasedUntil m | None \<Rightarrow> None)"

lemma LeasedMessage_getters:
  "LeasedMessage_GetLeaseId x = LeasedMessage_LeaseId (pointee LeasedMessage_zero x)"
    "LeasedMessage_GetMessageId x = LeasedMessage_MessageId (pointee LeasedMessage_zero x)"
    "LeasedMessage_GetPayload x = LeasedMessage_Payload (pointee LeasedMessage_zero x)"
    "LeasedMessage_GetPriority x = LeasedMessage_Priority (pointee LeasedMessage_zero x)"
    "LeasedMessage_GetPartitionKey x = LeasedMessage_PartitionKey (pointee LeasedMessage_zero x)"
    "LeasedMessage_GetHeaders x = LeasedMessage_Headers (pointee LeasedMessage_zero x)"
    "LeasedMessage_GetProducerId x = LeasedMessage_ProducerId (pointee LeasedMessage_zero x)"
    "LeasedMessage_GetAttempt x = LeasedMessage_Attempt (pointee LeasedMessage_zero x)"
    "LeasedMessage_GetEnqueuedAt x = LeasedMessage_EnqueuedAt (pointee LeasedMessage_zero x)"
    "LeasedMessage_GetLeasedUntil x = LeasedMessage_LeasedUntil (pointee LeasedMessage_zero x)"
  by (cases x; simp add: LeasedMessage_zero_def LeasedMessage_GetLeaseId_def LeasedMessage_GetMessageId_def LeasedMessage_GetPayload_def LeasedMessage_GetPriority_def LeasedMessage_GetPartitionKey_def LeasedMessage_GetHeaders_def LeasedMessage_GetProducerId_def LeasedMessage_GetAttempt_def LeasedMessage_GetEnqueuedAt_def LeasedMessage_GetLeasedUntil_def)+

section \<open>ConsumeResponse\<close>

record 't ConsumeResponse =
  ConsumeResponse_unknownFields :: "8 word list"
  ConsumeResponse_Messages :: "'t LeasedMessage option list"

definition ConsumeResponse_zero :: "'t ConsumeResponse" where
  "ConsumeResponse_zero = \<lparr>ConsumeResponse_unknownFields = [], ConsumeResponse_Messages = []\<rparr>"

definition ConsumeResponse_Reset :: "'t ConsumeResponse option \<Rightarrow> 't ConsumeResponse option outcome" where
  "ConsumeResponse_Reset x = (case x of None \<Rightarrow> Panic nil_dereference | Some _ \<Rightarrow> Ret (Some ConsumeResponse_zero))"

definition ConsumeResponse_tags :: "field_tag list" where
  "ConsumeResponse_tags =
    [\<lparr>tag_field = ''Messages'', tag_kind = TagBytes, tag_number = 1, tag_label = TagRep, tag_name = ''messages''\<rparr>]"

definition ConsumeResponse_GetMessages :: "'t ConsumeResponse option \<Rightarrow> 't LeasedMessage option list" where
  "ConsumeResponse_GetMessages x = (case x of Some m \<Rightarrow> ConsumeResponse_Messages m | None \<Rightarrow> [])"

lemma ConsumeResponse_getters: "ConsumeResponse_GetMessages x = ConsumeResponse_Messages (pointee ConsumeResponse_zero x)"
  by (cases x) (simp_all add: ConsumeResponse_zero_def ConsumeResponse_GetMessages_def)

section \<open>AckRequest\<close>

record AckRequest =
  AckRequest_unknownFields :: "8 word list"
  AckRequest_LeaseId :: string

definition AckRequest_zero :: "AckRequest" where
  "AckRequest_zero = \<lparr>AckRequest_unknownFields = [], AckRequest_LeaseId = []\<rparr>"

definition AckRequest_Reset :: "AckRequest option \<Rightarrow> AckRequest option outcome" where
  "AckRequest_Reset x = (case x of None \<Rightarrow> Panic nil_dereference | Some _ \<Rightarrow> Ret (Some AckRequest_zero))"

definition AckRequest_tags :: "field_tag list" where
  "AckRequest_tags =
    [\<lparr>tag_field = ''LeaseId'', tag_kind = TagBytes, tag_number = 1, tag_label = TagOpt, tag_name = ''lease_id''\<rparr>]"

definition AckRequest_GetLeaseId :: "AckRequest option \<Rightarrow> string" where
  "AckRequest_GetLeaseId x = (case x of Some m \<Rightarrow> AckRequest_LeaseId m | None \<Rightarrow> [])"

lemma AckRequest_getters: "AckRequest_GetLeaseId x = AckRequest_LeaseId (pointee AckRequest_zero x)"
  by (cases x) (simp_all add: AckRequest_zero_def AckRequest_GetLeaseId_def)

section \<open>Package tables\<close>

definition queue_goTypes :: "string option list" where
  "queue_goTypes =
    [Some ''Topic'',
     Some ''CreateTopicRequest'',
     Some ''PublishRequest'',
     Some ''PublishResponse'',
     Some ''ConsumeRequest'',
     Some ''LeasedMessage'',
     Some ''ConsumeResponse'',
     Some ''AckRequest'',
     None,
     None,
     Some ''durationpb.Duration'',
     Some ''timestamppb.Timestamp'',
     Some ''emptypb.Empty'']"

definition queue_depIdxs :: "nat list" where
  "queue_depIdxs = [10, 11, 10, 8, 11, 11, 10, 9, 11, 11, 5, 1, 2, 4, 7, 0, 3, 6, 12, 15, 11, 11, 11, 0]"

text \<open>The variables as the package initialises them, before \<open>init\<close> runs.\<close>

definition queue_initial :: "nat list \<Rightarrow> 'file pb_package" where
  "queue_initial raw =
    \<lparr>pb_File = None, pb_rawDesc = raw, pb_once = False, pb_rawDescData = raw,
     pb_exporters = replicate 10 None, pb_goTypes = queue_goTypes, pb_depIdxs = queue_depIdxs\<rparr>"

definition queue_proto_init ::
  "bool \<Rightarrow> (builder \<Rightarrow> 'file) \<Rightarrow> 'file pb_package \<Rightarrow> 'file pb_package" where
  "queue_proto_init UnsafeEnabled build p =
    (if pb_File p \<noteq> None then p
     else
       let ex = (if UnsafeEnabled then pb_exporters p
                 else map (\<lambda>T. Some (exporter T))
                        [''Topic'', ''CreateTopicRequest'', ''PublishRequest'', ''PublishResponse'', ''ConsumeRequest'', ''LeasedMessage'', ''ConsumeResponse'', ''AckRequest'']
                      @ drop 8 (pb_exporters p));
           out = build \<lparr>RawDescriptor = pb_rawDesc p, NumEnums = 0, NumMessages = 10, NumExtensions = 0,
                        NumServices = 1, GoTypes = pb_goTypes p, DependencyIndexes = pb_depIdxs p\<rparr>
       in p\<lparr>pb_File := Some out, pb_exporters := ex, pb_rawDesc := [], pb_goTypes := [],
            pb_depIdxs := []\<rparr>)"

end
