(* ===== verification/Queue_Grpc.thy ===== *)
theory Queue_Grpc
  imports Grpc_Runtime Pb_Queue
begin

text \<open>
  \<open>modules/queue/src/route/grpc/queue_grpc.pb.go\<close>: the server interface as a record of
  methods, the unimplemented server, one handler per method, the service description, its
  registration, and the client over a connection.  \<open>'e\<close> stands for protobuf's \<open>Empty\<close>
  message, whose fresh value is an argument of the one client method that makes it.
\<close>

section \<open>Values passed as interfaces\<close>

datatype ('d, 't, 'e) queue_any =
    QTopic "('d, 't) Topic option"
  | QCreateTopicRequest "'d CreateTopicRequest option"
  | QPublishRequest "'t PublishRequest option"
  | QPublishResponse "PublishResponse option"
  | QConsumeRequest "'d ConsumeRequest option"
  | QConsumeResponse "'t ConsumeResponse option"
  | QAckRequest "AckRequest option"
  | QEmpty "'e option"

text \<open>The dynamic type, as a failed assertion prints it.\<close>

primrec queue_type_name :: "('d, 't, 'e) queue_any \<Rightarrow> string" where
  "queue_type_name (QTopic _) = ''*grpc.Topic''"
| "queue_type_name (QCreateTopicRequest _) = ''*grpc.CreateTopicRequest''"
| "queue_type_name (QPublishRequest _) = ''*grpc.PublishRequest''"
| "queue_type_name (QPublishResponse _) = ''*grpc.PublishResponse''"
| "queue_type_name (QConsumeRequest _) = ''*grpc.ConsumeRequest''"
| "queue_type_name (QConsumeResponse _) = ''*grpc.ConsumeResponse''"
| "queue_type_name (QAckRequest _) = ''*grpc.AckRequest''"
| "queue_type_name (QEmpty _) = ''*emptypb.Empty''"

section \<open>Server\<close>

record ('c, 'd, 't, 'e, 'w) QueueServer =
  CreateTopic :: "('c, 'd CreateTopicRequest, ('d, 't) Topic, 'w) rpc"
  Publish :: "('c, 't PublishRequest, PublishResponse, 'w) rpc"
  Consume :: "('c, 'd ConsumeRequest, 't ConsumeResponse, 'w) rpc"
  Ack :: "('c, AckRequest, 'e, 'w) rpc"
  queue_embedding :: embedding

text \<open>\<open>dec\<close>, at the request types.\<close>

record ('d, 't, 'w) queue_decoder =
  dec_CreateTopicRequest :: "('d CreateTopicRequest, 'w) fill"
  dec_PublishRequest :: "('t PublishRequest, 'w) fill"
  dec_ConsumeRequest :: "('d ConsumeRequest, 'w) fill"
  dec_AckRequest :: "(AckRequest, 'w) fill"

definition Queue_CreateTopic_FullMethodName :: string where
  "Queue_CreateTopic_FullMethodName = ''/queue.v1.Queue/CreateTopic''"

definition Queue_Publish_FullMethodName :: string where
  "Queue_Publish_FullMethodName = ''/queue.v1.Queue/Publish''"

definition Queue_Consume_FullMethodName :: string where
  "Queue_Consume_FullMethodName = ''/queue.v1.Queue/Consume''"

definition Queue_Ack_FullMethodName :: string where
  "Queue_Ack_FullMethodName = ''/queue.v1.Queue/Ack''"

lemmas Queue_FullMethodName_defs =
  Queue_CreateTopic_FullMethodName_def Queue_Publish_FullMethodName_def Queue_Consume_FullMethodName_def Queue_Ack_FullMethodName_def

text \<open>\<open>UnimplementedQueueServer\<close>, embedded by value by the handler of the service.\<close>

definition UnimplementedQueueServer_CreateTopic :: "grpc_status \<Rightarrow> ('c, 'd CreateTopicRequest, ('d, 't) Topic, 'w) rpc" where
  "UnimplementedQueueServer_CreateTopic st ctx req w =
    (Ret (None, Some (status_Error st ''Unimplemented'' ''method CreateTopic not implemented'')), w)"

definition UnimplementedQueueServer_Publish :: "grpc_status \<Rightarrow> ('c, 't PublishRequest, PublishResponse, 'w) rpc" where
  "UnimplementedQueueServer_Publish st ctx req w =
    (Ret (None, Some (status_Error st ''Unimplemented'' ''method Publish not implemented'')), w)"

definition UnimplementedQueueServer_Consume :: "grpc_status \<Rightarrow> ('c, 'd ConsumeRequest, 't ConsumeResponse, 'w) rpc" where
  "UnimplementedQueueServer_Consume st ctx req w =
    (Ret (None, Some (status_Error st ''Unimplemented'' ''method Consume not implemented'')), w)"

definition UnimplementedQueueServer_Ack :: "grpc_status \<Rightarrow> ('c, AckRequest, 'e, 'w) rpc" where
  "UnimplementedQueueServer_Ack st ctx req w =
    (Ret (None, Some (status_Error st ''Unimplemented'' ''method Ack not implemented'')), w)"

definition UnimplementedQueueServer :: "grpc_status \<Rightarrow> ('c, 'd, 't, 'e, 'w) QueueServer" where
  "UnimplementedQueueServer st = \<lparr>CreateTopic = UnimplementedQueueServer_CreateTopic st,
     Publish = UnimplementedQueueServer_Publish st,
     Consume = UnimplementedQueueServer_Consume st,
     Ack = UnimplementedQueueServer_Ack st,
     queue_embedding = ByValue\<rparr>"

section \<open>Handlers\<close>

definition Queue_CreateTopic_Handler ::
  "('c, 'd, 't, 'e, 'w) QueueServer \<Rightarrow> 'c \<Rightarrow> ('d, 't, 'w) queue_decoder
    \<Rightarrow> ('c, ('d, 't, 'e) queue_any, ('d, 't, 'e) queue_any, 'w) unary_interceptor option
    \<Rightarrow> 'w \<Rightarrow> ('d, 't, 'e) queue_any result outcome \<times> 'w" where
  "Queue_CreateTopic_Handler srv ctx dec interceptor w =
    (case dec_CreateTopicRequest dec CreateTopicRequest_zero w of
       (Panic v, w1) \<Rightarrow> (Panic v, w1)
     | (Ret (Some err, _), w1) \<Rightarrow> (Ret (None, Some err), w1)
     | (Ret (None, msg), w1) \<Rightarrow>
         (case interceptor of
            None \<Rightarrow> boxed QTopic (CreateTopic srv ctx (Some msg) w1)
          | Some ic \<Rightarrow>
              ic ctx (QCreateTopicRequest (Some msg)) Queue_CreateTopic_FullMethodName
                (\<lambda>c req w2. case req of
                   QCreateTopicRequest m \<Rightarrow> boxed QTopic (CreateTopic srv c m w2)
                 | _ \<Rightarrow> (Panic (failed_assertion (queue_type_name req) ''*grpc.CreateTopicRequest''), w2))
                w1))"

definition Queue_Publish_Handler ::
  "('c, 'd, 't, 'e, 'w) QueueServer \<Rightarrow> 'c \<Rightarrow> ('d, 't, 'w) queue_decoder
    \<Rightarrow> ('c, ('d, 't, 'e) queue_any, ('d, 't, 'e) queue_any, 'w) unary_interceptor option
    \<Rightarrow> 'w \<Rightarrow> ('d, 't, 'e) queue_any result outcome \<times> 'w" where
  "Queue_Publish_Handler srv ctx dec interceptor w =
    (case dec_PublishRequest dec PublishRequest_zero w of
       (Panic v, w1) \<Rightarrow> (Panic v, w1)
     | (Ret (Some err, _), w1) \<Rightarrow> (Ret (None, Some err), w1)
     | (Ret (None, msg), w1) \<Rightarrow>
         (case interceptor of
            None \<Rightarrow> boxed QPublishResponse (Publish srv ctx (Some msg) w1)
          | Some ic \<Rightarrow>
              ic ctx (QPublishRequest (Some msg)) Queue_Publish_FullMethodName
                (\<lambda>c req w2. case req of
                   QPublishRequest m \<Rightarrow> boxed QPublishResponse (Publish srv c m w2)
                 | _ \<Rightarrow> (Panic (failed_assertion (queue_type_name req) ''*grpc.PublishRequest''), w2))
                w1))"

definition Queue_Consume_Handler ::
  "('c, 'd, 't, 'e, 'w) QueueServer \<Rightarrow> 'c \<Rightarrow> ('d, 't, 'w) queue_decoder
    \<Rightarrow> ('c, ('d, 't, 'e) queue_any, ('d, 't, 'e) queue_any, 'w) unary_interceptor option
    \<Rightarrow> 'w \<Rightarrow> ('d, 't, 'e) queue_any result outcome \<times> 'w" where
  "Queue_Consume_Handler srv ctx dec interceptor w =
    (case dec_ConsumeRequest dec ConsumeRequest_zero w of
       (Panic v, w1) \<Rightarrow> (Panic v, w1)
     | (Ret (Some err, _), w1) \<Rightarrow> (Ret (None, Some err), w1)
     | (Ret (None, msg), w1) \<Rightarrow>
         (case interceptor of
            None \<Rightarrow> boxed QConsumeResponse (Consume srv ctx (Some msg) w1)
          | Some ic \<Rightarrow>
              ic ctx (QConsumeRequest (Some msg)) Queue_Consume_FullMethodName
                (\<lambda>c req w2. case req of
                   QConsumeRequest m \<Rightarrow> boxed QConsumeResponse (Consume srv c m w2)
                 | _ \<Rightarrow> (Panic (failed_assertion (queue_type_name req) ''*grpc.ConsumeRequest''), w2))
                w1))"

definition Queue_Ack_Handler ::
  "('c, 'd, 't, 'e, 'w) QueueServer \<Rightarrow> 'c \<Rightarrow> ('d, 't, 'w) queue_decoder
    \<Rightarrow> ('c, ('d, 't, 'e) queue_any, ('d, 't, 'e) queue_any, 'w) unary_interceptor option
    \<Rightarrow> 'w \<Rightarrow> ('d, 't, 'e) queue_any result outcome \<times> 'w" where
  "Queue_Ack_Handler srv ctx dec interceptor w =
    (case dec_AckRequest dec AckRequest_zero w of
       (Panic v, w1) \<Rightarrow> (Panic v, w1)
     | (Ret (Some err, _), w1) \<Rightarrow> (Ret (None, Some err), w1)
     | (Ret (None, msg), w1) \<Rightarrow>
         (case interceptor of
            None \<Rightarrow> boxed QEmpty (Ack srv ctx (Some msg) w1)
          | Some ic \<Rightarrow>
              ic ctx (QAckRequest (Some msg)) Queue_Ack_FullMethodName
                (\<lambda>c req w2. case req of
                   QAckRequest m \<Rightarrow> boxed QEmpty (Ack srv c m w2)
                 | _ \<Rightarrow> (Panic (failed_assertion (queue_type_name req) ''*grpc.AckRequest''), w2))
                w1))"

definition Queue_ServiceDesc ::
  "(('c, 'd, 't, 'e, 'w) QueueServer, 'c, ('d, 't, 'w) queue_decoder, ('d, 't, 'e) queue_any, 'w) ServiceDesc" where
  "Queue_ServiceDesc =
    \<lparr>ServiceName = ''queue.v1.Queue'', HandlerType = ''QueueServer'',
     Methods =
      [(''CreateTopic'', Queue_CreateTopic_Handler),
       (''Publish'', Queue_Publish_Handler),
       (''Consume'', Queue_Consume_Handler),
       (''Ack'', Queue_Ack_Handler)],
     Streams = [], Metadata = ''route/grpc/queue.proto''\<rparr>"

text \<open>\<open>RegisterService\<close> is the registrar's: \<open>register\<close> adds the description and the server to it.\<close>

definition RegisterQueueServer ::
  "((('c, 'd, 't, 'e, 'w) QueueServer, 'c, ('d, 't, 'w) queue_decoder, ('d, 't, 'e) queue_any, 'w) ServiceDesc
      \<Rightarrow> ('c, 'd, 't, 'e, 'w) QueueServer \<Rightarrow> 's \<Rightarrow> 's)
    \<Rightarrow> 's \<Rightarrow> ('c, 'd, 't, 'e, 'w) QueueServer \<Rightarrow> 's outcome" where
  "RegisterQueueServer register s srv =
    (case testEmbeddedByValue (queue_embedding srv) of
       Panic v \<Rightarrow> Panic v
     | Ret _ \<Rightarrow> Ret (register Queue_ServiceDesc srv s))"

section \<open>Client\<close>

text \<open>\<open>cc.Invoke\<close>, at the reply types.\<close>

record ('c, 'd, 't, 'e, 'o, 'w) queue_conn =
  Invoke_Topic :: "'c \<Rightarrow> string \<Rightarrow> ('d, 't, 'e) queue_any \<Rightarrow> 'o call_option list
    \<Rightarrow> (('d, 't) Topic, 'w) fill"
  Invoke_PublishResponse :: "'c \<Rightarrow> string \<Rightarrow> ('d, 't, 'e) queue_any \<Rightarrow> 'o call_option list
    \<Rightarrow> (PublishResponse, 'w) fill"
  Invoke_ConsumeResponse :: "'c \<Rightarrow> string \<Rightarrow> ('d, 't, 'e) queue_any \<Rightarrow> 'o call_option list
    \<Rightarrow> ('t ConsumeResponse, 'w) fill"
  Invoke_Empty :: "'c \<Rightarrow> string \<Rightarrow> ('d, 't, 'e) queue_any \<Rightarrow> 'o call_option list
    \<Rightarrow> ('e, 'w) fill"

definition queueClient_CreateTopic ::
  "('c, 'd, 't, 'e, 'o, 'w) queue_conn \<Rightarrow> 'c \<Rightarrow> 'd CreateTopicRequest option
    \<Rightarrow> 'o list \<Rightarrow> 'w \<Rightarrow> (('d, 't) Topic option \<times> go_error option) outcome \<times> 'w" where
  "queueClient_CreateTopic cc ctx req opts w =
    client_reply
      (Invoke_Topic cc ctx Queue_CreateTopic_FullMethodName (QCreateTopicRequest req)
        (StaticMethod # map CallerOption opts) Topic_zero w)"

definition queueClient_Publish ::
  "('c, 'd, 't, 'e, 'o, 'w) queue_conn \<Rightarrow> 'c \<Rightarrow> 't PublishRequest option
    \<Rightarrow> 'o list \<Rightarrow> 'w \<Rightarrow> (PublishResponse option \<times> go_error option) outcome \<times> 'w" where
  "queueClient_Publish cc ctx req opts w =
    client_reply
      (Invoke_PublishResponse cc ctx Queue_Publish_FullMethodName (QPublishRequest req)
        (StaticMethod # map CallerOption opts) PublishResponse_zero w)"

definition queueClient_Consume ::
  "('c, 'd, 't, 'e, 'o, 'w) queue_conn \<Rightarrow> 'c \<Rightarrow> 'd ConsumeRequest option
    \<Rightarrow> 'o list \<Rightarrow> 'w \<Rightarrow> ('t ConsumeResponse option \<times> go_error option) outcome \<times> 'w" where
  "queueClient_Consume cc ctx req opts w =
    client_reply
      (Invoke_ConsumeResponse cc ctx Queue_Consume_FullMethodName (QConsumeRequest req)
        (StaticMethod # map CallerOption opts) ConsumeResponse_zero w)"

definition queueClient_Ack ::
  "'e \<Rightarrow> ('c, 'd, 't, 'e, 'o, 'w) queue_conn \<Rightarrow> 'c \<Rightarrow> AckRequest option
    \<Rightarrow> 'o list \<Rightarrow> 'w \<Rightarrow> ('e option \<times> go_error option) outcome \<times> 'w" where
  "queueClient_Ack new_empty cc ctx req opts w =
    client_reply
      (Invoke_Empty cc ctx Queue_Ack_FullMethodName (QAckRequest req)
        (StaticMethod # map CallerOption opts) new_empty w)"

section \<open>Facts\<close>

lemmas Queue_Handler_defs =
  Queue_CreateTopic_Handler_def Queue_Publish_Handler_def Queue_Consume_Handler_def Queue_Ack_Handler_def

lemmas UnimplementedQueueServer_defs = UnimplementedQueueServer_def
  UnimplementedQueueServer_CreateTopic_def UnimplementedQueueServer_Publish_def UnimplementedQueueServer_Consume_def UnimplementedQueueServer_Ack_def

end
