(* ===== verification/Pb_Audit.thy ===== *)
theory Pb_Audit
  imports Pb_Runtime
begin

text \<open>
  \<open>modules/audit/src/route/grpc/audit.pb.go\<close>: the messages of the audit service as records
  (a field is named after its message; a message used by another comes first), their zero
  values, \<open>Reset\<close>, getters and struct tags, and the package's type tables.  \<open>'t\<close> stands for
  protobuf's \<open>Timestamp\<close>.  The raw descriptor bytes are an argument of \<open>audit_initial\<close>.
\<close>

section \<open>Actor\<close>

record Actor =
  Actor_unknownFields :: "8 word list"
  Actor_Type :: string
  Actor_Id :: string
  Actor_Ip :: string
  Actor_UserAgent :: string

definition Actor_zero :: "Actor" where
  "Actor_zero = \<lparr>Actor_unknownFields = [], Actor_Type = [], Actor_Id = [], Actor_Ip = [], Actor_UserAgent = []\<rparr>"

definition Actor_Reset :: "Actor option \<Rightarrow> Actor option outcome" where
  "Actor_Reset x = (case x of None \<Rightarrow> Panic nil_dereference | Some _ \<Rightarrow> Ret (Some Actor_zero))"

definition Actor_tags :: "field_tag list" where
  "Actor_tags =
    [\<lparr>tag_field = ''Type'', tag_kind = TagBytes, tag_number = 1, tag_label = TagOpt, tag_name = ''type''\<rparr>,
     \<lparr>tag_field = ''Id'', tag_kind = TagBytes, tag_number = 2, tag_label = TagOpt, tag_name = ''id''\<rparr>,
     \<lparr>tag_field = ''Ip'', tag_kind = TagBytes, tag_number = 3, tag_label = TagOpt, tag_name = ''ip''\<rparr>,
     \<lparr>tag_field = ''UserAgent'', tag_kind = TagBytes, tag_number = 4, tag_label = TagOpt, tag_name = ''user_agent''\<rparr>]"

definition Actor_GetType :: "Actor option \<Rightarrow> string" where
  "Actor_GetType x = (case x of Some m \<Rightarrow> Actor_Type m | None \<Rightarrow> [])"

definition Actor_GetId :: "Actor option \<Rightarrow> string" where
  "Actor_GetId x = (case x of Some m \<Rightarrow> Actor_Id m | None \<Rightarrow> [])"

definition Actor_GetIp :: "Actor option \<Rightarrow> string" where
  "Actor_GetIp x = (case x of Some m \<Rightarrow> Actor_Ip m | None \<Rightarrow> [])"

definition Actor_GetUserAgent :: "Actor option \<Rightarrow> string" where
  "Actor_GetUserAgent x = (case x of Some m \<Rightarrow> Actor_UserAgent m | None \<Rightarrow> [])"

lemma Actor_getters:
  "Actor_GetType x = Actor_Type (pointee Actor_zero x)"
    "Actor_GetId x = Actor_Id (pointee Actor_zero x)"
    "Actor_GetIp x = Actor_Ip (pointee Actor_zero x)"
    "Actor_GetUserAgent x = Actor_UserAgent (pointee Actor_zero x)"
  by (cases x; simp add: Actor_zero_def Actor_GetType_def Actor_GetId_def Actor_GetIp_def Actor_GetUserAgent_def)+

section \<open>What\<close>

record What =
  What_unknownFields :: "8 word list"
  What_Action :: string
  What_ResourceType :: string
  What_ResourceId :: string

definition What_zero :: "What" where
  "What_zero = \<lparr>What_unknownFields = [], What_Action = [], What_ResourceType = [], What_ResourceId = []\<rparr>"

definition What_Reset :: "What option \<Rightarrow> What option outcome" where
  "What_Reset x = (case x of None \<Rightarrow> Panic nil_dereference | Some _ \<Rightarrow> Ret (Some What_zero))"

definition What_tags :: "field_tag list" where
  "What_tags =
    [\<lparr>tag_field = ''Action'', tag_kind = TagBytes, tag_number = 1, tag_label = TagOpt, tag_name = ''action''\<rparr>,
     \<lparr>tag_field = ''ResourceType'', tag_kind = TagBytes, tag_number = 2, tag_label = TagOpt, tag_name = ''resource_type''\<rparr>,
     \<lparr>tag_field = ''ResourceId'', tag_kind = TagBytes, tag_number = 3, tag_label = TagOpt, tag_name = ''resource_id''\<rparr>]"

definition What_GetAction :: "What option \<Rightarrow> string" where
  "What_GetAction x = (case x of Some m \<Rightarrow> What_Action m | None \<Rightarrow> [])"

definition What_GetResourceType :: "What option \<Rightarrow> string" where
  "What_GetResourceType x = (case x of Some m \<Rightarrow> What_ResourceType m | None \<Rightarrow> [])"

definition What_GetResourceId :: "What option \<Rightarrow> string" where
  "What_GetResourceId x = (case x of Some m \<Rightarrow> What_ResourceId m | None \<Rightarrow> [])"

lemma What_getters:
  "What_GetAction x = What_Action (pointee What_zero x)"
    "What_GetResourceType x = What_ResourceType (pointee What_zero x)"
    "What_GetResourceId x = What_ResourceId (pointee What_zero x)"
  by (cases x; simp add: What_zero_def What_GetAction_def What_GetResourceType_def What_GetResourceId_def)+

section \<open>Where\<close>

record Where =
  Where_unknownFields :: "8 word list"
  Where_Service :: string
  Where_Environment :: string
  Where_Region :: string
  Where_Host :: string

definition Where_zero :: "Where" where
  "Where_zero = \<lparr>Where_unknownFields = [], Where_Service = [], Where_Environment = [], Where_Region = [], Where_Host = []\<rparr>"

definition Where_Reset :: "Where option \<Rightarrow> Where option outcome" where
  "Where_Reset x = (case x of None \<Rightarrow> Panic nil_dereference | Some _ \<Rightarrow> Ret (Some Where_zero))"

definition Where_tags :: "field_tag list" where
  "Where_tags =
    [\<lparr>tag_field = ''Service'', tag_kind = TagBytes, tag_number = 1, tag_label = TagOpt, tag_name = ''service''\<rparr>,
     \<lparr>tag_field = ''Environment'', tag_kind = TagBytes, tag_number = 2, tag_label = TagOpt, tag_name = ''environment''\<rparr>,
     \<lparr>tag_field = ''Region'', tag_kind = TagBytes, tag_number = 3, tag_label = TagOpt, tag_name = ''region''\<rparr>,
     \<lparr>tag_field = ''Host'', tag_kind = TagBytes, tag_number = 4, tag_label = TagOpt, tag_name = ''host''\<rparr>]"

definition Where_GetService :: "Where option \<Rightarrow> string" where
  "Where_GetService x = (case x of Some m \<Rightarrow> Where_Service m | None \<Rightarrow> [])"

definition Where_GetEnvironment :: "Where option \<Rightarrow> string" where
  "Where_GetEnvironment x = (case x of Some m \<Rightarrow> Where_Environment m | None \<Rightarrow> [])"

definition Where_GetRegion :: "Where option \<Rightarrow> string" where
  "Where_GetRegion x = (case x of Some m \<Rightarrow> Where_Region m | None \<Rightarrow> [])"

definition Where_GetHost :: "Where option \<Rightarrow> string" where
  "Where_GetHost x = (case x of Some m \<Rightarrow> Where_Host m | None \<Rightarrow> [])"

lemma Where_getters:
  "Where_GetService x = Where_Service (pointee Where_zero x)"
    "Where_GetEnvironment x = Where_Environment (pointee Where_zero x)"
    "Where_GetRegion x = Where_Region (pointee Where_zero x)"
    "Where_GetHost x = Where_Host (pointee Where_zero x)"
  by (cases x; simp add: Where_zero_def Where_GetService_def Where_GetEnvironment_def Where_GetRegion_def Where_GetHost_def)+

section \<open>Why\<close>

record Why =
  Why_unknownFields :: "8 word list"
  Why_Reason :: string
  Why_RequestId :: string
  Why_TraceId :: string
  Why_SpanId :: string

definition Why_zero :: "Why" where
  "Why_zero = \<lparr>Why_unknownFields = [], Why_Reason = [], Why_RequestId = [], Why_TraceId = [], Why_SpanId = []\<rparr>"

definition Why_Reset :: "Why option \<Rightarrow> Why option outcome" where
  "Why_Reset x = (case x of None \<Rightarrow> Panic nil_dereference | Some _ \<Rightarrow> Ret (Some Why_zero))"

definition Why_tags :: "field_tag list" where
  "Why_tags =
    [\<lparr>tag_field = ''Reason'', tag_kind = TagBytes, tag_number = 1, tag_label = TagOpt, tag_name = ''reason''\<rparr>,
     \<lparr>tag_field = ''RequestId'', tag_kind = TagBytes, tag_number = 2, tag_label = TagOpt, tag_name = ''request_id''\<rparr>,
     \<lparr>tag_field = ''TraceId'', tag_kind = TagBytes, tag_number = 3, tag_label = TagOpt, tag_name = ''trace_id''\<rparr>,
     \<lparr>tag_field = ''SpanId'', tag_kind = TagBytes, tag_number = 4, tag_label = TagOpt, tag_name = ''span_id''\<rparr>]"

definition Why_GetReason :: "Why option \<Rightarrow> string" where
  "Why_GetReason x = (case x of Some m \<Rightarrow> Why_Reason m | None \<Rightarrow> [])"

definition Why_GetRequestId :: "Why option \<Rightarrow> string" where
  "Why_GetRequestId x = (case x of Some m \<Rightarrow> Why_RequestId m | None \<Rightarrow> [])"

definition Why_GetTraceId :: "Why option \<Rightarrow> string" where
  "Why_GetTraceId x = (case x of Some m \<Rightarrow> Why_TraceId m | None \<Rightarrow> [])"

definition Why_GetSpanId :: "Why option \<Rightarrow> string" where
  "Why_GetSpanId x = (case x of Some m \<Rightarrow> Why_SpanId m | None \<Rightarrow> [])"

lemma Why_getters:
  "Why_GetReason x = Why_Reason (pointee Why_zero x)"
    "Why_GetRequestId x = Why_RequestId (pointee Why_zero x)"
    "Why_GetTraceId x = Why_TraceId (pointee Why_zero x)"
    "Why_GetSpanId x = Why_SpanId (pointee Why_zero x)"
  by (cases x; simp add: Why_zero_def Why_GetReason_def Why_GetRequestId_def Why_GetTraceId_def Why_GetSpanId_def)+

section \<open>How\<close>

record How =
  How_unknownFields :: "8 word list"
  How_Method :: string
  How_Outcome :: string
  How_Severity :: string
  How_Source :: string

definition How_zero :: "How" where
  "How_zero = \<lparr>How_unknownFields = [], How_Method = [], How_Outcome = [], How_Severity = [], How_Source = []\<rparr>"

definition How_Reset :: "How option \<Rightarrow> How option outcome" where
  "How_Reset x = (case x of None \<Rightarrow> Panic nil_dereference | Some _ \<Rightarrow> Ret (Some How_zero))"

definition How_tags :: "field_tag list" where
  "How_tags =
    [\<lparr>tag_field = ''Method'', tag_kind = TagBytes, tag_number = 1, tag_label = TagOpt, tag_name = ''method''\<rparr>,
     \<lparr>tag_field = ''Outcome'', tag_kind = TagBytes, tag_number = 2, tag_label = TagOpt, tag_name = ''outcome''\<rparr>,
     \<lparr>tag_field = ''Severity'', tag_kind = TagBytes, tag_number = 3, tag_label = TagOpt, tag_name = ''severity''\<rparr>,
     \<lparr>tag_field = ''Source'', tag_kind = TagBytes, tag_number = 4, tag_label = TagOpt, tag_name = ''source''\<rparr>]"

definition How_GetMethod :: "How option \<Rightarrow> string" where
  "How_GetMethod x = (case x of Some m \<Rightarrow> How_Method m | None \<Rightarrow> [])"

definition How_GetOutcome :: "How option \<Rightarrow> string" where
  "How_GetOutcome x = (case x of Some m \<Rightarrow> How_Outcome m | None \<Rightarrow> [])"

definition How_GetSeverity :: "How option \<Rightarrow> string" where
  "How_GetSeverity x = (case x of Some m \<Rightarrow> How_Severity m | None \<Rightarrow> [])"

definition How_GetSource :: "How option \<Rightarrow> string" where
  "How_GetSource x = (case x of Some m \<Rightarrow> How_Source m | None \<Rightarrow> [])"

lemma How_getters:
  "How_GetMethod x = How_Method (pointee How_zero x)"
    "How_GetOutcome x = How_Outcome (pointee How_zero x)"
    "How_GetSeverity x = How_Severity (pointee How_zero x)"
    "How_GetSource x = How_Source (pointee How_zero x)"
  by (cases x; simp add: How_zero_def How_GetMethod_def How_GetOutcome_def How_GetSeverity_def How_GetSource_def)+

section \<open>Event\<close>

record 't Event =
  Event_unknownFields :: "8 word list"
  Event_EventId :: string
  Event_OccurredAt :: "'t option"
  Event_RecordedAt :: "'t option"
  Event_SchemaVersion :: "32 word"
  Event_Actor :: "Actor option"
  Event_What :: "What option"
  Event_Where :: "Where option"
  Event_Why :: "Why option"
  Event_How :: "How option"
  Event_Details :: "8 word list"

definition Event_zero :: "'t Event" where
  "Event_zero = \<lparr>Event_unknownFields = [], Event_EventId = [], Event_OccurredAt = None, Event_RecordedAt = None, Event_SchemaVersion = 0, Event_Actor = None, Event_What = None, Event_Where = None, Event_Why = None, Event_How = None, Event_Details = []\<rparr>"

definition Event_Reset :: "'t Event option \<Rightarrow> 't Event option outcome" where
  "Event_Reset x = (case x of None \<Rightarrow> Panic nil_dereference | Some _ \<Rightarrow> Ret (Some Event_zero))"

definition Event_tags :: "field_tag list" where
  "Event_tags =
    [\<lparr>tag_field = ''EventId'', tag_kind = TagBytes, tag_number = 1, tag_label = TagOpt, tag_name = ''event_id''\<rparr>,
     \<lparr>tag_field = ''OccurredAt'', tag_kind = TagBytes, tag_number = 2, tag_label = TagOpt, tag_name = ''occurred_at''\<rparr>,
     \<lparr>tag_field = ''RecordedAt'', tag_kind = TagBytes, tag_number = 3, tag_label = TagOpt, tag_name = ''recorded_at''\<rparr>,
     \<lparr>tag_field = ''SchemaVersion'', tag_kind = TagVarint, tag_number = 4, tag_label = TagOpt, tag_name = ''schema_version''\<rparr>,
     \<lparr>tag_field = ''Actor'', tag_kind = TagBytes, tag_number = 10, tag_label = TagOpt, tag_name = ''actor''\<rparr>,
     \<lparr>tag_field = ''What'', tag_kind = TagBytes, tag_number = 11, tag_label = TagOpt, tag_name = ''what''\<rparr>,
     \<lparr>tag_field = ''Where'', tag_kind = TagBytes, tag_number = 12, tag_label = TagOpt, tag_name = ''where''\<rparr>,
     \<lparr>tag_field = ''Why'', tag_kind = TagBytes, tag_number = 13, tag_label = TagOpt, tag_name = ''why''\<rparr>,
     \<lparr>tag_field = ''How'', tag_kind = TagBytes, tag_number = 14, tag_label = TagOpt, tag_name = ''how''\<rparr>,
     \<lparr>tag_field = ''Details'', tag_kind = TagBytes, tag_number = 20, tag_label = TagOpt, tag_name = ''details''\<rparr>]"

definition Event_GetEventId :: "'t Event option \<Rightarrow> string" where
  "Event_GetEventId x = (case x of Some m \<Rightarrow> Event_EventId m | None \<Rightarrow> [])"

definition Event_GetOccurredAt :: "'t Event option \<Rightarrow> 't option" where
  "Event_GetOccurredAt x = (case x of Some m \<Rightarrow> Event_OccurredAt m | None \<Rightarrow> None)"

definition Event_GetRecordedAt :: "'t Event option \<Rightarrow> 't option" where
  "Event_GetRecordedAt x = (case x of Some m \<Rightarrow> Event_RecordedAt m | None \<Rightarrow> None)"

definition Event_GetSchemaVersion :: "'t Event option \<Rightarrow> 32 word" where
  "Event_GetSchemaVersion x = (case x of Some m \<Rightarrow> Event_SchemaVersion m | None \<Rightarrow> 0)"

definition Event_GetActor :: "'t Event option \<Rightarrow> Actor option" where
  "Event_GetActor x = (case x of Some m \<Rightarrow> Event_Actor m | None \<Rightarrow> None)"

definition Event_GetWhat :: "'t Event option \<Rightarrow> What option" where
  "Event_GetWhat x = (case x of Some m \<Rightarrow> Event_What m | None \<Rightarrow> None)"

definition Event_GetWhere :: "'t Event option \<Rightarrow> Where option" where
  "Event_GetWhere x = (case x of Some m \<Rightarrow> Event_Where m | None \<Rightarrow> None)"

definition Event_GetWhy :: "'t Event option \<Rightarrow> Why option" where
  "Event_GetWhy x = (case x of Some m \<Rightarrow> Event_Why m | None \<Rightarrow> None)"

definition Event_GetHow :: "'t Event option \<Rightarrow> How option" where
  "Event_GetHow x = (case x of Some m \<Rightarrow> Event_How m | None \<Rightarrow> None)"

definition Event_GetDetails :: "'t Event option \<Rightarrow> 8 word list" where
  "Event_GetDetails x = (case x of Some m \<Rightarrow> Event_Details m | None \<Rightarrow> [])"

lemma Event_getters:
  "Event_GetEventId x = Event_EventId (pointee Event_zero x)"
    "Event_GetOccurredAt x = Event_OccurredAt (pointee Event_zero x)"
    "Event_GetRecordedAt x = Event_RecordedAt (pointee Event_zero x)"
    "Event_GetSchemaVersion x = Event_SchemaVersion (pointee Event_zero x)"
    "Event_GetActor x = Event_Actor (pointee Event_zero x)"
    "Event_GetWhat x = Event_What (pointee Event_zero x)"
    "Event_GetWhere x = Event_Where (pointee Event_zero x)"
    "Event_GetWhy x = Event_Why (pointee Event_zero x)"
    "Event_GetHow x = Event_How (pointee Event_zero x)"
    "Event_GetDetails x = Event_Details (pointee Event_zero x)"
  by (cases x; simp add: Event_zero_def Event_GetEventId_def Event_GetOccurredAt_def Event_GetRecordedAt_def Event_GetSchemaVersion_def Event_GetActor_def Event_GetWhat_def Event_GetWhere_def Event_GetWhy_def Event_GetHow_def Event_GetDetails_def)+

section \<open>IngestRequest\<close>

record 't IngestRequest =
  IngestRequest_unknownFields :: "8 word list"
  IngestRequest_Event :: "'t Event option"

definition IngestRequest_zero :: "'t IngestRequest" where
  "IngestRequest_zero = \<lparr>IngestRequest_unknownFields = [], IngestRequest_Event = None\<rparr>"

definition IngestRequest_Reset :: "'t IngestRequest option \<Rightarrow> 't IngestRequest option outcome" where
  "IngestRequest_Reset x = (case x of None \<Rightarrow> Panic nil_dereference | Some _ \<Rightarrow> Ret (Some IngestRequest_zero))"

definition IngestRequest_tags :: "field_tag list" where
  "IngestRequest_tags =
    [\<lparr>tag_field = ''Event'', tag_kind = TagBytes, tag_number = 1, tag_label = TagOpt, tag_name = ''event''\<rparr>]"

definition IngestRequest_GetEvent :: "'t IngestRequest option \<Rightarrow> 't Event option" where
  "IngestRequest_GetEvent x = (case x of Some m \<Rightarrow> IngestRequest_Event m | None \<Rightarrow> None)"

lemma IngestRequest_getters: "IngestRequest_GetEvent x = IngestRequest_Event (pointee IngestRequest_zero x)"
  by (cases x) (simp_all add: IngestRequest_zero_def IngestRequest_GetEvent_def)

section \<open>IngestResponse\<close>

record 't IngestResponse =
  IngestResponse_unknownFields :: "8 word list"
  IngestResponse_EventId :: string
  IngestResponse_RecordedAt :: "'t option"

definition IngestResponse_zero :: "'t IngestResponse" where
  "IngestResponse_zero = \<lparr>IngestResponse_unknownFields = [], IngestResponse_EventId = [], IngestResponse_RecordedAt = None\<rparr>"

definition IngestResponse_Reset :: "'t IngestResponse option \<Rightarrow> 't IngestResponse option outcome" where
  "IngestResponse_Reset x = (case x of None \<Rightarrow> Panic nil_dereference | Some _ \<Rightarrow> Ret (Some IngestResponse_zero))"

definition IngestResponse_tags :: "field_tag list" where
  "IngestResponse_tags =
    [\<lparr>tag_field = ''EventId'', tag_kind = TagBytes, tag_number = 1, tag_label = TagOpt, tag_name = ''event_id''\<rparr>,
     \<lparr>tag_field = ''RecordedAt'', tag_kind = TagBytes, tag_number = 2, tag_label = TagOpt, tag_name = ''recorded_at''\<rparr>]"

definition IngestResponse_GetEventId :: "'t IngestResponse option \<Rightarrow> string" where
  "IngestResponse_GetEventId x = (case x of Some m \<Rightarrow> IngestResponse_EventId m | None \<Rightarrow> [])"

definition IngestResponse_GetRecordedAt :: "'t IngestResponse option \<Rightarrow> 't option" where
  "IngestResponse_GetRecordedAt x = (case x of Some m \<Rightarrow> IngestResponse_RecordedAt m | None \<Rightarrow> None)"

lemma IngestResponse_getters:
  "IngestResponse_GetEventId x = IngestResponse_EventId (pointee IngestResponse_zero x)"
    "IngestResponse_GetRecordedAt x = IngestResponse_RecordedAt (pointee IngestResponse_zero x)"
  by (cases x; simp add: IngestResponse_zero_def IngestResponse_GetEventId_def IngestResponse_GetRecordedAt_def)+

section \<open>GetEventRequest\<close>

record GetEventRequest =
  GetEventRequest_unknownFields :: "8 word list"
  GetEventRequest_EventId :: string

definition GetEventRequest_zero :: "GetEventRequest" where
  "GetEventRequest_zero = \<lparr>GetEventRequest_unknownFields = [], GetEventRequest_EventId = []\<rparr>"

definition GetEventRequest_Reset :: "GetEventRequest option \<Rightarrow> GetEventRequest option outcome" where
  "GetEventRequest_Reset x = (case x of None \<Rightarrow> Panic nil_dereference | Some _ \<Rightarrow> Ret (Some GetEventRequest_zero))"

definition GetEventRequest_tags :: "field_tag list" where
  "GetEventRequest_tags =
    [\<lparr>tag_field = ''EventId'', tag_kind = TagBytes, tag_number = 1, tag_label = TagOpt, tag_name = ''event_id''\<rparr>]"

definition GetEventRequest_GetEventId :: "GetEventRequest option \<Rightarrow> string" where
  "GetEventRequest_GetEventId x = (case x of Some m \<Rightarrow> GetEventRequest_EventId m | None \<Rightarrow> [])"

lemma GetEventRequest_getters: "GetEventRequest_GetEventId x = GetEventRequest_EventId (pointee GetEventRequest_zero x)"
  by (cases x) (simp_all add: GetEventRequest_zero_def GetEventRequest_GetEventId_def)

section \<open>ListEventsRequest\<close>

record 't ListEventsRequest =
  ListEventsRequest_unknownFields :: "8 word list"
  ListEventsRequest_FromTime :: "'t option"
  ListEventsRequest_ToTime :: "'t option"
  ListEventsRequest_ActorType :: string
  ListEventsRequest_ActorId :: string
  ListEventsRequest_ResourceType :: string
  ListEventsRequest_ResourceId :: string
  ListEventsRequest_Action :: string
  ListEventsRequest_Outcome :: string
  ListEventsRequest_Limit :: "32 word"
  ListEventsRequest_Cursor :: string

definition ListEventsRequest_zero :: "'t ListEventsRequest" where
  "ListEventsRequest_zero = \<lparr>ListEventsRequest_unknownFields = [], ListEventsRequest_FromTime = None, ListEventsRequest_ToTime = None, ListEventsRequest_ActorType = [], ListEventsRequest_ActorId = [], ListEventsRequest_ResourceType = [], ListEventsRequest_ResourceId = [], ListEventsRequest_Action = [], ListEventsRequest_Outcome = [], ListEventsRequest_Limit = 0, ListEventsRequest_Cursor = []\<rparr>"

definition ListEventsRequest_Reset :: "'t ListEventsRequest option \<Rightarrow> 't ListEventsRequest option outcome" where
  "ListEventsRequest_Reset x = (case x of None \<Rightarrow> Panic nil_dereference | Some _ \<Rightarrow> Ret (Some ListEventsRequest_zero))"

definition ListEventsRequest_tags :: "field_tag list" where
  "ListEventsRequest_tags =
    [\<lparr>tag_field = ''FromTime'', tag_kind = TagBytes, tag_number = 1, tag_label = TagOpt, tag_name = ''from_time''\<rparr>,
     \<lparr>tag_field = ''ToTime'', tag_kind = TagBytes, tag_number = 2, tag_label = TagOpt, tag_name = ''to_time''\<rparr>,
     \<lparr>tag_field = ''ActorType'', tag_kind = TagBytes, tag_number = 3, tag_label = TagOpt, tag_name = ''actor_type''\<rparr>,
     \<lparr>tag_field = ''ActorId'', tag_kind = TagBytes, tag_number = 4, tag_label = TagOpt, tag_name = ''actor_id''\<rparr>,
     \<lparr>tag_field = ''ResourceType'', tag_kind = TagBytes, tag_number = 5, tag_label = TagOpt, tag_name = ''resource_type''\<rparr>,
     \<lparr>tag_field = ''ResourceId'', tag_kind = TagBytes, tag_number = 6, tag_label = TagOpt, tag_name = ''resource_id''\<rparr>,
     \<lparr>tag_field = ''Action'', tag_kind = TagBytes, tag_number = 7, tag_label = TagOpt, tag_name = ''action''\<rparr>,
     \<lparr>tag_field = ''Outcome'', tag_kind = TagBytes, tag_number = 8, tag_label = TagOpt, tag_name = ''outcome''\<rparr>,
     \<lparr>tag_field = ''Limit'', tag_kind = TagVarint, tag_number = 9, tag_label = TagOpt, tag_name = ''limit''\<rparr>,
     \<lparr>tag_field = ''Cursor'', tag_kind = TagBytes, tag_number = 10, tag_label = TagOpt, tag_name = ''cursor''\<rparr>]"

definition ListEventsRequest_GetFromTime :: "'t ListEventsRequest option \<Rightarrow> 't option" where
  "ListEventsRequest_GetFromTime x = (case x of Some m \<Rightarrow> ListEventsRequest_FromTime m | None \<Rightarrow> None)"

definition ListEventsRequest_GetToTime :: "'t ListEventsRequest option \<Rightarrow> 't option" where
  "ListEventsRequest_GetToTime x = (case x of Some m \<Rightarrow> ListEventsRequest_ToTime m | None \<Rightarrow> None)"

definition ListEventsRequest_GetActorType :: "'t ListEventsRequest option \<Rightarrow> string" where
  "ListEventsRequest_GetActorType x = (case x of Some m \<Rightarrow> ListEventsRequest_ActorType m | None \<Rightarrow> [])"

definition ListEventsRequest_GetActorId :: "'t ListEventsRequest option \<Rightarrow> string" where
  "ListEventsRequest_GetActorId x = (case x of Some m \<Rightarrow> ListEventsRequest_ActorId m | None \<Rightarrow> [])"

definition ListEventsRequest_GetResourceType :: "'t ListEventsRequest option \<Rightarrow> string" where
  "ListEventsRequest_GetResourceType x = (case x of Some m \<Rightarrow> ListEventsRequest_ResourceType m | None \<Rightarrow> [])"

definition ListEventsRequest_GetResourceId :: "'t ListEventsRequest option \<Rightarrow> string" where
  "ListEventsRequest_GetResourceId x = (case x of Some m \<Rightarrow> ListEventsRequest_ResourceId m | None \<Rightarrow> [])"

definition ListEventsRequest_GetAction :: "'t ListEventsRequest option \<Rightarrow> string" where
  "ListEventsRequest_GetAction x = (case x of Some m \<Rightarrow> ListEventsRequest_Action m | None \<Rightarrow> [])"

definition ListEventsRequest_GetOutcome :: "'t ListEventsRequest option \<Rightarrow> string" where
  "ListEventsRequest_GetOutcome x = (case x of Some m \<Rightarrow> ListEventsRequest_Outcome m | None \<Rightarrow> [])"

definition ListEventsRequest_GetLimit :: "'t ListEventsRequest option \<Rightarrow> 32 word" where
  "ListEventsRequest_GetLimit x = (case x of Some m \<Rightarrow> ListEventsRequest_Limit m | None \<Rightarrow> 0)"

definition ListEventsRequest_GetCursor :: "'t ListEventsRequest option \<Rightarrow> string" where
  "ListEventsRequest_GetCursor x = (case x of Some m \<Rightarrow> ListEventsRequest_Cursor m | None \<Rightarrow> [])"

lemma ListEventsRequest_getters:
  "ListEventsRequest_GetFromTime x = ListEventsRequest_FromTime (pointee ListEventsRequest_zero x)"
    "ListEventsRequest_GetToTime x = ListEventsRequest_ToTime (pointee ListEventsRequest_zero x)"
    "ListEventsRequest_GetActorType x = ListEventsRequest_ActorType (pointee ListEventsRequest_zero x)"
    "ListEventsRequest_GetActorId x = ListEventsRequest_ActorId (pointee ListEventsRequest_zero x)"
    "ListEventsRequest_GetResourceType x = ListEventsRequest_ResourceType (pointee ListEventsRequest_zero x)"
    "ListEventsRequest_GetResourceId x = ListEventsRequest_ResourceId (pointee ListEventsRequest_zero x)"
    "ListEventsRequest_GetAction x = ListEventsRequest_Action (pointee ListEventsRequest_zero x)"
    "ListEventsRequest_GetOutcome x = ListEventsRequest_Outcome (pointee ListEventsRequest_zero x)"
    "ListEventsRequest_GetLimit x = ListEventsRequest_Limit (pointee ListEventsRequest_zero x)"
    "ListEventsRequest_GetCursor x = ListEventsRequest_Cursor (pointee ListEventsRequest_zero x)"
  by (cases x; simp add: ListEventsRequest_zero_def ListEventsRequest_GetFromTime_def ListEventsRequest_GetToTime_def ListEventsRequest_GetActorType_def ListEventsRequest_GetActorId_def ListEventsRequest_GetResourceType_def ListEventsRequest_GetResourceId_def ListEventsRequest_GetAction_def ListEventsRequest_GetOutcome_def ListEventsRequest_GetLimit_def ListEventsRequest_GetCursor_def)+

section \<open>ListEventsResponse\<close>

record 't ListEventsResponse =
  ListEventsResponse_unknownFields :: "8 word list"
  ListEventsResponse_Events :: "'t Event option list"
  ListEventsResponse_NextCursor :: string

definition ListEventsResponse_zero :: "'t ListEventsResponse" where
  "ListEventsResponse_zero = \<lparr>ListEventsResponse_unknownFields = [], ListEventsResponse_Events = [], ListEventsResponse_NextCursor = []\<rparr>"

definition ListEventsResponse_Reset :: "'t ListEventsResponse option \<Rightarrow> 't ListEventsResponse option outcome" where
  "ListEventsResponse_Reset x = (case x of None \<Rightarrow> Panic nil_dereference | Some _ \<Rightarrow> Ret (Some ListEventsResponse_zero))"

definition ListEventsResponse_tags :: "field_tag list" where
  "ListEventsResponse_tags =
    [\<lparr>tag_field = ''Events'', tag_kind = TagBytes, tag_number = 1, tag_label = TagRep, tag_name = ''events''\<rparr>,
     \<lparr>tag_field = ''NextCursor'', tag_kind = TagBytes, tag_number = 2, tag_label = TagOpt, tag_name = ''next_cursor''\<rparr>]"

definition ListEventsResponse_GetEvents :: "'t ListEventsResponse option \<Rightarrow> 't Event option list" where
  "ListEventsResponse_GetEvents x = (case x of Some m \<Rightarrow> ListEventsResponse_Events m | None \<Rightarrow> [])"

definition ListEventsResponse_GetNextCursor :: "'t ListEventsResponse option \<Rightarrow> string" where
  "ListEventsResponse_GetNextCursor x = (case x of Some m \<Rightarrow> ListEventsResponse_NextCursor m | None \<Rightarrow> [])"

lemma ListEventsResponse_getters:
  "ListEventsResponse_GetEvents x = ListEventsResponse_Events (pointee ListEventsResponse_zero x)"
    "ListEventsResponse_GetNextCursor x = ListEventsResponse_NextCursor (pointee ListEventsResponse_zero x)"
  by (cases x; simp add: ListEventsResponse_zero_def ListEventsResponse_GetEvents_def ListEventsResponse_GetNextCursor_def)+

section \<open>Package tables\<close>

definition audit_goTypes :: "string option list" where
  "audit_goTypes =
    [Some ''Event'',
     Some ''Actor'',
     Some ''What'',
     Some ''Where'',
     Some ''Why'',
     Some ''How'',
     Some ''IngestRequest'',
     Some ''IngestResponse'',
     Some ''GetEventRequest'',
     Some ''ListEventsRequest'',
     Some ''ListEventsResponse'',
     Some ''timestamppb.Timestamp'']"

definition audit_depIdxs :: "nat list" where
  "audit_depIdxs = [11, 11, 1, 2, 3, 4, 5, 0, 11, 11, 11, 0, 6, 8, 9, 7, 0, 10, 15, 12, 12, 12, 0]"

text \<open>The variables as the package initialises them, before \<open>init\<close> runs.\<close>

definition audit_initial :: "nat list \<Rightarrow> 'file pb_package" where
  "audit_initial raw =
    \<lparr>pb_File = None, pb_rawDesc = raw, pb_once = False, pb_rawDescData = raw,
     pb_exporters = replicate 11 None, pb_goTypes = audit_goTypes, pb_depIdxs = audit_depIdxs\<rparr>"

definition audit_proto_init ::
  "bool \<Rightarrow> (builder \<Rightarrow> 'file) \<Rightarrow> 'file pb_package \<Rightarrow> 'file pb_package" where
  "audit_proto_init UnsafeEnabled build p =
    (if pb_File p \<noteq> None then p
     else
       let ex = (if UnsafeEnabled then pb_exporters p
                 else map (\<lambda>T. Some (exporter T))
                        [''Event'', ''Actor'', ''What'', ''Where'', ''Why'', ''How'', ''IngestRequest'', ''IngestResponse'', ''GetEventRequest'', ''ListEventsRequest'', ''ListEventsResponse'']
                      @ drop 11 (pb_exporters p));
           out = build \<lparr>RawDescriptor = pb_rawDesc p, NumEnums = 0, NumMessages = 11, NumExtensions = 0,
                        NumServices = 1, GoTypes = pb_goTypes p, DependencyIndexes = pb_depIdxs p\<rparr>
       in p\<lparr>pb_File := Some out, pb_exporters := ex, pb_rawDesc := [], pb_goTypes := [],
            pb_depIdxs := []\<rparr>)"

end
