(* ===== verification/Audit_Grpc.thy ===== *)
theory Audit_Grpc
  imports Grpc_Runtime Pb_Audit
begin

text \<open>
  \<open>modules/audit/src/route/grpc/audit_grpc.pb.go\<close>: the server interface as a record of
  methods, the unimplemented server, one handler per method, the service description, its
  registration, and the client over a connection.
\<close>

section \<open>Values passed as interfaces\<close>

datatype 't audit_any =
    AIngestRequest "'t IngestRequest option"
  | AIngestResponse "'t IngestResponse option"
  | AGetEventRequest "GetEventRequest option"
  | AEvent "'t Event option"
  | AListEventsRequest "'t ListEventsRequest option"
  | AListEventsResponse "'t ListEventsResponse option"

text \<open>The dynamic type, as a failed assertion prints it.\<close>

primrec audit_type_name :: "'t audit_any \<Rightarrow> string" where
  "audit_type_name (AIngestRequest _) = ''*grpc.IngestRequest''"
| "audit_type_name (AIngestResponse _) = ''*grpc.IngestResponse''"
| "audit_type_name (AGetEventRequest _) = ''*grpc.GetEventRequest''"
| "audit_type_name (AEvent _) = ''*grpc.Event''"
| "audit_type_name (AListEventsRequest _) = ''*grpc.ListEventsRequest''"
| "audit_type_name (AListEventsResponse _) = ''*grpc.ListEventsResponse''"

section \<open>Server\<close>

record ('c, 't, 'w) AuditServer =
  Ingest :: "('c, 't IngestRequest, 't IngestResponse, 'w) rpc"
  GetEvent :: "('c, GetEventRequest, 't Event, 'w) rpc"
  ListEvents :: "('c, 't ListEventsRequest, 't ListEventsResponse, 'w) rpc"
  audit_embedding :: embedding

text \<open>\<open>dec\<close>, at the request types.\<close>

record ('t, 'w) audit_decoder =
  dec_IngestRequest :: "('t IngestRequest, 'w) fill"
  dec_GetEventRequest :: "(GetEventRequest, 'w) fill"
  dec_ListEventsRequest :: "('t ListEventsRequest, 'w) fill"

definition Audit_Ingest_FullMethodName :: string where
  "Audit_Ingest_FullMethodName = ''/audit.v1.Audit/Ingest''"

definition Audit_GetEvent_FullMethodName :: string where
  "Audit_GetEvent_FullMethodName = ''/audit.v1.Audit/GetEvent''"

definition Audit_ListEvents_FullMethodName :: string where
  "Audit_ListEvents_FullMethodName = ''/audit.v1.Audit/ListEvents''"

lemmas Audit_FullMethodName_defs =
  Audit_Ingest_FullMethodName_def Audit_GetEvent_FullMethodName_def Audit_ListEvents_FullMethodName_def

text \<open>\<open>UnimplementedAuditServer\<close>, embedded by value by the handler of the service.\<close>

definition UnimplementedAuditServer_Ingest :: "grpc_status \<Rightarrow> ('c, 't IngestRequest, 't IngestResponse, 'w) rpc" where
  "UnimplementedAuditServer_Ingest st ctx req w =
    (Ret (None, Some (status_Error st ''Unimplemented'' ''method Ingest not implemented'')), w)"

definition UnimplementedAuditServer_GetEvent :: "grpc_status \<Rightarrow> ('c, GetEventRequest, 't Event, 'w) rpc" where
  "UnimplementedAuditServer_GetEvent st ctx req w =
    (Ret (None, Some (status_Error st ''Unimplemented'' ''method GetEvent not implemented'')), w)"

definition UnimplementedAuditServer_ListEvents :: "grpc_status \<Rightarrow> ('c, 't ListEventsRequest, 't ListEventsResponse, 'w) rpc" where
  "UnimplementedAuditServer_ListEvents st ctx req w =
    (Ret (None, Some (status_Error st ''Unimplemented'' ''method ListEvents not implemented'')), w)"

definition UnimplementedAuditServer :: "grpc_status \<Rightarrow> ('c, 't, 'w) AuditServer" where
  "UnimplementedAuditServer st = \<lparr>Ingest = UnimplementedAuditServer_Ingest st,
     GetEvent = UnimplementedAuditServer_GetEvent st,
     ListEvents = UnimplementedAuditServer_ListEvents st,
     audit_embedding = ByValue\<rparr>"

section \<open>Handlers\<close>

definition Audit_Ingest_Handler ::
  "('c, 't, 'w) AuditServer \<Rightarrow> 'c \<Rightarrow> ('t, 'w) audit_decoder
    \<Rightarrow> ('c, 't audit_any, 't audit_any, 'w) unary_interceptor option
    \<Rightarrow> 'w \<Rightarrow> 't audit_any result outcome \<times> 'w" where
  "Audit_Ingest_Handler srv ctx dec interceptor w =
    (case dec_IngestRequest dec IngestRequest_zero w of
       (Panic v, w1) \<Rightarrow> (Panic v, w1)
     | (Ret (Some err, _), w1) \<Rightarrow> (Ret (None, Some err), w1)
     | (Ret (None, msg), w1) \<Rightarrow>
         (case interceptor of
            None \<Rightarrow> boxed AIngestResponse (Ingest srv ctx (Some msg) w1)
          | Some ic \<Rightarrow>
              ic ctx (AIngestRequest (Some msg)) Audit_Ingest_FullMethodName
                (\<lambda>c req w2. case req of
                   AIngestRequest m \<Rightarrow> boxed AIngestResponse (Ingest srv c m w2)
                 | _ \<Rightarrow> (Panic (failed_assertion (audit_type_name req) ''*grpc.IngestRequest''), w2))
                w1))"

definition Audit_GetEvent_Handler ::
  "('c, 't, 'w) AuditServer \<Rightarrow> 'c \<Rightarrow> ('t, 'w) audit_decoder
    \<Rightarrow> ('c, 't audit_any, 't audit_any, 'w) unary_interceptor option
    \<Rightarrow> 'w \<Rightarrow> 't audit_any result outcome \<times> 'w" where
  "Audit_GetEvent_Handler srv ctx dec interceptor w =
    (case dec_GetEventRequest dec GetEventRequest_zero w of
       (Panic v, w1) \<Rightarrow> (Panic v, w1)
     | (Ret (Some err, _), w1) \<Rightarrow> (Ret (None, Some err), w1)
     | (Ret (None, msg), w1) \<Rightarrow>
         (case interceptor of
            None \<Rightarrow> boxed AEvent (GetEvent srv ctx (Some msg) w1)
          | Some ic \<Rightarrow>
              ic ctx (AGetEventRequest (Some msg)) Audit_GetEvent_FullMethodName
                (\<lambda>c req w2. case req of
                   AGetEventRequest m \<Rightarrow> boxed AEvent (GetEvent srv c m w2)
                 | _ \<Rightarrow> (Panic (failed_assertion (audit_type_name req) ''*grpc.GetEventRequest''), w2))
                w1))"

definition Audit_ListEvents_Handler ::
  "('c, 't, 'w) AuditServer \<Rightarrow> 'c \<Rightarrow> ('t, 'w) audit_decoder
    \<Rightarrow> ('c, 't audit_any, 't audit_any, 'w) unary_interceptor option
    \<Rightarrow> 'w \<Rightarrow> 't audit_any result outcome \<times> 'w" where
  "Audit_ListEvents_Handler srv ctx dec interceptor w =
    (case dec_ListEventsRequest dec ListEventsRequest_zero w of
       (Panic v, w1) \<Rightarrow> (Panic v, w1)
     | (Ret (Some err, _), w1) \<Rightarrow> (Ret (None, Some err), w1)
     | (Ret (None, msg), w1) \<Rightarrow>
         (case interceptor of
            None \<Rightarrow> boxed AListEventsResponse (ListEvents srv ctx (Some msg) w1)
          | Some ic \<Rightarrow>
              ic ctx (AListEventsRequest (Some msg)) Audit_ListEvents_FullMethodName
                (\<lambda>c req w2. case req of
                   AListEventsRequest m \<Rightarrow> boxed AListEventsResponse (ListEvents srv c m w2)
                 | _ \<Rightarrow> (Panic (failed_assertion (audit_type_name req) ''*grpc.ListEventsRequest''), w2))
                w1))"

definition Audit_ServiceDesc ::
  "(('c, 't, 'w) AuditServer, 'c, ('t, 'w) audit_decoder, 't audit_any, 'w) ServiceDesc" where
  "Audit_ServiceDesc =
    \<lparr>ServiceName = ''audit.v1.Audit'', HandlerType = ''AuditServer'',
     Methods =
      [(''Ingest'', Audit_Ingest_Handler),
       (''GetEvent'', Audit_GetEvent_Handler),
       (''ListEvents'', Audit_ListEvents_Handler)],
     Streams = [], Metadata = ''route/grpc/audit.proto''\<rparr>"

text \<open>\<open>RegisterService\<close> is the registrar's: \<open>register\<close> adds the description and the server to it.\<close>

definition RegisterAuditServer ::
  "((('c, 't, 'w) AuditServer, 'c, ('t, 'w) audit_decoder, 't audit_any, 'w) ServiceDesc
      \<Rightarrow> ('c, 't, 'w) AuditServer \<Rightarrow> 's \<Rightarrow> 's)
    \<Rightarrow> 's \<Rightarrow> ('c, 't, 'w) AuditServer \<Rightarrow> 's outcome" where
  "RegisterAuditServer register s srv =
    (case testEmbeddedByValue (audit_embedding srv) of
       Panic v \<Rightarrow> Panic v
     | Ret _ \<Rightarrow> Ret (register Audit_ServiceDesc srv s))"

section \<open>Client\<close>

text \<open>\<open>cc.Invoke\<close>, at the reply types.\<close>

record ('c, 't, 'o, 'w) audit_conn =
  Invoke_IngestResponse :: "'c \<Rightarrow> string \<Rightarrow> 't audit_any \<Rightarrow> 'o call_option list
    \<Rightarrow> ('t IngestResponse, 'w) fill"
  Invoke_Event :: "'c \<Rightarrow> string \<Rightarrow> 't audit_any \<Rightarrow> 'o call_option list
    \<Rightarrow> ('t Event, 'w) fill"
  Invoke_ListEventsResponse :: "'c \<Rightarrow> string \<Rightarrow> 't audit_any \<Rightarrow> 'o call_option list
    \<Rightarrow> ('t ListEventsResponse, 'w) fill"

definition auditClient_Ingest ::
  "('c, 't, 'o, 'w) audit_conn \<Rightarrow> 'c \<Rightarrow> 't IngestRequest option
    \<Rightarrow> 'o list \<Rightarrow> 'w \<Rightarrow> ('t IngestResponse option \<times> go_error option) outcome \<times> 'w" where
  "auditClient_Ingest cc ctx req opts w =
    client_reply
      (Invoke_IngestResponse cc ctx Audit_Ingest_FullMethodName (AIngestRequest req)
        (StaticMethod # map CallerOption opts) IngestResponse_zero w)"

definition auditClient_GetEvent ::
  "('c, 't, 'o, 'w) audit_conn \<Rightarrow> 'c \<Rightarrow> GetEventRequest option
    \<Rightarrow> 'o list \<Rightarrow> 'w \<Rightarrow> ('t Event option \<times> go_error option) outcome \<times> 'w" where
  "auditClient_GetEvent cc ctx req opts w =
    client_reply
      (Invoke_Event cc ctx Audit_GetEvent_FullMethodName (AGetEventRequest req)
        (StaticMethod # map CallerOption opts) Event_zero w)"

definition auditClient_ListEvents ::
  "('c, 't, 'o, 'w) audit_conn \<Rightarrow> 'c \<Rightarrow> 't ListEventsRequest option
    \<Rightarrow> 'o list \<Rightarrow> 'w \<Rightarrow> ('t ListEventsResponse option \<times> go_error option) outcome \<times> 'w" where
  "auditClient_ListEvents cc ctx req opts w =
    client_reply
      (Invoke_ListEventsResponse cc ctx Audit_ListEvents_FullMethodName (AListEventsRequest req)
        (StaticMethod # map CallerOption opts) ListEventsResponse_zero w)"

section \<open>Facts\<close>

lemmas Audit_Handler_defs =
  Audit_Ingest_Handler_def Audit_GetEvent_Handler_def Audit_ListEvents_Handler_def

lemmas UnimplementedAuditServer_defs = UnimplementedAuditServer_def
  UnimplementedAuditServer_Ingest_def UnimplementedAuditServer_GetEvent_def UnimplementedAuditServer_ListEvents_def

end
