(* ===== verification/Servers.thy ===== *)
theory Servers
  imports Queue_Grpc Audit_Grpc
begin

text \<open>
  The gRPC servers of the audit and queue services: \<open>route/handler.go\<close> and
  \<open>route/server.go\<close> of both, with \<open>GRPCServerOption\<close> of
  \<open>modules/shared/src/utilotel/grpc.go\<close>.  \<open>grpc.Server\<close> is not in the repository; what
  the code puts into it is kept in \<open>grpc_server\<close>: the options it was made with and the
  services registered, in order.  How it chains the interceptors is the argument \<open>chain\<close>,
  with \<open>chain_documented\<close> for what its documentation says.
\<close>

section \<open>Servers\<close>

datatype 'ic server_option = StatsHandler string | ChainUnaryInterceptor "'ic list"

text \<open>The project's service, and the two that gRPC provides.\<close>

datatype ('desc, 'srv) service = ProjectService 'desc 'srv | HealthServer | ReflectionServer

record ('ic, 'desc, 'srv) grpc_server =
  server_options :: "'ic server_option list"
  registered :: "('desc, 'srv) service list"

definition GRPCServerOption :: "'ic server_option" where
  "GRPCServerOption = StatsHandler ''otelgrpc server handler''"

definition grpc_NewServer :: "'ic server_option list \<Rightarrow> ('ic, 'desc, 'srv) grpc_server" where
  "grpc_NewServer opts = \<lparr>server_options = opts, registered = []\<rparr>"

definition register_service :: "('desc, 'srv) service \<Rightarrow> ('ic, 'desc, 'srv) grpc_server
    \<Rightarrow> ('ic, 'desc, 'srv) grpc_server" where
  "register_service sv s = s\<lparr>registered := registered s @ [sv]\<rparr>"

text \<open>The interceptors a server was given, outermost first.\<close>

definition interceptors :: "('ic, 'desc, 'srv) grpc_server \<Rightarrow> 'ic list" where
  "interceptors s = concat (map (\<lambda>x. case x of ChainUnaryInterceptor is \<Rightarrow> is | _ \<Rightarrow> []) (server_options s))"

section \<open>The queue service\<close>

definition queue_NewHandler :: "grpc_status \<Rightarrow> ('c, 'd, 't, 'e, 'a world_scheme) QueueServer" where
  "queue_NewHandler st = UnimplementedQueueServer st"

definition queue_NewServer where
  "queue_NewServer st (h :: ('c, 'd, 't, 'e, 'a world_scheme) QueueServer) =
    (let s = grpc_NewServer
               [GRPCServerOption, ChainUnaryInterceptor [queue_Logging st, queue_Recovery st]]
     in case RegisterQueueServer (\<lambda>d srv. register_service (ProjectService d srv)) s h of
          Panic v \<Rightarrow> Panic v
        | Ret s1 \<Rightarrow> Ret (register_service ReflectionServer (register_service HealthServer s1)))"

lemma queue_NewServer_contents:
  assumes "queue_NewServer st h = Ret s"
  shows "interceptors s = [queue_Logging st, queue_Recovery st]"
    and "registered s = [ProjectService Queue_ServiceDesc h, HealthServer, ReflectionServer]"
  using assms
  by (auto simp: queue_NewServer_def RegisterQueueServer_def interceptors_def register_service_def
      grpc_NewServer_def GRPCServerOption_def Let_def split: outcome.splits)

lemma queue_NewServer_panics_iff:
  "is_panic (queue_NewServer st h) \<longleftrightarrow> queue_embedding h = ByPointer False"
  by (simp add: queue_NewServer_def RegisterQueueServer_def testEmbeddedByValue_def Let_def)

section \<open>The audit service\<close>

definition audit_NewHandler :: "grpc_status \<Rightarrow> ('c, 't, 'a world_scheme) AuditServer" where
  "audit_NewHandler st = UnimplementedAuditServer st"

definition audit_NewServer where
  "audit_NewServer st (h :: ('c, 't, 'a world_scheme) AuditServer) =
    (let s = grpc_NewServer
               [GRPCServerOption, ChainUnaryInterceptor [audit_Logging st, audit_Recovery st]]
     in case RegisterAuditServer (\<lambda>d srv. register_service (ProjectService d srv)) s h of
          Panic v \<Rightarrow> Panic v
        | Ret s1 \<Rightarrow> Ret (register_service ReflectionServer (register_service HealthServer s1)))"

lemma audit_NewServer_contents:
  assumes "audit_NewServer st h = Ret s"
  shows "interceptors s = [audit_Logging st, audit_Recovery st]"
    and "registered s = [ProjectService Audit_ServiceDesc h, HealthServer, ReflectionServer]"
  using assms
  by (auto simp: audit_NewServer_def RegisterAuditServer_def interceptors_def register_service_def
      grpc_NewServer_def GRPCServerOption_def Let_def split: outcome.splits)

lemma audit_NewServer_panics_iff:
  "is_panic (audit_NewServer st h) \<longleftrightarrow> audit_embedding h = ByPointer False"
  by (simp add: audit_NewServer_def RegisterAuditServer_def testEmbeddedByValue_def Let_def)

section \<open>One call through the chain\<close>

text \<open>Logging around recovery around a handler: its result and the lines it logs.\<close>

lemma chain_returns:
  assumes "h ctx req w = (Ret (resp, err), w1)"
  shows "nest (audit_Logging st) (audit_Recovery st) ctx req m h w =
    (Ret (resp, err),
     slog LevelInfo ''grpc call'' (call_attrs m (status_Code st err) (clock w) (clock w1)) w1)"
  using assms by (simp add: nest_def audit_Logging_def audit_Recovery_def Let_def)

lemma chain_panics:
  assumes "h ctx req w = (Panic v, w1)"
  shows "nest (audit_Logging st) (audit_Recovery st) ctx req m h w =
    (let e = Some (status_Error st ''Internal'' ''internal server error'');
         w2 = slog LevelError ''panic recovered''
                [(''method'', AStr m), (''panic'', AStr v), (''stack'', AStr (stack_text w1))] w1
     in (Ret (None, e),
         slog LevelInfo ''grpc call'' (call_attrs m (status_Code st e) (clock w) (clock w1)) w2))"
  using assms by (simp add: nest_def audit_Logging_def audit_Recovery_def Let_def)

section \<open>Through the interceptor chain\<close>

text \<open>What the chain makes of a handler's outcome.\<close>

primrec recovered :: "grpc_status \<Rightarrow> 'r result outcome \<Rightarrow> 'r result" where
  "recovered st (Ret res) = res"
| "recovered st (Panic v) = (None, Some (status_Error st ''Internal'' ''internal server error''))"

lemma chain_recovers:
  "fst (nest (queue_Logging st) (queue_Recovery st) ctx req m h w)
     = Ret (recovered st (fst (h ctx req w)))"
proof (cases "h ctx req w")
  case (Pair r w1)
  then show ?thesis
    by (cases r) (auto simp: queue_interceptors_are_audit chain_returns chain_panics Let_def)
qed

section \<open>Properties\<close>

text \<open>
  C16: The server's interceptor chain is safe and transparent: behind it no handler's panic
  escapes, a handler that returns has its result passed on unchanged, a panic becomes an
  \<open>Internal\<close> status, and the chain adds nothing to the state but log lines.
\<close>

theorem server_chain_safe:
  "fst (nest (audit_Logging st) (audit_Recovery st) ctx req m h w) = Ret (recovered st (fst (h ctx req w)))
    \<and> only_logs (snd (h ctx req w)) (snd (nest (audit_Logging st) (audit_Recovery st) ctx req m h w))"
  using chain_recovers server_chain.both.effects_of_handler
  by (fastforce simp: queue_interceptors_are_audit)


text \<open>A status package for samples.\<close>

definition simple_status :: grpc_status where
  "simple_status = \<lparr>status_Error = Foreign,
     status_Code = (\<lambda>e. case e of None \<Rightarrow> ''OK'' | Some (Foreign c _) \<Rightarrow> c | Some _ \<Rightarrow> ''Unknown'')\<rparr>"


lemma simple_status_Error [simp]: "status_Error simple_status = Foreign"
  by (simp add: simple_status_def)

definition sample_world :: world where
  "sample_world = NewLogger initial_world"

lemma sample_world_info [simp]: "logs_info sample_world"
  by (simp add: sample_world_def)


text \<open>A decoder that accepts every request.\<close>

definition audit_decodes :: "('t, 'w) audit_decoder \<Rightarrow> bool" where
  "audit_decodes dec \<longleftrightarrow>
     (\<forall>m w. \<exists>m' w'. dec_IngestRequest dec m w = (Ret (None, m'), w'))
   \<and> (\<forall>m w. \<exists>m' w'. dec_GetEventRequest dec m w = (Ret (None, m'), w'))
   \<and> (\<forall>m w. \<exists>m' w'. dec_ListEventsRequest dec m w = (Ret (None, m'), w'))"

text \<open>
  Today every RPC of the audit service answers \<open>Unimplemented\<close>: behind the server that
  \<open>NewServer\<close> builds around \<open>NewHandler\<close>, a request that decodes gets the status error
  naming its method, whatever it contains.
\<close>

lemma audit_rpcs_unimplemented:
  assumes "audit_NewServer st (audit_NewHandler st) = Ret s" and "chain_documented chain"
    and "ProjectService desc srv \<in> set (registered s)" and "(name, h) \<in> set (Methods desc)"
    and "audit_decodes dec"
  shows "\<exists>nil. fst (h srv ctx dec (Some (chain (interceptors s))) w) =
    Ret (Some nil, Some (status_Error st ''Unimplemented'' (''method '' @ name @ '' not implemented'')))"
proof -
  have ic: "chain (interceptors s) = nest (audit_Logging st) (audit_Recovery st)"
    using audit_NewServer_contents(1) [OF assms(1)] assms(2) by (simp add: chain_documented_def)
  have d: "desc = Audit_ServiceDesc" "srv = audit_NewHandler st"
    using audit_NewServer_contents(2) [OF assms(1)] assms(3) by simp_all
  consider "name = ''Ingest''" "h = Audit_Ingest_Handler" | "name = ''GetEvent''" "h = Audit_GetEvent_Handler"
    | "name = ''ListEvents''" "h = Audit_ListEvents_Handler"
    using assms(4) d by (auto simp: Audit_ServiceDesc_def)
  then show ?thesis
  proof cases
    case 1
    obtain m' w' where "dec_IngestRequest dec IngestRequest_zero w = (Ret (None, m'), w')"
      using assms(5) unfolding audit_decodes_def by blast
    then show ?thesis using 1 ic d
      by (simp add: Audit_Ingest_Handler_def chain_returns UnimplementedAuditServer_defs audit_NewHandler_def)
  next
    case 2
    obtain m' w' where "dec_GetEventRequest dec GetEventRequest_zero w = (Ret (None, m'), w')"
      using assms(5) unfolding audit_decodes_def by blast
    then show ?thesis using 2 ic d
      by (simp add: Audit_GetEvent_Handler_def chain_returns UnimplementedAuditServer_defs audit_NewHandler_def)
  next
    case 3
    obtain m' w' where "dec_ListEventsRequest dec ListEventsRequest_zero w = (Ret (None, m'), w')"
      using assms(5) unfolding audit_decodes_def by blast
    then show ?thesis using 3 ic d
      by (simp add: Audit_ListEvents_Handler_def chain_returns UnimplementedAuditServer_defs audit_NewHandler_def)
  qed
qed

lemma audit_NewServer_ok:
  "audit_NewServer st (audit_NewHandler st) = Ret
    \<lparr>server_options = [GRPCServerOption, ChainUnaryInterceptor [audit_Logging st, audit_Recovery st]],
     registered = [ProjectService Audit_ServiceDesc (audit_NewHandler st), HealthServer, ReflectionServer]\<rparr>"
  by (simp add: audit_NewServer_def RegisterAuditServer_def audit_NewHandler_def UnimplementedAuditServer_def
      testEmbeddedByValue_def register_service_def grpc_NewServer_def)

text \<open>
  The registries of both services agree: method names are distinct, the full method
  names the clients and the log lines use are the paths of the registered methods in order,
  and the descriptor tables name for each method the request and reply types its handler
  decodes and its method returns.
\<close>

lemma service_registries_agree:
  "map (\<lambda>(n, _). ''/'' @ ServiceName Queue_ServiceDesc @ ''/'' @ n) (Methods Queue_ServiceDesc)
     = [Queue_CreateTopic_FullMethodName, Queue_Publish_FullMethodName,
        Queue_Consume_FullMethodName, Queue_Ack_FullMethodName]
   \<and> distinct (map fst (Methods Queue_ServiceDesc))
   \<and> map_option (\<lambda>p. (resolve queue_goTypes (method_inputs p), resolve queue_goTypes (method_outputs p)))
       (split_deps queue_depIdxs)
     = Some ([Some ''CreateTopicRequest'', Some ''PublishRequest'', Some ''ConsumeRequest'', Some ''AckRequest''],
             [Some ''Topic'', Some ''PublishResponse'', Some ''ConsumeResponse'', Some ''emptypb.Empty''])
   \<and> map (\<lambda>(n, _). ''/'' @ ServiceName Audit_ServiceDesc @ ''/'' @ n) (Methods Audit_ServiceDesc)
     = [Audit_Ingest_FullMethodName, Audit_GetEvent_FullMethodName, Audit_ListEvents_FullMethodName]
   \<and> distinct (map fst (Methods Audit_ServiceDesc))
   \<and> map_option (\<lambda>p. (resolve audit_goTypes (method_inputs p), resolve audit_goTypes (method_outputs p)))
       (split_deps audit_depIdxs)
     = Some ([Some ''IngestRequest'', Some ''GetEventRequest'', Some ''ListEventsRequest''],
             [Some ''IngestResponse'', Some ''Event'', Some ''ListEventsResponse''])"
  by (simp add: Queue_ServiceDesc_def Audit_ServiceDesc_def Queue_FullMethodName_defs Audit_FullMethodName_defs
      split_deps_def queue_depIdxs_def audit_depIdxs_def queue_goTypes_def audit_goTypes_def resolve_def)

end
