(* ===== verification/Grpc_Dial.thy ===== *)
theory Grpc_Dial
  imports Errors
begin

text \<open>
  \<open>modules/shared/src/utilgrpc/client.go\<close>: the functional options of \<open>Dial\<close> and the list of
  gRPC dial options it builds, with \<open>GRPCClientOption\<close> of
  \<open>modules/shared/src/utilotel/grpc.go\<close>.  An \<open>Option\<close> is a function on the configuration.
  gRPC is not in the repository: its dial options are values of \<open>dial_option\<close> (one
  constructor per function the code calls, \<open>OtherDialOption\<close> for the rest), and
  \<open>grpc.NewClient\<close> is an argument.
\<close>

section \<open>Definitions\<close>

datatype credentials = Insecure | OtherCredentials string

datatype ('u, 's, 'x) dial_option =
    WithTransportCredentials credentials
  | WithChainUnaryInterceptor "'u list"
  | WithChainStreamInterceptor "'s list"
  | WithStatsHandler string
  | OtherDialOption 'x

record ('u, 's, 'x) config =
  unaryInterceptors :: "'u list"
  streamInterceptors :: "'s list"
  extra :: "('u, 's, 'x) dial_option list"

type_synonym ('u, 's, 'x) Option = "('u, 's, 'x) config \<Rightarrow> ('u, 's, 'x) config"

definition no_config :: "('u, 's, 'x) config" where
  "no_config = \<lparr>unaryInterceptors = [], streamInterceptors = [], extra = []\<rparr>"

definition plaintextTransport :: "('u, 's, 'x) dial_option" where
  "plaintextTransport = WithTransportCredentials Insecure"

definition WithUnaryInterceptors :: "'u list \<Rightarrow> ('u, 's, 'x) Option" where
  "WithUnaryInterceptors is c = c\<lparr>unaryInterceptors := unaryInterceptors c @ is\<rparr>"

definition WithStreamInterceptors :: "'s list \<Rightarrow> ('u, 's, 'x) Option" where
  "WithStreamInterceptors is c = c\<lparr>streamInterceptors := streamInterceptors c @ is\<rparr>"

definition WithDialOption :: "('u, 's, 'x) dial_option list \<Rightarrow> ('u, 's, 'x) Option" where
  "WithDialOption opts c = c\<lparr>extra := extra c @ opts\<rparr>"

definition GRPCClientOption :: "('u, 's, 'x) Option" where
  "GRPCClientOption = WithDialOption [WithStatsHandler ''otelgrpc client handler'']"

definition apply_options :: "('u, 's, 'x) Option list \<Rightarrow> ('u, 's, 'x) config" where
  "apply_options opts = fold (\<lambda>opt cfg. opt cfg) opts no_config"

definition dial_options :: "('u, 's, 'x) Option list \<Rightarrow> ('u, 's, 'x) dial_option list" where
  "dial_options opts =
    (let cfg = apply_options opts;
         d0 = [plaintextTransport];
         d1 = (if length (unaryInterceptors cfg) > 0
               then d0 @ [WithChainUnaryInterceptor (unaryInterceptors cfg)] else d0);
         d2 = (if length (streamInterceptors cfg) > 0
               then d1 @ [WithChainStreamInterceptor (streamInterceptors cfg)] else d1)
     in d2 @ extra cfg)"

definition Dial :: "(string \<Rightarrow> ('u, 's, 'x) dial_option list \<Rightarrow> go_error + 'conn)
    \<Rightarrow> string \<Rightarrow> ('u, 's, 'x) Option list \<Rightarrow> go_error + 'conn" where
  "Dial NewClient addr opts = NewClient addr (dial_options opts)"

section \<open>Options that append\<close>

definition config_append :: "('u, 's, 'x) config \<Rightarrow> ('u, 's, 'x) config \<Rightarrow> ('u, 's, 'x) config" where
  "config_append c d =
    \<lparr>unaryInterceptors = unaryInterceptors c @ unaryInterceptors d,
     streamInterceptors = streamInterceptors c @ streamInterceptors d,
     extra = extra c @ extra d\<rparr>"

lemma config_append_sel [simp]:
  "unaryInterceptors (config_append c d) = unaryInterceptors c @ unaryInterceptors d"
  "streamInterceptors (config_append c d) = streamInterceptors c @ streamInterceptors d"
  "extra (config_append c d) = extra c @ extra d"
  by (simp_all add: config_append_def)

lemma no_config_sel [simp]:
  "unaryInterceptors no_config = []" "streamInterceptors no_config = []" "extra no_config = []"
  by (simp_all add: no_config_def)

lemma config_append_no_config [simp]: "config_append no_config c = c" "config_append c no_config = c"
  by (cases c; simp add: config_append_def no_config_def)+

lemma config_append_assoc: "config_append (config_append a b) c = config_append a (config_append b c)"
  by (simp add: config_append_def)

text \<open>
  The contract of an option: it only appends, and what it appends does not depend on what
  is there already.
\<close>

locale appending_option =
  fixes opt :: "('u, 's, 'x) Option"
  assumes appends: "opt c = config_append c (opt no_config)"
begin

lemma keeps_unary: "\<exists>us. unaryInterceptors (opt c) = unaryInterceptors c @ us"
  using appends [of c] by (metis config_append_sel(1))

end

interpretation unary: appending_option "WithUnaryInterceptors is" for "is" :: "'u list"
  by unfold_locales (simp add: WithUnaryInterceptors_def config_append_def no_config_def)

interpretation stream: appending_option "WithStreamInterceptors is" for "is" :: "'s list"
  by unfold_locales (simp add: WithStreamInterceptors_def config_append_def no_config_def)

interpretation raw: appending_option "WithDialOption opts" for opts :: "('u, 's, 'x) dial_option list"
  by unfold_locales (simp add: WithDialOption_def config_append_def no_config_def)

text \<open>
  Outside the package an option can only come from its three constructors, because
  \<open>config\<close> is not exported.
\<close>

definition package_option :: "('u, 's, 'x) Option \<Rightarrow> bool" where
  "package_option opt \<longleftrightarrow> (\<exists>is. opt = WithUnaryInterceptors is)
     \<or> (\<exists>is. opt = WithStreamInterceptors is) \<or> (\<exists>os. opt = WithDialOption os)"

lemma package_options [simp]:
  "package_option (WithUnaryInterceptors us)" "package_option (WithStreamInterceptors ss)"
  "package_option (WithDialOption os)" "package_option GRPCClientOption"
  by (auto simp: package_option_def GRPCClientOption_def)

lemma package_option_appends: "package_option opt \<Longrightarrow> opt c = config_append c (opt no_config)"
  unfolding package_option_def using unary.appends stream.appends raw.appends by blast

lemma fold_options:
  assumes "list_all package_option opts"
  shows "fold (\<lambda>opt cfg. opt cfg) opts c
    = config_append c \<lparr>unaryInterceptors = concat (map (\<lambda>opt. unaryInterceptors (opt no_config)) opts),
        streamInterceptors = concat (map (\<lambda>opt. streamInterceptors (opt no_config)) opts),
        extra = concat (map (\<lambda>opt. extra (opt no_config)) opts)\<rparr>"
  using assms
proof (induction opts arbitrary: c)
  case Nil
  then show ?case by (simp add: config_append_def)
next
  case (Cons opt opts)
  then have "opt c = config_append c (opt no_config)" by (intro package_option_appends) simp
  with Cons show ?case by (simp add: config_append_def)
qed

lemma apply_options_sel:
  assumes "list_all package_option opts"
  shows "unaryInterceptors (apply_options opts) = concat (map (\<lambda>opt. unaryInterceptors (opt no_config)) opts)"
    and "streamInterceptors (apply_options opts) = concat (map (\<lambda>opt. streamInterceptors (opt no_config)) opts)"
    and "extra (apply_options opts) = concat (map (\<lambda>opt. extra (opt no_config)) opts)"
  by (simp_all add: apply_options_def fold_options [OF assms])

section \<open>Transport credentials\<close>

text \<open>
  gRPC documents that a later dial option overrides an earlier one of its kind: the
  credentials in force are the last ones set.
\<close>

definition credentials_in_force :: "('u, 's, 'x) dial_option list \<Rightarrow> credentials option" where
  "credentials_in_force ds =
    fold (\<lambda>d acc. case d of WithTransportCredentials c \<Rightarrow> Some c | _ \<Rightarrow> acc) ds None"

definition sets_credentials :: "('u, 's, 'x) dial_option \<Rightarrow> bool" where
  "sets_credentials d = (case d of WithTransportCredentials _ \<Rightarrow> True | _ \<Rightarrow> False)"

lemma fold_credentials:
  "fold (\<lambda>d acc. case d of WithTransportCredentials c \<Rightarrow> Some c | _ \<Rightarrow> acc) ds acc =
    (case filter sets_credentials (rev ds) of
       WithTransportCredentials c # _ \<Rightarrow> Some c
     | _ \<Rightarrow> acc)"
proof (induction ds rule: rev_induct)
  case Nil
  then show ?case by simp
next
  case (snoc d ds)
  then show ?case by (cases d) (simp_all add: sets_credentials_def)
qed


section \<open>Properties\<close>

text \<open>
  C23: What \<open>Dial\<close> passes to gRPC: the plaintext transport first; then one chain of all unary
  interceptors and one of all stream interceptors, each in the order of the options and left
  out when empty; then the extra dial options in order.
\<close>

theorem Dial_passes_options:
  assumes "list_all package_option opts"
  shows "Dial NewClient addr opts = NewClient addr
    ([WithTransportCredentials Insecure]
     @ (let us = concat (map (\<lambda>opt. unaryInterceptors (opt no_config)) opts)
        in if us = [] then [] else [WithChainUnaryInterceptor us])
     @ (let ss = concat (map (\<lambda>opt. streamInterceptors (opt no_config)) opts)
        in if ss = [] then [] else [WithChainStreamInterceptor ss])
     @ concat (map (\<lambda>opt. extra (opt no_config)) opts))"
  unfolding Dial_def dial_options_def Let_def apply_options_sel [OF assms] plaintextTransport_def
  by (simp only: length_greater_0_conv) simp

theorem Dial_passes_options_witness:
  "Dial (\<lambda>addr ds. Inr (addr, ds)) ''queue:8080''
      [GRPCClientOption, WithUnaryInterceptors [1 :: nat], WithUnaryInterceptors [2, 3]]
    = Inr (''queue:8080'', [WithTransportCredentials Insecure, WithChainUnaryInterceptor [1, 2, 3],
        WithStatsHandler ''otelgrpc client handler'' :: (nat, nat, nat) dial_option])"
  using Dial_passes_options [of "[GRPCClientOption, WithUnaryInterceptors [1 :: nat], WithUnaryInterceptors [2, 3]]"]
  by (simp add: GRPCClientOption_def WithDialOption_def WithUnaryInterceptors_def Let_def)

text \<open>
  The transport is plaintext unless a caller's \<open>WithDialOption\<close> sets credentials, and then
  the last one set is in force: the "always plaintext" of the package comment holds exactly
  when no extra option sets others last.
\<close>

lemma Dial_credentials:
  assumes "list_all package_option opts"
  shows "credentials_in_force (dial_options opts) =
    (case filter sets_credentials (rev (concat (map (\<lambda>opt. extra (opt no_config)) opts))) of
       WithTransportCredentials c # _ \<Rightarrow> Some c
     | _ \<Rightarrow> Some Insecure)"
proof -
  let ?E = "concat (map (\<lambda>opt. extra (opt no_config)) opts)"
  have f: "filter sets_credentials (rev (dial_options opts))
      = filter sets_credentials (rev ?E) @ [WithTransportCredentials Insecure]"
    by (simp add: dial_options_def Let_def apply_options_sel [OF assms] plaintextTransport_def sets_credentials_def)
  show ?thesis
  proof (cases "filter sets_credentials (rev ?E)")
    case Nil
    then show ?thesis by (simp add: credentials_in_force_def fold_credentials f)
  next
    case (Cons d ds)
    then have "sets_credentials d" by (auto dest!: filter_eq_ConsD)
    then obtain c where "d = WithTransportCredentials c" by (cases d) (simp_all add: sets_credentials_def)
    with Cons show ?thesis by (simp add: credentials_in_force_def fold_credentials f)
  qed
qed

end
