(* ===== verification/Queue_Client.thy ===== *)
theory Queue_Client
  imports Queue_Grpc Grpc_Dial
begin

text \<open>
  \<open>modules/audit/src/infra/queueclient/client.go\<close>: audit's client of the queue service.  It
  dials with the OTel option first and delegates each call to the generated client.  The
  connection type is a parameter; \<open>cc\<close> reads a connection as the interface the generated
  client calls, and \<open>conn_Close\<close> is the connection's own.
\<close>

record ('conn, 'rpc) Client =
  conn :: 'conn
  rpc :: 'rpc

definition NewQueueClient :: "('conn \<Rightarrow> 'rpc) \<Rightarrow> 'conn \<Rightarrow> 'rpc" where
  "NewQueueClient cc connection = cc connection"

definition queueclient_New ::
  "(string \<Rightarrow> ('u, 's, 'x) dial_option list \<Rightarrow> go_error + 'conn) \<Rightarrow> ('conn \<Rightarrow> 'rpc)
    \<Rightarrow> string \<Rightarrow> ('u, 's, 'x) Option list \<Rightarrow> go_error + ('conn, 'rpc) Client" where
  "queueclient_New NewClient cc addr opts =
    (let all = [GRPCClientOption] @ opts in
     case Dial NewClient addr all of
       Inl err \<Rightarrow> Inl err
     | Inr c \<Rightarrow> Inr \<lparr>conn = c, rpc = NewQueueClient cc c\<rparr>)"

definition Client_Close :: "('conn \<Rightarrow> 'w \<Rightarrow> go_error option \<times> 'w) \<Rightarrow> ('conn, 'rpc) Client
    \<Rightarrow> 'w \<Rightarrow> go_error option \<times> 'w" where
  "Client_Close conn_Close c w = conn_Close (conn c) w"

definition Client_CreateTopic :: "('conn, ('c, 'd, 't, 'e, 'o, 'w) queue_conn) Client
    \<Rightarrow> ('c, 'd CreateTopicRequest, ('d, 't) Topic, 'w) rpc" where
  "Client_CreateTopic c ctx req w = queueClient_CreateTopic (rpc c) ctx req [] w"

definition Client_Publish :: "('conn, ('c, 'd, 't, 'e, 'o, 'w) queue_conn) Client
    \<Rightarrow> ('c, 't PublishRequest, PublishResponse, 'w) rpc" where
  "Client_Publish c ctx req w = queueClient_Publish (rpc c) ctx req [] w"

definition Client_Consume :: "('conn, ('c, 'd, 't, 'e, 'o, 'w) queue_conn) Client
    \<Rightarrow> ('c, 'd ConsumeRequest, 't ConsumeResponse, 'w) rpc" where
  "Client_Consume c ctx req w = queueClient_Consume (rpc c) ctx req [] w"

definition Client_Ack :: "'e \<Rightarrow> ('conn, ('c, 'd, 't, 'e, 'o, 'w) queue_conn) Client
    \<Rightarrow> 'c \<Rightarrow> AckRequest option \<Rightarrow> 'w \<Rightarrow> go_error option outcome \<times> 'w" where
  "Client_Ack new_empty c ctx req w =
    (case queueClient_Ack new_empty (rpc c) ctx req [] w of
       (Panic v, w1) \<Rightarrow> (Panic v, w1)
     | (Ret (_, err), w1) \<Rightarrow> (Ret err, w1))"

lemmas Client_defs = Client_CreateTopic_def Client_Publish_def Client_Consume_def Client_Ack_def
  queueClient_CreateTopic_def queueClient_Publish_def queueClient_Consume_def queueClient_Ack_def

section \<open>A client that logs\<close>

text \<open>
  A connection dialled with \<open>WithUnaryInterceptors(LoggingInterceptor())\<close>: as gRPC documents, the
  interceptor is called for each \<open>Invoke\<close>, with the rest of the call as its invoker.
\<close>

definition logged_conn :: "grpc_status \<Rightarrow> string \<Rightarrow> ('c, 'd, 't, 'e, 'o, 'a world_scheme) queue_conn
    \<Rightarrow> ('c, 'd, 't, 'e, 'o, 'a world_scheme) queue_conn" where
  "logged_conn st target cc =
    \<lparr>Invoke_Topic = (\<lambda>ctx path req opts out.
       LoggingInterceptor st target path req out (\<lambda>m q r. Invoke_Topic cc ctx m q opts r)),
     Invoke_PublishResponse = (\<lambda>ctx path req opts out.
       LoggingInterceptor st target path req out (\<lambda>m q r. Invoke_PublishResponse cc ctx m q opts r)),
     Invoke_ConsumeResponse = (\<lambda>ctx path req opts out.
       LoggingInterceptor st target path req out (\<lambda>m q r. Invoke_ConsumeResponse cc ctx m q opts r)),
     Invoke_Empty = (\<lambda>ctx path req opts out.
       LoggingInterceptor st target path req out (\<lambda>m q r. Invoke_Empty cc ctx m q opts r))\<rparr>"

text \<open>What a logged call adds to a typed call that returned.\<close>

definition with_out_line :: "grpc_status \<Rightarrow> string \<Rightarrow> string \<Rightarrow> int \<Rightarrow> ('r \<Rightarrow> go_error option)
    \<Rightarrow> 'r outcome \<times> 'a world_scheme \<Rightarrow> 'r outcome \<times> 'a world_scheme" where
  "with_out_line st target method start err_of res = (case res of
     (Panic v, w1) \<Rightarrow> (Panic v, w1)
   | (Ret r, w1) \<Rightarrow> (Ret r, slog LevelInfo ''grpc call''
       [(''direction'', AStr ''out''), (''method'', AStr method), (''target'', AStr target),
        (''code'', AStr (status_Code st (err_of r))), (''duration_ms'', AInt (go_quot (clock w1 - start) 1000000))] w1))"

lemma client_reply_logged:
  "client_reply (LoggingInterceptor st target method req out iv w)
     = with_out_line st target method (clock w) snd (client_reply (iv method req out w))"
  by (cases "iv method req out w"; cases "fst (iv method req out w)")
    (auto simp: LoggingInterceptor_def with_out_line_def client_reply_def out_attrs_def Let_def
      split: option.split)

section \<open>Properties\<close>

text \<open>
  C18: Client-side logging changes no call: through a connection with the logging
  interceptor each of the four client methods returns exactly what it returns without it,
  and adds to the state one line with the direction, the method's full name, the target, the
  code of the error the caller gets and the duration; a call that panics adds nothing.
\<close>

theorem client_logging_transparent:
  "Client_CreateTopic (c\<lparr>rpc := logged_conn st target (rpc c)\<rparr>) ctx q1 w =
     with_out_line st target ''/queue.v1.Queue/CreateTopic'' (clock w) snd (Client_CreateTopic c ctx q1 w)
   \<and> Client_Publish (c\<lparr>rpc := logged_conn st target (rpc c)\<rparr>) ctx q2 w =
     with_out_line st target ''/queue.v1.Queue/Publish'' (clock w) snd (Client_Publish c ctx q2 w)
   \<and> Client_Consume (c\<lparr>rpc := logged_conn st target (rpc c)\<rparr>) ctx q3 w =
     with_out_line st target ''/queue.v1.Queue/Consume'' (clock w) snd (Client_Consume c ctx q3 w)
   \<and> Client_Ack new_empty (c\<lparr>rpc := logged_conn st target (rpc c)\<rparr>) ctx q4 w =
     with_out_line st target ''/queue.v1.Queue/Ack'' (clock w) (\<lambda>e. e) (Client_Ack new_empty c ctx q4 w)"
proof -
  have ack: "Client_Ack new_empty (c\<lparr>rpc := logged_conn st target (rpc c)\<rparr>) ctx q4 w =
     with_out_line st target ''/queue.v1.Queue/Ack'' (clock w) (\<lambda>e. e) (Client_Ack new_empty c ctx q4 w)"
    by (simp add: Client_defs logged_conn_def client_reply_logged Queue_FullMethodName_defs)
      (simp add: with_out_line_def split: prod.split outcome.split)
  show ?thesis
    by (intro conjI ack) (simp_all add: Client_defs logged_conn_def client_reply_logged Queue_FullMethodName_defs)
qed

end
