(* ===== verification/Queue_Link.thy ===== *)
theory Queue_Link
  imports Servers Queue_Client
begin

text \<open>
  A call from audit's queue client to the queue server, over a connection of which only
  gRPC's documented behaviour is known (\<open>queue_delivers\<close>).  \<open>queue_loopback\<close> is a
  connection that has it.
\<close>

section \<open>The connection\<close>

text \<open>The decoder the server is given for a request the client sent.\<close>

definition codec_mismatch :: go_error where
  "codec_mismatch = Foreign ''codec'' ''message of another type''"

definition queue_sends :: "('d, 't, 'e) queue_any \<Rightarrow> ('d, 't, 'w) queue_decoder" where
  "queue_sends req =
    \<lparr>dec_CreateTopicRequest = (\<lambda>zero w. (Ret (case req of
        QCreateTopicRequest m \<Rightarrow> (None, pointee zero m) | _ \<Rightarrow> (Some codec_mismatch, zero)), w)),
     dec_PublishRequest = (\<lambda>zero w. (Ret (case req of
        QPublishRequest m \<Rightarrow> (None, pointee zero m) | _ \<Rightarrow> (Some codec_mismatch, zero)), w)),
     dec_ConsumeRequest = (\<lambda>zero w. (Ret (case req of
        QConsumeRequest m \<Rightarrow> (None, pointee zero m) | _ \<Rightarrow> (Some codec_mismatch, zero)), w)),
     dec_AckRequest = (\<lambda>zero w. (Ret (case req of
        QAckRequest m \<Rightarrow> (None, pointee zero m) | _ \<Rightarrow> (Some codec_mismatch, zero)), w))\<rparr>"

primrec as_Topic :: "('d, 't, 'e) queue_any \<Rightarrow> ('d, 't) Topic option" where
  "as_Topic (QTopic m) = m"
| "as_Topic (QCreateTopicRequest _) = None" | "as_Topic (QPublishRequest _) = None"
| "as_Topic (QPublishResponse _) = None" | "as_Topic (QConsumeRequest _) = None"
| "as_Topic (QConsumeResponse _) = None" | "as_Topic (QAckRequest _) = None"
| "as_Topic (QEmpty _) = None"

definition as_PublishResponse :: "('d, 't, 'e) queue_any \<Rightarrow> PublishResponse option" where
  "as_PublishResponse a = (case a of QPublishResponse m \<Rightarrow> m | _ \<Rightarrow> None)"

definition as_ConsumeResponse :: "('d, 't, 'e) queue_any \<Rightarrow> 't ConsumeResponse option" where
  "as_ConsumeResponse a = (case a of QConsumeResponse m \<Rightarrow> m | _ \<Rightarrow> None)"

definition as_Empty :: "('d, 't, 'e) queue_any \<Rightarrow> 'e option" where
  "as_Empty a = (case a of QEmpty m \<Rightarrow> m | _ \<Rightarrow> None)"

lemma as_reply_simps [simp]:
  "as_PublishResponse (QPublishResponse m1) = m1" "as_ConsumeResponse (QConsumeResponse m2) = m2"
  "as_Empty (QEmpty m3) = m3"
  by (simp_all add: as_PublishResponse_def as_ConsumeResponse_def as_Empty_def)

text \<open>
  Documented behaviour of a connection to a server whose \<open>Queue\<close> service is \<open>srv\<close> and whose
  interceptor is \<open>ic\<close>: whenever the handler registered under the method returns, \<open>Invoke\<close>
  returns what \<open>relay\<close> makes of it.
\<close>

definition method_path :: "string \<Rightarrow> string \<Rightarrow> string" where
  "method_path service m = ''/'' @ service @ ''/'' @ m"

definition invoke_relays ::
  "(go_error \<Rightarrow> go_error) \<Rightarrow> ('c, 'd, 't, 'e, 'o, 'w) queue_conn \<Rightarrow> 'c \<Rightarrow> string
    \<Rightarrow> ('d, 't, 'e) queue_any \<Rightarrow> 'w \<Rightarrow> ('d, 't, 'e) queue_any result \<Rightarrow> 'w \<Rightarrow> bool" where
  "invoke_relays wire cc ctx path req w res w1 \<longleftrightarrow> (\<forall>opts.
      (\<forall>out. Invoke_Topic cc ctx path req opts out w = (Ret (relay wire as_Topic out res), w1))
    \<and> (\<forall>out. Invoke_PublishResponse cc ctx path req opts out w
           = (Ret (relay wire as_PublishResponse out res), w1))
    \<and> (\<forall>out. Invoke_ConsumeResponse cc ctx path req opts out w
           = (Ret (relay wire as_ConsumeResponse out res), w1))
    \<and> (\<forall>out. Invoke_Empty cc ctx path req opts out w = (Ret (relay wire as_Empty out res), w1)))"

definition queue_delivers ::
  "(go_error \<Rightarrow> go_error)
    \<Rightarrow> ('c, ('d, 't, 'e) queue_any, ('d, 't, 'e) queue_any, 'w) unary_interceptor
    \<Rightarrow> ('c, 'd, 't, 'e, 'w) QueueServer \<Rightarrow> ('c, 'd, 't, 'e, 'o, 'w) queue_conn \<Rightarrow> bool" where
  "queue_delivers wire ic srv cc \<longleftrightarrow>
    (\<forall>name h ctx req w res w1.
       (name, h) \<in> set (Methods Queue_ServiceDesc)
       \<longrightarrow> h srv ctx (queue_sends req) (Some ic) w = (Ret res, w1)
       \<longrightarrow> invoke_relays wire cc ctx (method_path ''queue.v1.Queue'' name) req w res w1)"

lemma queue_delivers_at:
  "queue_delivers wire ic srv cc \<Longrightarrow> (name, h) \<in> set (Methods Queue_ServiceDesc) \<Longrightarrow>
    fst (h srv ctx (queue_sends req) (Some ic) w) = Ret res \<Longrightarrow>
    invoke_relays wire cc ctx (method_path ''queue.v1.Queue'' name) req w res
      (snd (h srv ctx (queue_sends req) (Some ic) w))"
  unfolding queue_delivers_def by (metis prod.collapse)

lemma queue_handler_in_desc:
  "(''CreateTopic'', Queue_CreateTopic_Handler) \<in> set (Methods Queue_ServiceDesc)"
  "(''Publish'', Queue_Publish_Handler) \<in> set (Methods Queue_ServiceDesc)"
  "(''Consume'', Queue_Consume_Handler) \<in> set (Methods Queue_ServiceDesc)"
  "(''Ack'', Queue_Ack_Handler) \<in> set (Methods Queue_ServiceDesc)"
  by (simp_all add: Queue_ServiceDesc_def)

lemma queue_paths:
  "Queue_CreateTopic_FullMethodName = method_path ''queue.v1.Queue'' ''CreateTopic''"
  "Queue_Publish_FullMethodName = method_path ''queue.v1.Queue'' ''Publish''"
  "Queue_Consume_FullMethodName = method_path ''queue.v1.Queue'' ''Consume''"
  "Queue_Ack_FullMethodName = method_path ''queue.v1.Queue'' ''Ack''"
  by (simp_all add: Queue_FullMethodName_defs method_path_def)

lemma invoke_relays_at:
  assumes "invoke_relays wire cc ctx path req w res w1"
  shows "Invoke_Topic cc ctx path req opts out1 w = (Ret (relay wire as_Topic out1 res), w1)"
    and "Invoke_PublishResponse cc ctx path req opts out2 w
       = (Ret (relay wire as_PublishResponse out2 res), w1)"
    and "Invoke_ConsumeResponse cc ctx path req opts out3 w
       = (Ret (relay wire as_ConsumeResponse out3 res), w1)"
    and "Invoke_Empty cc ctx path req opts out4 w = (Ret (relay wire as_Empty out4 res), w1)"
  using assms unfolding invoke_relays_def by blast+

section \<open>What the client sees\<close>

text \<open>What a client of one of the typed methods sees of the server's outcome.\<close>

definition seen_by_client :: "grpc_status \<Rightarrow> (go_error \<Rightarrow> go_error) \<Rightarrow> 'r
    \<Rightarrow> ('r option \<times> go_error option) outcome \<Rightarrow> 'r option \<times> go_error option" where
  "seen_by_client st wire zero r = (case r of
     Ret (m, None) \<Rightarrow> (Some (pointee zero m), None)
   | Ret (_, Some err) \<Rightarrow> (None, Some (wire err))
   | Panic _ \<Rightarrow> (None, Some (wire (status_Error st ''Internal'' ''internal server error''))))"

lemma seen_from_relay:
  assumes "\<And>m. sel (box m) = m"
  shows "client_reply (Ret (relay wire sel zero (recovered st (fst (boxed box p)))), w2)
    = (Ret (seen_by_client st wire zero (fst p)), w2)"
  using assms
  by (cases p; cases "fst p") (auto simp: seen_by_client_def boxed_def split: option.splits)

text \<open>
  Each handler, given the request the client sent, passes it to the server's method: what
  it hands the interceptor is the method on that message.
\<close>

lemma handler_on_request:
  "Queue_CreateTopic_Handler srv ctx (queue_sends (QCreateTopicRequest q1)) (Some ic) w =
     ic ctx (QCreateTopicRequest (Some (pointee CreateTopicRequest_zero q1)))
       Queue_CreateTopic_FullMethodName
       (\<lambda>c req w2. case req of QCreateTopicRequest m \<Rightarrow> boxed QTopic (CreateTopic srv c m w2)
          | _ \<Rightarrow> (Panic (failed_assertion (queue_type_name req) ''*grpc.CreateTopicRequest''), w2)) w"
  "Queue_Publish_Handler srv ctx (queue_sends (QPublishRequest q2)) (Some ic) w =
     ic ctx (QPublishRequest (Some (pointee PublishRequest_zero q2)))
       Queue_Publish_FullMethodName
       (\<lambda>c req w2. case req of QPublishRequest m \<Rightarrow> boxed QPublishResponse (Publish srv c m w2)
          | _ \<Rightarrow> (Panic (failed_assertion (queue_type_name req) ''*grpc.PublishRequest''), w2)) w"
  "Queue_Consume_Handler srv ctx (queue_sends (QConsumeRequest q3)) (Some ic) w =
     ic ctx (QConsumeRequest (Some (pointee ConsumeRequest_zero q3)))
       Queue_Consume_FullMethodName
       (\<lambda>c req w2. case req of QConsumeRequest m \<Rightarrow> boxed QConsumeResponse (Consume srv c m w2)
          | _ \<Rightarrow> (Panic (failed_assertion (queue_type_name req) ''*grpc.ConsumeRequest''), w2)) w"
  "Queue_Ack_Handler srv ctx (queue_sends (QAckRequest q4)) (Some ic) w =
     ic ctx (QAckRequest (Some (pointee AckRequest_zero q4)))
       Queue_Ack_FullMethodName
       (\<lambda>c req w2. case req of QAckRequest m \<Rightarrow> boxed QEmpty (Ack srv c m w2)
          | _ \<Rightarrow> (Panic (failed_assertion (queue_type_name req) ''*grpc.AckRequest''), w2)) w"
  by (simp_all add: Queue_Handler_defs queue_sends_def)

lemma Client_CreateTopic_over_link:
  assumes d: "queue_delivers wire (nest (queue_Logging st) (queue_Recovery st)) srv (rpc c)"
  shows "fst (Client_CreateTopic c ctx req w) = Ret (seen_by_client st wire Topic_zero
           (fst (CreateTopic srv ctx (Some (pointee CreateTopicRequest_zero req)) w)))"
proof -
  have "fst (Queue_CreateTopic_Handler srv ctx (queue_sends (QCreateTopicRequest req))
        (Some (nest (queue_Logging st) (queue_Recovery st))) w)
      = Ret (recovered st (fst (boxed QTopic (CreateTopic srv ctx (Some (pointee CreateTopicRequest_zero req)) w))))"
    by (simp add: handler_on_request chain_recovers)
  note inv = invoke_relays_at [OF queue_delivers_at [OF d queue_handler_in_desc(1) this]]
  show ?thesis
    by (simp add: Client_defs queue_paths inv seen_from_relay)
qed

lemma Client_Publish_over_link:
  assumes d: "queue_delivers wire (nest (queue_Logging st) (queue_Recovery st)) srv (rpc c)"
  shows "fst (Client_Publish c ctx req w) = Ret (seen_by_client st wire PublishResponse_zero
           (fst (Publish srv ctx (Some (pointee PublishRequest_zero req)) w)))"
proof -
  have "fst (Queue_Publish_Handler srv ctx (queue_sends (QPublishRequest req))
        (Some (nest (queue_Logging st) (queue_Recovery st))) w)
      = Ret (recovered st (fst (boxed QPublishResponse (Publish srv ctx (Some (pointee PublishRequest_zero req)) w))))"
    by (simp add: handler_on_request chain_recovers)
  note inv = invoke_relays_at [OF queue_delivers_at [OF d queue_handler_in_desc(2) this]]
  show ?thesis
    by (simp add: Client_defs queue_paths inv seen_from_relay)
qed

lemma Client_Consume_over_link:
  assumes d: "queue_delivers wire (nest (queue_Logging st) (queue_Recovery st)) srv (rpc c)"
  shows "fst (Client_Consume c ctx req w) = Ret (seen_by_client st wire ConsumeResponse_zero
           (fst (Consume srv ctx (Some (pointee ConsumeRequest_zero req)) w)))"
proof -
  have "fst (Queue_Consume_Handler srv ctx (queue_sends (QConsumeRequest req))
        (Some (nest (queue_Logging st) (queue_Recovery st))) w)
      = Ret (recovered st (fst (boxed QConsumeResponse (Consume srv ctx (Some (pointee ConsumeRequest_zero req)) w))))"
    by (simp add: handler_on_request chain_recovers)
  note inv = invoke_relays_at [OF queue_delivers_at [OF d queue_handler_in_desc(3) this]]
  show ?thesis
    by (simp add: Client_defs queue_paths inv seen_from_relay)
qed

lemma Client_Ack_over_link:
  assumes d: "queue_delivers wire (nest (queue_Logging st) (queue_Recovery st)) srv (rpc c)"
  shows "fst (Client_Ack new_empty c ctx req w) = Ret (snd (seen_by_client st wire new_empty
           (fst (Ack srv ctx (Some (pointee AckRequest_zero req)) w))))"
proof -
  have "fst (Queue_Ack_Handler srv ctx (queue_sends (QAckRequest req))
        (Some (nest (queue_Logging st) (queue_Recovery st))) w)
      = Ret (recovered st (fst (boxed QEmpty (Ack srv ctx (Some (pointee AckRequest_zero req)) w))))"
    by (simp add: handler_on_request chain_recovers)
  note inv = invoke_relays_at [OF queue_delivers_at [OF d queue_handler_in_desc(4) this]]
  show ?thesis
    by (simp add: Client_defs queue_paths inv seen_from_relay split: prod.split)
qed

section \<open>A connection that delivers\<close>

text \<open>
  The loopback: it looks the path up in the service description and runs the handler.
\<close>

definition loopback_call ::
  "('c, ('d, 't, 'e) queue_any, ('d, 't, 'e) queue_any, 'w) unary_interceptor
    \<Rightarrow> ('c, 'd, 't, 'e, 'w) QueueServer \<Rightarrow> 'c \<Rightarrow> string \<Rightarrow> ('d, 't, 'e) queue_any \<Rightarrow> 'w
    \<Rightarrow> ('d, 't, 'e) queue_any result outcome \<times> 'w" where
  "loopback_call ic srv ctx path req w =
    (case find (\<lambda>(name, h). method_path ''queue.v1.Queue'' name = path) (Methods Queue_ServiceDesc) of
       None \<Rightarrow> (Ret (None, Some (Foreign ''status'' ''unknown method'')), w)
     | Some (name, h) \<Rightarrow> h srv ctx (queue_sends req) (Some ic) w)"

definition loopback_reply :: "(go_error \<Rightarrow> go_error) \<Rightarrow> (('d, 't, 'e) queue_any \<Rightarrow> 'm option) \<Rightarrow> 'm
    \<Rightarrow> ('d, 't, 'e) queue_any result outcome \<times> 'w \<Rightarrow> (go_error option \<times> 'm) outcome \<times> 'w" where
  "loopback_reply wire sel out r = (case r of
     (Ret res, w) \<Rightarrow> (Ret (relay wire sel out res), w)
   | (Panic v, w) \<Rightarrow> (Ret (Some (Foreign ''status'' ''connection closed''), out), w))"

definition queue_loopback ::
  "(go_error \<Rightarrow> go_error)
    \<Rightarrow> ('c, ('d, 't, 'e) queue_any, ('d, 't, 'e) queue_any, 'w) unary_interceptor
    \<Rightarrow> ('c, 'd, 't, 'e, 'w) QueueServer \<Rightarrow> ('c, 'd, 't, 'e, 'o, 'w) queue_conn" where
  "queue_loopback wire ic srv =
    \<lparr>Invoke_Topic = (\<lambda>ctx path req opts out w.
       loopback_reply wire as_Topic out (loopback_call ic srv ctx path req w)),
     Invoke_PublishResponse = (\<lambda>ctx path req opts out w.
       loopback_reply wire as_PublishResponse out (loopback_call ic srv ctx path req w)),
     Invoke_ConsumeResponse = (\<lambda>ctx path req opts out w.
       loopback_reply wire as_ConsumeResponse out (loopback_call ic srv ctx path req w)),
     Invoke_Empty = (\<lambda>ctx path req opts out w.
       loopback_reply wire as_Empty out (loopback_call ic srv ctx path req w))\<rparr>"

lemma loopback_call_at:
  "(name, h) \<in> set (Methods Queue_ServiceDesc) \<Longrightarrow>
    loopback_call ic srv ctx (method_path ''queue.v1.Queue'' name) req w
      = h srv ctx (queue_sends req) (Some ic) w"
  by (auto simp: loopback_call_def Queue_ServiceDesc_def method_path_def)

lemma queue_loopback_delivers: "queue_delivers wire ic srv (queue_loopback wire ic srv)"
  by (auto simp: queue_delivers_def invoke_relays_def queue_loopback_def loopback_call_at
      loopback_reply_def)

section \<open>Properties\<close>

text \<open>
  C19: A call of audit's queue client returns what the server's method made of the request:
  over a connection that delivers, through the server's interceptors, the client gets the
  server's reply (the empty message for a nil one), or the server's error and no reply, or
  \<open>Internal\<close> when the method panicked; \<open>Ack\<close> returns just the error part.
\<close>

theorem queue_client_sees_server:
  assumes "queue_delivers wire (nest (queue_Logging st) (queue_Recovery st)) srv (rpc c)"
  shows "fst (Client_CreateTopic c ctx q1 w) = Ret (seen_by_client st wire Topic_zero
      (fst (CreateTopic srv ctx (Some (pointee CreateTopicRequest_zero q1)) w)))
    \<and> fst (Client_Publish c ctx q2 w) = Ret (seen_by_client st wire PublishResponse_zero
      (fst (Publish srv ctx (Some (pointee PublishRequest_zero q2)) w)))
    \<and> fst (Client_Consume c ctx q3 w) = Ret (seen_by_client st wire ConsumeResponse_zero
      (fst (Consume srv ctx (Some (pointee ConsumeRequest_zero q3)) w)))
    \<and> fst (Client_Ack new_empty c ctx q4 w) = Ret (snd (seen_by_client st wire new_empty
      (fst (Ack srv ctx (Some (pointee AckRequest_zero q4)) w))))"
  using Client_CreateTopic_over_link [OF assms] Client_Publish_over_link [OF assms]
    Client_Consume_over_link [OF assms] Client_Ack_over_link [OF assms] by blast

text \<open>A server for samples: it publishes under id 7 and panics on the rest.\<close>

definition sample_queue_server :: "(unit, unit, unit, unit, world) QueueServer" where
  "sample_queue_server = \<lparr>CreateTopic = (\<lambda>c q w. (Panic ''no topics'', w)),
     Publish = (\<lambda>c q w. (Ret (Some (PublishResponse_zero\<lparr>PublishResponse_MessageId := 7\<rparr>), None), w)),
     Consume = (\<lambda>c q w. (Panic ''no messages'', w)),
     Ack = (\<lambda>c q w. (Ret (None, Some (ErrorString ''unknown lease'')), w)), queue_embedding = ByValue\<rparr>"

definition sample_queue_client ::
  "(unit, unit, unit, unit, world) QueueServer \<Rightarrow> (unit, (unit, unit, unit, unit, unit, world) queue_conn) Client" where
  "sample_queue_client srv = \<lparr>conn = (), rpc = queue_loopback (\<lambda>e. e)
     (nest (queue_Logging simple_status) (queue_Recovery simple_status)) srv\<rparr>"

lemma sample_client_delivers:
  "queue_delivers (\<lambda>e. e) (nest (queue_Logging simple_status) (queue_Recovery simple_status)) srv
     (rpc (sample_queue_client srv))"
  by (simp add: sample_queue_client_def queue_loopback_delivers)

theorem queue_client_sees_server_witness:
  "fst (Client_Publish (sample_queue_client sample_queue_server) () None sample_world)
      = Ret (Some (PublishResponse_zero\<lparr>PublishResponse_MessageId := 7\<rparr>), None)
    \<and> fst (Client_CreateTopic (sample_queue_client sample_queue_server) () None sample_world)
      = Ret (None, Some (Foreign ''Internal'' ''internal server error''))
    \<and> fst (Client_Ack () (sample_queue_client sample_queue_server) () None sample_world)
      = Ret (Some (ErrorString ''unknown lease''))"
  using queue_client_sees_server [OF sample_client_delivers, of sample_queue_server "()" None sample_world None None "()" None]
  by (simp add: seen_by_client_def sample_queue_server_def simple_status_def)

text \<open>
  Against today's queue server every client call fails with \<open>Unimplemented\<close> and yields no
  reply: the client's four methods, over a connection that delivers and keeps status errors.
\<close>

lemma queue_client_unimplemented:
  assumes "queue_delivers wire (nest (queue_Logging st) (queue_Recovery st)) (queue_NewHandler st) (rpc c)"
    and "wire_documented st wire"
  shows "fst (Client_CreateTopic c ctx q1 w)
      = Ret (None, Some (status_Error st ''Unimplemented'' ''method CreateTopic not implemented''))
    \<and> fst (Client_Publish c ctx q2 w)
      = Ret (None, Some (status_Error st ''Unimplemented'' ''method Publish not implemented''))
    \<and> fst (Client_Consume c ctx q3 w)
      = Ret (None, Some (status_Error st ''Unimplemented'' ''method Consume not implemented''))
    \<and> fst (Client_Ack new_empty c ctx q4 w)
      = Ret (Some (status_Error st ''Unimplemented'' ''method Ack not implemented''))"
  using assms(2)
  by (simp add: Client_CreateTopic_over_link [OF assms(1)] Client_Publish_over_link [OF assms(1)]
      Client_Consume_over_link [OF assms(1)] Client_Ack_over_link [OF assms(1)]
      queue_NewHandler_def UnimplementedQueueServer_defs seen_by_client_def wire_documented_def)

end
