(* ===== verification/Handler_Types.thy ===== *)
theory Handler_Types
  imports Servers
begin

text \<open>
  The type assertions of the generated handlers (\<open>queue_grpc.pb.go\<close>, \<open>audit_grpc.pb.go\<close>): a
  handler passes its request to the interceptor as \<open>interface{}\<close> and asserts its type when
  the interceptor calls back.  The assertion panics on another type, so it rests on the
  interceptors handing on the request they were given.
\<close>

section \<open>Interceptors that hand on their request\<close>

locale request_keeping =
  fixes ic :: "('c, 'q, 'r, 'w) unary_interceptor"
  assumes keeps: "(\<And>c w'. h1 c req w' = h2 c req w') \<Longrightarrow> ic ctx req m h1 w = ic ctx req m h2 w"

locale keeping_pair =
  outer: request_keeping outer + inner: request_keeping inner
  for outer :: "('c, 'q, 'r, 'w) unary_interceptor"
    and inner :: "('c, 'q, 'r, 'w) unary_interceptor"

sublocale keeping_pair \<subseteq> both: request_keeping "nest outer inner"
proof
  fix h1 h2 :: "('c, 'q, 'r, 'w) unary_handler" and req ctx m w
  assume "\<And>c w'. h1 c req w' = h2 c req w'"
  then have "inner c req m h1 w' = inner c req m h2 w'" for c w' by (rule inner.keeps)
  then show "nest outer inner ctx req m h1 w = nest outer inner ctx req m h2 w"
    unfolding nest_def by (rule outer.keeps)
qed

interpretation logging_keeps: request_keeping "audit_Logging st" for st
  by unfold_locales (simp add: audit_Logging_def)

interpretation recovery_keeps: request_keeping "audit_Recovery st" for st
  by unfold_locales (simp add: audit_Recovery_def)

interpretation chain_keeps: keeping_pair "audit_Logging st" "audit_Recovery st" for st
  by unfold_locales

section \<open>Handlers\<close>

text \<open>The decoding of a request, and what follows when it succeeds.\<close>

definition decoded :: "(go_error option \<times> 'm) outcome \<times> 'w \<Rightarrow> ('m \<Rightarrow> 'w \<Rightarrow> 'any result outcome \<times> 'w)
    \<Rightarrow> 'any result outcome \<times> 'w" where
  "decoded res k = (case res of
     (Panic v, w1) \<Rightarrow> (Panic v, w1)
   | (Ret (Some err, _), w1) \<Rightarrow> (Ret (None, Some err), w1)
   | (Ret (None, msg), w1) \<Rightarrow> k msg w1)"

lemma decoded_cong: "(\<And>msg w1. k msg w1 = k' msg w1) \<Longrightarrow> decoded res k = decoded res k'"
  by (simp add: decoded_def split: prod.split outcome.split option.split)

lemma Queue_Handler_decoded:
  "Queue_CreateTopic_Handler srv ctx dec (Some ic) w =
     decoded (dec_CreateTopicRequest dec CreateTopicRequest_zero w) (\<lambda>msg.
       ic ctx (QCreateTopicRequest (Some msg)) Queue_CreateTopic_FullMethodName (\<lambda>c req w2. case req of
           QCreateTopicRequest m \<Rightarrow> boxed QTopic (CreateTopic srv c m w2)
         | _ \<Rightarrow> (Panic (failed_assertion (queue_type_name req) ''*grpc.CreateTopicRequest''), w2)))"
  "Queue_Publish_Handler srv ctx dec (Some ic) w =
     decoded (dec_PublishRequest dec PublishRequest_zero w) (\<lambda>msg.
       ic ctx (QPublishRequest (Some msg)) Queue_Publish_FullMethodName (\<lambda>c req w2. case req of
           QPublishRequest m \<Rightarrow> boxed QPublishResponse (Publish srv c m w2)
         | _ \<Rightarrow> (Panic (failed_assertion (queue_type_name req) ''*grpc.PublishRequest''), w2)))"
  "Queue_Consume_Handler srv ctx dec (Some ic) w =
     decoded (dec_ConsumeRequest dec ConsumeRequest_zero w) (\<lambda>msg.
       ic ctx (QConsumeRequest (Some msg)) Queue_Consume_FullMethodName (\<lambda>c req w2. case req of
           QConsumeRequest m \<Rightarrow> boxed QConsumeResponse (Consume srv c m w2)
         | _ \<Rightarrow> (Panic (failed_assertion (queue_type_name req) ''*grpc.ConsumeRequest''), w2)))"
  "Queue_Ack_Handler srv ctx dec (Some ic) w =
     decoded (dec_AckRequest dec AckRequest_zero w) (\<lambda>msg.
       ic ctx (QAckRequest (Some msg)) Queue_Ack_FullMethodName (\<lambda>c req w2. case req of
           QAckRequest m \<Rightarrow> boxed QEmpty (Ack srv c m w2)
         | _ \<Rightarrow> (Panic (failed_assertion (queue_type_name req) ''*grpc.AckRequest''), w2)))"
  by (simp_all only: Queue_Handler_defs decoded_def option.case)

lemma Audit_Handler_decoded:
  "Audit_Ingest_Handler asrv ctx adec (Some ic) w =
     decoded (dec_IngestRequest adec IngestRequest_zero w) (\<lambda>msg.
       ic ctx (AIngestRequest (Some msg)) Audit_Ingest_FullMethodName (\<lambda>c req w2. case req of
           AIngestRequest m \<Rightarrow> boxed AIngestResponse (Ingest asrv c m w2)
         | _ \<Rightarrow> (Panic (failed_assertion (audit_type_name req) ''*grpc.IngestRequest''), w2)))"
  "Audit_GetEvent_Handler asrv ctx adec (Some ic) w =
     decoded (dec_GetEventRequest adec GetEventRequest_zero w) (\<lambda>msg.
       ic ctx (AGetEventRequest (Some msg)) Audit_GetEvent_FullMethodName (\<lambda>c req w2. case req of
           AGetEventRequest m \<Rightarrow> boxed AEvent (GetEvent asrv c m w2)
         | _ \<Rightarrow> (Panic (failed_assertion (audit_type_name req) ''*grpc.GetEventRequest''), w2)))"
  "Audit_ListEvents_Handler asrv ctx adec (Some ic) w =
     decoded (dec_ListEventsRequest adec ListEventsRequest_zero w) (\<lambda>msg.
       ic ctx (AListEventsRequest (Some msg)) Audit_ListEvents_FullMethodName (\<lambda>c req w2. case req of
           AListEventsRequest m \<Rightarrow> boxed AListEventsResponse (ListEvents asrv c m w2)
         | _ \<Rightarrow> (Panic (failed_assertion (audit_type_name req) ''*grpc.ListEventsRequest''), w2)))"
  by (simp_all only: Audit_Handler_defs decoded_def option.case)

text \<open>The chain both servers install (\<open>queue_interceptors_are_audit\<close>).\<close>

abbreviation server_chain_of :: "grpc_status \<Rightarrow> ('c, 'q, 'r, 'a world_scheme) unary_interceptor" where
  "server_chain_of st \<equiv> nest (audit_Logging st) (audit_Recovery st)"

section \<open>Properties\<close>

text \<open>
  C20: The generated handlers are type-safe behind the server's interceptors: in all seven the
  assertion on the intercepted request always succeeds, and the method is called with
  exactly the message that was decoded, never with nil; so each handler equals one without
  the assertion.
\<close>

theorem handlers_type_safe:
  fixes srv :: "('c, 'd, 't, 'e, 'a world_scheme) QueueServer" and asrv :: "('c, 'u, 'a world_scheme) AuditServer"
  shows
  "Queue_CreateTopic_Handler srv ctx dec (Some (server_chain_of st)) w =
     decoded (dec_CreateTopicRequest dec CreateTopicRequest_zero w) (\<lambda>msg.
       server_chain_of st ctx (QCreateTopicRequest (Some msg)) Queue_CreateTopic_FullMethodName
         (\<lambda>c (_ :: ('d, 't, 'e) queue_any) w2. boxed QTopic (CreateTopic srv c (Some msg) w2)))
   \<and> Queue_Publish_Handler srv ctx dec (Some (server_chain_of st)) w =
     decoded (dec_PublishRequest dec PublishRequest_zero w) (\<lambda>msg.
       server_chain_of st ctx (QPublishRequest (Some msg)) Queue_Publish_FullMethodName
         (\<lambda>c (_ :: ('d, 't, 'e) queue_any) w2. boxed QPublishResponse (Publish srv c (Some msg) w2)))
   \<and> Queue_Consume_Handler srv ctx dec (Some (server_chain_of st)) w =
     decoded (dec_ConsumeRequest dec ConsumeRequest_zero w) (\<lambda>msg.
       server_chain_of st ctx (QConsumeRequest (Some msg)) Queue_Consume_FullMethodName
         (\<lambda>c (_ :: ('d, 't, 'e) queue_any) w2. boxed QConsumeResponse (Consume srv c (Some msg) w2)))
   \<and> Queue_Ack_Handler srv ctx dec (Some (server_chain_of st)) w =
     decoded (dec_AckRequest dec AckRequest_zero w) (\<lambda>msg.
       server_chain_of st ctx (QAckRequest (Some msg)) Queue_Ack_FullMethodName
         (\<lambda>c (_ :: ('d, 't, 'e) queue_any) w2. boxed QEmpty (Ack srv c (Some msg) w2)))
   \<and> Audit_Ingest_Handler asrv ctx adec (Some (server_chain_of st)) w =
     decoded (dec_IngestRequest adec IngestRequest_zero w) (\<lambda>msg.
       server_chain_of st ctx (AIngestRequest (Some msg)) Audit_Ingest_FullMethodName
         (\<lambda>c (_ :: 'u audit_any) w2. boxed AIngestResponse (Ingest asrv c (Some msg) w2)))
   \<and> Audit_GetEvent_Handler asrv ctx adec (Some (server_chain_of st)) w =
     decoded (dec_GetEventRequest adec GetEventRequest_zero w) (\<lambda>msg.
       server_chain_of st ctx (AGetEventRequest (Some msg)) Audit_GetEvent_FullMethodName
         (\<lambda>c (_ :: 'u audit_any) w2. boxed AEvent (GetEvent asrv c (Some msg) w2)))
   \<and> Audit_ListEvents_Handler asrv ctx adec (Some (server_chain_of st)) w =
     decoded (dec_ListEventsRequest adec ListEventsRequest_zero w) (\<lambda>msg.
       server_chain_of st ctx (AListEventsRequest (Some msg)) Audit_ListEvents_FullMethodName
         (\<lambda>c (_ :: 'u audit_any) w2. boxed AListEventsResponse (ListEvents asrv c (Some msg) w2)))"
  unfolding Queue_Handler_decoded Audit_Handler_decoded
  by (intro conjI decoded_cong chain_keeps.both.keeps) simp_all

end
