(* ===== verification/Pb_Init.thy ===== *)
theory Pb_Init
  imports Pb_Queue Pb_Audit
begin

text \<open>
  The package initialisation of the generated message code of both services, and what its
  descriptors are afterwards.
\<close>

text \<open>
  Package initialisation of the generated code is idempotent and loses nothing: a second
  \<open>init\<close> changes no variable; although the raw descriptor is dropped, every \<open>Descriptor\<close> call
  returns its gzip, compressed once however often it is asked for; and without unsafe
  pointers the exporter at each message's index accepts exactly the Go type listed there.
\<close>

lemma proto_init_keeps_descriptors:
  "(let p = queue_proto_init unsafe build (queue_initial raw) in
      queue_proto_init u' b' p = p \<and> pb_rawDesc p = []
      \<and> fst (Descriptor gzip i p) = (gzip raw, [i])
      \<and> fst (Descriptor gzip j (snd (Descriptor gzip i p))) = (gzip raw, [j]))
   \<and> (let p = audit_proto_init unsafe build (audit_initial raw) in
      audit_proto_init u' b' p = p \<and> pb_rawDesc p = []
      \<and> fst (Descriptor gzip i p) = (gzip raw, [i])
      \<and> fst (Descriptor gzip j (snd (Descriptor gzip i p))) = (gzip raw, [j]))
   \<and> take 8 (pb_exporters (queue_proto_init False build (queue_initial raw)))
       = map (map_option exporter) (take 8 queue_goTypes)
   \<and> pb_exporters (audit_proto_init False build (audit_initial raw))
       = map (map_option exporter) (take 11 audit_goTypes)"
  by (simp add: queue_proto_init_def audit_proto_init_def queue_initial_def audit_initial_def
      Descriptor_def rawDescGZIP_def queue_goTypes_def audit_goTypes_def Let_def)

section \<open>Struct tags and type tables\<close>

text \<open>Every message's struct tags use distinct, valid field numbers and distinct names.\<close>

lemma queue_tags_ok:
  "list_all tags_ok [Topic_tags, CreateTopicRequest_tags, PublishRequest_tags, PublishResponse_tags,
     ConsumeRequest_tags, LeasedMessage_tags, ConsumeResponse_tags, AckRequest_tags]"
  by (simp add: tags_ok_def Topic_tags_def CreateTopicRequest_tags_def PublishRequest_tags_def
      PublishResponse_tags_def ConsumeRequest_tags_def LeasedMessage_tags_def ConsumeResponse_tags_def
      AckRequest_tags_def)

lemma audit_tags_ok:
  "list_all tags_ok [Event_tags, Actor_tags, What_tags, Where_tags, Why_tags, How_tags,
     IngestRequest_tags, IngestResponse_tags, GetEventRequest_tags, ListEventsRequest_tags,
     ListEventsResponse_tags]"
  by (simp add: tags_ok_def Event_tags_def Actor_tags_def What_tags_def Where_tags_def Why_tags_def
      How_tags_def IngestRequest_tags_def IngestResponse_tags_def GetEventRequest_tags_def
      ListEventsRequest_tags_def ListEventsResponse_tags_def)

end
