(* ===== verification/Pb_Reflect.thy ===== *)
theory Pb_Reflect
  imports Pb_Init
begin

text \<open>
  The reflection methods of the generated messages (\<open>modules/queue/src/route/grpc/queue.pb.go\<close>,
  \<open>modules/audit/src/route/grpc/audit.pb.go\<close>).  A message struct holds, besides its fields, a
  \<open>MessageState\<close> in which the runtime keeps a pointer to the message's type information: an
  entry of the package's \<open>msgTypes\<close>, here its index.  \<open>unsafe\<close> is
  \<open>protoimpl.UnsafeEnabled\<close>.
\<close>

section \<open>\<open>Reset\<close>, \<open>ProtoReflect\<close>, \<open>Descriptor\<close>\<close>

record 'm stateful =
  fields_of :: 'm
  message_info :: "nat option"

text \<open>What \<open>ProtoReflect\<close> returns: the message's own state, or a wrapper, with the type information.\<close>

datatype reflection = StateOf (info_index: nat) | MessageOf (info_index: nat)

definition Reset_at :: "'m \<Rightarrow> nat \<Rightarrow> bool \<Rightarrow> 'm stateful option \<Rightarrow> 'm stateful option outcome" where
  "Reset_at zero mi unsafe x =
    (case x of
       None \<Rightarrow> Panic nil_dereference
     | Some _ \<Rightarrow>
         (let fresh = \<lparr>fields_of = zero, message_info = None\<rparr>
          in Ret (Some (if unsafe then fresh\<lparr>message_info := Some mi\<rparr> else fresh))))"

definition ProtoReflect_at :: "nat \<Rightarrow> bool \<Rightarrow> 'm stateful option \<Rightarrow> reflection \<times> 'm stateful option" where
  "ProtoReflect_at mi unsafe x =
    (case x of
       Some m \<Rightarrow>
         if unsafe then
           (let m1 = (if message_info m = None then m\<lparr>message_info := Some mi\<rparr> else m)
            in (StateOf (the (message_info m1)), Some m1))
         else (MessageOf mi, x)
     | None \<Rightarrow> (MessageOf mi, x))"

section \<open>Messages of queue\<close>

definition Topic_ResetState :: "bool \<Rightarrow> ('d, 't) Topic stateful option \<Rightarrow> ('d, 't) Topic stateful option outcome" where
  "Topic_ResetState unsafe x = Reset_at Topic_zero 0 unsafe x"

definition Topic_ProtoReflect :: "bool \<Rightarrow> ('d, 't) Topic stateful option \<Rightarrow> reflection \<times> ('d, 't) Topic stateful option" where
  "Topic_ProtoReflect unsafe x = ProtoReflect_at 0 unsafe x"

definition Topic_Descriptor :: "(nat list \<Rightarrow> nat list) \<Rightarrow> 'file pb_package \<Rightarrow> (nat list \<times> nat list) \<times> 'file pb_package" where
  "Topic_Descriptor gzip p = Descriptor gzip 0 p"

definition CreateTopicRequest_ResetState :: "bool \<Rightarrow> 'd CreateTopicRequest stateful option \<Rightarrow> 'd CreateTopicRequest stateful option outcome" where
  "CreateTopicRequest_ResetState unsafe x = Reset_at CreateTopicRequest_zero 1 unsafe x"

definition CreateTopicRequest_ProtoReflect :: "bool \<Rightarrow> 'd CreateTopicRequest stateful option \<Rightarrow> reflection \<times> 'd CreateTopicRequest stateful option" where
  "CreateTopicRequest_ProtoReflect unsafe x = ProtoReflect_at 1 unsafe x"

definition CreateTopicRequest_Descriptor :: "(nat list \<Rightarrow> nat list) \<Rightarrow> 'file pb_package \<Rightarrow> (nat list \<times> nat list) \<times> 'file pb_package" where
  "CreateTopicRequest_Descriptor gzip p = Descriptor gzip 1 p"

definition PublishRequest_ResetState :: "bool \<Rightarrow> 't PublishRequest stateful option \<Rightarrow> 't PublishRequest stateful option outcome" where
  "PublishRequest_ResetState unsafe x = Reset_at PublishRequest_zero 2 unsafe x"

definition PublishRequest_ProtoReflect :: "bool \<Rightarrow> 't PublishRequest stateful option \<Rightarrow> reflection \<times> 't PublishRequest stateful option" where
  "PublishRequest_ProtoReflect unsafe x = ProtoReflect_at 2 unsafe x"

definition PublishRequest_Descriptor :: "(nat list \<Rightarrow> nat list) \<Rightarrow> 'file pb_package \<Rightarrow> (nat list \<times> nat list) \<times> 'file pb_package" where
  "PublishRequest_Descriptor gzip p = Descriptor gzip 2 p"

definition PublishResponse_ResetState :: "bool \<Rightarrow> PublishResponse stateful option \<Rightarrow> PublishResponse stateful option outcome" where
  "PublishResponse_ResetState unsafe x = Reset_at PublishResponse_zero 3 unsafe x"

definition PublishResponse_ProtoReflect :: "bool \<Rightarrow> PublishResponse stateful option \<Rightarrow> reflection \<times> PublishResponse stateful option" where
  "PublishResponse_ProtoReflect unsafe x = ProtoReflect_at 3 unsafe x"

definition PublishResponse_Descriptor :: "(nat list \<Rightarrow> nat list) \<Rightarrow> 'file pb_package \<Rightarrow> (nat list \<times> nat list) \<times> 'file pb_package" where
  "PublishResponse_Descriptor gzip p = Descriptor gzip 3 p"

definition ConsumeRequest_ResetState :: "bool \<Rightarrow> 'd ConsumeRequest stateful option \<Rightarrow> 'd ConsumeRequest stateful option outcome" where
  "ConsumeRequest_ResetState unsafe x = Reset_at ConsumeRequest_zero 4 unsafe x"

definition ConsumeRequest_ProtoReflect :: "bool \<Rightarrow> 'd ConsumeRequest stateful option \<Rightarrow> reflection \<times> 'd ConsumeRequest stateful option" where
  "ConsumeRequest_ProtoReflect unsafe x = ProtoReflect_at 4 unsafe x"

definition ConsumeRequest_Descriptor :: "(nat list \<Rightarrow> nat list) \<Rightarrow> 'file pb_package \<Rightarrow> (nat list \<times> nat list) \<times> 'file pb_package" where
  "ConsumeRequest_Descriptor gzip p = Descriptor gzip 4 p"

definition LeasedMessage_ResetState :: "bool \<Rightarrow> 't LeasedMessage stateful option \<Rightarrow> 't LeasedMessage stateful option outcome" where
  "LeasedMessage_ResetState unsafe x = Reset_at LeasedMessage_zero 5 unsafe x"

definition LeasedMessage_ProtoReflect :: "bool \<Rightarrow> 't LeasedMessage stateful option \<Rightarrow> reflection \<times> 't LeasedMessage stateful option" where
  "LeasedMessage_ProtoReflect unsafe x = ProtoReflect_at 5 unsafe x"

definition LeasedMessage_Descriptor :: "(nat list \<Rightarrow> nat list) \<Rightarrow> 'file pb_package \<Rightarrow> (nat list \<times> nat list) \<times> 'file pb_package" where
  "LeasedMessage_Descriptor gzip p = Descriptor gzip 5 p"

definition ConsumeResponse_ResetState :: "bool \<Rightarrow> 't ConsumeResponse stateful option \<Rightarrow> 't ConsumeResponse stateful option outcome" where
  "ConsumeResponse_ResetState unsafe x = Reset_at ConsumeResponse_zero 6 unsafe x"

definition ConsumeResponse_ProtoReflect :: "bool \<Rightarrow> 't ConsumeResponse stateful option \<Rightarrow> reflection \<times> 't ConsumeResponse stateful option" where
  "ConsumeResponse_ProtoReflect unsafe x = ProtoReflect_at 6 unsafe x"

definition ConsumeResponse_Descriptor :: "(nat list \<Rightarrow> nat list) \<Rightarrow> 'file pb_package \<Rightarrow> (nat list \<times> nat list) \<times> 'file pb_package" where
  "ConsumeResponse_Descriptor gzip p = Descriptor gzip 6 p"

definition AckRequest_ResetState :: "bool \<Rightarrow> AckRequest stateful option \<Rightarrow> AckRequest stateful option outcome" where
  "AckRequest_ResetState unsafe x = Reset_at AckRequest_zero 7 unsafe x"

definition AckRequest_ProtoReflect :: "bool \<Rightarrow> AckRequest stateful option \<Rightarrow> reflection \<times> AckRequest stateful option" where
  "AckRequest_ProtoReflect unsafe x = ProtoReflect_at 7 unsafe x"

definition AckRequest_Descriptor :: "(nat list \<Rightarrow> nat list) \<Rightarrow> 'file pb_package \<Rightarrow> (nat list \<times> nat list) \<times> 'file pb_package" where
  "AckRequest_Descriptor gzip p = Descriptor gzip 7 p"

lemmas queue_reflect_defs =
  Topic_ResetState_def Topic_ProtoReflect_def Topic_Descriptor_def
  CreateTopicRequest_ResetState_def CreateTopicRequest_ProtoReflect_def CreateTopicRequest_Descriptor_def
  PublishRequest_ResetState_def PublishRequest_ProtoReflect_def PublishRequest_Descriptor_def
  PublishResponse_ResetState_def PublishResponse_ProtoReflect_def PublishResponse_Descriptor_def
  ConsumeRequest_ResetState_def ConsumeRequest_ProtoReflect_def ConsumeRequest_Descriptor_def
  LeasedMessage_ResetState_def LeasedMessage_ProtoReflect_def LeasedMessage_Descriptor_def
  ConsumeResponse_ResetState_def ConsumeResponse_ProtoReflect_def ConsumeResponse_Descriptor_def
  AckRequest_ResetState_def AckRequest_ProtoReflect_def AckRequest_Descriptor_def

section \<open>Messages of audit\<close>

definition Event_ResetState :: "bool \<Rightarrow> 't Event stateful option \<Rightarrow> 't Event stateful option outcome" where
  "Event_ResetState unsafe x = Reset_at Event_zero 0 unsafe x"

definition Event_ProtoReflect :: "bool \<Rightarrow> 't Event stateful option \<Rightarrow> reflection \<times> 't Event stateful option" where
  "Event_ProtoReflect unsafe x = ProtoReflect_at 0 unsafe x"

definition Event_Descriptor :: "(nat list \<Rightarrow> nat list) \<Rightarrow> 'file pb_package \<Rightarrow> (nat list \<times> nat list) \<times> 'file pb_package" where
  "Event_Descriptor gzip p = Descriptor gzip 0 p"

definition Actor_ResetState :: "bool \<Rightarrow> Actor stateful option \<Rightarrow> Actor stateful option outcome" where
  "Actor_ResetState unsafe x = Reset_at Actor_zero 1 unsafe x"

definition Actor_ProtoReflect :: "bool \<Rightarrow> Actor stateful option \<Rightarrow> reflection \<times> Actor stateful option" where
  "Actor_ProtoReflect unsafe x = ProtoReflect_at 1 unsafe x"

definition Actor_Descriptor :: "(nat list \<Rightarrow> nat list) \<Rightarrow> 'file pb_package \<Rightarrow> (nat list \<times> nat list) \<times> 'file pb_package" where
  "Actor_Descriptor gzip p = Descriptor gzip 1 p"

definition What_ResetState :: "bool \<Rightarrow> What stateful option \<Rightarrow> What stateful option outcome" where
  "What_ResetState unsafe x = Reset_at What_zero 2 unsafe x"

definition What_ProtoReflect :: "bool \<Rightarrow> What stateful option \<Rightarrow> reflection \<times> What stateful option" where
  "What_ProtoReflect unsafe x = ProtoReflect_at 2 unsafe x"

definition What_Descriptor :: "(nat list \<Rightarrow> nat list) \<Rightarrow> 'file pb_package \<Rightarrow> (nat list \<times> nat list) \<times> 'file pb_package" where
  "What_Descriptor gzip p = Descriptor gzip 2 p"

definition Where_ResetState :: "bool \<Rightarrow> Where stateful option \<Rightarrow> Where stateful option outcome" where
  "Where_ResetState unsafe x = Reset_at Where_zero 3 unsafe x"

definition Where_ProtoReflect :: "bool \<Rightarrow> Where stateful option \<Rightarrow> reflection \<times> Where stateful option" where
  "Where_ProtoReflect unsafe x = ProtoReflect_at 3 unsafe x"

definition Where_Descriptor :: "(nat list \<Rightarrow> nat list) \<Rightarrow> 'file pb_package \<Rightarrow> (nat list \<times> nat list) \<times> 'file pb_package" where
  "Where_Descriptor gzip p = Descriptor gzip 3 p"

definition Why_ResetState :: "bool \<Rightarrow> Why stateful option \<Rightarrow> Why stateful option outcome" where
  "Why_ResetState unsafe x = Reset_at Why_zero 4 unsafe x"

definition Why_ProtoReflect :: "bool \<Rightarrow> Why stateful option \<Rightarrow> reflection \<times> Why stateful option" where
  "Why_ProtoReflect unsafe x = ProtoReflect_at 4 unsafe x"

definition Why_Descriptor :: "(nat list \<Rightarrow> nat list) \<Rightarrow> 'file pb_package \<Rightarrow> (nat list \<times> nat list) \<times> 'file pb_package" where
  "Why_Descriptor gzip p = Descriptor gzip 4 p"

definition How_ResetState :: "bool \<Rightarrow> How stateful option \<Rightarrow> How stateful option outcome" where
  "How_ResetState unsafe x = Reset_at How_zero 5 unsafe x"

definition How_ProtoReflect :: "bool \<Rightarrow> How stateful option \<Rightarrow> reflection \<times> How stateful option" where
  "How_ProtoReflect unsafe x = ProtoReflect_at 5 unsafe x"

definition How_Descriptor :: "(nat list \<Rightarrow> nat list) \<Rightarrow> 'file pb_package \<Rightarrow> (nat list \<times> nat list) \<times> 'file pb_package" where
  "How_Descriptor gzip p = Descriptor gzip 5 p"

definition IngestRequest_ResetState :: "bool \<Rightarrow> 't IngestRequest stateful option \<Rightarrow> 't IngestRequest stateful option outcome" where
  "IngestRequest_ResetState unsafe x = Reset_at IngestRequest_zero 6 unsafe x"

definition IngestRequest_ProtoReflect :: "bool \<Rightarrow> 't IngestRequest stateful option \<Rightarrow> reflection \<times> 't IngestRequest stateful option" where
  "IngestRequest_ProtoReflect unsafe x = ProtoReflect_at 6 unsafe x"

definition IngestRequest_Descriptor :: "(nat list \<Rightarrow> nat list) \<Rightarrow> 'file pb_package \<Rightarrow> (nat list \<times> nat list) \<times> 'file pb_package" where
  "IngestRequest_Descriptor gzip p = Descriptor gzip 6 p"

definition IngestResponse_ResetState :: "bool \<Rightarrow> 't IngestResponse stateful option \<Rightarrow> 't IngestResponse stateful option outcome" where
  "IngestResponse_ResetState unsafe x = Reset_at IngestResponse_zero 7 unsafe x"

definition IngestResponse_ProtoReflect :: "bool \<Rightarrow> 't IngestResponse stateful option \<Rightarrow> reflection \<times> 't IngestResponse stateful option" where
  "IngestResponse_ProtoReflect unsafe x = ProtoReflect_at 7 unsafe x"

definition IngestResponse_Descriptor :: "(nat list \<Rightarrow> nat list) \<Rightarrow> 'file pb_package \<Rightarrow> (nat list \<times> nat list) \<times> 'file pb_package" where
  "IngestResponse_Descriptor gzip p = Descriptor gzip 7 p"

definition GetEventRequest_ResetState :: "bool \<Rightarrow> GetEventRequest stateful option \<Rightarrow> GetEventRequest stateful option outcome" where
  "GetEventRequest_ResetState unsafe x = Reset_at GetEventRequest_zero 8 unsafe x"

definition GetEventRequest_ProtoReflect :: "bool \<Rightarrow> GetEventRequest stateful option \<Rightarrow> reflection \<times> GetEventRequest stateful option" where
  "GetEventRequest_ProtoReflect unsafe x = ProtoReflect_at 8 unsafe x"

definition GetEventRequest_Descriptor :: "(nat list \<Rightarrow> nat list) \<Rightarrow> 'file pb_package \<Rightarrow> (nat list \<times> nat list) \<times> 'file pb_package" where
  "GetEventRequest_Descriptor gzip p = Descriptor gzip 8 p"

definition ListEventsRequest_ResetState :: "bool \<Rightarrow> 't ListEventsRequest stateful option \<Rightarrow> 't ListEventsRequest stateful option outcome" where
  "ListEventsRequest_ResetState unsafe x = Reset_at ListEventsRequest_zero 9 unsafe x"

definition ListEventsRequest_ProtoReflect :: "bool \<Rightarrow> 't ListEventsRequest stateful option \<Rightarrow> reflection \<times> 't ListEventsRequest stateful option" where
  "ListEventsRequest_ProtoReflect unsafe x = ProtoReflect_at 9 unsafe x"

definition ListEventsRequest_Descriptor :: "(nat list \<Rightarrow> nat list) \<Rightarrow> 'file pb_package \<Rightarrow> (nat list \<times> nat list) \<times> 'file pb_package" where
  "ListEventsRequest_Descriptor gzip p = Descriptor gzip 9 p"

definition ListEventsResponse_ResetState :: "bool \<Rightarrow> 't ListEventsResponse stateful option \<Rightarrow> 't ListEventsResponse stateful option outcome" where
  "ListEventsResponse_ResetState unsafe x = Reset_at ListEventsResponse_zero 10 unsafe x"

definition ListEventsResponse_ProtoReflect :: "bool \<Rightarrow> 't ListEventsResponse stateful option \<Rightarrow> reflection \<times> 't ListEventsResponse stateful option" where
  "ListEventsResponse_ProtoReflect unsafe x = ProtoReflect_at 10 unsafe x"

definition ListEventsResponse_Descriptor :: "(nat list \<Rightarrow> nat list) \<Rightarrow> 'file pb_package \<Rightarrow> (nat list \<times> nat list) \<times> 'file pb_package" where
  "ListEventsResponse_Descriptor gzip p = Descriptor gzip 10 p"

lemmas audit_reflect_defs =
  Event_ResetState_def Event_ProtoReflect_def Event_Descriptor_def
  Actor_ResetState_def Actor_ProtoReflect_def Actor_Descriptor_def
  What_ResetState_def What_ProtoReflect_def What_Descriptor_def
  Where_ResetState_def Where_ProtoReflect_def Where_Descriptor_def
  Why_ResetState_def Why_ProtoReflect_def Why_Descriptor_def
  How_ResetState_def How_ProtoReflect_def How_Descriptor_def
  IngestRequest_ResetState_def IngestRequest_ProtoReflect_def IngestRequest_Descriptor_def
  IngestResponse_ResetState_def IngestResponse_ProtoReflect_def IngestResponse_Descriptor_def
  GetEventRequest_ResetState_def GetEventRequest_ProtoReflect_def GetEventRequest_Descriptor_def
  ListEventsRequest_ResetState_def ListEventsRequest_ProtoReflect_def ListEventsRequest_Descriptor_def
  ListEventsResponse_ResetState_def ListEventsResponse_ProtoReflect_def ListEventsResponse_Descriptor_def

section \<open>Which message a value is\<close>

text \<open>
  The states of a message that its own methods reach, from a struct literal, with any
  assignments to its fields in between.
\<close>

inductive method_reaches ::
    "(bool \<Rightarrow> 'm stateful option \<Rightarrow> reflection \<times> 'm stateful option)
      \<Rightarrow> (bool \<Rightarrow> 'm stateful option \<Rightarrow> 'm stateful option outcome) \<Rightarrow> 'm stateful option \<Rightarrow> bool"
  for reflect reset where
  nil: "method_reaches reflect reset None"
| literal: "method_reaches reflect reset (Some \<lparr>fields_of = m, message_info = None\<rparr>)"
| assign: "method_reaches reflect reset (Some x) \<Longrightarrow> method_reaches reflect reset (Some (x\<lparr>fields_of := m\<rparr>))"
| reflects: "method_reaches reflect reset x \<Longrightarrow> method_reaches reflect reset (snd (reflect u x))"
| resets: "method_reaches reflect reset x \<Longrightarrow> reset u x = Ret y \<Longrightarrow> method_reaches reflect reset y"

definition identifies :: "string option list \<Rightarrow> string
    \<Rightarrow> (bool \<Rightarrow> 'm stateful option \<Rightarrow> reflection \<times> 'm stateful option)
    \<Rightarrow> (bool \<Rightarrow> 'm stateful option \<Rightarrow> 'm stateful option outcome)
    \<Rightarrow> ('p \<Rightarrow> ('d \<times> nat list) \<times> 'p) \<Rightarrow> bool" where
  "identifies types name reflect reset desc \<longleftrightarrow>
    (\<exists>i. i < length types \<and> types ! i = Some name \<and> (\<forall>p. snd (fst (desc p)) = [i])
      \<and> (\<forall>x u. method_reaches reflect reset x \<longrightarrow> info_index (fst (reflect u x)) = i))"

lemma method_reaches_info:
  "method_reaches (ProtoReflect_at i) (Reset_at z i) x \<Longrightarrow> \<forall>m. x = Some m \<longrightarrow> message_info m \<in> {None, Some i}"
proof (induction rule: method_reaches.induct)
  case (reflects x u)
  then show ?case by (cases x) (auto simp: ProtoReflect_at_def Let_def split: if_splits)
next
  case (resets x u y)
  then show ?case by (cases x) (auto simp: Reset_at_def Let_def split: if_splits)
qed auto

lemma identifiesI:
  assumes "i < length types" and "types ! i = Some name" and "\<And>p. snd (fst (desc p)) = [i]"
  shows "identifies types name (ProtoReflect_at i) (Reset_at z i) desc"
proof -
  have "info_index (fst (ProtoReflect_at i u x)) = i"
    if "method_reaches (ProtoReflect_at i) (Reset_at z i) x" for x u
    using method_reaches_info [OF that] by (cases x) (auto simp: ProtoReflect_at_def Let_def)
  with assms show ?thesis unfolding identifies_def by blast
qed

lemma snd_fst_Descriptor: "snd (fst (Descriptor gzip i p)) = [i]"
  by (simp add: Descriptor_def split: prod.split)

section \<open>Properties\<close>

text \<open>
  C36: The generated methods never confuse message types: for each of the 19 messages there is
  one index at which the type table has its Go type, its \<open>Descriptor\<close> gives that index, and
  \<open>ProtoReflect\<close> gives that type information in every state the message's methods reach, a
  nil pointer included.
\<close>

theorem messages_identified:
  "identifies queue_goTypes ''Topic'' Topic_ProtoReflect Topic_ResetState (Topic_Descriptor gzip)
   \<and> identifies queue_goTypes ''CreateTopicRequest'' CreateTopicRequest_ProtoReflect CreateTopicRequest_ResetState (CreateTopicRequest_Descriptor gzip)
   \<and> identifies queue_goTypes ''PublishRequest'' PublishRequest_ProtoReflect PublishRequest_ResetState (PublishRequest_Descriptor gzip)
   \<and> identifies queue_goTypes ''PublishResponse'' PublishResponse_ProtoReflect PublishResponse_ResetState (PublishResponse_Descriptor gzip)
   \<and> identifies queue_goTypes ''ConsumeRequest'' ConsumeRequest_ProtoReflect ConsumeRequest_ResetState (ConsumeRequest_Descriptor gzip)
   \<and> identifies queue_goTypes ''LeasedMessage'' LeasedMessage_ProtoReflect LeasedMessage_ResetState (LeasedMessage_Descriptor gzip)
   \<and> identifies queue_goTypes ''ConsumeResponse'' ConsumeResponse_ProtoReflect ConsumeResponse_ResetState (ConsumeResponse_Descriptor gzip)
   \<and> identifies queue_goTypes ''AckRequest'' AckRequest_ProtoReflect AckRequest_ResetState (AckRequest_Descriptor gzip)
   \<and> identifies audit_goTypes ''Event'' Event_ProtoReflect Event_ResetState (Event_Descriptor gzip)
   \<and> identifies audit_goTypes ''Actor'' Actor_ProtoReflect Actor_ResetState (Actor_Descriptor gzip)
   \<and> identifies audit_goTypes ''What'' What_ProtoReflect What_ResetState (What_Descriptor gzip)
   \<and> identifies audit_goTypes ''Where'' Where_ProtoReflect Where_ResetState (Where_Descriptor gzip)
   \<and> identifies audit_goTypes ''Why'' Why_ProtoReflect Why_ResetState (Why_Descriptor gzip)
   \<and> identifies audit_goTypes ''How'' How_ProtoReflect How_ResetState (How_Descriptor gzip)
   \<and> identifies audit_goTypes ''IngestRequest'' IngestRequest_ProtoReflect IngestRequest_ResetState (IngestRequest_Descriptor gzip)
   \<and> identifies audit_goTypes ''IngestResponse'' IngestResponse_ProtoReflect IngestResponse_ResetState (IngestResponse_Descriptor gzip)
   \<and> identifies audit_goTypes ''GetEventRequest'' GetEventRequest_ProtoReflect GetEventRequest_ResetState (GetEventRequest_Descriptor gzip)
   \<and> identifies audit_goTypes ''ListEventsRequest'' ListEventsRequest_ProtoReflect ListEventsRequest_ResetState (ListEventsRequest_Descriptor gzip)
   \<and> identifies audit_goTypes ''ListEventsResponse'' ListEventsResponse_ProtoReflect ListEventsResponse_ResetState (ListEventsResponse_Descriptor gzip)"
  unfolding queue_reflect_defs [abs_def] audit_reflect_defs [abs_def]
  by (intro conjI identifiesI snd_fst_Descriptor) (simp_all add: queue_goTypes_def audit_goTypes_def)

end
