(* ===== verification/Wire_Format.thy ===== *)
theory Wire_Format
  imports Main "HOL-Library.Char_ord"
begin

text \<open>
  Reading a file descriptor: the documented protobuf wire format and the field numbers of
  \<open>descriptor.proto\<close>.  The reader is a specification of what the bytes in the generated
  code say; the code itself hands them to the protobuf runtime.
\<close>

section \<open>Tagged values\<close>

text \<open>A varint: seven bits per byte, low bits first, the top bit says that more follow.\<close>

fun varint :: "nat list \<Rightarrow> (nat \<times> nat list) option" where
  "varint [] = None"
| "varint (b # bs) =
    (if b < 128 then Some (b, bs)
     else case varint bs of None \<Rightarrow> None | Some (v, r) \<Rightarrow> Some (b - 128 + 128 * v, r))"

datatype wire_value = VarintValue nat | BytesValue "nat list"

text \<open>
  One field: a tag, whose lower three bits are the wire type, and its value.  Only varints
  (type 0) and length-delimited values (type 2) occur in a descriptor.
\<close>

definition wire_field :: "nat list \<Rightarrow> ((nat \<times> wire_value) \<times> nat list) option" where
  "wire_field bs =
    (case varint bs of
       None \<Rightarrow> None
     | Some (tag, r) \<Rightarrow>
         (case varint r of
            None \<Rightarrow> None
          | Some (n, r1) \<Rightarrow>
              if tag mod 8 = 0 then Some ((tag div 8, VarintValue n), r1)
              else if tag mod 8 = 2 \<and> n \<le> length r1
              then Some ((tag div 8, BytesValue (take n r1)), drop n r1)
              else None))"

lemma varint_shorter: "varint bs = Some (v, r) \<Longrightarrow> length r < length bs"
  by (induction bs arbitrary: v r rule: varint.induct) (auto split: if_splits option.splits prod.splits)

lemma wire_field_shorter: "wire_field bs = Some (f, r) \<Longrightarrow> length r < length bs"
  by (auto simp: wire_field_def split: if_splits option.splits prod.splits dest!: varint_shorter)

function wire_fields :: "nat list \<Rightarrow> (nat \<times> wire_value) list option" where
  "wire_fields bs =
    (if bs = [] then Some []
     else case wire_field bs of
       None \<Rightarrow> None
     | Some (f, r) \<Rightarrow> map_option (Cons f) (wire_fields r))"
  by pat_completeness auto
termination
  by (relation "measure length") (auto dest: wire_field_shorter)

declare wire_fields.simps [simp del]

lemma wire_fields_Nil [simp]: "wire_fields [] = Some []"
  by (subst wire_fields.simps) simp

section \<open>Continuations\<close>

text \<open>What is read whole is read the same before any continuation.\<close>

lemma varint_append: "varint a = Some (v, r) \<Longrightarrow> varint (a @ b) = Some (v, r @ b)"
  by (induction a arbitrary: v r rule: varint.induct) (auto split: if_splits option.splits prod.splits)

lemma wire_field_append: "wire_field a = Some (f, r) \<Longrightarrow> wire_field (a @ b) = Some (f, r @ b)"
  by (auto simp: wire_field_def varint_append split: if_splits option.splits prod.splits)

lemma wire_fields_append:
  "wire_fields a = Some xs \<Longrightarrow> wire_fields (a @ b) = map_option ((@) xs) (wire_fields b)"
proof (induction a arbitrary: xs rule: wire_fields.induct)
  case (1 bs)
  show ?case
  proof (cases "bs = []")
    case True
    then show ?thesis using "1.prems" by (simp add: option.map_ident)
  next
    case False
    then obtain f r ys where f: "wire_field bs = Some (f, r)" and r: "wire_fields r = Some ys" "xs = f # ys"
      using "1.prems" by (auto simp: wire_fields.simps [of bs] split: option.splits)
    have "wire_fields (r @ b) = map_option ((@) ys) (wire_fields b)"
      by (rule "1.IH" [OF False f _ r(1)]) simp
    then show ?thesis
      using False r(2) wire_field_append [OF f]
      by (simp add: wire_fields.simps [of "bs @ b"] option.map_comp comp_def)
  qed
qed

section \<open>Descriptors\<close>

definition text_of :: "nat list \<Rightarrow> string" where "text_of bs = map char_of bs"

text \<open>The last value of a field, and all values of a repeated one.\<close>

fun bytes_of :: "nat \<Rightarrow> (nat \<times> wire_value) list \<Rightarrow> nat list list" where
  "bytes_of k [] = []"
| "bytes_of k ((n, BytesValue bs) # fs) = (if n = k then bs # bytes_of k fs else bytes_of k fs)"
| "bytes_of k ((n, VarintValue _) # fs) = bytes_of k fs"

fun number_of :: "nat \<Rightarrow> (nat \<times> wire_value) list \<Rightarrow> nat \<Rightarrow> nat" where
  "number_of k [] d = d"
| "number_of k ((n, VarintValue v) # fs) d = number_of k fs (if n = k then v else d)"
| "number_of k ((n, BytesValue _) # fs) d = number_of k fs d"

definition text_at :: "nat \<Rightarrow> (nat \<times> wire_value) list \<Rightarrow> string" where
  "text_at k fs = (case rev (bytes_of k fs) of [] \<Rightarrow> [] | b # _ \<Rightarrow> text_of b)"

record field_desc =
  fd_name :: string       \<comment> \<open>\<open>FieldDescriptorProto.name\<close> = 1\<close>
  fd_number :: nat        \<comment> \<open>\<open>number\<close> = 3\<close>
  fd_label :: nat         \<comment> \<open>\<open>label\<close> = 4: 1 optional, 3 repeated\<close>
  fd_type :: nat          \<comment> \<open>\<open>type\<close> = 5: 4 uint64, 9 string, 11 message, 12 bytes, 13 uint32\<close>
  fd_type_name :: string  \<comment> \<open>\<open>type_name\<close> = 6\<close>

definition read_field :: "nat list \<Rightarrow> field_desc option" where
  "read_field bs = map_option
    (\<lambda>fs. \<lparr>fd_name = text_at 1 fs, fd_number = number_of 3 fs 0, fd_label = number_of 4 fs 0,
           fd_type = number_of 5 fs 0, fd_type_name = text_at 6 fs\<rparr>) (wire_fields bs)"

record message_desc =
  md_name :: string             \<comment> \<open>\<open>DescriptorProto.name\<close> = 1\<close>
  md_fields :: "field_desc list"  \<comment> \<open>\<open>field\<close> = 2\<close>

definition read_message :: "nat list \<Rightarrow> message_desc option" where
  "read_message bs =
    (case wire_fields bs of
       None \<Rightarrow> None
     | Some fs \<Rightarrow> map_option (\<lambda>ds. \<lparr>md_name = text_at 1 fs, md_fields = ds\<rparr>)
         (those (map read_field (bytes_of 2 fs))))"

text \<open>Method name, input and output type: \<open>MethodDescriptorProto\<close> fields 1, 2 and 3.\<close>

definition read_method :: "nat list \<Rightarrow> (string \<times> string \<times> string) option" where
  "read_method bs = map_option (\<lambda>fs. (text_at 1 fs, text_at 2 fs, text_at 3 fs)) (wire_fields bs)"

record service_desc =
  sd_name :: string
  sd_methods :: "(string \<times> string \<times> string) list"

definition read_service :: "nat list \<Rightarrow> service_desc option" where
  "read_service bs =
    (case wire_fields bs of
       None \<Rightarrow> None
     | Some fs \<Rightarrow> map_option (\<lambda>ms. \<lparr>sd_name = text_at 1 fs, sd_methods = ms\<rparr>)
         (those (map read_method (bytes_of 2 fs))))"

text \<open>
  The parts of \<open>FileDescriptorProto\<close>: name 1, package 2, dependencies 3, messages 4,
  services 6, syntax 12; the options (8) are not read.
\<close>

datatype file_entry =
    NameEntry string
  | PackageEntry string
  | ImportEntry string
  | SyntaxEntry string
  | MessageEntry message_desc
  | ServiceEntry service_desc
  | OtherEntry nat

definition read_entry :: "nat \<times> wire_value \<Rightarrow> file_entry option" where
  "read_entry e = (case e of
     (n, VarintValue _) \<Rightarrow> Some (OtherEntry n)
   | (n, BytesValue bs) \<Rightarrow>
       if n = 1 then Some (NameEntry (text_of bs))
       else if n = 2 then Some (PackageEntry (text_of bs))
       else if n = 3 then Some (ImportEntry (text_of bs))
       else if n = 12 then Some (SyntaxEntry (text_of bs))
       else if n = 4 then map_option MessageEntry (read_message bs)
       else if n = 6 then map_option ServiceEntry (read_service bs)
       else Some (OtherEntry n))"

text \<open>The whole file, as its entries in order.\<close>

definition read_file :: "nat list \<Rightarrow> file_entry list option" where
  "read_file bs = (case wire_fields bs of None \<Rightarrow> None | Some fs \<Rightarrow> those (map read_entry fs))"

lemma those_append:
  "those xs = Some ys \<Longrightarrow> those (xs @ zs) = map_option ((@) ys) (those zs)"
proof (induction xs arbitrary: ys)
  case Nil
  have "(@) [] = (\<lambda>x. x)" by auto
  then show ?case using Nil by (simp add: option.map_ident)
next
  case (Cons x xs)
  obtain x' zs' where x: "x = Some x'" "those xs = Some zs'" "ys = x' # zs'"
    using Cons.prems by (auto split: option.splits)
  show ?case by (simp add: x Cons.IH [OF x(2)] option.map_comp comp_def)
qed

lemma read_file_append:
  assumes "read_file a = Some xs"
  shows "read_file (a @ b) = map_option ((@) xs) (read_file b)"
proof -
  obtain fs where fs: "wire_fields a = Some fs" "those (map read_entry fs) = Some xs"
    using assms by (auto simp: read_file_def split: option.splits)
  show ?thesis
    by (simp add: read_file_def wire_fields_append [OF fs(1)] those_append [OF fs(2)] split: option.split)
qed

text \<open>What evaluates the reader on given bytes.\<close>

lemma wire_fields_step:
  "bs \<noteq> [] \<Longrightarrow> wire_fields bs =
    (case wire_field bs of None \<Rightarrow> None | Some (f, r) \<Rightarrow> map_option (Cons f) (wire_fields r))"
  by (simp add: wire_fields.simps)

lemmas reader_defs = read_file_def read_entry_def read_message_def read_service_def read_method_def
  read_field_def wire_fields_step wire_field_def text_at_def text_of_def

end
