(* ===== verification/Proto_Source.thy ===== *)
theory Proto_Source
  imports Wire_Format
begin

text \<open>
  The interface definitions \<open>queue.proto\<close> and \<open>audit.proto\<close> as data, and the file
  descriptor that \<open>protoc\<close> documents for such a file.  Only the constructs the two files
  use are there: four scalar types, messages, \<open>map<string, string>\<close> and \<open>repeated\<close>.
\<close>

datatype proto_type = PString | PBytes | PUint32 | PUint64 | PMessage string | PMap

record proto_field =
  pf_repeated :: bool
  pf_type :: proto_type
  pf_name :: string
  pf_number :: nat

record proto_message =
  pm_name :: string
  pm_fields :: "proto_field list"

text \<open>\<open>pr_name\<close> is the path given to \<open>protoc\<close>.\<close>

record proto_file =
  pr_name :: string
  pr_package :: string
  pr_imports :: "string list"
  pr_messages :: "proto_message list"
  pr_service :: service_desc

section \<open>The descriptor of a file\<close>

text \<open>A name is a message of the file, or qualified by the package it comes from.\<close>

definition full_name :: "proto_file \<Rightarrow> string \<Rightarrow> string" where
  "full_name f n =
    (if n \<in> set (map pm_name (pr_messages f)) then ''.'' @ pr_package f @ ''.'' @ n else ''.'' @ n)"

text \<open>A map field is a repeated message named after the field in camel case.\<close>

fun upper :: "char \<Rightarrow> char" where
  "upper c = (if CHR ''a'' \<le> c \<and> c \<le> CHR ''z'' then char_of (of_char c - 32 :: nat) else c)"

fun camel :: "bool \<Rightarrow> string \<Rightarrow> string" where
  "camel up [] = []"
| "camel up (c # cs) =
    (if c = CHR ''_'' then camel True cs else (if up then upper c else c) # camel False cs)"

definition describe_field :: "proto_file \<Rightarrow> string \<Rightarrow> proto_field \<Rightarrow> field_desc" where
  "describe_field f msg pf =
    \<lparr>fd_name = pf_name pf, fd_number = pf_number pf,
     fd_label = (if pf_repeated pf \<or> pf_type pf = PMap then 3 else 1),
     fd_type = (case pf_type pf of PUint64 \<Rightarrow> 4 | PString \<Rightarrow> 9 | PMessage _ \<Rightarrow> 11 | PMap \<Rightarrow> 11
                | PBytes \<Rightarrow> 12 | PUint32 \<Rightarrow> 13),
     fd_type_name = (case pf_type pf of
         PMessage n \<Rightarrow> full_name f n
       | PMap \<Rightarrow> full_name f msg @ ''.'' @ camel True (pf_name pf) @ ''Entry''
       | _ \<Rightarrow> [])\<rparr>"

definition describe_message :: "proto_file \<Rightarrow> proto_message \<Rightarrow> message_desc" where
  "describe_message f m =
    \<lparr>md_name = pm_name m, md_fields = map (describe_field f (pm_name m)) (pm_fields m)\<rparr>"

definition describe_service :: "proto_file \<Rightarrow> service_desc" where
  "describe_service f =
    \<lparr>sd_name = sd_name (pr_service f),
     sd_methods = map (\<lambda>(n, i, r). (n, full_name f i, full_name f r)) (sd_methods (pr_service f))\<rparr>"

definition describe_file :: "proto_file \<Rightarrow> file_entry list" where
  "describe_file f =
    [NameEntry (pr_name f), PackageEntry (pr_package f)] @ map ImportEntry (pr_imports f)
    @ map (\<lambda>m. MessageEntry (describe_message f m)) (pr_messages f)
    @ [ServiceEntry (describe_service f), OtherEntry 8, SyntaxEntry ''proto3'']"

lemmas describe_defs = describe_message_def describe_field_def describe_service_def full_name_def

section \<open>\<open>queue.proto\<close>\<close>

definition queue_proto_Topic :: proto_message where
  "queue_proto_Topic = \<lparr>pm_name = ''Topic'', pm_fields =
    [\<lparr>pf_repeated = False, pf_type = PString, pf_name = ''name'', pf_number = 1\<rparr>,
     \<lparr>pf_repeated = False, pf_type = PMessage ''google.protobuf.Duration'', pf_name = ''default_ttl'', pf_number = 2\<rparr>,
     \<lparr>pf_repeated = False, pf_type = PUint32, pf_name = ''max_priority'', pf_number = 3\<rparr>,
     \<lparr>pf_repeated = False, pf_type = PMessage ''google.protobuf.Timestamp'', pf_name = ''created_at'', pf_number = 4\<rparr>]\<rparr>"

definition queue_proto_CreateTopicRequest :: proto_message where
  "queue_proto_CreateTopicRequest = \<lparr>pm_name = ''CreateTopicRequest'', pm_fields =
    [\<lparr>pf_repeated = False, pf_type = PString, pf_name = ''name'', pf_number = 1\<rparr>,
     \<lparr>pf_repeated = False, pf_type = PMessage ''google.protobuf.Duration'', pf_name = ''default_ttl'', pf_number = 2\<rparr>,
     \<lparr>pf_repeated = False, pf_type = PUint32, pf_name = ''max_priority'', pf_number = 3\<rparr>]\<rparr>"

definition queue_proto_PublishRequest :: proto_message where
  "queue_proto_PublishRequest = \<lparr>pm_name = ''PublishRequest'', pm_fields =
    [\<lparr>pf_repeated = False, pf_type = PString, pf_name = ''topic'', pf_number = 1\<rparr>,
     \<lparr>pf_repeated = False, pf_type = PBytes, pf_name = ''payload'', pf_number = 2\<rparr>,
     \<lparr>pf_repeated = False, pf_type = PUint32, pf_name = ''priority'', pf_number = 3\<rparr>,
     \<lparr>pf_repeated = False, pf_type = PString, pf_name = ''partition_key'', pf_number = 4\<rparr>,
     \<lparr>pf_repeated = False, pf_type = PMap, pf_name = ''headers'', pf_number = 5\<rparr>,
     \<lparr>pf_repeated = False, pf_type = PMessage ''google.protobuf.Timestamp'', pf_name = ''available_at'', pf_number = 6\<rparr>,
     \<lparr>pf_repeated = False, pf_type = PMessage ''google.protobuf.Timestamp'', pf_name = ''expires_at'', pf_number = 7\<rparr>]\<rparr>"

definition queue_proto_PublishResponse :: proto_message where
  "queue_proto_PublishResponse = \<lparr>pm_name = ''PublishResponse'', pm_fields =
    [\<lparr>pf_repeated = False, pf_type = PUint64, pf_name = ''message_id'', pf_number = 1\<rparr>]\<rparr>"

definition queue_proto_ConsumeRequest :: proto_message where
  "queue_proto_ConsumeRequest = \<lparr>pm_name = ''ConsumeRequest'', pm_fields =
    [\<lparr>pf_repeated = False, pf_type = PString, pf_name = ''topic'', pf_number = 1\<rparr>,
     \<lparr>pf_repeated = False, pf_type = PString, pf_name = ''subscription'', pf_number = 2\<rparr>,
     \<lparr>pf_repeated = False, pf_type = PUint32, pf_name = ''max_messages'', pf_number = 3\<rparr>,
     \<lparr>pf_repeated = False, pf_type = PMessage ''google.protobuf.Duration'', pf_name = ''max_wait'', pf_number = 4\<rparr>,
     \<lparr>pf_repeated = False, pf_type = PString, pf_name = ''consumer_id'', pf_number = 5\<rparr>]\<rparr>"

definition queue_proto_LeasedMessage :: proto_message where
  "queue_proto_LeasedMessage = \<lparr>pm_name = ''LeasedMessage'', pm_fields =
    [\<lparr>pf_repeated = False, pf_type = PString, pf_name = ''lease_id'', pf_number = 1\<rparr>,
     \<lparr>pf_repeated = False, pf_type = PUint64, pf_name = ''message_id'', pf_number = 2\<rparr>,
     \<lparr>pf_repeated = False, pf_type = PBytes, pf_name = ''payload'', pf_number = 3\<rparr>,
     \<lparr>pf_repeated = False, pf_type = PUint32, pf_name = ''priority'', pf_number = 4\<rparr>,
     \<lparr>pf_repeated = False, pf_type = PString, pf_name = ''partition_key'', pf_number = 5\<rparr>,
     \<lparr>pf_repeated = False, pf_type = PMap, pf_name = ''headers'', pf_number = 6\<rparr>,
     \<lparr>pf_repeated = False, pf_type = PString, pf_name = ''producer_id'', pf_number = 7\<rparr>,
     \<lparr>pf_repeated = False, pf_type = PUint32, pf_name = ''attempt'', pf_number = 8\<rparr>,
     \<lparr>pf_repeated = False, pf_type = PMessage ''google.protobuf.Timestamp'', pf_name = ''enqueued_at'', pf_number = 9\<rparr>,
     \<lparr>pf_repeated = False, pf_type = PMessage ''google.protobuf.Timestamp'', pf_name = ''leased_until'', pf_number = 10\<rparr>]\<rparr>"

definition queue_proto_ConsumeResponse :: proto_message where
  "queue_proto_ConsumeResponse = \<lparr>pm_name = ''ConsumeResponse'', pm_fields =
    [\<lparr>pf_repeated = True, pf_type = PMessage ''LeasedMessage'', pf_name = ''messages'', pf_number = 1\<rparr>]\<rparr>"

definition queue_proto_AckRequest :: proto_message where
  "queue_proto_AckRequest = \<lparr>pm_name = ''AckRequest'', pm_fields =
    [\<lparr>pf_repeated = False, pf_type = PString, pf_name = ''lease_id'', pf_number = 1\<rparr>]\<rparr>"

definition queue_proto_service :: service_desc where
  "queue_proto_service = \<lparr>sd_name = ''Queue'', sd_methods =
    [(''CreateTopic'', ''CreateTopicRequest'', ''Topic''),
     (''Publish'', ''PublishRequest'', ''PublishResponse''),
     (''Consume'', ''ConsumeRequest'', ''ConsumeResponse''),
     (''Ack'', ''AckRequest'', ''google.protobuf.Empty'')]\<rparr>"

definition queue_proto :: proto_file where
  "queue_proto = \<lparr>pr_name = ''route/grpc/queue.proto'', pr_package = ''queue.v1'',
     pr_imports = [''google/protobuf/timestamp.proto'', ''google/protobuf/duration.proto'', ''google/protobuf/empty.proto''],
     pr_messages = [queue_proto_Topic,
       queue_proto_CreateTopicRequest,
       queue_proto_PublishRequest,
       queue_proto_PublishResponse,
       queue_proto_ConsumeRequest,
       queue_proto_LeasedMessage,
       queue_proto_ConsumeResponse,
       queue_proto_AckRequest],
     pr_service = queue_proto_service\<rparr>"

lemmas queue_proto_message_defs =
  queue_proto_Topic_def
  queue_proto_CreateTopicRequest_def
  queue_proto_PublishRequest_def
  queue_proto_PublishResponse_def
  queue_proto_ConsumeRequest_def
  queue_proto_LeasedMessage_def
  queue_proto_ConsumeResponse_def
  queue_proto_AckRequest_def

section \<open>\<open>audit.proto\<close>\<close>

definition audit_proto_Event :: proto_message where
  "audit_proto_Event = \<lparr>pm_name = ''Event'', pm_fields =
    [\<lparr>pf_repeated = False, pf_type = PString, pf_name = ''event_id'', pf_number = 1\<rparr>,
     \<lparr>pf_repeated = False, pf_type = PMessage ''google.protobuf.Timestamp'', pf_name = ''occurred_at'', pf_number = 2\<rparr>,
     \<lparr>pf_repeated = False, pf_type = PMessage ''google.protobuf.Timestamp'', pf_name = ''recorded_at'', pf_number = 3\<rparr>,
     \<lparr>pf_repeated = False, pf_type = PUint32, pf_name = ''schema_version'', pf_number = 4\<rparr>,
     \<lparr>pf_repeated = False, pf_type = PMessage ''Actor'', pf_name = ''actor'', pf_number = 10\<rparr>,
     \<lparr>pf_repeated = False, pf_type = PMessage ''What'', pf_name = ''what'', pf_number = 11\<rparr>,
     \<lparr>pf_repeated = False, pf_type = PMessage ''Where'', pf_name = ''where'', pf_number = 12\<rparr>,
     \<lparr>pf_repeated = False, pf_type = PMessage ''Why'', pf_name = ''why'', pf_number = 13\<rparr>,
     \<lparr>pf_repeated = False, pf_type = PMessage ''How'', pf_name = ''how'', pf_number = 14\<rparr>,
     \<lparr>pf_repeated = False, pf_type = PBytes, pf_name = ''details'', pf_number = 20\<rparr>]\<rparr>"

definition audit_proto_Actor :: proto_message where
  "audit_proto_Actor = \<lparr>pm_name = ''Actor'', pm_fields =
    [\<lparr>pf_repeated = False, pf_type = PString, pf_name = ''type'', pf_number = 1\<rparr>,
     \<lparr>pf_repeated = False, pf_type = PString, pf_name = ''id'', pf_number = 2\<rparr>,
     \<lparr>pf_repeated = False, pf_type = PString, pf_name = ''ip'', pf_number = 3\<rparr>,
     \<lparr>pf_repeated = False, pf_type = PString, pf_name = ''user_agent'', pf_number = 4\<rparr>]\<rparr>"

definition audit_proto_What :: proto_message where
  "audit_proto_What = \<lparr>pm_name = ''What'', pm_fields =
    [\<lparr>pf_repeated = False, pf_type = PString, pf_name = ''action'', pf_number = 1\<rparr>,
     \<lparr>pf_repeated = False, pf_type = PString, pf_name = ''resource_type'', pf_number = 2\<rparr>,
     \<lparr>pf_repeated = False, pf_type = PString, pf_name = ''resource_id'', pf_number = 3\<rparr>]\<rparr>"

definition audit_proto_Where :: proto_message where
  "audit_proto_Where = \<lparr>pm_name = ''Where'', pm_fields =
    [\<lparr>pf_repeated = False, pf_type = PString, pf_name = ''service'', pf_number = 1\<rparr>,
     \<lparr>pf_repeated = False, pf_type = PString, pf_name = ''environment'', pf_number = 2\<rparr>,
     \<lparr>pf_repeated = False, pf_type = PString, pf_name = ''region'', pf_number = 3\<rparr>,
     \<lparr>pf_repeated = False, pf_type = PString, pf_name = ''host'', pf_number = 4\<rparr>]\<rparr>"

definition audit_proto_Why :: proto_message where
  "audit_proto_Why = \<lparr>pm_name = ''Why'', pm_fields =
    [\<lparr>pf_repeated = False, pf_type = PString, pf_name = ''reason'', pf_number = 1\<rparr>,
     \<lparr>pf_repeated = False, pf_type = PString, pf_name = ''request_id'', pf_number = 2\<rparr>,
     \<lparr>pf_repeated = False, pf_type = PString, pf_name = ''trace_id'', pf_number = 3\<rparr>,
     \<lparr>pf_repeated = False, pf_type = PString, pf_name = ''span_id'', pf_number = 4\<rparr>]\<rparr>"

definition audit_proto_How :: proto_message where
  "audit_proto_How = \<lparr>pm_name = ''How'', pm_fields =
    [\<lparr>pf_repeated = False, pf_type = PString, pf_name = ''method'', pf_number = 1\<rparr>,
     \<lparr>pf_repeated = False, pf_type = PString, pf_name = ''outcome'', pf_number = 2\<rparr>,
     \<lparr>pf_repeated = False, pf_type = PString, pf_name = ''severity'', pf_number = 3\<rparr>,
     \<lparr>pf_repeated = False, pf_type = PString, pf_name = ''source'', pf_number = 4\<rparr>]\<rparr>"

definition audit_proto_IngestRequest :: proto_message where
  "audit_proto_IngestRequest = \<lparr>pm_name = ''IngestRequest'', pm_fields =
    [\<lparr>pf_repeated = False, pf_type = PMessage ''Event'', pf_name = ''event'', pf_number = 1\<rparr>]\<rparr>"

definition audit_proto_IngestResponse :: proto_message where
  "audit_proto_IngestResponse = \<lparr>pm_name = ''IngestResponse'', pm_fields =
    [\<lparr>pf_repeated = False, pf_type = PString, pf_name = ''event_id'', pf_number = 1\<rparr>,
     \<lparr>pf_repeated = False, pf_type = PMessage ''google.protobuf.Timestamp'', pf_name = ''recorded_at'', pf_number = 2\<rparr>]\<rparr>"

definition audit_proto_GetEventRequest :: proto_message where
  "audit_proto_GetEventRequest = \<lparr>pm_name = ''GetEventRequest'', pm_fields =
    [\<lparr>pf_repeated = False, pf_type = PString, pf_name = ''event_id'', pf_number = 1\<rparr>]\<rparr>"

definition audit_proto_ListEventsRequest :: proto_message where
  "audit_proto_ListEventsRequest = \<lparr>pm_name = ''ListEventsRequest'', pm_fields =
    [\<lparr>pf_repeated = False, pf_type = PMessage ''google.protobuf.Timestamp'', pf_name = ''from_time'', pf_number = 1\<rparr>,
     \<lparr>pf_repeated = False, pf_type = PMessage ''google.protobuf.Timestamp'', pf_name = ''to_time'', pf_number = 2\<rparr>,
     \<lparr>pf_repeated = False, pf_type = PString, pf_name = ''actor_type'', pf_number = 3\<rparr>,
     \<lparr>pf_repeated = False, pf_type = PString, pf_name = ''actor_id'', pf_number = 4\<rparr>,
     \<lparr>pf_repeated = False, pf_type = PString, pf_name = ''resource_type'', pf_number = 5\<rparr>,
     \<lparr>pf_repeated = False, pf_type = PString, pf_name = ''resource_id'', pf_number = 6\<rparr>,
     \<lparr>pf_repeated = False, pf_type = PString, pf_name = ''action'', pf_number = 7\<rparr>,
     \<lparr>pf_repeated = False, pf_type = PString, pf_name = ''outcome'', pf_number = 8\<rparr>,
     \<lparr>pf_repeated = False, pf_type = PUint32, pf_name = ''limit'', pf_number = 9\<rparr>,
     \<lparr>pf_repeated = False, pf_type = PString, pf_name = ''cursor'', pf_number = 10\<rparr>]\<rparr>"

definition audit_proto_ListEventsResponse :: proto_message where
  "audit_proto_ListEventsResponse = \<lparr>pm_name = ''ListEventsResponse'', pm_fields =
    [\<lparr>pf_repeated = True, pf_type = PMessage ''Event'', pf_name = ''events'', pf_number = 1\<rparr>,
     \<lparr>pf_repeated = False, pf_type = PString, pf_name = ''next_cursor'', pf_number = 2\<rparr>]\<rparr>"

definition audit_proto_service :: service_desc where
  "audit_proto_service = \<lparr>sd_name = ''Audit'', sd_methods =
    [(''Ingest'', ''IngestRequest'', ''IngestResponse''),
     (''GetEvent'', ''GetEventRequest'', ''Event''),
     (''ListEvents'', ''ListEventsRequest'', ''ListEventsResponse'')]\<rparr>"

definition audit_proto :: proto_file where
  "audit_proto = \<lparr>pr_name = ''route/grpc/audit.proto'', pr_package = ''audit.v1'',
     pr_imports = [''google/protobuf/timestamp.proto''],
     pr_messages = [audit_proto_Event,
       audit_proto_Actor,
       audit_proto_What,
       audit_proto_Where,
       audit_proto_Why,
       audit_proto_How,
       audit_proto_IngestRequest,
       audit_proto_IngestResponse,
       audit_proto_GetEventRequest,
       audit_proto_ListEventsRequest,
       audit_proto_ListEventsResponse],
     pr_service = audit_proto_service\<rparr>"

lemmas audit_proto_message_defs =
  audit_proto_Event_def
  audit_proto_Actor_def
  audit_proto_What_def
  audit_proto_Where_def
  audit_proto_Why_def
  audit_proto_How_def
  audit_proto_IngestRequest_def
  audit_proto_IngestResponse_def
  audit_proto_GetEventRequest_def
  audit_proto_ListEventsRequest_def
  audit_proto_ListEventsResponse_def

end
