(* ===== verification/Pb_Raw.thy ===== *)
theory Pb_Raw
  imports Main
begin

text \<open>
  The raw file descriptors of \<open>queue.pb.go\<close> and \<open>audit.pb.go\<close>, byte for byte, cut at the
  entries of the file descriptor: the head of the file, one constant per message, the
  service, and the options.  The constants ending in \<open>rawDesc\<close> are the whole slices.
\<close>

section \<open>\<open>queue.pb.go\<close>\<close>

definition queue_raw_file :: "nat list" where
  "queue_raw_file =
    [10, 22, 114, 111, 117, 116, 101, 47, 103, 114, 112, 99, 47, 113, 117, 101, 117, 101, 46, 112, 114, 111, 116, 111,
     18, 8, 113, 117, 101, 117, 101, 46, 118, 49, 26, 31, 103, 111, 111, 103, 108, 101, 47, 112, 114, 111, 116, 111,
     98, 117, 102, 47, 116, 105, 109, 101, 115, 116, 97, 109, 112, 46, 112, 114, 111, 116, 111, 26, 30, 103, 111, 111,
     103, 108, 101, 47, 112, 114, 111, 116, 111, 98, 117, 102, 47, 100, 117, 114, 97, 116, 105, 111, 110, 46, 112, 114,
     111, 116, 111, 26, 27, 103, 111, 111, 103, 108, 101, 47, 112, 114, 111, 116, 111, 98, 117, 102, 47, 101, 109, 112,
     116, 121, 46, 112, 114, 111, 116, 111]"

definition queue_raw_Topic :: "nat list" where
  "queue_raw_Topic =
    [34, 181, 1, 10, 5, 84, 111, 112, 105, 99, 18, 18, 10, 4, 110, 97, 109, 101, 24, 1, 32, 1, 40, 9,
     82, 4, 110, 97, 109, 101, 18, 58, 10, 11, 100, 101, 102, 97, 117, 108, 116, 95, 116, 116, 108, 24, 2, 32,
     1, 40, 11, 50, 25, 46, 103, 111, 111, 103, 108, 101, 46, 112, 114, 111, 116, 111, 98, 117, 102, 46, 68, 117,
     114, 97, 116, 105, 111, 110, 82, 10, 100, 101, 102, 97, 117, 108, 116, 84, 116, 108, 18, 33, 10, 12, 109, 97,
     120, 95, 112, 114, 105, 111, 114, 105, 116, 121, 24, 3, 32, 1, 40, 13, 82, 11, 109, 97, 120, 80, 114, 105,
     111, 114, 105, 116, 121, 18, 57, 10, 10, 99, 114, 101, 97, 116, 101, 100, 95, 97, 116, 24, 4, 32, 1, 40,
     11, 50, 26, 46, 103, 111, 111, 103, 108, 101, 46, 112, 114, 111, 116, 111, 98, 117, 102, 46, 84, 105, 109, 101,
     115, 116, 97, 109, 112, 82, 9, 99, 114, 101, 97, 116, 101, 100, 65, 116]"

definition queue_raw_CreateTopicRequest :: "nat list" where
  "queue_raw_CreateTopicRequest =
    [34, 135, 1, 10, 18, 67, 114, 101, 97, 116, 101, 84, 111, 112, 105, 99, 82, 101, 113, 117, 101, 115, 116, 18,
     18, 10, 4, 110, 97, 109, 101, 24, 1, 32, 1, 40, 9, 82, 4, 110, 97, 109, 101, 18, 58, 10, 11, 100,
     101, 102, 97, 117, 108, 116, 95, 116, 116, 108, 24, 2, 32, 1, 40, 11, 50, 25, 46, 103, 111, 111, 103, 108,
     101, 46, 112, 114, 111, 116, 111, 98, 117, 102, 46, 68, 117, 114, 97, 116, 105, 111, 110, 82, 10, 100, 101, 102,
     97, 117, 108, 116, 84, 116, 108, 18, 33, 10, 12, 109, 97, 120, 95, 112, 114, 105, 111, 114, 105, 116, 121, 24,
     3, 32, 1, 40, 13, 82, 11, 109, 97, 120, 80, 114, 105, 111, 114, 105, 116, 121]"

definition queue_raw_PublishRequest :: "nat list" where
  "queue_raw_PublishRequest =
    [34, 248, 2, 10, 14, 80, 117, 98, 108, 105, 115, 104, 82, 101, 113, 117, 101, 115, 116, 18, 20, 10, 5, 116,
     111, 112, 105, 99, 24, 1, 32, 1, 40, 9, 82, 5, 116, 111, 112, 105, 99, 18, 24, 10, 7, 112, 97, 121,
     108, 111, 97, 100, 24, 2, 32, 1, 40, 12, 82, 7, 112, 97, 121, 108, 111, 97, 100, 18, 26, 10, 8, 112,
     114, 105, 111, 114, 105, 116, 121, 24, 3, 32, 1, 40, 13, 82, 8, 112, 114, 105, 111, 114, 105, 116, 121, 18,
     35, 10, 13, 112, 97, 114, 116, 105, 116, 105, 111, 110, 95, 107, 101, 121, 24, 4, 32, 1, 40, 9, 82, 12,
     112, 97, 114, 116, 105, 116, 105, 111, 110, 75, 101, 121, 18, 63, 10, 7, 104, 101, 97, 100, 101, 114, 115, 24,
     5, 32, 3, 40, 11, 50, 37, 46, 113, 117, 101, 117, 101, 46, 118, 49, 46, 80, 117, 98, 108, 105, 115, 104,
     82, 101, 113, 117, 101, 115, 116, 46, 72, 101, 97, 100, 101, 114, 115, 69, 110, 116, 114, 121, 82, 7, 104, 101,
     97, 100, 101, 114, 115, 18, 61, 10, 12, 97, 118, 97, 105, 108, 97, 98, 108, 101, 95, 97, 116, 24, 6, 32,
     1, 40, 11, 50, 26, 46, 103, 111, 111, 103, 108, 101, 46, 112, 114, 111, 116, 111, 98, 117, 102, 46, 84, 105,
     109, 101, 115, 116, 97, 109, 112, 82, 11, 97, 118, 97, 105, 108, 97, 98, 108, 101, 65, 116, 18, 57, 10, 10,
     101, 120, 112, 105, 114, 101, 115, 95, 97, 116, 24, 7, 32, 1, 40, 11, 50, 26, 46, 103, 111, 111, 103, 108,
     101, 46, 112, 114, 111, 116, 111, 98, 117, 102, 46, 84, 105, 109, 101, 115, 116, 97, 109, 112, 82, 9, 101, 120,
     112, 105, 114, 101, 115, 65, 116, 26, 58, 10, 12, 72, 101, 97, 100, 101, 114, 115, 69, 110, 116, 114, 121, 18,
     16, 10, 3, 107, 101, 121, 24, 1, 32, 1, 40, 9, 82, 3, 107, 101, 121, 18, 20, 10, 5, 118, 97, 108,
     117, 101, 24, 2, 32, 1, 40, 9, 82, 5, 118, 97, 108, 117, 101, 58, 2, 56, 1]"

definition queue_raw_PublishResponse :: "nat list" where
  "queue_raw_PublishResponse =
    [34, 48, 10, 15, 80, 117, 98, 108, 105, 115, 104, 82, 101, 115, 112, 111, 110, 115, 101, 18, 29, 10, 10, 109,
     101, 115, 115, 97, 103, 101, 95, 105, 100, 24, 1, 32, 1, 40, 4, 82, 9, 109, 101, 115, 115, 97, 103, 101,
     73, 100]"

definition queue_raw_ConsumeRequest :: "nat list" where
  "queue_raw_ConsumeRequest =
    [34, 196, 1, 10, 14, 67, 111, 110, 115, 117, 109, 101, 82, 101, 113, 117, 101, 115, 116, 18, 20, 10, 5, 116,
     111, 112, 105, 99, 24, 1, 32, 1, 40, 9, 82, 5, 116, 111, 112, 105, 99, 18, 34, 10, 12, 115, 117, 98,
     115, 99, 114, 105, 112, 116, 105, 111, 110, 24, 2, 32, 1, 40, 9, 82, 12, 115, 117, 98, 115, 99, 114, 105,
     112, 116, 105, 111, 110, 18, 33, 10, 12, 109, 97, 120, 95, 109, 101, 115, 115, 97, 103, 101, 115, 24, 3, 32,
     1, 40, 13, 82, 11, 109, 97, 120, 77, 101, 115, 115, 97, 103, 101, 115, 18, 52, 10, 8, 109, 97, 120, 95,
     119, 97, 105, 116, 24, 4, 32, 1, 40, 11, 50, 25, 46, 103, 111, 111, 103, 108, 101, 46, 112, 114, 111, 116,
     111, 98, 117, 102, 46, 68, 117, 114, 97, 116, 105, 111, 110, 82, 7, 109, 97, 120, 87, 97, 105, 116, 18, 31,
     10, 11, 99, 111, 110, 115, 117, 109, 101, 114, 95, 105, 100, 24, 5, 32, 1, 40, 9, 82, 10, 99, 111, 110,
     115, 117, 109, 101, 114, 73, 100]"

definition queue_raw_LeasedMessage :: "nat list" where
  "queue_raw_LeasedMessage =
    [34, 215, 3, 10, 13, 76, 101, 97, 115, 101, 100, 77, 101, 115, 115, 97, 103, 101, 18, 25, 10, 8, 108, 101,
     97, 115, 101, 95, 105, 100, 24, 1, 32, 1, 40, 9, 82, 7, 108, 101, 97, 115, 101, 73, 100, 18, 29, 10,
     10, 109, 101, 115, 115, 97, 103, 101, 95, 105, 100, 24, 2, 32, 1, 40, 4, 82, 9, 109, 101, 115, 115, 97,
     103, 101, 73, 100, 18, 24, 10, 7, 112, 97, 121, 108, 111, 97, 100, 24, 3, 32, 1, 40, 12, 82, 7, 112,
     97, 121, 108, 111, 97, 100, 18, 26, 10, 8, 112, 114, 105, 111, 114, 105, 116, 121, 24, 4, 32, 1, 40, 13,
     82, 8, 112, 114, 105, 111, 114, 105, 116, 121, 18, 35, 10, 13, 112, 97, 114, 116, 105, 116, 105, 111, 110, 95,
     107, 101, 121, 24, 5, 32, 1, 40, 9, 82, 12, 112, 97, 114, 116, 105, 116, 105, 111, 110, 75, 101, 121, 18,
     62, 10, 7, 104, 101, 97, 100, 101, 114, 115, 24, 6, 32, 3, 40, 11, 50, 36, 46, 113, 117, 101, 117, 101,
     46, 118, 49, 46, 76, 101, 97, 115, 101, 100, 77, 101, 115, 115, 97, 103, 101, 46, 72, 101, 97, 100, 101, 114,
     115, 69, 110, 116, 114, 121, 82, 7, 104, 101, 97, 100, 101, 114, 115, 18, 31, 10, 11, 112, 114, 111, 100, 117,
     99, 101, 114, 95, 105, 100, 24, 7, 32, 1, 40, 9, 82, 10, 112, 114, 111, 100, 117, 99, 101, 114, 73, 100,
     18, 24, 10, 7, 97, 116, 116, 101, 109, 112, 116, 24, 8, 32, 1, 40, 13, 82, 7, 97, 116, 116, 101, 109,
     112, 116, 18, 59, 10, 11, 101, 110, 113, 117, 101, 117, 101, 100, 95, 97, 116, 24, 9, 32, 1, 40, 11, 50,
     26, 46, 103, 111, 111, 103, 108, 101, 46, 112, 114, 111, 116, 111, 98, 117, 102, 46, 84, 105, 109, 101, 115, 116,
     97, 109, 112, 82, 10, 101, 110, 113, 117, 101, 117, 101, 100, 65, 116, 18, 61, 10, 12, 108, 101, 97, 115, 101,
     100, 95, 117, 110, 116, 105, 108, 24, 10, 32, 1, 40, 11, 50, 26, 46, 103, 111, 111, 103, 108, 101, 46, 112,
     114, 111, 116, 111, 98, 117, 102, 46, 84, 105, 109, 101, 115, 116, 97, 109, 112, 82, 11, 108, 101, 97, 115, 101,
     100, 85, 110, 116, 105, 108, 26, 58, 10, 12, 72, 101, 97, 100, 101, 114, 115, 69, 110, 116, 114, 121, 18, 16,
     10, 3, 107, 101, 121, 24, 1, 32, 1, 40, 9, 82, 3, 107, 101, 121, 18, 20, 10, 5, 118, 97, 108, 117,
     101, 24, 2, 32, 1, 40, 9, 82, 5, 118, 97, 108, 117, 101, 58, 2, 56, 1]"

definition queue_raw_ConsumeResponse :: "nat list" where
  "queue_raw_ConsumeResponse =
    [34, 70, 10, 15, 67, 111, 110, 115, 117, 109, 101, 82, 101, 115, 112, 111, 110, 115, 101, 18, 51, 10, 8, 109,
     101, 115, 115, 97, 103, 101, 115, 24, 1, 32, 3, 40, 11, 50, 23, 46, 113, 117, 101, 117, 101, 46, 118, 49,
     46, 76, 101, 97, 115, 101, 100, 77, 101, 115, 115, 97, 103, 101, 82, 8, 109, 101, 115, 115, 97, 103, 101, 115]"

definition queue_raw_AckRequest :: "nat list" where
  "queue_raw_AckRequest =
    [34, 39, 10, 10, 65, 99, 107, 82, 101, 113, 117, 101, 115, 116, 18, 25, 10, 8, 108, 101, 97, 115, 101, 95,
     105, 100, 24, 1, 32, 1, 40, 9, 82, 7, 108, 101, 97, 115, 101, 73, 100]"

definition queue_raw_service :: "nat list" where
  "queue_raw_service =
    [50, 250, 1, 10, 5, 81, 117, 101, 117, 101, 18, 60, 10, 11, 67, 114, 101, 97, 116, 101, 84, 111, 112, 105,
     99, 18, 28, 46, 113, 117, 101, 117, 101, 46, 118, 49, 46, 67, 114, 101, 97, 116, 101, 84, 111, 112, 105, 99,
     82, 101, 113, 117, 101, 115, 116, 26, 15, 46, 113, 117, 101, 117, 101, 46, 118, 49, 46, 84, 111, 112, 105, 99,
     18, 62, 10, 7, 80, 117, 98, 108, 105, 115, 104, 18, 24, 46, 113, 117, 101, 117, 101, 46, 118, 49, 46, 80,
     117, 98, 108, 105, 115, 104, 82, 101, 113, 117, 101, 115, 116, 26, 25, 46, 113, 117, 101, 117, 101, 46, 118, 49,
     46, 80, 117, 98, 108, 105, 115, 104, 82, 101, 115, 112, 111, 110, 115, 101, 18, 62, 10, 7, 67, 111, 110, 115,
     117, 109, 101, 18, 24, 46, 113, 117, 101, 117, 101, 46, 118, 49, 46, 67, 111, 110, 115, 117, 109, 101, 82, 101,
     113, 117, 101, 115, 116, 26, 25, 46, 113, 117, 101, 117, 101, 46, 118, 49, 46, 67, 111, 110, 115, 117, 109, 101,
     82, 101, 115, 112, 111, 110, 115, 101, 18, 51, 10, 3, 65, 99, 107, 18, 20, 46, 113, 117, 101, 117, 101, 46,
     118, 49, 46, 65, 99, 107, 82, 101, 113, 117, 101, 115, 116, 26, 22, 46, 103, 111, 111, 103, 108, 101, 46, 112,
     114, 111, 116, 111, 98, 117, 102, 46, 69, 109, 112, 116, 121]"

definition queue_raw_options :: "nat list" where
  "queue_raw_options =
    [66, 23, 90, 21, 113, 117, 101, 117, 101, 47, 114, 111, 117, 116, 101, 47, 103, 114, 112, 99, 59, 103, 114, 112,
     99, 98, 6, 112, 114, 111, 116, 111, 51]"

definition queue_rawDesc :: "nat list" where
  "queue_rawDesc =
    queue_raw_file
    @ queue_raw_Topic
    @ queue_raw_CreateTopicRequest
    @ queue_raw_PublishRequest
    @ queue_raw_PublishResponse
    @ queue_raw_ConsumeRequest
    @ queue_raw_LeasedMessage
    @ queue_raw_ConsumeResponse
    @ queue_raw_AckRequest
    @ queue_raw_service
    @ queue_raw_options"

lemmas queue_raw_defs = queue_raw_file_def queue_raw_Topic_def queue_raw_CreateTopicRequest_def queue_raw_PublishRequest_def queue_raw_PublishResponse_def queue_raw_ConsumeRequest_def queue_raw_LeasedMessage_def queue_raw_ConsumeResponse_def queue_raw_AckRequest_def queue_raw_service_def queue_raw_options_def

section \<open>\<open>audit.pb.go\<close>\<close>

definition audit_raw_file :: "nat list" where
  "audit_raw_file =
    [10, 22, 114, 111, 117, 116, 101, 47, 103, 114, 112, 99, 47, 97, 117, 100, 105, 116, 46, 112, 114, 111, 116, 111,
     18, 8, 97, 117, 100, 105, 116, 46, 118, 49, 26, 31, 103, 111, 111, 103, 108, 101, 47, 112, 114, 111, 116, 111,
     98, 117, 102, 47, 116, 105, 109, 101, 115, 116, 97, 109, 112, 46, 112, 114, 111, 116, 111]"

definition audit_raw_Event :: "nat list" where
  "audit_raw_Event =
    [34, 145, 3, 10, 5, 69, 118, 101, 110, 116, 18, 25, 10, 8, 101, 118, 101, 110, 116, 95, 105, 100, 24, 1,
     32, 1, 40, 9, 82, 7, 101, 118, 101, 110, 116, 73, 100, 18, 59, 10, 11, 111, 99, 99, 117, 114, 114, 101,
     100, 95, 97, 116, 24, 2, 32, 1, 40, 11, 50, 26, 46, 103, 111, 111, 103, 108, 101, 46, 112, 114, 111, 116,
     111, 98, 117, 102, 46, 84, 105, 109, 101, 115, 116, 97, 109, 112, 82, 10, 111, 99, 99, 117, 114, 114, 101, 100,
     65, 116, 18, 59, 10, 11, 114, 101, 99, 111, 114, 100, 101, 100, 95, 97, 116, 24, 3, 32, 1, 40, 11, 50,
     26, 46, 103, 111, 111, 103, 108, 101, 46, 112, 114, 111, 116, 111, 98, 117, 102, 46, 84, 105, 109, 101, 115, 116,
     97, 109, 112, 82, 10, 114, 101, 99, 111, 114, 100, 101, 100, 65, 116, 18, 37, 10, 14, 115, 99, 104, 101, 109,
     97, 95, 118, 101, 114, 115, 105, 111, 110, 24, 4, 32, 1, 40, 13, 82, 13, 115, 99, 104, 101, 109, 97, 86,
     101, 114, 115, 105, 111, 110, 18, 37, 10, 5, 97, 99, 116, 111, 114, 24, 10, 32, 1, 40, 11, 50, 15, 46,
     97, 117, 100, 105, 116, 46, 118, 49, 46, 65, 99, 116, 111, 114, 82, 5, 97, 99, 116, 111, 114, 18, 34, 10,
     4, 119, 104, 97, 116, 24, 11, 32, 1, 40, 11, 50, 14, 46, 97, 117, 100, 105, 116, 46, 118, 49, 46, 87,
     104, 97, 116, 82, 4, 119, 104, 97, 116, 18, 37, 10, 5, 119, 104, 101, 114, 101, 24, 12, 32, 1, 40, 11,
     50, 15, 46, 97, 117, 100, 105, 116, 46, 118, 49, 46, 87, 104, 101, 114, 101, 82, 5, 119, 104, 101, 114, 101,
     18, 31, 10, 3, 119, 104, 121, 24, 13, 32, 1, 40, 11, 50, 13, 46, 97, 117, 100, 105, 116, 46, 118, 49,
     46, 87, 104, 121, 82, 3, 119, 104, 121, 18, 31, 10, 3, 104, 111, 119, 24, 14, 32, 1, 40, 11, 50, 13,
     46, 97, 117, 100, 105, 116, 46, 118, 49, 46, 72, 111, 119, 82, 3, 104, 111, 119, 18, 24, 10, 7, 100, 101,
     116, 97, 105, 108, 115, 24, 20, 32, 1, 40, 12, 82, 7, 100, 101, 116, 97, 105, 108, 115]"

definition audit_raw_Actor :: "nat list" where
  "audit_raw_Actor =
    [34, 90, 10, 5, 65, 99, 116, 111, 114, 18, 18, 10, 4, 116, 121, 112, 101, 24, 1, 32, 1, 40, 9, 82,
     4, 116, 121, 112, 101, 18, 14, 10, 2, 105, 100, 24, 2, 32, 1, 40, 9, 82, 2, 105, 100, 18, 14, 10,
     2, 105, 112, 24, 3, 32, 1, 40, 9, 82, 2, 105, 112, 18, 29, 10, 10, 117, 115, 101, 114, 95, 97, 103,
     101, 110, 116, 24, 4, 32, 1, 40, 9, 82, 9, 117, 115, 101, 114, 65, 103, 101, 110, 116]"

definition audit_raw_What :: "nat list" where
  "audit_raw_What =
    [34, 100, 10, 4, 87, 104, 97, 116, 18, 22, 10, 6, 97, 99, 116, 105, 111, 110, 24, 1, 32, 1, 40, 9,
     82, 6, 97, 99, 116, 105, 111, 110, 18, 35, 10, 13, 114, 101, 115, 111, 117, 114, 99, 101, 95, 116, 121, 112,
     101, 24, 2, 32, 1, 40, 9, 82, 12, 114, 101, 115, 111, 117, 114, 99, 101, 84, 121, 112, 101, 18, 31, 10,
     11, 114, 101, 115, 111, 117, 114, 99, 101, 95, 105, 100, 24, 3, 32, 1, 40, 9, 82, 10, 114, 101, 115, 111,
     117, 114, 99, 101, 73, 100]"

definition audit_raw_Where :: "nat list" where
  "audit_raw_Where =
    [34, 111, 10, 5, 87, 104, 101, 114, 101, 18, 24, 10, 7, 115, 101, 114, 118, 105, 99, 101, 24, 1, 32, 1,
     40, 9, 82, 7, 115, 101, 114, 118, 105, 99, 101, 18, 32, 10, 11, 101, 110, 118, 105, 114, 111, 110, 109, 101,
     110, 116, 24, 2, 32, 1, 40, 9, 82, 11, 101, 110, 118, 105, 114, 111, 110, 109, 101, 110, 116, 18, 22, 10,
     6, 114, 101, 103, 105, 111, 110, 24, 3, 32, 1, 40, 9, 82, 6, 114, 101, 103, 105, 111, 110, 18, 18, 10,
     4, 104, 111, 115, 116, 24, 4, 32, 1, 40, 9, 82, 4, 104, 111, 115, 116]"

definition audit_raw_Why :: "nat list" where
  "audit_raw_Why =
    [34, 112, 10, 3, 87, 104, 121, 18, 22, 10, 6, 114, 101, 97, 115, 111, 110, 24, 1, 32, 1, 40, 9, 82,
     6, 114, 101, 97, 115, 111, 110, 18, 29, 10, 10, 114, 101, 113, 117, 101, 115, 116, 95, 105, 100, 24, 2, 32,
     1, 40, 9, 82, 9, 114, 101, 113, 117, 101, 115, 116, 73, 100, 18, 25, 10, 8, 116, 114, 97, 99, 101, 95,
     105, 100, 24, 3, 32, 1, 40, 9, 82, 7, 116, 114, 97, 99, 101, 73, 100, 18, 23, 10, 7, 115, 112, 97,
     110, 95, 105, 100, 24, 4, 32, 1, 40, 9, 82, 6, 115, 112, 97, 110, 73, 100]"

definition audit_raw_How :: "nat list" where
  "audit_raw_How =
    [34, 107, 10, 3, 72, 111, 119, 18, 22, 10, 6, 109, 101, 116, 104, 111, 100, 24, 1, 32, 1, 40, 9, 82,
     6, 109, 101, 116, 104, 111, 100, 18, 24, 10, 7, 111, 117, 116, 99, 111, 109, 101, 24, 2, 32, 1, 40, 9,
     82, 7, 111, 117, 116, 99, 111, 109, 101, 18, 26, 10, 8, 115, 101, 118, 101, 114, 105, 116, 121, 24, 3, 32,
     1, 40, 9, 82, 8, 115, 101, 118, 101, 114, 105, 116, 121, 18, 22, 10, 6, 115, 111, 117, 114, 99, 101, 24,
     4, 32, 1, 40, 9, 82, 6, 115, 111, 117, 114, 99, 101]"

definition audit_raw_IngestRequest :: "nat list" where
  "audit_raw_IngestRequest =
    [34, 54, 10, 13, 73, 110, 103, 101, 115, 116, 82, 101, 113, 117, 101, 115, 116, 18, 37, 10, 5, 101, 118, 101,
     110, 116, 24, 1, 32, 1, 40, 11, 50, 15, 46, 97, 117, 100, 105, 116, 46, 118, 49, 46, 69, 118, 101, 110,
     116, 82, 5, 101, 118, 101, 110, 116]"

definition audit_raw_IngestResponse :: "nat list" where
  "audit_raw_IngestResponse =
    [34, 104, 10, 14, 73, 110, 103, 101, 115, 116, 82, 101, 115, 112, 111, 110, 115, 101, 18, 25, 10, 8, 101, 118,
     101, 110, 116, 95, 105, 100, 24, 1, 32, 1, 40, 9, 82, 7, 101, 118, 101, 110, 116, 73, 100, 18, 59, 10,
     11, 114, 101, 99, 111, 114, 100, 101, 100, 95, 97, 116, 24, 2, 32, 1, 40, 11, 50, 26, 46, 103, 111, 111,
     103, 108, 101, 46, 112, 114, 111, 116, 111, 98, 117, 102, 46, 84, 105, 109, 101, 115, 116, 97, 109, 112, 82, 10,
     114, 101, 99, 111, 114, 100, 101, 100, 65, 116]"

definition audit_raw_GetEventRequest :: "nat list" where
  "audit_raw_GetEventRequest =
    [34, 44, 10, 15, 71, 101, 116, 69, 118, 101, 110, 116, 82, 101, 113, 117, 101, 115, 116, 18, 25, 10, 8, 101,
     118, 101, 110, 116, 95, 105, 100, 24, 1, 32, 1, 40, 9, 82, 7, 101, 118, 101, 110, 116, 73, 100]"

definition audit_raw_ListEventsRequest :: "nat list" where
  "audit_raw_ListEventsRequest =
    [34, 225, 2, 10, 17, 76, 105, 115, 116, 69, 118, 101, 110, 116, 115, 82, 101, 113, 117, 101, 115, 116, 18, 55,
     10, 9, 102, 114, 111, 109, 95, 116, 105, 109, 101, 24, 1, 32, 1, 40, 11, 50, 26, 46, 103, 111, 111, 103,
     108, 101, 46, 112, 114, 111, 116, 111, 98, 117, 102, 46, 84, 105, 109, 101, 115, 116, 97, 109, 112, 82, 8, 102,
     114, 111, 109, 84, 105, 109, 101, 18, 51, 10, 7, 116, 111, 95, 116, 105, 109, 101, 24, 2, 32, 1, 40, 11,
     50, 26, 46, 103, 111, 111, 103, 108, 101, 46, 112, 114, 111, 116, 111, 98, 117, 102, 46, 84, 105, 109, 101, 115,
     116, 97, 109, 112, 82, 6, 116, 111, 84, 105, 109, 101, 18, 29, 10, 10, 97, 99, 116, 111, 114, 95, 116, 121,
     112, 101, 24, 3, 32, 1, 40, 9, 82, 9, 97, 99, 116, 111, 114, 84, 121, 112, 101, 18, 25, 10, 8, 97,
     99, 116, 111, 114, 95, 105, 100, 24, 4, 32, 1, 40, 9, 82, 7, 97, 99, 116, 111, 114, 73, 100, 18, 35,
     10, 13, 114, 101, 115, 111, 117, 114, 99, 101, 95, 116, 121, 112, 101, 24, 5, 32, 1, 40, 9, 82, 12, 114,
     101, 115, 111, 117, 114, 99, 101, 84, 121, 112, 101, 18, 31, 10, 11, 114, 101, 115, 111, 117, 114, 99, 101, 95,
     105, 100, 24, 6, 32, 1, 40, 9, 82, 10, 114, 101, 115, 111, 117, 114, 99, 101, 73, 100, 18, 22, 10, 6,
     97, 99, 116, 105, 111, 110, 24, 7, 32, 1, 40, 9, 82, 6, 97, 99, 116, 105, 111, 110, 18, 24, 10, 7,
     111, 117, 116, 99, 111, 109, 101, 24, 8, 32, 1, 40, 9, 82, 7, 111, 117, 116, 99, 111, 109, 101, 18, 20,
     10, 5, 108, 105, 109, 105, 116, 24, 9, 32, 1, 40, 13, 82, 5, 108, 105, 109, 105, 116, 18, 22, 10, 6,
     99, 117, 114, 115, 111, 114, 24, 10, 32, 1, 40, 9, 82, 6, 99, 117, 114, 115, 111, 114]"

definition audit_raw_ListEventsResponse :: "nat list" where
  "audit_raw_ListEventsResponse =
    [34, 94, 10, 18, 76, 105, 115, 116, 69, 118, 101, 110, 116, 115, 82, 101, 115, 112, 111, 110, 115, 101, 18, 39,
     10, 6, 101, 118, 101, 110, 116, 115, 24, 1, 32, 3, 40, 11, 50, 15, 46, 97, 117, 100, 105, 116, 46, 118,
     49, 46, 69, 118, 101, 110, 116, 82, 6, 101, 118, 101, 110, 116, 115, 18, 31, 10, 11, 110, 101, 120, 116, 95,
     99, 117, 114, 115, 111, 114, 24, 2, 32, 1, 40, 9, 82, 10, 110, 101, 120, 116, 67, 117, 114, 115, 111, 114]"

definition audit_raw_service :: "nat list" where
  "audit_raw_service =
    [50, 197, 1, 10, 5, 65, 117, 100, 105, 116, 18, 59, 10, 6, 73, 110, 103, 101, 115, 116, 18, 23, 46, 97,
     117, 100, 105, 116, 46, 118, 49, 46, 73, 110, 103, 101, 115, 116, 82, 101, 113, 117, 101, 115, 116, 26, 24, 46,
     97, 117, 100, 105, 116, 46, 118, 49, 46, 73, 110, 103, 101, 115, 116, 82, 101, 115, 112, 111, 110, 115, 101, 18,
     54, 10, 8, 71, 101, 116, 69, 118, 101, 110, 116, 18, 25, 46, 97, 117, 100, 105, 116, 46, 118, 49, 46, 71,
     101, 116, 69, 118, 101, 110, 116, 82, 101, 113, 117, 101, 115, 116, 26, 15, 46, 97, 117, 100, 105, 116, 46, 118,
     49, 46, 69, 118, 101, 110, 116, 18, 71, 10, 10, 76, 105, 115, 116, 69, 118, 101, 110, 116, 115, 18, 27, 46,
     97, 117, 100, 105, 116, 46, 118, 49, 46, 76, 105, 115, 116, 69, 118, 101, 110, 116, 115, 82, 101, 113, 117, 101,
     115, 116, 26, 28, 46, 97, 117, 100, 105, 116, 46, 118, 49, 46, 76, 105, 115, 116, 69, 118, 101, 110, 116, 115,
     82, 101, 115, 112, 111, 110, 115, 101]"

definition audit_raw_options :: "nat list" where
  "audit_raw_options =
    [66, 23, 90, 21, 97, 117, 100, 105, 116, 47, 114, 111, 117, 116, 101, 47, 103, 114, 112, 99, 59, 103, 114, 112,
     99, 98, 6, 112, 114, 111, 116, 111, 51]"

definition audit_rawDesc :: "nat list" where
  "audit_rawDesc =
    audit_raw_file
    @ audit_raw_Event
    @ audit_raw_Actor
    @ audit_raw_What
    @ audit_raw_Where
    @ audit_raw_Why
    @ audit_raw_How
    @ audit_raw_IngestRequest
    @ audit_raw_IngestResponse
    @ audit_raw_GetEventRequest
    @ audit_raw_ListEventsRequest
    @ audit_raw_ListEventsResponse
    @ audit_raw_service
    @ audit_raw_options"

lemmas audit_raw_defs = audit_raw_file_def audit_raw_Event_def audit_raw_Actor_def audit_raw_What_def audit_raw_Where_def audit_raw_Why_def audit_raw_How_def audit_raw_IngestRequest_def audit_raw_IngestResponse_def audit_raw_GetEventRequest_def audit_raw_ListEventsRequest_def audit_raw_ListEventsResponse_def audit_raw_service_def audit_raw_options_def

end
