(* ===== verification/Pb_Descriptor.thy ===== *)
theory Pb_Descriptor
  imports Proto_Source Pb_Raw Queue_Grpc Audit_Grpc Pb_Init
begin

text \<open>
  The raw descriptors in \<open>queue.pb.go\<close> and \<open>audit.pb.go\<close> read back: they say exactly what the
  interface definitions say, and the struct tags, type tables and service descriptors of
  the generated Go code agree with them.
\<close>

section \<open>Reading the bytes\<close>

lemma queue_raw_file_reads: "read_file queue_raw_file = Some
     ([NameEntry (pr_name queue_proto), PackageEntry (pr_package queue_proto)]
      @ map ImportEntry (pr_imports queue_proto))"
  by (simp add: queue_raw_file_def reader_defs describe_defs queue_proto_def; simp add: char_of_eq_iff)

lemma queue_raw_Topic_reads: "read_file queue_raw_Topic = Some
     ([MessageEntry (describe_message queue_proto queue_proto_Topic)])"
  by (simp add: queue_raw_Topic_def reader_defs describe_defs queue_proto_def queue_proto_message_defs; simp add: char_of_eq_iff)

lemma queue_raw_CreateTopicRequest_reads: "read_file queue_raw_CreateTopicRequest = Some
     ([MessageEntry (describe_message queue_proto queue_proto_CreateTopicRequest)])"
  by (simp add: queue_raw_CreateTopicRequest_def reader_defs describe_defs queue_proto_def queue_proto_message_defs; simp add: char_of_eq_iff)

lemma queue_raw_PublishRequest_reads: "read_file queue_raw_PublishRequest = Some
     ([MessageEntry (describe_message queue_proto queue_proto_PublishRequest)])"
  by (simp add: queue_raw_PublishRequest_def reader_defs describe_defs queue_proto_def queue_proto_message_defs; simp add: char_of_eq_iff)

lemma queue_raw_PublishResponse_reads: "read_file queue_raw_PublishResponse = Some
     ([MessageEntry (describe_message queue_proto queue_proto_PublishResponse)])"
  by (simp add: queue_raw_PublishResponse_def reader_defs describe_defs queue_proto_def queue_proto_message_defs; simp add: char_of_eq_iff)

lemma queue_raw_ConsumeRequest_reads: "read_file queue_raw_ConsumeRequest = Some
     ([MessageEntry (describe_message queue_proto queue_proto_ConsumeRequest)])"
  by (simp add: queue_raw_ConsumeRequest_def reader_defs describe_defs queue_proto_def queue_proto_message_defs; simp add: char_of_eq_iff)

lemma queue_raw_LeasedMessage_reads: "read_file queue_raw_LeasedMessage = Some
     ([MessageEntry (describe_message queue_proto queue_proto_LeasedMessage)])"
  by (simp add: queue_raw_LeasedMessage_def reader_defs describe_defs queue_proto_def queue_proto_message_defs; simp add: char_of_eq_iff)

lemma queue_raw_ConsumeResponse_reads: "read_file queue_raw_ConsumeResponse = Some
     ([MessageEntry (describe_message queue_proto queue_proto_ConsumeResponse)])"
  by (simp add: queue_raw_ConsumeResponse_def reader_defs describe_defs queue_proto_def queue_proto_message_defs; simp add: char_of_eq_iff)

lemma queue_raw_AckRequest_reads: "read_file queue_raw_AckRequest = Some
     ([MessageEntry (describe_message queue_proto queue_proto_AckRequest)])"
  by (simp add: queue_raw_AckRequest_def reader_defs describe_defs queue_proto_def queue_proto_message_defs; simp add: char_of_eq_iff)

lemma queue_raw_service_reads: "read_file queue_raw_service = Some
     ([ServiceEntry (describe_service queue_proto)])"
  by (simp add: queue_raw_service_def reader_defs describe_defs queue_proto_def queue_proto_service_def queue_proto_message_defs; simp add: char_of_eq_iff)

lemma queue_raw_options_reads: "read_file queue_raw_options = Some
     ([OtherEntry 8, SyntaxEntry ''proto3''])"
  by (simp add: queue_raw_options_def reader_defs describe_defs ; simp add: char_of_eq_iff)

lemmas queue_raw_reads =
  queue_raw_file_reads
  queue_raw_Topic_reads
  queue_raw_CreateTopicRequest_reads
  queue_raw_PublishRequest_reads
  queue_raw_PublishResponse_reads
  queue_raw_ConsumeRequest_reads
  queue_raw_LeasedMessage_reads
  queue_raw_ConsumeResponse_reads
  queue_raw_AckRequest_reads
  queue_raw_service_reads
  queue_raw_options_reads

lemma audit_raw_file_reads: "read_file audit_raw_file = Some
     ([NameEntry (pr_name audit_proto), PackageEntry (pr_package audit_proto)]
      @ map ImportEntry (pr_imports audit_proto))"
  by (simp add: audit_raw_file_def reader_defs describe_defs audit_proto_def; simp add: char_of_eq_iff)

lemma audit_raw_Event_reads: "read_file audit_raw_Event = Some
     ([MessageEntry (describe_message audit_proto audit_proto_Event)])"
  by (simp add: audit_raw_Event_def reader_defs describe_defs audit_proto_def audit_proto_message_defs; simp add: char_of_eq_iff)

lemma audit_raw_Actor_reads: "read_file audit_raw_Actor = Some
     ([MessageEntry (describe_message audit_proto audit_proto_Actor)])"
  by (simp add: audit_raw_Actor_def reader_defs describe_defs audit_proto_def audit_proto_message_defs; simp add: char_of_eq_iff)

lemma audit_raw_What_reads: "read_file audit_raw_What = Some
     ([MessageEntry (describe_message audit_proto audit_proto_What)])"
  by (simp add: audit_raw_What_def reader_defs describe_defs audit_proto_def audit_proto_message_defs; simp add: char_of_eq_iff)

lemma audit_raw_Where_reads: "read_file audit_raw_Where = Some
     ([MessageEntry (describe_message audit_proto audit_proto_Where)])"
  by (simp add: audit_raw_Where_def reader_defs describe_defs audit_proto_def audit_proto_message_defs; simp add: char_of_eq_iff)

lemma audit_raw_Why_reads: "read_file audit_raw_Why = Some
     ([MessageEntry (describe_message audit_proto audit_proto_Why)])"
  by (simp add: audit_raw_Why_def reader_defs describe_defs audit_proto_def audit_proto_message_defs; simp add: char_of_eq_iff)

lemma audit_raw_How_reads: "read_file audit_raw_How = Some
     ([MessageEntry (describe_message audit_proto audit_proto_How)])"
  by (simp add: audit_raw_How_def reader_defs describe_defs audit_proto_def audit_proto_message_defs; simp add: char_of_eq_iff)

lemma audit_raw_IngestRequest_reads: "read_file audit_raw_IngestRequest = Some
     ([MessageEntry (describe_message audit_proto audit_proto_IngestRequest)])"
  by (simp add: audit_raw_IngestRequest_def reader_defs describe_defs audit_proto_def audit_proto_message_defs; simp add: char_of_eq_iff)

lemma audit_raw_IngestResponse_reads: "read_file audit_raw_IngestResponse = Some
     ([MessageEntry (describe_message audit_proto audit_proto_IngestResponse)])"
  by (simp add: audit_raw_IngestResponse_def reader_defs describe_defs audit_proto_def audit_proto_message_defs; simp add: char_of_eq_iff)

lemma audit_raw_GetEventRequest_reads: "read_file audit_raw_GetEventRequest = Some
     ([MessageEntry (describe_message audit_proto audit_proto_GetEventRequest)])"
  by (simp add: audit_raw_GetEventRequest_def reader_defs describe_defs audit_proto_def audit_proto_message_defs; simp add: char_of_eq_iff)

lemma audit_raw_ListEventsRequest_reads: "read_file audit_raw_ListEventsRequest = Some
     ([MessageEntry (describe_message audit_proto audit_proto_ListEventsRequest)])"
  by (simp add: audit_raw_ListEventsRequest_def reader_defs describe_defs audit_proto_def audit_proto_message_defs; simp add: char_of_eq_iff)

lemma audit_raw_ListEventsResponse_reads: "read_file audit_raw_ListEventsResponse = Some
     ([MessageEntry (describe_message audit_proto audit_proto_ListEventsResponse)])"
  by (simp add: audit_raw_ListEventsResponse_def reader_defs describe_defs audit_proto_def audit_proto_message_defs; simp add: char_of_eq_iff)

lemma audit_raw_service_reads: "read_file audit_raw_service = Some
     ([ServiceEntry (describe_service audit_proto)])"
  by (simp add: audit_raw_service_def reader_defs describe_defs audit_proto_def audit_proto_service_def audit_proto_message_defs; simp add: char_of_eq_iff)

lemma audit_raw_options_reads: "read_file audit_raw_options = Some
     ([OtherEntry 8, SyntaxEntry ''proto3''])"
  by (simp add: audit_raw_options_def reader_defs describe_defs ; simp add: char_of_eq_iff)

lemmas audit_raw_reads =
  audit_raw_file_reads
  audit_raw_Event_reads
  audit_raw_Actor_reads
  audit_raw_What_reads
  audit_raw_Where_reads
  audit_raw_Why_reads
  audit_raw_How_reads
  audit_raw_IngestRequest_reads
  audit_raw_IngestResponse_reads
  audit_raw_GetEventRequest_reads
  audit_raw_ListEventsRequest_reads
  audit_raw_ListEventsResponse_reads
  audit_raw_service_reads
  audit_raw_options_reads

lemma queue_rawDesc_reads: "read_file queue_rawDesc = Some (describe_file queue_proto)"
  unfolding queue_rawDesc_def append.assoc
  by (simp add: read_file_append queue_raw_reads describe_file_def queue_proto_def)

lemma audit_rawDesc_reads: "read_file audit_rawDesc = Some (describe_file audit_proto)"
  unfolding audit_rawDesc_def append.assoc
  by (simp add: read_file_append audit_raw_reads describe_file_def audit_proto_def)

section \<open>Comparing with the Go tables\<close>

definition messages_in :: "file_entry list \<Rightarrow> message_desc list" where
  "messages_in es = concat (map (\<lambda>e. case e of MessageEntry m \<Rightarrow> [m] | _ \<Rightarrow> []) es)"

definition services_in :: "file_entry list \<Rightarrow> service_desc list" where
  "services_in es = concat (map (\<lambda>e. case e of ServiceEntry s \<Rightarrow> [s] | _ \<Rightarrow> []) es)"

text \<open>
  A struct tag describes a field: number, name, label, and the wire kind of its type
  (varints for the integers, bytes for strings, bytes and messages).
\<close>

definition tag_describes :: "field_tag \<Rightarrow> field_desc \<Rightarrow> bool" where
  "tag_describes t f \<longleftrightarrow> tag_number t = fd_number f \<and> tag_name t = fd_name f
     \<and> fd_label f = (case tag_label t of TagOpt \<Rightarrow> 1 | TagRep \<Rightarrow> 3)
     \<and> (case tag_kind t of TagBytes \<Rightarrow> fd_type f \<in> {9, 11, 12} | TagVarint \<Rightarrow> fd_type f \<in> {4, 13})"

text \<open>
  The Go type for a type name: the package's own messages by their name, the well-known
  types by their Go packages, and none for the entry of a map.
\<close>

definition go_name :: "string \<Rightarrow> string \<Rightarrow> string option" where
  "go_name pkg tn =
    (if tn = ''.google.protobuf.Duration'' then Some ''durationpb.Duration''
     else if tn = ''.google.protobuf.Timestamp'' then Some ''timestamppb.Timestamp''
     else if tn = ''.google.protobuf.Empty'' then Some ''emptypb.Empty''
     else let n = drop (length pkg + 2) tn in if CHR ''.'' \<in> set n then None else Some n)"

text \<open>The Go types of the fields of message type, in the order of the file.\<close>

definition field_go_types :: "string \<Rightarrow> file_entry list \<Rightarrow> string option list" where
  "field_go_types pkg es = map (\<lambda>f. go_name pkg (fd_type_name f))
     (filter (\<lambda>f. fd_type f = 11) (concat (map md_fields (messages_in es))))"

definition method_names :: "file_entry list \<Rightarrow> string list" where
  "method_names es = concat (map (\<lambda>s. map fst (sd_methods s)) (services_in es))"

definition method_go_types :: "string \<Rightarrow> file_entry list \<Rightarrow> (string option \<times> string option) list" where
  "method_go_types pkg es = concat (map (\<lambda>s. map (\<lambda>(_, i, r). (go_name pkg i, go_name pkg r)) (sd_methods s))
     (services_in es))"

lemmas queue_tag_defs = Topic_tags_def CreateTopicRequest_tags_def PublishRequest_tags_def
  PublishResponse_tags_def ConsumeRequest_tags_def LeasedMessage_tags_def ConsumeResponse_tags_def
  AckRequest_tags_def

lemmas audit_tag_defs = Event_tags_def Actor_tags_def What_tags_def Where_tags_def Why_tags_def
  How_tags_def IngestRequest_tags_def IngestResponse_tags_def GetEventRequest_tags_def
  ListEventsRequest_tags_def ListEventsResponse_tags_def

lemma messages_in_describe: "messages_in (describe_file f) = map (describe_message f) (pr_messages f)"
  by (simp add: messages_in_def describe_file_def comp_def)

lemma services_in_describe: "services_in (describe_file f) = [describe_service f]"
  by (simp add: services_in_def describe_file_def comp_def)

lemmas descriptor_facts = messages_in_describe services_in_describe field_go_types_def method_names_def
  method_go_types_def describe_defs split_deps_def resolve_def go_name_def

lemma queue_tags_describe:
  "list_all2 (list_all2 tag_describes)
     [Topic_tags, CreateTopicRequest_tags, PublishRequest_tags, PublishResponse_tags,
      ConsumeRequest_tags, LeasedMessage_tags, ConsumeResponse_tags, AckRequest_tags]
     (map md_fields (messages_in (describe_file queue_proto)))"
  by (simp add: messages_in_describe describe_defs queue_proto_def queue_proto_message_defs queue_tag_defs
      tag_describes_def)

lemma audit_tags_describe:
  "list_all2 (list_all2 tag_describes)
     [Event_tags, Actor_tags, What_tags, Where_tags, Why_tags, How_tags, IngestRequest_tags,
      IngestResponse_tags, GetEventRequest_tags, ListEventsRequest_tags, ListEventsResponse_tags]
     (map md_fields (messages_in (describe_file audit_proto)))"
  by (simp add: messages_in_describe describe_defs audit_proto_def audit_proto_message_defs audit_tag_defs
      tag_describes_def)

lemma queue_types_describe:
  "map (\<lambda>m. Some (md_name m)) (messages_in (describe_file queue_proto)) = take 8 queue_goTypes"
  "map_option (\<lambda>p. resolve queue_goTypes (field_types p)) (split_deps queue_depIdxs)
     = Some (field_go_types ''queue.v1'' (describe_file queue_proto))"
  "map_option (\<lambda>p. zip (resolve queue_goTypes (method_inputs p)) (resolve queue_goTypes (method_outputs p)))
       (split_deps queue_depIdxs)
     = Some (method_go_types ''queue.v1'' (describe_file queue_proto))"
  "map fst (Methods Queue_ServiceDesc) = method_names (describe_file queue_proto)"
  by (simp_all add: descriptor_facts queue_proto_def queue_proto_message_defs queue_proto_service_def
      queue_goTypes_def queue_depIdxs_def Queue_ServiceDesc_def)

lemma audit_types_describe:
  "map (\<lambda>m. Some (md_name m)) (messages_in (describe_file audit_proto)) = take 11 audit_goTypes"
  "map_option (\<lambda>p. resolve audit_goTypes (field_types p)) (split_deps audit_depIdxs)
     = Some (field_go_types ''audit.v1'' (describe_file audit_proto))"
  "map_option (\<lambda>p. zip (resolve audit_goTypes (method_inputs p)) (resolve audit_goTypes (method_outputs p)))
       (split_deps audit_depIdxs)
     = Some (method_go_types ''audit.v1'' (describe_file audit_proto))"
  "map fst (Methods Audit_ServiceDesc) = method_names (describe_file audit_proto)"
  by (simp_all add: descriptor_facts audit_proto_def audit_proto_message_defs audit_proto_service_def
      audit_goTypes_def audit_depIdxs_def Audit_ServiceDesc_def)

section \<open>Properties\<close>

text \<open>
  The embedded descriptors are the interface definitions: read by the protobuf wire
  format, the bytes each package is initialised with are the file descriptor of its
  \<open>.proto\<close> file, with every message, field, number, type, label and method in order.
\<close>

lemma raw_descriptors_say_the_proto:
  "read_file (pb_rawDesc (queue_initial queue_rawDesc)) = Some (describe_file queue_proto)
   \<and> read_file (pb_rawDesc (audit_initial audit_rawDesc)) = Some (describe_file audit_proto)"
  by (simp add: queue_initial_def audit_initial_def queue_rawDesc_reads audit_rawDesc_reads)

text \<open>
  The tables of the generated Go code agree with the embedded descriptors: the Go
  message types are the described messages in order, every struct tag describes its field
  (number, name, label, wire kind), the dependency indexes resolve to the Go type of every
  message-typed field and of every method's request and reply, and the service registers
  the described methods in order.
\<close>

lemma go_tables_agree_with_descriptors:
  "(case read_file queue_rawDesc of
      None \<Rightarrow> False
    | Some es \<Rightarrow>
        map (\<lambda>m. Some (md_name m)) (messages_in es) = take 8 queue_goTypes
        \<and> list_all2 (list_all2 tag_describes)
            [Topic_tags, CreateTopicRequest_tags, PublishRequest_tags, PublishResponse_tags,
             ConsumeRequest_tags, LeasedMessage_tags, ConsumeResponse_tags, AckRequest_tags]
            (map md_fields (messages_in es))
        \<and> map_option (\<lambda>p. resolve queue_goTypes (field_types p)) (split_deps queue_depIdxs)
            = Some (field_go_types ''queue.v1'' es)
        \<and> map_option (\<lambda>p. zip (resolve queue_goTypes (method_inputs p))
              (resolve queue_goTypes (method_outputs p))) (split_deps queue_depIdxs)
            = Some (method_go_types ''queue.v1'' es)
        \<and> map fst (Methods Queue_ServiceDesc) = method_names es)
   \<and> (case read_file audit_rawDesc of
      None \<Rightarrow> False
    | Some es \<Rightarrow>
        map (\<lambda>m. Some (md_name m)) (messages_in es) = take 11 audit_goTypes
        \<and> list_all2 (list_all2 tag_describes)
            [Event_tags, Actor_tags, What_tags, Where_tags, Why_tags, How_tags, IngestRequest_tags,
             IngestResponse_tags, GetEventRequest_tags, ListEventsRequest_tags, ListEventsResponse_tags]
            (map md_fields (messages_in es))
        \<and> map_option (\<lambda>p. resolve audit_goTypes (field_types p)) (split_deps audit_depIdxs)
            = Some (field_go_types ''audit.v1'' es)
        \<and> map_option (\<lambda>p. zip (resolve audit_goTypes (method_inputs p))
              (resolve audit_goTypes (method_outputs p))) (split_deps audit_depIdxs)
            = Some (method_go_types ''audit.v1'' es)
        \<and> map fst (Methods Audit_ServiceDesc) = method_names es)"
  unfolding queue_rawDesc_reads audit_rawDesc_reads option.case
  by (intro conjI queue_types_describe queue_tags_describe audit_types_describe audit_tags_describe)

end
