(* ===== verification/Shutdown_Machine.thy ===== *)
theory Shutdown_Machine
  imports Lifecycle
begin

text \<open>
  The shutdown of the gRPC services in small steps (\<open>shutdown\<close> in
  \<open>modules/audit/src/cmd/api/main.go\<close>; the queue's is the same text): the main goroutine, the
  goroutine that stops the server and closes \<open>done\<close>, and the clock, which may advance by any
  time between two steps.

  As documented by grpc-go, \<open>GracefulStop\<close> returns when the calls in flight have ended; next
  to a \<open>Stop\<close>, which closes the connections, it may return earlier, or wait on for a handler
  that does not end.  \<open>Stop\<close> waits for no handler.  As documented by the OpenTelemetry SDK, a
  shutdown of the providers returns when its exporter is done or its context expires.
\<close>

section \<open>State and steps\<close>

datatype stopper = NotStarted | InGracefulStop | Closing | Gone

text \<open>The place of the main goroutine; \<open>InFlush\<close> holds the context and the time that was left in it.\<close>

datatype main_pc = InSelect | AtStop | InStop | AtFlush | InFlush deadline int | Finished

record shutdown_state =
  elapsed :: int                   \<comment> \<open>since the shutdown context was made, in ns\<close>
  stopper :: stopper
  done_closed :: bool
  main_pc :: main_pc
  stop_called :: bool
  trace :: "event list"            \<comment> \<open>of the main goroutine\<close>

definition shutdown_start :: shutdown_state where
  "shutdown_start = \<lparr>elapsed = 0, stopper = NotStarted, done_closed = False, main_pc = InSelect,
     stop_called = False, trace = []\<rparr>"

text \<open>The calls in flight, by when their handlers end (\<open>None\<close>: never).\<close>

type_synonym calls = "int option list"

definition drained :: "calls \<Rightarrow> int \<Rightarrow> bool" where
  "drained calls t = list_all (\<lambda>e. case e of None \<Rightarrow> False | Some d \<Rightarrow> d \<le> t) calls"

text \<open>The main goroutine; \<open>exporter\<close> says by when the exporter has answered.\<close>

inductive main_step ::
    "(int \<Rightarrow> bool) \<Rightarrow> (int \<Rightarrow> go_error option) \<Rightarrow> shutdown_state \<Rightarrow> shutdown_state \<Rightarrow> bool" for exporter otelShutdown where
  select_done: "main_pc s = InSelect \<Longrightarrow> done_closed s \<Longrightarrow> main_step exporter otelShutdown s
    (s\<lparr>main_pc := AtFlush, trace := trace s @ [Log LevelInfo ''graceful shutdown completed'' None]\<rparr>)"
| select_timeout: "main_pc s = InSelect \<Longrightarrow> expired (Until shutdown_deadline) (elapsed s) \<Longrightarrow>
    main_step exporter otelShutdown s (s\<lparr>main_pc := AtStop,
       trace := trace s @ [Log LevelWarn ''graceful shutdown timed out, forcing stop'' None]\<rparr>)"
| call_stop: "main_pc s = AtStop \<Longrightarrow> main_step exporter otelShutdown s
    (s\<lparr>main_pc := InStop, stop_called := True, trace := trace s @ [Stop]\<rparr>)"
| stop_returns: "main_pc s = InStop \<Longrightarrow> main_step exporter otelShutdown s (s\<lparr>main_pc := AtFlush\<rparr>)"
| call_flush: "main_pc s = AtFlush \<Longrightarrow> left = max 0 (shutdown_deadline - elapsed s) \<Longrightarrow>
    main_step exporter otelShutdown s
      (s\<lparr>main_pc := InFlush (Until shutdown_deadline) left, trace := trace s @ [ShutdownOtel left]\<rparr>)"
| flush_returns: "main_pc s = InFlush ctx left \<Longrightarrow> exporter (elapsed s) \<or> expired ctx (elapsed s) \<Longrightarrow>
    main_step exporter otelShutdown s
      (s\<lparr>main_pc := Finished, trace := trace s @ log_if ''failed to shutdown otel'' (otelShutdown left)\<rparr>)"

text \<open>The stopping goroutine and the clock.\<close>

inductive beside_step :: "calls \<Rightarrow> shutdown_state \<Rightarrow> shutdown_state \<Rightarrow> bool" for calls where
  call_graceful: "stopper s = NotStarted \<Longrightarrow> beside_step calls s (s\<lparr>stopper := InGracefulStop\<rparr>)"
| graceful_returns: "stopper s = InGracefulStop \<Longrightarrow> drained calls (elapsed s) \<or> stop_called s \<Longrightarrow>
    beside_step calls s (s\<lparr>stopper := Closing\<rparr>)"
| close_done: "stopper s = Closing \<Longrightarrow> beside_step calls s (s\<lparr>stopper := Gone, done_closed := True\<rparr>)"
| time_passes: "0 < d \<Longrightarrow> beside_step calls s (s\<lparr>elapsed := elapsed s + d\<rparr>)"

inductive shutdown_reach ::
    "calls \<Rightarrow> (int \<Rightarrow> bool) \<Rightarrow> (int \<Rightarrow> go_error option) \<Rightarrow> shutdown_state \<Rightarrow> bool" for calls exporter otelShutdown where
  begin_shutdown: "shutdown_reach calls exporter otelShutdown shutdown_start"
| main: "shutdown_reach calls exporter otelShutdown s \<Longrightarrow> main_step exporter otelShutdown s s'
    \<Longrightarrow> shutdown_reach calls exporter otelShutdown s'"
| beside: "shutdown_reach calls exporter otelShutdown s \<Longrightarrow> beside_step calls s s'
    \<Longrightarrow> shutdown_reach calls exporter otelShutdown s'"

section \<open>The invariant\<close>

text \<open>How the select ended: after the last call, or at the deadline and with \<open>Stop\<close>.\<close>

definition completed :: "calls \<Rightarrow> shutdown_state \<Rightarrow> event list \<Rightarrow> bool" where
  "completed calls s t \<longleftrightarrow> drained calls (elapsed s) \<and> t = [Log LevelInfo ''graceful shutdown completed'' None]"

definition forced :: "shutdown_state \<Rightarrow> event list \<Rightarrow> bool" where
  "forced s t \<longleftrightarrow> shutdown_deadline \<le> elapsed s
     \<and> t = [Log LevelWarn ''graceful shutdown timed out, forcing stop'' None, Stop]"

text \<open>What the main goroutine has done, with the time that was left for the flush.\<close>

definition flushing :: "calls \<Rightarrow> (int \<Rightarrow> go_error option) \<Rightarrow> shutdown_state \<Rightarrow> int \<Rightarrow> event list \<Rightarrow> bool" where
  "flushing calls otelShutdown s left rest \<longleftrightarrow> 0 \<le> left \<and> left \<le> shutdown_deadline \<and>
     (\<exists>t. trace s = t @ [ShutdownOtel left] @ rest \<and> (completed calls s t \<or> forced s t \<and> left = 0))"

definition main_ok :: "calls \<Rightarrow> (int \<Rightarrow> go_error option) \<Rightarrow> shutdown_state \<Rightarrow> bool" where
  "main_ok calls otelShutdown s \<longleftrightarrow> (case main_pc s of
     InSelect \<Rightarrow> trace s = [] \<and> \<not> stop_called s
   | AtStop \<Rightarrow> trace s = [Log LevelWarn ''graceful shutdown timed out, forcing stop'' None] \<and> shutdown_deadline \<le> elapsed s
   | InStop \<Rightarrow> forced s (trace s)
   | AtFlush \<Rightarrow> completed calls s (trace s) \<or> forced s (trace s)
   | InFlush ctx left \<Rightarrow> ctx = Until shutdown_deadline \<and> flushing calls otelShutdown s left []
   | Finished \<Rightarrow> \<exists>left. flushing calls otelShutdown s left (log_if ''failed to shutdown otel'' (otelShutdown left)))"

definition shutdown_inv :: "calls \<Rightarrow> (int \<Rightarrow> go_error option) \<Rightarrow> shutdown_state \<Rightarrow> bool" where
  "shutdown_inv calls otelShutdown s \<longleftrightarrow> 0 \<le> elapsed s \<and> main_ok calls otelShutdown s
     \<and> (stopper s \<in> {Closing, Gone} \<or> done_closed s \<longrightarrow> drained calls (elapsed s) \<or> stop_called s)"

lemma drained_later: "drained calls t \<Longrightarrow> t \<le> u \<Longrightarrow> drained calls u"
  unfolding drained_def by (induction calls) (auto split: option.splits)

lemma completed_later: "completed calls s t \<Longrightarrow> 0 < d \<Longrightarrow> completed calls (s\<lparr>elapsed := elapsed s + d\<rparr>) t"
  by (simp add: completed_def drained_later [of calls "elapsed s"])

lemma forced_later: "forced s t \<Longrightarrow> 0 < d \<Longrightarrow> forced (s\<lparr>elapsed := elapsed s + d\<rparr>) t"
  by (simp add: forced_def)

lemma flushing_later:
  "flushing calls f s left rest \<Longrightarrow> 0 < d \<Longrightarrow> flushing calls f (s\<lparr>elapsed := elapsed s + d\<rparr>) left rest"
  using completed_later forced_later by (fastforce simp: flushing_def)

lemma main_ok_later: "main_ok calls f s \<Longrightarrow> 0 < d \<Longrightarrow> main_ok calls f (s\<lparr>elapsed := elapsed s + d\<rparr>)"
  using completed_later [of calls s _ d] forced_later [of s _ d] flushing_later [of calls f s _ _ d]
  by (cases "main_pc s") (fastforce simp: main_ok_def)+

lemma main_step_inv:
  assumes "main_step exporter otelShutdown s s'" and "shutdown_inv calls otelShutdown s"
  shows "shutdown_inv calls otelShutdown s'"
  using assms
proof (cases rule: main_step.cases)
  case select_done
  then show ?thesis using assms(2) by (auto simp: shutdown_inv_def main_ok_def completed_def)
next
  case (call_flush left)
  moreover have "left \<le> shutdown_deadline" "forced s t \<Longrightarrow> left = 0" for t
    using call_flush(3) assms(2) shutdown_deadline_pos by (auto simp: shutdown_inv_def forced_def)
  ultimately show ?thesis using assms(2)
    by (auto simp: shutdown_inv_def main_ok_def flushing_def completed_def forced_def)
next
  case (flush_returns ctx left)
  then show ?thesis using assms(2)
    by (auto simp: shutdown_inv_def main_ok_def flushing_def completed_def forced_def)
qed (use assms(2) in \<open>auto simp: shutdown_inv_def main_ok_def forced_def completed_def\<close>)

lemma beside_step_inv:
  assumes "beside_step calls s s'" and "shutdown_inv calls otelShutdown s"
  shows "shutdown_inv calls otelShutdown s'"
  using assms
proof (cases rule: beside_step.cases)
  case (time_passes d)
  then show ?thesis using assms(2) main_ok_later [of calls otelShutdown s d] drained_later [of calls "elapsed s"]
    by (auto simp: shutdown_inv_def)
qed (use assms(2) in \<open>auto simp: shutdown_inv_def main_ok_def flushing_def forced_def completed_def split: main_pc.splits\<close>)

lemma shutdown_reach_inv: "shutdown_reach calls exporter otelShutdown s \<Longrightarrow> shutdown_inv calls otelShutdown s"
proof (induction rule: shutdown_reach.induct)
  case begin_shutdown
  show ?case by (simp add: shutdown_inv_def main_ok_def shutdown_start_def)
qed (blast intro: main_step_inv beside_step_inv)+

section \<open>The main goroutine alone\<close>

fun main_left :: "main_pc \<Rightarrow> nat" where
  "main_left InSelect = 5"
| "main_left AtStop = 4"
| "main_left InStop = 3"
| "main_left AtFlush = 2"
| "main_left (InFlush _ _) = 1"
| "main_left Finished = 0"

text \<open>The context the flush waits for is the shutdown context.\<close>

definition flush_bounded :: "shutdown_state \<Rightarrow> bool" where
  "flush_bounded s \<longleftrightarrow> (\<forall>ctx left. main_pc s = InFlush ctx left \<longrightarrow> ctx = Until shutdown_deadline)"

lemma shutdown_reach_bounded: "shutdown_reach calls exporter otelShutdown s \<Longrightarrow> flush_bounded s"
  using shutdown_reach_inv [of calls exporter otelShutdown s]
  by (auto simp: shutdown_inv_def main_ok_def flush_bounded_def)

lemma main_proceeds:
  assumes "flush_bounded s" and "shutdown_deadline \<le> elapsed s" and "main_pc s \<noteq> Finished"
  shows "\<exists>s'. main_step exporter otelShutdown s s' \<and> flush_bounded s' \<and> elapsed s' = elapsed s
    \<and> main_left (main_pc s') < main_left (main_pc s)"
proof (cases "main_pc s")
  case InSelect
  then have "main_step exporter otelShutdown s (s\<lparr>main_pc := AtStop,
       trace := trace s @ [Log LevelWarn ''graceful shutdown timed out, forcing stop'' None]\<rparr>)"
    using assms(2) by (intro main_step.select_timeout) simp_all
  then show ?thesis using InSelect by (intro exI conjI) (assumption | simp add: flush_bounded_def)+
next
  case AtStop
  then show ?thesis by (intro exI conjI) (rule main_step.call_stop, simp_all add: flush_bounded_def)
next
  case InStop
  then show ?thesis by (intro exI conjI) (rule main_step.stop_returns, simp_all add: flush_bounded_def)
next
  case AtFlush
  then show ?thesis by (intro exI conjI) (rule main_step.call_flush, simp_all add: flush_bounded_def)
next
  case (InFlush ctx left)
  then have "expired ctx (elapsed s)" using assms(1,2) by (auto simp: flush_bounded_def)
  then show ?thesis using InFlush
    by (intro exI conjI) (rule main_step.flush_returns, assumption, simp_all add: flush_bounded_def)
qed (use assms(3) in simp)

lemma main_finishes:
  assumes "flush_bounded s" and "shutdown_deadline \<le> elapsed s"
  shows "\<exists>n s'. n \<le> main_left (main_pc s) \<and> (main_step exporter otelShutdown ^^ n) s s' \<and> main_pc s' = Finished"
  using assms
proof (induction "main_left (main_pc s)" arbitrary: s rule: less_induct)
  case less
  show ?case
  proof (cases "main_pc s = Finished")
    case False
    then obtain s1 where s1: "main_step exporter otelShutdown s s1" "flush_bounded s1" "elapsed s1 = elapsed s"
      "main_left (main_pc s1) < main_left (main_pc s)" using main_proceeds [OF less.prems] by blast
    then obtain n s' where "n \<le> main_left (main_pc s1)" "(main_step exporter otelShutdown ^^ n) s1 s'" "main_pc s' = Finished"
      using less.hyps [of s1] less.prems(2) by auto
    then show ?thesis using s1(4) relpowp_Suc_I2 [of "main_step exporter otelShutdown", OF s1(1)] by (intro exI [of _ "Suc n"] exI [of _ s']) simp
  qed (auto intro!: exI [of _ 0])
qed

lemma main_left_le: "main_left pc \<le> 5"
  by (cases pc) simp_all

section \<open>Properties\<close>

text \<open>
  C8: The shutdown of the gRPC services ends by the main goroutine alone: in every state of a
  run, as soon as the clock shows 30 seconds (whenever that is), at most five steps of its own
  finish it, whether or not a call in flight ever ends, \<open>GracefulStop\<close> returns, the stopping
  goroutine runs or the exporter answers.  When it has finished, it has either found the
  server stopped, after the last call in flight, or, not before the 30 seconds, stopped it by
  force; then it has flushed the telemetry, with what was left of the 30 seconds, which after
  a forced stop is nothing.
\<close>

theorem shutdown_terminates:
  assumes "shutdown_reach calls exporter otelShutdown s"
  shows "(\<forall>d\<ge>0. 30 * 1000000000 \<le> elapsed s + d \<longrightarrow> (\<exists>n s'. n \<le> 5
        \<and> (main_step exporter otelShutdown ^^ n) (s\<lparr>elapsed := elapsed s + d\<rparr>) s' \<and> main_pc s' = Finished))
    \<and> (main_pc s = Finished \<longrightarrow> (\<exists>left. 0 \<le> left \<and> left \<le> 30 * 1000000000 \<and>
        (drained calls (elapsed s) \<and> trace s = [Log LevelInfo ''graceful shutdown completed'' None, ShutdownOtel left]
            @ log_if ''failed to shutdown otel'' (otelShutdown left)
         \<or> 30 * 1000000000 \<le> elapsed s \<and> left = 0
            \<and> trace s = [Log LevelWarn ''graceful shutdown timed out, forcing stop'' None, Stop, ShutdownOtel left]
              @ log_if ''failed to shutdown otel'' (otelShutdown left))))"
proof -
  have D: "shutdown_deadline = 30 * 1000000000" by (simp add: shutdown_deadline_def seconds_def)
  have "\<exists>n s'. n \<le> 5 \<and> (main_step exporter otelShutdown ^^ n) (s\<lparr>elapsed := elapsed s + d\<rparr>) s' \<and> main_pc s' = Finished"
    if "30 * 1000000000 \<le> elapsed s + d" for d
  proof -
    have "flush_bounded (s\<lparr>elapsed := elapsed s + d\<rparr>)"
      using shutdown_reach_bounded [OF assms] by (simp add: flush_bounded_def)
    from main_finishes [OF this, of exporter otelShutdown] show ?thesis
      using that main_left_le [of "main_pc s"] by (simp add: D) (meson order_trans)
  qed
  moreover have "main_ok calls otelShutdown s"
    using shutdown_reach_inv [OF assms] by (simp add: shutdown_inv_def)
  ultimately show ?thesis
    by (auto simp: main_ok_def flushing_def completed_def forced_def D)
qed

text \<open>One call that never ends and an exporter that never answers: the shutdown ends all the same.\<close>

theorem shutdown_terminates_witness:
  "\<exists>n s'. n \<le> 5 \<and> (main_step (\<lambda>_. False) (\<lambda>_. None) ^^ n) (shutdown_start\<lparr>elapsed := 30 * 1000000000\<rparr>) s'
    \<and> main_pc s' = Finished"
  using shutdown_terminates [where calls = "[None]" and exporter = "\<lambda>_. False" and otelShutdown = "\<lambda>_. None",
      OF shutdown_reach.begin_shutdown, THEN conjunct1, rule_format, of "30 * 1000000000"]
  by (simp add: shutdown_start_def)

end
