(* ===== verification/Auth_Drain.thy ===== *)
theory Auth_Drain
  imports Auth_Wiring Lifecycle
begin

text \<open>
  The end of the auth service with requests in flight: \<open>run\<close> from the signal and
  \<open>shutdown\<close> in \<open>modules/auth/src/cmd/api/main.go\<close>, in small steps next to the handlers of
  \<open>route/login.go\<close> and \<open>service/login.go\<close> that are still running.  Lifecycle writes the same
  shutdown as one list of events; here the requests, the pool and the clock are there too.

  As documented by \<open>net/http\<close>, \<open>Shutdown\<close> closes the listeners at once and waits, without
  interrupting a handler, until no request is active (then it returns the error of closing
  the listeners) or its context expires (then it returns the context's error); handlers that
  still run keep running.  As documented by \<open>database/sql\<close>, \<open>Close\<close> prevents new queries
  from starting, then waits for those that have started to finish.  A telemetry flush returns
  when its exporter is done or its context expires.  A request here is one that an accepted
  connection carries; connections without a request do not count.  Nothing bounds how long a
  handler takes: there is no read timeout on the server, and a request may sit in the read of
  its body or in its query for any time.  The clock may advance by any time between two steps.
\<close>

section \<open>The process and its requests\<close>

text \<open>What does not change during a run: the service's parts, its database and its faults,
  and what closing the listeners, the cache and the database return.\<close>

record auth_process =
  ap_enc :: "response encoder"
  ap_unmarshal :: "string \<Rightarrow> go_error + LoginRequest"
  ap_ozzo :: ozzo
  ap_fault :: "string \<Rightarrow> go_error option"
  ap_db :: "auth_db sqldb"
  ap_otel :: "int \<Rightarrow> go_error option"
  ap_exporter :: "int \<Rightarrow> bool"      \<comment> \<open>the exporter is done by then\<close>
  ap_listener_Close :: "go_error option"
  ap_rds_Close :: "go_error option"
  ap_db_Close :: "go_error option"

definition ErrDBClosed :: go_error where
  "ErrDBClosed = ErrorString ''sql: database is closed''"

definition DeadlineExceeded :: go_error where
  "DeadlineExceeded = Foreign ''context'' ''context deadline exceeded''"

text \<open>The place of a request's goroutine: before its lookup, in it, after it, replied.\<close>

datatype handler_phase = InHandler | InQuery | LookedUp "go_error + User" | Answered ResponseWriter

record in_flight =
  fl_endpoint :: auth_endpoint
  fl_body :: Body
  fl_phase :: handler_phase

text \<open>The e-mail a request looks up: none for the health endpoint and for a request that is
  refused before it reaches the service.\<close>

definition wants_user :: "auth_process \<Rightarrow> auth_endpoint \<Rightarrow> Body \<Rightarrow> string option" where
  "wants_user p ep body =
    (case ep of
       HealthEndpoint \<Rightarrow> None
     | LoginEndpoint \<Rightarrow>
         (case fst (RequestBody (ap_unmarshal p) zero_LoginRequest (LoginRequest_Validate (ap_ozzo p)) body) of
            (_, Some err) \<Rightarrow> None
          | (req, None) \<Rightarrow> Some (req_Email req)))"

text \<open>The repository's answer in an open pool, and the reply of the handler over an answer.\<close>

definition pool_answer :: "auth_process \<Rightarrow> string \<Rightarrow> go_error + User" where
  "pool_answer p email = fst (q_GetUser (auth_Queries_Querier (ap_fault p) (auth_New Pool)) email (ap_db p))"

definition reply_over :: "auth_process \<Rightarrow> go_error + User \<Rightarrow> in_flight \<Rightarrow> ResponseWriter" where
  "reply_over p ans r =
    fst (run_endpoint (ap_enc p) (ap_unmarshal p) (ap_ozzo p) (auth_NewHandler (LoginService_Post (\<lambda>_. ans)))
      (fl_endpoint r) fresh_writer (fl_body r))"

text \<open>The same request to the service as \<open>run\<close> wires it, with the given faults.\<close>

definition wired_reply :: "auth_process \<Rightarrow> (string \<Rightarrow> go_error option) \<Rightarrow> in_flight \<Rightarrow> ResponseWriter" where
  "wired_reply p fault r =
    fst (run_endpoint (ap_enc p) (ap_unmarshal p) (ap_ozzo p) (auth_wired fault (ap_db p))
      (fl_endpoint r) fresh_writer (fl_body r))"

section \<open>The machine\<close>

text \<open>
  The place of the main goroutine; \<open>InFlush\<close> holds the context and the time that was left in
  it, and in \<open>InDBClose\<close> the close of the database has begun and not returned.
\<close>

datatype drain_pc = Serving | Draining | AtFlush | InFlush deadline int | AtCache | AtDB | InDBClose
  | AwaitingDeadline | Exited

datatype drain_end = Pending | Drained | TimedOut

record drain_state =
  dr_elapsed :: int               \<comment> \<open>since the shutdown context was made, in ns\<close>
  dr_pc :: drain_pc               \<comment> \<open>the main goroutine\<close>
  dr_end :: drain_end             \<comment> \<open>how \<open>srv.Shutdown\<close> returned\<close>
  db_open :: bool
  dr_reqs :: "in_flight list"
  dr_trace :: "event list"        \<comment> \<open>the main goroutine's events in \<open>shutdown\<close>\<close>

definition drain_start :: drain_state where
  "drain_start = \<lparr>dr_elapsed = 0, dr_pc = Serving, dr_end = Pending, db_open = True,
     dr_reqs = [], dr_trace = []\<rparr>"

text \<open>No request is active; no query is running.\<close>

definition no_handler_runs :: "drain_state \<Rightarrow> bool" where
  "no_handler_runs s = list_all (\<lambda>r. case fl_phase r of Answered _ \<Rightarrow> True | _ \<Rightarrow> False) (dr_reqs s)"

definition no_query_runs :: "drain_state \<Rightarrow> bool" where
  "no_query_runs s = list_all (\<lambda>r. fl_phase r \<noteq> InQuery) (dr_reqs s)"

definition move :: "nat \<Rightarrow> handler_phase \<Rightarrow> drain_state \<Rightarrow> drain_state" where
  "move i ph s = s\<lparr>dr_reqs := (dr_reqs s)[i := (dr_reqs s ! i)\<lparr>fl_phase := ph\<rparr>]\<rparr>"

definition wants :: "auth_process \<Rightarrow> in_flight \<Rightarrow> string option" where
  "wants p r = wants_user p (fl_endpoint r) (fl_body r)"

text \<open>The steps of one request.\<close>

inductive request_step :: "auth_process \<Rightarrow> bool \<Rightarrow> in_flight \<Rightarrow> handler_phase \<Rightarrow> bool" for p opened r where
  reply_without_lookup: "fl_phase r = InHandler \<Longrightarrow> wants p r = None
    \<Longrightarrow> request_step p opened r (Answered (wired_reply p (ap_fault p) r))"
| lookup_starts: "fl_phase r = InHandler \<Longrightarrow> wants p r = Some email \<Longrightarrow> opened
    \<Longrightarrow> request_step p opened r InQuery"
| lookup_refused: "fl_phase r = InHandler \<Longrightarrow> wants p r = Some email \<Longrightarrow> \<not> opened
    \<Longrightarrow> request_step p opened r (LookedUp (Inl ErrDBClosed))"
| lookup_ends: "fl_phase r = InQuery \<Longrightarrow> wants p r = Some email
    \<Longrightarrow> request_step p opened r (LookedUp (pool_answer p email))"
| reply: "fl_phase r = LookedUp ans \<Longrightarrow> request_step p opened r (Answered (reply_over p ans r))"

text \<open>The steps of the main goroutine.\<close>

inductive auth_main_step :: "auth_process \<Rightarrow> drain_state \<Rightarrow> drain_state \<Rightarrow> bool" for p where
  signal: "dr_pc s = Serving \<Longrightarrow> auth_main_step p s (s\<lparr>dr_pc := Draining,
    dr_trace := [Log LevelInfo ''shutdown signal received'' None, ShutdownHTTP shutdown_deadline]\<rparr>)"
| drained: "dr_pc s = Draining \<Longrightarrow> no_handler_runs s \<Longrightarrow> auth_main_step p s (s\<lparr>dr_pc := AtFlush, dr_end := Drained,
    dr_trace := dr_trace s @ log_if ''server shutdown failed'' (ap_listener_Close p)\<rparr>)"
| timed_out: "dr_pc s = Draining \<Longrightarrow> expired (Until shutdown_deadline) (dr_elapsed s) \<Longrightarrow> auth_main_step p s
    (s\<lparr>dr_pc := AtFlush, dr_end := TimedOut,
       dr_trace := dr_trace s @ log_if ''server shutdown failed'' (Some DeadlineExceeded)\<rparr>)"
| call_flush: "dr_pc s = AtFlush \<Longrightarrow> left = max 0 (shutdown_deadline - dr_elapsed s) \<Longrightarrow> auth_main_step p s
    (s\<lparr>dr_pc := InFlush (Until shutdown_deadline) left, dr_trace := dr_trace s @ [ShutdownOtel left]\<rparr>)"
| flush_returns: "dr_pc s = InFlush ctx left \<Longrightarrow> ap_exporter p (dr_elapsed s) \<or> expired ctx (dr_elapsed s) \<Longrightarrow>
    auth_main_step p s
      (s\<lparr>dr_pc := AtCache, dr_trace := dr_trace s @ log_if ''failed to shutdown otel'' (ap_otel p left)\<rparr>)"
| close_cache: "dr_pc s = AtCache \<Longrightarrow> auth_main_step p s (s\<lparr>dr_pc := AtDB,
    dr_trace := dr_trace s @ [CloseCache] @ log_if ''failed to close cache'' (ap_rds_Close p)\<rparr>)"
| close_db: "dr_pc s = AtDB \<Longrightarrow> auth_main_step p s
    (s\<lparr>dr_pc := InDBClose, db_open := False, dr_trace := dr_trace s @ [CloseDB]\<rparr>)"
| db_closed: "dr_pc s = InDBClose \<Longrightarrow> no_query_runs s \<Longrightarrow> auth_main_step p s (s\<lparr>dr_pc := AwaitingDeadline,
    dr_trace := dr_trace s @ log_if ''failed to close database'' (ap_db_Close p)\<rparr>)"
| await_deadline: "dr_pc s = AwaitingDeadline \<Longrightarrow> expired (Until shutdown_deadline) (dr_elapsed s) \<Longrightarrow>
    auth_main_step p s (s\<lparr>dr_pc := Exited,
       dr_trace := dr_trace s @ [AwaitDeadline, Log LevelInfo ''graceful shutdown completed'' None]\<rparr>)"

text \<open>The steps of the process: clients, handlers, the main goroutine and the clock.\<close>

inductive drain_step :: "auth_process \<Rightarrow> drain_state \<Rightarrow> drain_state \<Rightarrow> bool" for p where
  accept: "dr_pc s = Serving \<Longrightarrow> drain_step p s
    (s\<lparr>dr_reqs := dr_reqs s @ [\<lparr>fl_endpoint = ep, fl_body = body, fl_phase = InHandler\<rparr>]\<rparr>)"
| handler: "i < length (dr_reqs s) \<Longrightarrow> dr_pc s \<noteq> Exited \<Longrightarrow> request_step p (db_open s) (dr_reqs s ! i) ph
    \<Longrightarrow> drain_step p s (move i ph s)"
| main: "auth_main_step p s s' \<Longrightarrow> drain_step p s s'"
| time_passes: "dr_pc s \<notin> {Serving, Exited} \<Longrightarrow> 0 < d \<Longrightarrow> drain_step p s (s\<lparr>dr_elapsed := dr_elapsed s + d\<rparr>)"

inductive drain_reach :: "auth_process \<Rightarrow> drain_state \<Rightarrow> bool" for p where
  start_serving: "drain_reach p drain_start"
| step: "drain_reach p s \<Longrightarrow> drain_step p s s' \<Longrightarrow> drain_reach p s'"

section \<open>Replies\<close>

lemma pool_answer_is: "pool_answer p email = GetUser (ap_fault p) (users (committed (ap_db p))) email"
  by (simp add: pool_answer_def pool_GetUser)

lemma wants_user_request:
  "wants_user p ep body = Some email \<longleftrightarrow> ep = LoginEndpoint \<and> (\<exists>req. req_Email req = email
     \<and> fst (RequestBody (ap_unmarshal p) zero_LoginRequest (LoginRequest_Validate (ap_ozzo p)) body) = (req, None))"
  by (auto simp: wants_user_def split: auth_endpoint.split prod.splits option.splits)

text \<open>A handler asks for one user: its reply depends on that answer only.\<close>

lemma reply_of_lookup:
  assumes "wants p r = Some email"
  shows "reply_over p (GetUser fault (users (committed (ap_db p))) email) r = wired_reply p fault r"
proof -
  obtain req where r: "fl_endpoint r = LoginEndpoint" "req_Email req = email"
    "fst (RequestBody (ap_unmarshal p) zero_LoginRequest (LoginRequest_Validate (ap_ozzo p)) (fl_body r)) = (req, None)"
    using assms unfolding wants_def wants_user_request by blast
  then obtain b where "RequestBody (ap_unmarshal p) zero_LoginRequest (LoginRequest_Validate (ap_ozzo p)) (fl_body r)
      = ((req, None), b)" by (metis prod.collapse)
  then show ?thesis using r(1,2)
    by (simp add: reply_over_def wired_reply_def run_endpoint_def loginSvc_wired auth_NewHandler_def login_def
        LoginService_Post_def NewLoginInput_def)
qed

lemma reply_after_close:
  assumes "wants p r = Some email"
  shows "reply_over p (Inl ErrDBClosed) r = wired_reply p (\<lambda>_. Some ErrDBClosed) r"
  using reply_of_lookup [OF assms, of "\<lambda>_. Some ErrDBClosed"] by (simp add: GetUser_def)

lemma wants_phase [simp]: "wants p (r\<lparr>fl_phase := ph\<rparr>) = wants p r"
  "wired_reply p fault (r\<lparr>fl_phase := ph\<rparr>) = wired_reply p fault r"
  by (simp_all add: wants_def wired_reply_def)

section \<open>One request\<close>

text \<open>
  What a request gets, by whether the database was open all the time: the answer of the open
  pool, or the refusal of a closed one.
\<close>

definition request_ok :: "auth_process \<Rightarrow> bool \<Rightarrow> in_flight \<Rightarrow> bool" where
  "request_ok p may_refuse r =
    (case fl_phase r of
       InHandler \<Rightarrow> True
     | InQuery \<Rightarrow> wants p r \<noteq> None
     | LookedUp ans \<Rightarrow> (\<exists>email. wants p r = Some email
         \<and> (ans = pool_answer p email \<or> may_refuse \<and> ans = Inl ErrDBClosed))
     | Answered w \<Rightarrow> w = wired_reply p (ap_fault p) r
         \<or> may_refuse \<and> wants p r \<noteq> None \<and> w = wired_reply p (\<lambda>_. Some ErrDBClosed) r)"

lemma request_ok_step:
  assumes "request_step p opened r ph" and "request_ok p m r" and "opened \<or> m"
  shows "request_ok p m (r\<lparr>fl_phase := ph\<rparr>)"
  using assms
proof (cases rule: request_step.cases)
  case (reply ans)
  then obtain email where "wants p r = Some email"
      "ans = pool_answer p email \<or> m \<and> ans = Inl ErrDBClosed"
    using assms(2) by (auto simp: request_ok_def)
  then show ?thesis
    using reply reply_of_lookup [of p r email "ap_fault p"] reply_after_close [of p r email]
    by (auto simp: request_ok_def pool_answer_is)
qed (auto simp: request_ok_def)

lemma request_ok_new [simp]: "request_ok p m \<lparr>fl_endpoint = ep, fl_body = body, fl_phase = InHandler\<rparr>"
  by (simp add: request_ok_def)

lemma request_ok_mono: "request_ok p False r \<Longrightarrow> request_ok p m r"
  by (auto simp: request_ok_def split: handler_phase.splits)

text \<open>A lookup that has started gets its answer; one that starts on a closed pool is refused.\<close>

definition will_answer :: "auth_process \<Rightarrow> in_flight \<Rightarrow> bool" where
  "will_answer p r =
    (case fl_phase r of
       InHandler \<Rightarrow> False
     | InQuery \<Rightarrow> wants p r \<noteq> None
     | LookedUp ans \<Rightarrow> \<exists>email. wants p r = Some email \<and> ans = pool_answer p email
     | Answered w \<Rightarrow> w = wired_reply p (ap_fault p) r)"

definition will_refuse :: "auth_process \<Rightarrow> in_flight \<Rightarrow> bool" where
  "will_refuse p r =
    (wants p r \<noteq> None \<and> (case fl_phase r of
       InHandler \<Rightarrow> True
     | InQuery \<Rightarrow> False
     | LookedUp ans \<Rightarrow> ans = Inl ErrDBClosed
     | Answered w \<Rightarrow> w = wired_reply p (\<lambda>_. Some ErrDBClosed) r))"

lemma will_answer_step:
  assumes "request_step p opened r ph" and "will_answer p r"
  shows "will_answer p (r\<lparr>fl_phase := ph\<rparr>)"
  using assms
proof (cases rule: request_step.cases)
  case (reply ans)
  then obtain email where "wants p r = Some email" "ans = pool_answer p email"
    using assms(2) by (auto simp: will_answer_def)
  then show ?thesis
    using reply reply_of_lookup [of p r email "ap_fault p"] by (auto simp: will_answer_def pool_answer_is)
qed (auto simp: will_answer_def)

lemma will_refuse_step:
  assumes "request_step p False r ph" and "will_refuse p r"
  shows "will_refuse p (r\<lparr>fl_phase := ph\<rparr>)"
  using assms
proof (cases rule: request_step.cases)
  case (reply ans)
  then show ?thesis using assms(2) reply_after_close [of p r] by (auto simp: will_refuse_def)
qed (auto simp: will_refuse_def)

section \<open>The invariant\<close>

fun stage :: "drain_pc \<Rightarrow> nat" where
  "stage Serving = 0"
| "stage Draining = 1"
| "stage AtFlush = 2"
| "stage (InFlush _ _) = 3"
| "stage AtCache = 4"
| "stage AtDB = 5"
| "stage InDBClose = 6"
| "stage AwaitingDeadline = 7"
| "stage Exited = 8"

lemma stage_le: "stage pc \<le> 8"
  by (cases pc) simp_all

text \<open>The steps of \<open>shutdown\<close>, of which each place has passed some.\<close>

definition closing_events :: "int \<Rightarrow> drain_pc \<Rightarrow> event list" where
  "closing_events left pc =
    (if stage pc < 1 then [] else [ShutdownHTTP shutdown_deadline])
     @ (if stage pc < 3 then [] else [ShutdownOtel left]) @ (if stage pc < 5 then [] else [CloseCache])
     @ (if stage pc < 6 then [] else [CloseDB]) @ (if stage pc < 8 then [] else [AwaitDeadline])"

definition clock_ok :: "drain_state \<Rightarrow> bool" where
  "clock_ok s \<longleftrightarrow> 0 \<le> dr_elapsed s
     \<and> (dr_end s = TimedOut \<or> dr_pc s = Exited \<longrightarrow> shutdown_deadline \<le> dr_elapsed s)
     \<and> (dr_end s = Pending \<longleftrightarrow> dr_pc s \<in> {Serving, Draining})
     \<and> (db_open s \<longleftrightarrow> stage (dr_pc s) < 6)
     \<and> (\<forall>ctx left. dr_pc s = InFlush ctx left \<longrightarrow> ctx = Until shutdown_deadline)
     \<and> (\<exists>left. 0 \<le> left \<and> left \<le> shutdown_deadline \<and> (dr_end s = TimedOut \<longrightarrow> left = 0)
         \<and> filter (\<lambda>ev. \<not> is_log ev) (dr_trace s) = closing_events left (dr_pc s))"

definition requests_ok :: "auth_process \<Rightarrow> drain_state \<Rightarrow> bool" where
  "requests_ok p s \<longleftrightarrow> (\<forall>r\<in>set (dr_reqs s). request_ok p (dr_end s = TimedOut) r) \<and> (dr_end s = Drained \<longrightarrow> no_handler_runs s)"

lemma no_handler_runs_all: "no_handler_runs s \<longleftrightarrow> (\<forall>r\<in>set (dr_reqs s). \<exists>w. fl_phase r = Answered w)"
  by (auto simp: no_handler_runs_def list_all_iff split: handler_phase.splits) (metis handler_phase.exhaust)

lemma move_simps [simp]:
  "dr_elapsed (move i ph s) = dr_elapsed s" "dr_pc (move i ph s) = dr_pc s" "dr_end (move i ph s) = dr_end s"
  "db_open (move i ph s) = db_open s" "dr_trace (move i ph s) = dr_trace s"
  "dr_reqs (move i ph s) = (dr_reqs s)[i := (dr_reqs s ! i)\<lparr>fl_phase := ph\<rparr>]"
  by (simp_all add: move_def)

lemma no_handler_runs_cong:
  "dr_reqs s' = dr_reqs s \<Longrightarrow> no_handler_runs s' = no_handler_runs s"
  "dr_reqs s' = dr_reqs s \<Longrightarrow> no_query_runs s' = no_query_runs s"
  by (simp_all add: no_handler_runs_def no_query_runs_def)

lemma main_step_reqs: "auth_main_step p s s' \<Longrightarrow> dr_reqs s' = dr_reqs s \<and> dr_elapsed s' = dr_elapsed s"
  by (induction rule: auth_main_step.induct) simp_all

lemma main_step_clock:
  assumes "auth_main_step p s s'" and "clock_ok s"
  shows "clock_ok s'"
proof -
  obtain left where l: "0 \<le> left" "left \<le> shutdown_deadline" "dr_end s = TimedOut \<longrightarrow> left = 0"
    "filter (\<lambda>ev. \<not> is_log ev) (dr_trace s) = closing_events left (dr_pc s)"
    using assms(2) by (auto simp: clock_ok_def)
  show ?thesis
    using assms(1)
  proof cases
    case (call_flush x)
    moreover have "x \<le> shutdown_deadline" "0 \<le> x" "dr_end s = TimedOut \<longrightarrow> x = 0"
      using call_flush(3) assms(2) shutdown_deadline_pos by (auto simp: clock_ok_def)
    ultimately show ?thesis using assms(2) l by (auto simp: clock_ok_def closing_events_def)
  next
    case drained
    then show ?thesis using assms(2) l by (auto simp: clock_ok_def closing_events_def)
  next
    case timed_out
    then show ?thesis using assms(2) l shutdown_deadline_pos
      by (auto simp: clock_ok_def closing_events_def intro!: exI [of _ 0])
  next
    case signal
    then show ?thesis using assms(2) l by (auto simp: clock_ok_def closing_events_def)
  qed (use assms(2) l in \<open>auto simp: clock_ok_def closing_events_def intro!: exI [of _ left]\<close>)
qed

lemma main_step_requests:
  assumes "auth_main_step p s s'" and "requests_ok p s" and "clock_ok s"
  shows "requests_ok p s'"
  using assms
proof (cases rule: auth_main_step.cases)
  case timed_out
  then show ?thesis using assms(2,3) by (auto simp: requests_ok_def clock_ok_def intro: request_ok_mono)
next
  case drained
  then show ?thesis using assms(2,3) by (auto simp: requests_ok_def clock_ok_def no_handler_runs_def)
qed (use assms(2) in \<open>auto simp: requests_ok_def no_handler_runs_def\<close>)

lemma drain_step_ok:
  assumes "drain_step p s s'" and "clock_ok s" and "requests_ok p s"
  shows "clock_ok s' \<and> requests_ok p s'"
  using assms(1)
proof cases
  case (accept ep body)
  then show ?thesis using assms(2,3) by (auto simp: clock_ok_def requests_ok_def)
next
  case (handler i ph)
  have "request_ok p (dr_end s = TimedOut) (dr_reqs s ! i)" and no: "dr_end s = Drained \<Longrightarrow> no_handler_runs s"
    using assms(3) handler(2) by (simp_all add: requests_ok_def)
  moreover have "dr_end s \<noteq> Drained"
    using no handler(2,4) by (fastforce simp: no_handler_runs_all elim!: request_step.cases dest!: nth_mem)
  ultimately have "request_ok p (dr_end s = TimedOut) ((dr_reqs s ! i)\<lparr>fl_phase := ph\<rparr>)"
    using request_ok_step [OF handler(4)] assms(2) by (cases "dr_end s") (auto simp: clock_ok_def)
  then show ?thesis
    using handler(1) \<open>dr_end s \<noteq> Drained\<close> assms(2,3)
    by (auto simp: clock_ok_def requests_ok_def dest!: subsetD [OF set_update_subset_insert])
next
  case main
  then show ?thesis using assms(2,3) main_step_clock main_step_requests by blast
next
  case (time_passes d)
  then show ?thesis using assms(2,3) by (auto simp: clock_ok_def requests_ok_def no_handler_runs_def)
qed

lemma drain_reach_ok: "drain_reach p s \<Longrightarrow> clock_ok s \<and> requests_ok p s"
proof (induction rule: drain_reach.induct)
  case start_serving
  show ?case using shutdown_deadline_pos
    by (auto simp: drain_start_def clock_ok_def requests_ok_def closing_events_def intro!: exI [of _ 0])
next
  case (step s s')
  then show ?case using drain_step_ok [of p s s'] by blast
qed

section \<open>What later steps keep\<close>

text \<open>A property of one request that the request's own steps keep is kept.\<close>

lemma drain_step_request:
  assumes "drain_step p s s'" and "i < length (dr_reqs s)"
    and "\<And>ph. request_step p (db_open s) (dr_reqs s ! i) ph \<Longrightarrow> P ((dr_reqs s ! i)\<lparr>fl_phase := ph\<rparr>)"
    and "P (dr_reqs s ! i)"
  shows "i < length (dr_reqs s') \<and> P (dr_reqs s' ! i)"
  using assms(1)
proof cases
  case (handler j ph)
  then show ?thesis using assms(2-4) by (cases "j = i") auto
next
  case main
  then show ?thesis using main_step_reqs [of p s s'] assms(2,4) by simp
qed (use assms(2,4) in \<open>simp_all add: nth_append\<close>)

lemma drain_step_closed: "drain_step p s s' \<Longrightarrow> \<not> db_open s \<Longrightarrow> \<not> db_open s'"
  by (auto elim!: drain_step.cases auth_main_step.cases)

lemma later_answer:
  "(drain_step p)\<^sup>*\<^sup>* s s' \<Longrightarrow> i < length (dr_reqs s) \<Longrightarrow> will_answer p (dr_reqs s ! i)
    \<Longrightarrow> i < length (dr_reqs s') \<and> will_answer p (dr_reqs s' ! i)"
proof (induction rule: rtranclp_induct)
  case (step s1 s2)
  then show ?case using drain_step_request [OF step(2), of i "will_answer p"] will_answer_step by blast
qed simp

lemma later_refusal:
  "(drain_step p)\<^sup>*\<^sup>* s s' \<Longrightarrow> i < length (dr_reqs s) \<Longrightarrow> \<not> db_open s \<Longrightarrow> will_refuse p (dr_reqs s ! i)
    \<Longrightarrow> i < length (dr_reqs s') \<and> \<not> db_open s' \<and> will_refuse p (dr_reqs s' ! i)"
proof (induction rule: rtranclp_induct)
  case (step s1 s2)
  then have "i < length (dr_reqs s1)" "\<not> db_open s1" "will_refuse p (dr_reqs s1 ! i)" by simp_all
  then show ?case
    using drain_step_request [OF step(2), of i "will_refuse p"] will_refuse_step drain_step_closed [OF step(2)] by simp
qed simp

text \<open>A request keeps its endpoint and its body.\<close>

lemma later_same:
  "(drain_step p)\<^sup>*\<^sup>* s s' \<Longrightarrow> i < length (dr_reqs s) \<Longrightarrow> i < length (dr_reqs s') \<and>
     fl_endpoint (dr_reqs s' ! i) = fl_endpoint (dr_reqs s ! i) \<and> fl_body (dr_reqs s' ! i) = fl_body (dr_reqs s ! i)"
proof (induction rule: rtranclp_induct)
  case (step s1 s2)
  let ?P = "\<lambda>r. fl_endpoint r = fl_endpoint (dr_reqs s ! i) \<and> fl_body r = fl_body (dr_reqs s ! i)"
  show ?case using drain_step_request [OF step(2), of i ?P] step.IH step.prems by simp
qed simp

lemma drain_reach_later: "(drain_step p)\<^sup>*\<^sup>* s s' \<Longrightarrow> drain_reach p s \<Longrightarrow> drain_reach p s'"
  by (induction rule: rtranclp_induct) (auto intro: drain_reach.step)

lemma same_reply:
  "fl_endpoint r' = fl_endpoint r \<Longrightarrow> fl_body r' = fl_body r \<Longrightarrow> wired_reply p fault r' = wired_reply p fault r"
  "fl_endpoint r' = fl_endpoint r \<Longrightarrow> fl_body r' = fl_body r \<Longrightarrow> wants p r' = wants p r"
  by (simp_all add: wired_reply_def wants_def)

section \<open>The main goroutine alone\<close>

lemma auth_main_proceeds:
  assumes "clock_ok s" and "shutdown_deadline \<le> dr_elapsed s" and "dr_pc s \<noteq> Exited"
    and "dr_pc s = InDBClose \<longrightarrow> no_query_runs s"
  shows "\<exists>s'. auth_main_step p s s' \<and> stage (dr_pc s') = Suc (stage (dr_pc s))"
proof (cases "dr_pc s")
  case Serving
  then show ?thesis by (intro exI conjI) (rule auth_main_step.signal, simp_all)
next
  case Draining
  then show ?thesis using assms(2) by (intro exI conjI) (rule auth_main_step.timed_out, simp_all)
next
  case AtFlush
  then show ?thesis by (intro exI conjI) (rule auth_main_step.call_flush, simp_all)
next
  case (InFlush ctx left)
  then have "expired ctx (dr_elapsed s)" using assms(1,2) by (auto simp: clock_ok_def)
  then show ?thesis using InFlush by (intro exI conjI) (rule auth_main_step.flush_returns, assumption, simp_all)
next
  case AtCache
  then show ?thesis by (intro exI conjI) (rule auth_main_step.close_cache, simp_all)
next
  case AtDB
  then show ?thesis by (intro exI conjI) (rule auth_main_step.close_db, simp_all)
next
  case InDBClose
  then show ?thesis using assms(4) by (intro exI conjI) (rule auth_main_step.db_closed, simp_all)
next
  case AwaitingDeadline
  then show ?thesis using assms(2) by (intro exI conjI) (rule auth_main_step.await_deadline, simp_all)
qed (use assms(3) in simp)

text \<open>To any later place, if no query is in the way of the close.\<close>

lemma main_goes_to:
  assumes "clock_ok s" and "shutdown_deadline \<le> dr_elapsed s" and "stage (dr_pc s) + n \<le> 8"
    and "stage (dr_pc s) + n \<le> 6 \<or> no_query_runs s"
  shows "\<exists>s'. (auth_main_step p ^^ n) s s' \<and> stage (dr_pc s') = stage (dr_pc s) + n
    \<and> dr_reqs s' = dr_reqs s \<and> dr_elapsed s' = dr_elapsed s"
  using assms
proof (induction n arbitrary: s)
  case (Suc n)
  then have "dr_pc s \<noteq> Exited" and "dr_pc s = InDBClose \<longrightarrow> no_query_runs s" by auto
  then obtain s1 where s1: "auth_main_step p s s1" "stage (dr_pc s1) = Suc (stage (dr_pc s))"
    using auth_main_proceeds Suc.prems(1,2) by blast
  note same = main_step_reqs [OF s1(1)]
  have "\<exists>s'. (auth_main_step p ^^ n) s1 s' \<and> stage (dr_pc s') = stage (dr_pc s1) + n
    \<and> dr_reqs s' = dr_reqs s1 \<and> dr_elapsed s' = dr_elapsed s1"
    using Suc.prems s1(2) same main_step_clock [OF s1(1)] no_handler_runs_cong(2) [of s1 s]
    by (intro Suc.IH) auto
  then show ?case using s1 same relpowp_Suc_I2 [of "auth_main_step p", OF s1(1)] by fastforce
qed (auto intro!: exI)

lemma main_steps_drain: "(auth_main_step p ^^ n) s s' \<Longrightarrow> (drain_step p)\<^sup>*\<^sup>* s s'"
proof (induction n arbitrary: s')
  case (Suc n)
  then obtain s1 where "(auth_main_step p ^^ n) s s1" "auth_main_step p s1 s'" by auto
  then show ?case using Suc.IH drain_step.main rtranclp.rtrancl_into_rtrancl by metis
qed simp

lemma Exited_stage: "dr_pc s = Exited \<longleftrightarrow> stage (dr_pc s) = 8" "dr_pc s = InDBClose \<longleftrightarrow> stage (dr_pc s) = 6"
  by (cases "dr_pc s", simp_all)+

lemma main_exits:
  assumes "clock_ok s" and "shutdown_deadline \<le> dr_elapsed s" and "no_query_runs s"
  shows "\<exists>n s'. n \<le> 8 \<and> (auth_main_step p ^^ n) s s' \<and> dr_pc s' = Exited \<and> dr_reqs s' = dr_reqs s"
  using main_goes_to [OF assms(1,2), of "8 - stage (dr_pc s)" p] assms(3) stage_le [of "dr_pc s"]
  by (auto simp: Exited_stage(1) intro!: exI [of _ "8 - stage (dr_pc s)"])

section \<open>Runs\<close>

lemma clock_later: "clock_ok s \<Longrightarrow> 0 \<le> d \<Longrightarrow> clock_ok (s\<lparr>dr_elapsed := dr_elapsed s + d\<rparr>)"
  by (auto simp: clock_ok_def)

text \<open>The time may come up to any later moment.\<close>

lemma wait_until:
  "drain_reach p s \<Longrightarrow> dr_pc s \<notin> {Serving, Exited} \<Longrightarrow> dr_elapsed s \<le> t \<Longrightarrow>
     drain_reach p (s\<lparr>dr_elapsed := t\<rparr>) \<and> (drain_step p)\<^sup>*\<^sup>* s (s\<lparr>dr_elapsed := t\<rparr>)"
  using drain_step.time_passes [of s "t - dr_elapsed s" p]
  by (cases "t = dr_elapsed s") (auto intro: drain_reach.step)

lemma length_filter_update:
  "i < length xs \<Longrightarrow> P (xs ! i) \<Longrightarrow> \<not> P y \<Longrightarrow> length (filter P (xs[i := y])) < length (filter P xs)"
  by (subst (2) id_take_nth_drop [of i xs]) (simp_all add: upd_conv_take_nth_drop)

text \<open>Queries that have started can finish.\<close>

lemma finish_queries:
  assumes "requests_ok p s" and "dr_pc s \<noteq> Exited"
  shows "\<exists>s'. (drain_step p)\<^sup>*\<^sup>* s s' \<and> no_query_runs s' \<and> dr_pc s' = dr_pc s \<and> dr_elapsed s' = dr_elapsed s \<and> dr_end s' = dr_end s
    \<and> db_open s' = db_open s \<and> dr_trace s' = dr_trace s"
  using assms
proof (induction "length (filter (\<lambda>r. fl_phase r = InQuery) (dr_reqs s))" arbitrary: s rule: less_induct)
  case less
  show ?case
  proof (cases "no_query_runs s")
    case False
    then obtain i where i: "i < length (dr_reqs s)" "fl_phase (dr_reqs s ! i) = InQuery"
      by (auto simp: no_query_runs_def list_all_length)
    let ?r = "dr_reqs s ! i"
    have ok: "request_ok p (dr_end s = TimedOut) ?r" using less.prems(1) i(1) by (simp add: requests_ok_def)
    then obtain email where email: "wants p ?r = Some email" using i(2) by (auto simp: request_ok_def)
    let ?s1 = "move i (LookedUp (pool_answer p email)) s"
    have step: "drain_step p s ?s1"
      using i less.prems(2) email by (intro drain_step.handler request_step.lookup_ends) simp_all
    have "request_ok p (dr_end s = TimedOut) (?r\<lparr>fl_phase := LookedUp (pool_answer p email)\<rparr>)"
      using email by (simp add: request_ok_def)
    moreover have "dr_end s \<noteq> Drained"
      using less.prems(1) i by (fastforce simp: requests_ok_def no_handler_runs_all dest: nth_mem)
    ultimately have "requests_ok p ?s1"
      using less.prems(1) by (auto simp: requests_ok_def dest!: subsetD [OF set_update_subset_insert])
    moreover have "length (filter (\<lambda>r. fl_phase r = InQuery) (dr_reqs ?s1))
        < length (filter (\<lambda>r. fl_phase r = InQuery) (dr_reqs s))"
      unfolding move_simps by (rule length_filter_update) (use i in simp_all)
    ultimately obtain s' where "(drain_step p)\<^sup>*\<^sup>* ?s1 s'" "no_query_runs s'" "dr_pc s' = dr_pc ?s1" "dr_elapsed s' = dr_elapsed ?s1"
      "dr_end s' = dr_end ?s1" "db_open s' = db_open ?s1" "dr_trace s' = dr_trace ?s1"
      using less.hyps [of ?s1] less.prems(2) by (auto simp del: move_simps(6))
    then show ?thesis using converse_rtranclp_into_rtranclp [of "drain_step p", OF step] by fastforce
  qed blast
qed

lemma exit_reachable:
  assumes "drain_reach p s"
  shows "\<exists>s'. (drain_step p)\<^sup>*\<^sup>* s s' \<and> dr_pc s' = Exited"
proof (cases "dr_pc s = Exited")
  case False
  obtain s0 where s0: "(drain_step p)\<^sup>*\<^sup>* s s0" "dr_pc s0 \<notin> {Serving, Exited}"
  proof (cases "dr_pc s = Serving")
    case True
    then show thesis using that [OF r_into_rtranclp [of "drain_step p", OF drain_step.main [OF auth_main_step.signal [OF True]]]] by simp
  qed (use False that [of s] in simp)
  have r0: "drain_reach p s0" using drain_reach_later [OF s0(1) assms] .
  obtain s1 where s1: "(drain_step p)\<^sup>*\<^sup>* s0 s1" "no_query_runs s1" "dr_pc s1 = dr_pc s0"
    using finish_queries [of p s0] drain_reach_ok [OF r0] s0(2) by auto
  have r1: "drain_reach p s1" using drain_reach_later [OF s1(1) r0] .
  let ?s2 = "s1\<lparr>dr_elapsed := max shutdown_deadline (dr_elapsed s1)\<rparr>"
  have s2: "drain_reach p ?s2" "(drain_step p)\<^sup>*\<^sup>* s1 ?s2"
    using wait_until [OF r1, of "max shutdown_deadline (dr_elapsed s1)"] s0(2) s1(3) by auto
  have "clock_ok ?s2" "no_query_runs ?s2" using drain_reach_ok [OF s2(1)] s1(2) by (simp_all add: no_query_runs_def)
  then obtain n s' where "(auth_main_step p ^^ n) ?s2 s'" "dr_pc s' = Exited"
    using main_exits [of ?s2 p] by auto
  then show ?thesis using main_steps_drain s0(1) s1(1) s2(2) by (meson rtranclp_trans)
qed blast

text \<open>A request that is in its handler, or in its query, when the drain times out.\<close>

lemma late_request:
  assumes "fl_phase r = InHandler"
  shows "\<exists>s. drain_reach p s \<and> dr_pc s = Draining \<and> dr_elapsed s = 0 \<and> db_open s \<and> dr_reqs s = [r]"
proof -
  have "r = \<lparr>fl_endpoint = fl_endpoint r, fl_body = fl_body r, fl_phase = InHandler\<rparr>" using assms by (cases r) simp
  then have "drain_reach p (drain_start\<lparr>dr_reqs := [r]\<rparr>)"
    using drain_reach.step [OF drain_reach.start_serving drain_step.accept, of p "fl_endpoint r" "fl_body r"]
    by (simp add: drain_start_def)
  from drain_reach.step [OF this drain_step.main [OF auth_main_step.signal]]
  show ?thesis by (intro exI conjI) (assumption | simp add: drain_start_def)+
qed

lemma late_query:
  assumes "fl_phase r = InHandler" and "wants p r = Some email"
  shows "\<exists>s. drain_reach p s \<and> dr_pc s = Draining \<and> dr_elapsed s = 0 \<and> dr_reqs s = [r\<lparr>fl_phase := InQuery\<rparr>]"
proof -
  obtain s where s: "drain_reach p s" "dr_pc s = Draining" "dr_elapsed s = 0" "db_open s" "dr_reqs s = [r]"
    using late_request [OF assms(1)] by blast
  have "drain_step p s (move 0 InQuery s)"
    using s assms by (intro drain_step.handler request_step.lookup_starts) simp_all
  from drain_reach.step [OF s(1) this] show ?thesis using s by (intro exI conjI) (assumption | simp)+
qed

text \<open>From there to the close of the database, at any time after the deadline.\<close>

lemma late_close:
  assumes "drain_reach p s" and "dr_pc s = Draining" and "dr_elapsed s \<le> t" and "shutdown_deadline \<le> t"
  shows "\<exists>s'. drain_reach p s' \<and> dr_pc s' = InDBClose \<and> dr_elapsed s' = t \<and> dr_reqs s' = dr_reqs s"
proof -
  let ?s1 = "s\<lparr>dr_elapsed := t\<rparr>"
  have s1: "drain_reach p ?s1" using wait_until [OF assms(1), of t] assms(2,3) by simp
  obtain s' where "(auth_main_step p ^^ 5) ?s1 s'" "stage (dr_pc s') = 6" "dr_reqs s' = dr_reqs s" "dr_elapsed s' = t"
    using main_goes_to [of ?s1 5 p] drain_reach_ok [OF s1] assms(2,4) by auto
  then show ?thesis using drain_reach_later [OF main_steps_drain s1] Exited_stage(2) by blast
qed

lemma close_to_exit:
  assumes "drain_reach p s" and "shutdown_deadline \<le> dr_elapsed s" and "no_query_runs s"
  shows "\<exists>s'. drain_reach p s' \<and> dr_pc s' = Exited \<and> dr_reqs s' = dr_reqs s"
  using main_exits [of s p] drain_reach_ok [OF assms(1)] assms(2,3) drain_reach_later [OF main_steps_drain assms(1)] by metis

lemma closed_reply_500:
  assumes "encoder_only_writes (ap_enc p)" and "wants p r = Some email"
  shows "sent_status (wired_reply p (\<lambda>_. Some ErrDBClosed) r) = Some 500"
proof -
  obtain req where r: "fl_endpoint r = LoginEndpoint"
    "fst (RequestBody (ap_unmarshal p) zero_LoginRequest (LoginRequest_Validate (ap_ozzo p)) (fl_body r)) = (req, None)"
    using assms(2) unfolding wants_def wants_user_request by blast
  then show ?thesis
    using login_endpoint_status [OF assms(1) fresh_writer_simps(1)]
    by (simp add: wired_reply_def run_endpoint_def loginSvc_wired login_status_def RequestBody_ok_iff GetUser_def)
qed

section \<open>Properties\<close>

text \<open>
  C12: What the shutdown of the auth service does to requests in flight, however the
  handlers, the main goroutine and the clock interleave.  Every reply that is written is the
  one that the service over the open database gives, or, only after the drain has timed out,
  the one of a service whose every lookup is refused; when the drain has succeeded, every
  accepted request has had the former.  A login whose lookup starts after the close of the
  database has begun gets the refusal, one whose query had started before still gets the
  real answer.  The close begins with a request still running only after a drain that has
  used up the 30 seconds.
\<close>

theorem auth_drain_answers:
  assumes "drain_reach p s" and "(drain_step p)\<^sup>*\<^sup>* s s'" and "i < length (dr_reqs s)"
    and "fl_phase (dr_reqs s' ! i) = Answered w"
  shows "(w = wired_reply p (ap_fault p) (dr_reqs s ! i)
        \<or> dr_end s' = TimedOut \<and> w = wired_reply p (\<lambda>_. Some ErrDBClosed) (dr_reqs s ! i))
    \<and> (\<not> db_open s \<and> fl_phase (dr_reqs s ! i) = InHandler \<and> wants p (dr_reqs s ! i) \<noteq> None \<longrightarrow>
        w = wired_reply p (\<lambda>_. Some ErrDBClosed) (dr_reqs s ! i))
    \<and> (fl_phase (dr_reqs s ! i) = InQuery \<longrightarrow> w = wired_reply p (ap_fault p) (dr_reqs s ! i))
    \<and> (dr_end s = Drained \<longrightarrow> (\<forall>r\<in>set (dr_reqs s). fl_phase r = Answered (wired_reply p (ap_fault p) r)))
    \<and> (\<not> db_open s \<longrightarrow> no_handler_runs s \<or> dr_end s = TimedOut)
    \<and> (dr_end s = TimedOut \<longrightarrow> 30 * 1000000000 \<le> dr_elapsed s)"
proof -
  let ?r = "dr_reqs s ! i" and ?r' = "dr_reqs s' ! i"
  note ok = drain_reach_ok [OF assms(1)] and ok' = drain_reach_ok [OF drain_reach_later [OF assms(2,1)]]
  note same = later_same [OF assms(2,3)]
  have eq: "wired_reply p f ?r' = wired_reply p f ?r" "wants p ?r' = wants p ?r" for f
    by (rule same_reply; use same in blast)+
  have "request_ok p (dr_end s' = TimedOut) ?r'" using ok' same by (simp add: requests_ok_def)
  then have 1: "w = wired_reply p (ap_fault p) ?r \<or> dr_end s' = TimedOut \<and> w = wired_reply p (\<lambda>_. Some ErrDBClosed) ?r"
    using assms(4) by (auto simp: request_ok_def eq)
  have 2: "w = wired_reply p (\<lambda>_. Some ErrDBClosed) ?r"
    if "\<not> db_open s" "fl_phase ?r = InHandler" "wants p ?r \<noteq> None"
    using later_refusal [OF assms(2,3) that(1)] that(2,3) assms(4) by (auto simp: will_refuse_def eq)
  have 3: "w = wired_reply p (ap_fault p) ?r" if "fl_phase ?r = InQuery"
  proof -
    have "request_ok p (dr_end s = TimedOut) ?r" using ok assms(3) by (simp add: requests_ok_def)
    then have "will_answer p ?r" using that by (simp add: request_ok_def will_answer_def)
    then show ?thesis using later_answer [OF assms(2,3)] assms(4) by (auto simp: will_answer_def eq)
  qed
  have 4: "fl_phase r = Answered (wired_reply p (ap_fault p) r)" if "dr_end s = Drained" "r \<in> set (dr_reqs s)" for r
    using ok that by (fastforce simp: requests_ok_def no_handler_runs_all request_ok_def)
  have "\<not> db_open s \<longrightarrow> no_handler_runs s \<or> dr_end s = TimedOut"
    using ok by (cases "dr_end s") (auto simp: clock_ok_def requests_ok_def)
  then show ?thesis using 1 2 3 4 ok by (simp add: clock_ok_def shutdown_deadline_def seconds_def)
qed

text \<open>The service over one user, with a listener that reports an error when it closes and an
  exporter that never answers.\<close>

definition one_user_process :: auth_process where
  "one_user_process = \<lparr>ap_enc = reply_encoder, ap_unmarshal = sample_unmarshal,
     ap_ozzo = simple_ozzo (\<lambda>s. CHR ''@'' \<in> set s), ap_fault = (\<lambda>_. None), ap_db = one_user_sqldb,
     ap_otel = (\<lambda>_. None), ap_exporter = (\<lambda>_. False), ap_listener_Close = Some (ErrorString ''close''),
     ap_rds_Close = None, ap_db_Close = None\<rparr>"

definition good_login :: in_flight where
  "good_login = \<lparr>fl_endpoint = LoginEndpoint, fl_body = sample_body ''good'', fl_phase = InHandler\<rparr>"

lemma good_login_wants: "wants one_user_process good_login = Some ''a@b.c''"
proof -
  have "LoginRequest_Validate (simple_ozzo (\<lambda>s. CHR ''@'' \<in> set s)) \<lparr>req_Email = ''a@b.c'', req_Password = ''secret''\<rparr> = None"
    by (subst login_request_valid_iff [OF simple_ozzo_documented]) simp
  then show ?thesis
    by (simp add: wants_def good_login_def one_user_process_def wants_user_request RequestBody_ok_iff
        sample_body_def sample_unmarshal_def)
qed

lemma good_login_reply: "sent_status (wired_reply one_user_process (\<lambda>_. None) good_login) = Some 200"
proof -
  have "login_status sample_unmarshal (simple_ozzo (\<lambda>s. CHR ''@'' \<in> set s))
      (GetUser (\<lambda>_. None) (users (committed one_user_sqldb))) (sample_body ''good'') = 200"
    using login_request_valid_iff [OF simple_ozzo_documented,
        of "\<lambda>s. CHR ''@'' \<in> set s" "\<lparr>req_Email = ''a@b.c'', req_Password = ''secret''\<rparr>"]
    by (simp add: login_status_def sample_body_def sample_unmarshal_def one_user_sqldb_def one_user_db_is
        one_user_def GetUser_def)
  then show ?thesis
    using login_endpoint_status [OF reply_encoder_only_writes fresh_writer_simps(1)]
    by (simp add: wired_reply_def run_endpoint_def loginSvc_wired one_user_process_def good_login_def)
qed

text \<open>A login with the right password whose lookup starts after the close: 500.\<close>

lemma late_login_refused:
  assumes "fl_phase r = InHandler" and "wants p r = Some email"
  shows "\<exists>s s'. drain_reach p s \<and> \<not> db_open s \<and> dr_reqs s = [r] \<and> (drain_step p)\<^sup>*\<^sup>* s s'
    \<and> dr_reqs s' = [r\<lparr>fl_phase := Answered (wired_reply p (\<lambda>_. Some ErrDBClosed) r)\<rparr>]
    \<and> dr_pc s' = InDBClose \<and> shutdown_deadline \<le> dr_elapsed s'"
proof -
  obtain s0 where "drain_reach p s0" "dr_pc s0 = Draining" "dr_elapsed s0 = 0" "dr_reqs s0 = [r]"
    using late_request [OF assms(1)] by blast
  then obtain s where s: "drain_reach p s" "dr_pc s = InDBClose" "dr_elapsed s = shutdown_deadline" "dr_reqs s = [r]"
    using late_close [of p s0 shutdown_deadline] shutdown_deadline_pos by auto
  have closed: "\<not> db_open s" using drain_reach_ok [OF s(1)] s(2) by (simp add: clock_ok_def)
  let ?s1 = "move 0 (LookedUp (Inl ErrDBClosed)) s"
  let ?s2 = "move 0 (Answered (reply_over p (Inl ErrDBClosed) (r\<lparr>fl_phase := LookedUp (Inl ErrDBClosed)\<rparr>))) ?s1"
  have "drain_step p s ?s1"
    using s assms closed by (intro drain_step.handler request_step.lookup_refused) simp_all
  moreover have "drain_step p ?s1 ?s2"
    using s(2,4) by (intro drain_step.handler) (auto intro!: request_step.reply)
  ultimately have "(drain_step p)\<^sup>*\<^sup>* s ?s2" by (meson converse_rtranclp_into_rtranclp r_into_rtranclp)
  moreover have "reply_over p (Inl ErrDBClosed) (r\<lparr>fl_phase := LookedUp (Inl ErrDBClosed)\<rparr>)
      = wired_reply p (\<lambda>_. Some ErrDBClosed) r"
    using reply_after_close [of p "r\<lparr>fl_phase := LookedUp (Inl ErrDBClosed)\<rparr>" email] assms(2) by simp
  ultimately show ?thesis using s closed by (intro exI [of _ s] exI [of _ ?s2]) simp
qed

theorem auth_drain_answers_witness:
  "\<exists>s'. drain_reach one_user_process s' \<and> (\<exists>w. fl_phase (dr_reqs s' ! 0) = Answered w
    \<and> w = wired_reply one_user_process (\<lambda>_. Some ErrDBClosed) good_login \<and> sent_status w = Some 500)"
proof -
  have h: "fl_phase good_login = InHandler" by (simp add: good_login_def)
  obtain s s' where s: "drain_reach one_user_process s" "\<not> db_open s" "dr_reqs s = [good_login]"
    "(drain_step one_user_process)\<^sup>*\<^sup>* s s'"
    "dr_reqs s' = [good_login\<lparr>fl_phase := Answered (wired_reply one_user_process (\<lambda>_. Some ErrDBClosed) good_login)\<rparr>]"
    using late_login_refused [OF h good_login_wants] by blast
  have "0 < length (dr_reqs s)" using s(3) by simp
  moreover obtain w where w: "fl_phase (dr_reqs s' ! 0) = Answered w" using s(5) by simp
  ultimately have "w = wired_reply one_user_process (\<lambda>_. Some ErrDBClosed) good_login"
    using auth_drain_answers [OF s(1,4), of 0 w, THEN conjunct2, THEN conjunct1] s(2,3) h good_login_wants by simp
  moreover have "sent_status (wired_reply one_user_process (\<lambda>_. Some ErrDBClosed) good_login) = Some 500"
    using closed_reply_500 [OF _ good_login_wants] by (simp add: one_user_process_def reply_encoder_only_writes)
  ultimately show ?thesis using w drain_reach_later [OF s(4,1)] by blast
qed

text \<open>
  C13: What a drain that times out does to a login: whatever its credentials, there is a run
  in which the process closes the database under the running handler, which then answers 500,
  and one in which the process exits and the login is never answered; nothing stops the
  handlers before the database is closed.
\<close>

theorem auth_drain_gives_up:
  assumes "fl_phase r = InHandler" and "wants p r = Some email" and "encoder_only_writes (ap_enc p)"
  shows "(\<exists>s w. drain_reach p s \<and> dr_pc s = Exited \<and> dr_reqs s = [r\<lparr>fl_phase := Answered w\<rparr>] \<and> sent_status w = Some 500)
    \<and> (\<exists>s. drain_reach p s \<and> dr_pc s = Exited \<and> dr_reqs s = [r])"
proof
  obtain s0 s1 where s1: "drain_reach p s0" "(drain_step p)\<^sup>*\<^sup>* s0 s1" "shutdown_deadline \<le> dr_elapsed s1"
    "dr_reqs s1 = [r\<lparr>fl_phase := Answered (wired_reply p (\<lambda>_. Some ErrDBClosed) r)\<rparr>]"
    using late_login_refused [OF assms(1,2)] by blast
  have "no_query_runs s1" using s1(4) by (simp add: no_query_runs_def)
  then show "\<exists>s w. drain_reach p s \<and> dr_pc s = Exited \<and> dr_reqs s = [r\<lparr>fl_phase := Answered w\<rparr>] \<and> sent_status w = Some 500"
    using close_to_exit [OF drain_reach_later [OF s1(2,1)] s1(3)] s1(4) closed_reply_500 [OF assms(3,2)] by auto
  obtain s2 where "drain_reach p s2" "dr_pc s2 = Draining" "dr_elapsed s2 = 0" "dr_reqs s2 = [r]"
    using late_request [OF assms(1)] by blast
  then obtain s3 where "drain_reach p s3" "dr_elapsed s3 = shutdown_deadline" "dr_reqs s3 = [r]"
    using late_close [of p s2 shutdown_deadline] shutdown_deadline_pos by auto
  then show "\<exists>s. drain_reach p s \<and> dr_pc s = Exited \<and> dr_reqs s = [r]"
    using close_to_exit [of p s3] assms(1) by (auto simp: no_query_runs_def)
qed

text \<open>A login with the right password, which the open database answers with 200.\<close>

theorem auth_drain_gives_up_witness:
  "(\<exists>s w. drain_reach one_user_process s \<and> dr_pc s = Exited
      \<and> dr_reqs s = [good_login\<lparr>fl_phase := Answered w\<rparr>] \<and> sent_status w = Some 500)
    \<and> (\<exists>s. drain_reach one_user_process s \<and> dr_pc s = Exited \<and> dr_reqs s = [good_login])
    \<and> sent_status (wired_reply one_user_process (ap_fault one_user_process) good_login) = Some 200"
proof -
  have "fl_phase good_login = InHandler" by (simp add: good_login_def)
  moreover have "encoder_only_writes (ap_enc one_user_process)"
    by (simp add: one_user_process_def reply_encoder_only_writes)
  moreover have "ap_fault one_user_process = (\<lambda>_. None)" by (simp add: one_user_process_def)
  ultimately show ?thesis using auth_drain_gives_up [OF _ good_login_wants] good_login_reply by metis
qed

text \<open>
  C14: How the shutdown of the auth service ends.  From every state of a run the process can
  still exit.  After the signal, as soon as the clock shows 30 seconds and no query is
  running, at most eight steps of the main goroutine alone end the process, whatever its
  handlers and the exporter do.  It never exits earlier, and when it has exited it has shut
  the server down, flushed the telemetry, with what was left of the 30 seconds (nothing after
  a drain that has timed out), closed the cache, then the database, and awaited the deadline.
\<close>

theorem auth_drain_ends:
  assumes "drain_reach p s"
  shows "(\<exists>s'. (drain_step p)\<^sup>*\<^sup>* s s' \<and> dr_pc s' = Exited)
    \<and> (\<forall>d\<ge>0. 30 * 1000000000 \<le> dr_elapsed s + d \<longrightarrow> no_query_runs s \<longrightarrow> (\<exists>n s'. n \<le> 8
        \<and> (auth_main_step p ^^ n) (s\<lparr>dr_elapsed := dr_elapsed s + d\<rparr>) s' \<and> dr_pc s' = Exited \<and> dr_reqs s' = dr_reqs s))
    \<and> (dr_pc s = Exited \<longrightarrow> 30 * 1000000000 \<le> dr_elapsed s \<and> (\<exists>left. 0 \<le> left \<and> left \<le> 30 * 1000000000
        \<and> (dr_end s = TimedOut \<longrightarrow> left = 0) \<and> filter (\<lambda>ev. \<not> is_log ev) (dr_trace s) =
          [ShutdownHTTP (30 * 1000000000), ShutdownOtel left, CloseCache, CloseDB, AwaitDeadline]))"
proof -
  have D: "shutdown_deadline = 30 * 1000000000" by (simp add: shutdown_deadline_def seconds_def)
  have ok: "clock_ok s" using drain_reach_ok [OF assms] by simp
  have "\<exists>n s'. n \<le> 8 \<and> (auth_main_step p ^^ n) (s\<lparr>dr_elapsed := dr_elapsed s + d\<rparr>) s' \<and> dr_pc s' = Exited \<and> dr_reqs s' = dr_reqs s"
    if "0 \<le> d" "30 * 1000000000 \<le> dr_elapsed s + d" "no_query_runs s" for d
    using main_exits [OF clock_later [OF ok that(1)], of p] that(2,3) by (simp add: D no_query_runs_def)
  moreover have "dr_pc s = Exited \<longrightarrow> 30 * 1000000000 \<le> dr_elapsed s \<and> (\<exists>left. 0 \<le> left \<and> left \<le> 30 * 1000000000
        \<and> (dr_end s = TimedOut \<longrightarrow> left = 0) \<and> filter (\<lambda>ev. \<not> is_log ev) (dr_trace s) =
          [ShutdownHTTP (30 * 1000000000), ShutdownOtel left, CloseCache, CloseDB, AwaitDeadline])"
    using ok by (auto simp: clock_ok_def closing_events_def D)
  ultimately show ?thesis using exit_reachable [OF assms] by blast
qed

text \<open>The service with an exporter that never answers, drained, exits by itself.\<close>

theorem auth_drain_ends_witness:
  "\<exists>s'. (drain_step one_user_process)\<^sup>*\<^sup>* drain_start s' \<and> dr_pc s' = Exited"
  by (rule auth_drain_ends [OF drain_reach.start_serving, THEN conjunct1])

text \<open>
  C15: The 30 seconds do not bound the shutdown: at any time after them there is, for every
  login that reaches the database, a run in which the main goroutine is in the close of the
  database and has no step of its own, as the login's query is still running.
\<close>

theorem auth_drain_waits_for_query:
  assumes "fl_phase r = InHandler" and "wants p r = Some email" and "30 * 1000000000 \<le> t"
  shows "\<exists>s. drain_reach p s \<and> dr_elapsed s = t \<and> dr_reqs s = [r\<lparr>fl_phase := InQuery\<rparr>]
    \<and> CloseDB \<in> set (dr_trace s) \<and> dr_pc s \<noteq> Exited \<and> \<not> (\<exists>s'. auth_main_step p s s')"
proof -
  obtain s0 where "drain_reach p s0" "dr_pc s0 = Draining" "dr_elapsed s0 = 0" "dr_reqs s0 = [r\<lparr>fl_phase := InQuery\<rparr>]"
    using late_query [OF assms(1,2)] by blast
  then obtain s where s: "drain_reach p s" "dr_pc s = InDBClose" "dr_elapsed s = t" "dr_reqs s = [r\<lparr>fl_phase := InQuery\<rparr>]"
    using late_close [of p s0 t] assms(3) by (auto simp: shutdown_deadline_def seconds_def)
  have "\<not> (\<exists>s'. auth_main_step p s s')" using s(2,4) by (auto elim!: auth_main_step.cases simp: no_query_runs_def)
  moreover obtain left where "filter (\<lambda>ev. \<not> is_log ev) (dr_trace s) = closing_events left (dr_pc s)"
    using drain_reach_ok [OF s(1)] by (auto simp: clock_ok_def)
  then have "CloseDB \<in> set (filter (\<lambda>ev. \<not> is_log ev) (dr_trace s))" using s(2) by (simp add: closing_events_def)
  ultimately show ?thesis using s by (intro exI [of _ s]) simp
qed

theorem auth_drain_waits_for_query_witness:
  "\<exists>s. drain_reach one_user_process s \<and> dr_elapsed s = 3600 * 1000000000 \<and> \<not> (\<exists>s'. auth_main_step one_user_process s s')"
proof -
  have "fl_phase good_login = InHandler" by (simp add: good_login_def)
  moreover have "(30 :: int) * 1000000000 \<le> 3600 * 1000000000" by simp
  ultimately show ?thesis using auth_drain_waits_for_query [OF _ good_login_wants] by blast
qed

end
