(* ===== verification/Spec2Isabelle.thy ===== *)
theory Spec2Isabelle
  imports Audit_Queries Audit_Paging Cache_Expiry Process_Output Auth_Json Queue_Link Handler_Types Pb_Reflect Pb_Descriptor Shutdown_Machine Auth_Drain
begin

text \<open>
  A verification library for the Go services of this repository (\<open>modules/\<close>): the auth,
  audit and queue services and the packages they share.

  \<^bold>\<open>The program.\<close>  \<open>auth\<close> is an HTTP service with one login endpoint over a PostgreSQL
  user table; \<open>audit\<close> and \<open>queue\<close> are gRPC services whose handlers are still the
  generated unimplemented ones, behind a chain of a logging and a recovery interceptor;
  \<open>audit\<close> also has the queries of an append-only event table and a client of the queue
  service.  \<open>shared\<close> holds errors, HTTP requests and responses, transactions, cache,
  telemetry, logging and gRPC plumbing.  Four binaries start and stop these parts.

  \<^bold>\<open>Conventions.\<close>  A Go error is a \<open>go_error\<close> (theory Errors), a nil error is \<open>None\<close>, a
  fallible function returns a sum or a pair as the Go code does, and a call that may panic
  returns an \<open>outcome\<close> (theory Prelude).  Strings are byte strings.  State is passed
  explicitly: \<open>'w\<close> is the world a call may change.  Code that is not in the repository
  (PostgreSQL's reading of JSON and addresses, Redis, gRPC, chi, the validation library, the OpenTelemetry
  SDK, the protobuf runtime) is an argument; what is relied on are named predicates
  (\<open>redis_documented\<close>, \<open>redis_timed\<close>, \<open>status_documented\<close>, \<open>ozzo_documented\<close>, \<open>chi_documented\<close>,
  \<open>queue_delivers\<close>, \<open>encoder_only_writes\<close>, \<open>encodes_json\<close>), and every property that assumes one has a
  witness that meets it.

  \<^bold>\<open>Theories and code.\<close>

  \<^item> Errors, Http_Response, Http_Request: \<open>shared/src/utilhttp\<close>.  The response writer is
    a record whose first \<open>WriteHeader\<close> wins; \<open>ResponseError\<close> maps every error to a status
    (\<open>status_of\<close> is the abstract table); \<open>RequestBody\<close> counts the closes of the body.
  \<^item> Go_Json, Json_Roundtrip: JSON as the standard library reads it, bytes to values, with
    its limits (depth 10000, invalid UTF-8).  \<open>json_doc\<close> is the grammar of RFC 8259 as a
    relation of its own; locale \<open>literals\<close> (how a text may be quoted) proves that the reader
    reads every document, and is interpreted on the RFC's literals; its extension
    \<open>literal_writer\<close>, for encoders, on the library's own escapes.  Http_Json: the
    documents of the two response types and what a client parses; Auth_Json: the decoder of
    \<open>LoginRequest\<close>, the token's document, and a login from JSON to JSON.
  \<^item> Transactor: \<open>shared/src/utiltx\<close>.  \<open>sqldb\<close> is a database handle with its open and ended
    transactions and faults per transaction, which also the end of a context rolls back; locale \<open>tx_manager\<close> states what a caller may
    rely on (all or nothing) and is interpreted on \<open>WithinTx\<close>, which gives serial units.
  \<^item> Sql_Queries, Audit_Queries: the \<open>db.go\<close> and \<open>querier.go\<close> of the query packages.  A
    \<open>DBTX\<close> is the pool or a transaction; locale \<open>sql_handle\<close> is what queries rely on, with
    an interpretation for each, a refused statement aborts its transaction, and batches of
    inserts run inside \<open>WithinTx\<close>.
  \<^item> Pg_Types, Audit_Schema, Audit_Store, Audit_Properties: \<open>audit/src/infra/database\<close>.  Rows,
    parameters, what the server makes of them (\<open>bind_params\<close>: instants rounded to the
    microsecond, texts checked, addresses and JSON read), column widths (UTF-8 characters)
    and CHECKs; the three queries over the list of rows, with an environment that may lose the connection before or after a
    statement or cut a result; the abstraction to a write-once map (locale \<open>event_store\<close>),
    the reachable stores as an inductive predicate, the listing against its specification.
    Audit_Concurrent: any number of writers that follow the protocol of the comment on
    \<open>InsertEvent\<close>, their statements interleaved, with an invariant over all interleavings.
    Audit_Paging: a reader of a long range, page by page.
  \<^item> Auth_Domain, Auth_Login, Auth_Route: \<open>auth/src\<close>.  Tokens over 64-bit durations, the
    user query, the login request from body to response; \<open>login_status\<close> is the abstract
    answer.  Locale \<open>login_service\<close> is the handler's interface to the service.
    Auth_Schema: the five tables of the migration and the constraints it declares;
    Auth_Wiring: queries, service and handler put together as \<open>run\<close> does, up to the router.
  \<^item> Slog, Interceptors: \<open>shared/src/utillog\<close>, both \<open>route/interceptor\<close> packages and
    \<open>utilgrpc/interceptor.go\<close>.  Locales \<open>passing_interceptor\<close> (transparent),
    \<open>safe_interceptor\<close> (no panic passes) and \<open>interceptor_pair\<close> (their nesting is both).
  \<^item> Pb_Runtime, Pb_Queue, Pb_Audit, Pb_Init: \<open>audit.pb.go\<close> and \<open>queue.pb.go\<close>.  Messages as
    records, \<open>Reset\<close>, nil-safe getters, struct tags, type tables, package initialisation.
    Pb_Reflect: \<open>ProtoReflect\<close>, \<open>Descriptor\<close> and the message state that \<open>Reset\<close> stores.
  \<^item> Wire_Format, Proto_Source, Pb_Raw, Pb_Descriptor: a reader of file descriptors by the
    protobuf wire format, the two \<open>.proto\<close> files with the descriptor they stand for, the
    raw descriptor bytes of the generated code, and the proof that these three and the Go
    tables say the same.  The reader and \<open>describe_file\<close> are specifications.
  \<^item> Grpc_Runtime, Queue_Grpc, Audit_Grpc: the generated stubs, handlers, descriptors and
    registration; Servers: \<open>NewHandler\<close> and \<open>NewServer\<close> of both services; Handler_Types:
    the handlers' type assertions behind interceptors that hand on their request (locale
    \<open>request_keeping\<close>).
  \<^item> Grpc_Dial: \<open>utilgrpc/client.go\<close>, with locale \<open>appending_option\<close> for the functional
    options; Queue_Client: \<open>audit/src/infra/queueclient\<close>; Queue_Link: the client composed
    with the server through a connection that delivers.
  \<^item> Cache, Cache_Expiry: \<open>shared/src/utilcache\<close>, the second with Redis in time; Otel:
    \<open>shared/src/utilotel\<close>; Lifecycle: the four \<open>main\<close> packages as event lists, interleaved
    with their serving goroutine; Process_Output: what they write to the log;
    Shutdown_Machine: the gRPC shutdown in small steps of two goroutines and a clock that
    nothing holds back.  Auth_Drain: the same for auth, next to any number of requests in
    flight whose handlers look up users in the database that the shutdown closes.

  \<^bold>\<open>What the properties show.\<close> The event store is a write-once,
  append-only map that survives lost answers: what is inserted is read back up to what its
  columns change (the instant by half a microsecond at most), writers of one event agree however they interleave, and each finishes in two statements; its
  listing is sorted, bounded and complete up to a full page, and paging through it ends
  and reaches every event unless one instant fills a page. Transactions are all or
  nothing for every fault, also for batches of events and for callers that ignore
  errors, and open ones are seen by their own queries only; after a panic only the end of
  the context ends one, and nesting does not join. Only two routes exist, and a login over
  tables with the migration's constraints succeeds for matching credentials only; what a
  client writes as JSON is the request
  the handler gets, and what it parses from the answer is the status and the document of
  the outcome. No panic leaves a server, no type assertion of a handler fails, every
  call is logged on both sides without changing it, and a client call returns what the
  server's method made of it. Options reach gRPC in a fixed order, caches whose prefixes
  hold no dash are timed maps, and each binary starts and stops in one order; once its 30
  seconds are over the gRPC shutdown ends by the main goroutine alone, and so does that of
  auth unless a query is still running, for which it waits; auth closes the database under a
  running login only when the drain has timed out. Each generated message identifies
  itself; that the embedded descriptors are the interface definitions, and the generated
  tables agree with them, is computed by the lemmas of Pb_Descriptor.

  \<^bold>\<open>Bounds.\<close> Recursion is structural, or on the length of the bytes
  still to be read (the descriptor reader and the JSON reader, whose depth limit is the
  library's 10000) or of the range still to be paged, and the steps a shutdown's main
  goroutine has left are counted (at most 5 and 8): there is no fuel. Durations, row ids and
  limits are kept at their 64 or 32 bits where the code's arithmetic or PostgreSQL's
  ranges matter (\<open>max_bigint\<close>, \<open>sint\<close> of the limit); instants that Go sends are unbounded
  counts of nanoseconds, stored ones are counts of microseconds in PostgreSQL's range
  (\<open>ts_min\<close>, \<open>ts_end\<close>).

  \<^bold>\<open>Not modelled.\<close>  \<open>String\<close> of the generated messages, which only calls the protobuf
  runtime; the encoding of messages on the wire, which is the runtime's; eviction of cache
  entries by Redis; clients that go away while their request runs; the wait of an insert for
  another open transaction that has inserted the same event id, and sequence numbers lost by
  transactions that do not commit; writes to the auth tables, as no code does any; retention
  and partitioning of the event table, which do not exist yet; the package
  \<open>auth/src/route/middleware\<close>, which is empty; deployment files.
\<close>

end
